(* ===== verification/Go_Prelude.thy ===== *)
theory Go_Prelude
  imports Main "HOL-Library.AList" "HOL-Library.List_Lexorder" "HOL-Library.Char_ord"
    "HOL-Library.State_Monad" "HOL-Library.Multiset"
begin

text \<open>
  What the components share: the fragment of Go and of its standard library that the sources
  use, as HOL functions, and the generic lemmas on them.

  \<^item> strings are byte lists (\<^typ>\<open>string\<close>).  The functions of package \<^verbatim>\<open>strings\<close> and
    \<^verbatim>\<open>unicode\<close> that look at character classes are modelled on ASCII: bytes above 127 are
    neither letters, digits nor white space, and have no case;
  \<^item> a Go map is an association list with distinct keys (\<open>gomap\<close>); reading a missing key gives
    the zero value, and a nil map reads as the empty one;
  \<^item> a Go \<^verbatim>\<open>error\<close> is a value of \<open>go_error\<close>; a call \<^verbatim>\<open>(T, error)\<close> is a value of
    \<open>go_error + 'a\<close>, and a call that only returns an error is \<open>go_error + unit\<close>;
  \<^item> \<^verbatim>\<open>time.Time\<close> and \<^verbatim>\<open>time.Duration\<close> are integers counting nanoseconds;
  \<^item> code with effects is a program of the state monad of the library; relations that every
    step of such a program respects are handled once, in the locale \<open>step_preorder\<close>.
\<close>

named_theorems go_simps \<open>evaluation of the string and map functions of the prelude\<close>

type_synonym ('k, 'v) gomap = "('k \<times> 'v) list"
type_synonym time = int
type_synonym duration = int

subsection \<open>Errors\<close>

datatype grpc_code = codes_OK | codes_Canceled | codes_Unknown | codes_InvalidArgument
  | codes_DeadlineExceeded | codes_NotFound | codes_AlreadyExists | codes_PermissionDenied
  | codes_ResourceExhausted | codes_FailedPrecondition | codes_Aborted | codes_OutOfRange
  | codes_Unimplemented | codes_Internal | codes_Unavailable | codes_DataLoss
  | codes_Unauthenticated

datatype go_error =
    ErrRunNotFound | ErrNodeNotFound | ErrRunAlreadyExists | ErrAttemptNotFound
  | ErrAttemptNonTerminal
  | errNodeRetry | errReconcileUnresolved | errRunUnresolved
  | ErrOutputMetadataUnavailable
  | ContextCanceled | ContextDeadlineExceeded
  | NetError string
  | GrpcStatus grpc_code string
  | HTTPError int string
  | Errorf string
  | Wrapf string go_error
  | Wrapf_suffix go_error string
  | GoPanic string

type_synonym 'a result = "go_error + 'a"

abbreviation ok :: "unit result" where
  "ok \<equiv> Inr ()"

subsection \<open>Characters and strings\<close>

definition is_space :: "char \<Rightarrow> bool" where
  "is_space c \<longleftrightarrow> (let n = (of_char c :: nat) in n = 32 \<or> (9 \<le> n \<and> n \<le> 13))"

definition is_upper :: "char \<Rightarrow> bool" where
  "is_upper c \<longleftrightarrow> (let n = (of_char c :: nat) in 65 \<le> n \<and> n \<le> 90)"

definition is_lower :: "char \<Rightarrow> bool" where
  "is_lower c \<longleftrightarrow> (let n = (of_char c :: nat) in 97 \<le> n \<and> n \<le> 122)"

definition is_digit :: "char \<Rightarrow> bool" where
  "is_digit c \<longleftrightarrow> (let n = (of_char c :: nat) in 48 \<le> n \<and> n \<le> 57)"

definition is_letter :: "char \<Rightarrow> bool" where
  "is_letter c \<longleftrightarrow> is_upper c \<or> is_lower c"

definition to_upper_char :: "char \<Rightarrow> char" where
  "to_upper_char c = (if is_lower c then char_of (of_char c - 32 :: nat) else c)"

definition to_lower_char :: "char \<Rightarrow> char" where
  "to_lower_char c = (if is_upper c then char_of (of_char c + 32 :: nat) else c)"

definition ToUpper :: "string \<Rightarrow> string" where
  "ToUpper s = map to_upper_char s"

definition ToLower :: "string \<Rightarrow> string" where
  "ToLower s = map to_lower_char s"

definition EqualFold :: "string \<Rightarrow> string \<Rightarrow> bool" where
  "EqualFold s t \<longleftrightarrow> ToLower s = ToLower t"

definition trim_while :: "(char \<Rightarrow> bool) \<Rightarrow> string \<Rightarrow> string" where
  "trim_while p s = rev (dropWhile p (rev (dropWhile p s)))"

definition TrimSpace :: "string \<Rightarrow> string" where
  "TrimSpace s = trim_while is_space s"

definition Trim :: "string \<Rightarrow> string \<Rightarrow> string" where
  "Trim s cutset = trim_while (\<lambda>c. c \<in> set cutset) s"

definition HasPrefix :: "string \<Rightarrow> string \<Rightarrow> bool" where
  "HasPrefix s p \<longleftrightarrow> take (length p) s = p"

definition HasSuffix :: "string \<Rightarrow> string \<Rightarrow> bool" where
  "HasSuffix s p \<longleftrightarrow> length p \<le> length s \<and> drop (length s - length p) s = p"

definition TrimPrefix :: "string \<Rightarrow> string \<Rightarrow> string" where
  "TrimPrefix s p = (if HasPrefix s p then drop (length p) s else s)"

definition TrimSuffix :: "string \<Rightarrow> string \<Rightarrow> string" where
  "TrimSuffix s p = (if HasSuffix s p then take (length s - length p) s else s)"

fun Join :: "string list \<Rightarrow> string \<Rightarrow> string" where
  "Join [] sep = []"
| "Join [x] sep = x"
| "Join (x # y # ys) sep = x @ sep @ Join (y # ys) sep"

text \<open>\<^verbatim>\<open>strconv.Itoa\<close>: the decimal digits of an integer.\<close>

fun nat_digits :: "nat \<Rightarrow> string" where
  "nat_digits n = (if n < 10 then [char_of (48 + n)]
                   else nat_digits (n div 10) @ [char_of (48 + n mod 10)])"

declare nat_digits.simps [simp del]

definition Itoa :: "int \<Rightarrow> string" where
  "Itoa i = (if i < 0 then ''-'' @ nat_digits (nat (- i)) else nat_digits (nat i))"

text \<open>\<^verbatim>\<open>%q\<close> of package \<^verbatim>\<open>fmt\<close> on an ASCII string.\<close>

definition hex_digit :: "nat \<Rightarrow> char" where
  "hex_digit n = (if n < 10 then char_of (48 + n) else char_of (87 + n))"

definition quote_char :: "char \<Rightarrow> string" where
  "quote_char c =
     (let n = (of_char c :: nat) in
      if n = 34 then [CHR 0x5C, CHR 0x22] else if n = 92 then [CHR 0x5C, CHR 0x5C]
      else if n = 7 then CHR 0x5C # ''a'' else if n = 8 then CHR 0x5C # ''b''
      else if n = 9 then CHR 0x5C # ''t'' else if n = 10 then CHR 0x5C # ''n''
      else if n = 11 then CHR 0x5C # ''v'' else if n = 12 then CHR 0x5C # ''f''
      else if n = 13 then CHR 0x5C # ''r''
      else if n < 32 \<or> n = 127
        then [CHR 0x5C, CHR ''x'', hex_digit (n div 16), hex_digit (n mod 16)]
      else [c])"

definition Quote :: "string \<Rightarrow> string" where
  "Quote s = CHR 0x22 # concat (map quote_char s) @ [CHR 0x22]"

subsection \<open>Errors as text, and the error chain\<close>

fun grpc_code_string :: "grpc_code \<Rightarrow> string" where
  "grpc_code_string codes_OK = ''OK''"
| "grpc_code_string codes_Canceled = ''Canceled''"
| "grpc_code_string codes_Unknown = ''Unknown''"
| "grpc_code_string codes_InvalidArgument = ''InvalidArgument''"
| "grpc_code_string codes_DeadlineExceeded = ''DeadlineExceeded''"
| "grpc_code_string codes_NotFound = ''NotFound''"
| "grpc_code_string codes_AlreadyExists = ''AlreadyExists''"
| "grpc_code_string codes_PermissionDenied = ''PermissionDenied''"
| "grpc_code_string codes_ResourceExhausted = ''ResourceExhausted''"
| "grpc_code_string codes_FailedPrecondition = ''FailedPrecondition''"
| "grpc_code_string codes_Aborted = ''Aborted''"
| "grpc_code_string codes_OutOfRange = ''OutOfRange''"
| "grpc_code_string codes_Unimplemented = ''Unimplemented''"
| "grpc_code_string codes_Internal = ''Internal''"
| "grpc_code_string codes_Unavailable = ''Unavailable''"
| "grpc_code_string codes_DataLoss = ''DataLoss''"
| "grpc_code_string codes_Unauthenticated = ''Unauthenticated''"

text \<open>
  \<^verbatim>\<open>err.Error()\<close>.  \<open>Wrapf p e\<close> is \<^verbatim>\<open>fmt.Errorf\<close> with a text \<open>p\<close> followed by \<^verbatim>\<open>%w\<close>,
  and \<open>Wrapf_suffix e s\<close> the one where the text follows the error.
\<close>

fun Error :: "go_error \<Rightarrow> string" where
  "Error ErrRunNotFound = ''run not found''"
| "Error ErrNodeNotFound = ''node not found''"
| "Error ErrRunAlreadyExists = ''run already exists''"
| "Error ErrAttemptNotFound = ''attempt not found''"
| "Error ErrAttemptNonTerminal = ''current attempt is non-terminal''"
| "Error errNodeRetry = ''node will retry''"
| "Error errReconcileUnresolved = ''attempt backend truth unresolved''"
| "Error errRunUnresolved = ''run has unresolved backend truth''"
| "Error ErrOutputMetadataUnavailable = ''output metadata unavailable''"
| "Error ContextCanceled = ''context canceled''"
| "Error ContextDeadlineExceeded = ''context deadline exceeded''"
| "Error (NetError m) = m"
| "Error (GrpcStatus c m) = ''rpc error: code = '' @ grpc_code_string c @ '' desc = '' @ m"
| "Error (HTTPError c op) = ''handoff '' @ op @ '' failed with status '' @ Itoa c"
| "Error (Errorf m) = m"
| "Error (Wrapf p e) = p @ Error e"
| "Error (Wrapf_suffix e s) = Error e @ s"
| "Error (GoPanic m) = m"

text \<open>The innermost error of a chain: what \<^verbatim>\<open>errors.Is\<close> and \<^verbatim>\<open>errors.As\<close> find below the wrappers.\<close>

fun unwrap :: "go_error \<Rightarrow> go_error" where
  "unwrap (Wrapf p e) = unwrap e"
| "unwrap (Wrapf_suffix e s) = unwrap e"
| "unwrap e = e"

definition errors_Is :: "go_error \<Rightarrow> go_error \<Rightarrow> bool" where
  "errors_Is e target \<longleftrightarrow> unwrap e = target"

text \<open>\<^verbatim>\<open>status.Code\<close> of package grpc: an error that carries no status has the code Unknown.\<close>

definition status_Code :: "go_error \<Rightarrow> grpc_code" where
  "status_Code e = (case unwrap e of GrpcStatus c _ \<Rightarrow> c | _ \<Rightarrow> codes_Unknown)"

subsection \<open>\<^verbatim>\<open>internal/util\<close>\<close>

fun FirstNonEmpty :: "string list \<Rightarrow> string" where
  "FirstNonEmpty [] = ''''"
| "FirstNonEmpty (v # vs) = (if v \<noteq> '''' then v else FirstNonEmpty vs)"

subsection \<open>Go maps as association lists\<close>

abbreviation mput :: "'k \<Rightarrow> 'v \<Rightarrow> ('k, 'v) gomap \<Rightarrow> ('k, 'v) gomap" where
  "mput \<equiv> AList.update"

abbreviation mdel :: "'k \<Rightarrow> ('k, 'v) gomap \<Rightarrow> ('k, 'v) gomap" where
  "mdel \<equiv> AList.delete"

definition mwf :: "('k, 'v) gomap \<Rightarrow> bool" where
  "mwf m \<longleftrightarrow> distinct (map fst m)"

text \<open>Reading a \<^verbatim>\<open>map[string]string\<close>: a missing key gives the empty string.\<close>

definition mread :: "('k, string) gomap \<Rightarrow> 'k \<Rightarrow> string" where
  "mread m k = (case map_of m k of None \<Rightarrow> '''' | Some v \<Rightarrow> v)"

subsection \<open>Programs: loops of the state monad\<close>

text \<open>
  \<open>for_each\<close> is a \<^verbatim>\<open>range\<close> loop; \<open>for_each_err\<close> is one whose body returns at the first error.
\<close>

fun for_each :: "('a \<Rightarrow> ('s, unit) state) \<Rightarrow> 'a list \<Rightarrow> ('s, unit) state" where
  "for_each f [] = State_Monad.return ()"
| "for_each f (x # xs) = do { f x; for_each f xs }"

fun for_each_err :: "('a \<Rightarrow> ('s, 'b result) state) \<Rightarrow> 'a list \<Rightarrow> ('s, unit result) state" where
  "for_each_err f [] = State_Monad.return ok"
| "for_each_err f (x # xs) = do {
     r \<leftarrow> f x;
     case r of Inl e \<Rightarrow> State_Monad.return (Inl e) | Inr _ \<Rightarrow> for_each_err f xs }"

subsection \<open>Lemmas: strings\<close>

lemma set_trim_while: "set (trim_while p s) \<subseteq> set s"
  unfolding trim_while_def by (auto dest!: set_dropWhileD)

lemma trim_while_hd: "trim_while p s \<noteq> [] \<Longrightarrow> \<not> p (hd (trim_while p s))"
proof -
  let ?t = "dropWhile p s"
  assume ne: "trim_while p s \<noteq> []"
  then have t: "?t \<noteq> []" by (metis dropWhile.simps(1) rev.simps(1) trim_while_def)
  then obtain a u where au: "?t = a # u" by (cases ?t) auto
  then have na: "\<not> p a" using hd_dropWhile [of p s] by simp
  have "hd (trim_while p s) = a"
    unfolding trim_while_def au using na by (auto simp: dropWhile_append hd_append hd_rev last_rev)
  with na show ?thesis by simp
qed

lemma trim_while_last: "trim_while p s \<noteq> [] \<Longrightarrow> \<not> p (last (trim_while p s))"
  unfolding trim_while_def by (metis hd_dropWhile last_rev rev_is_Nil_conv)

lemma dropWhile_eq_self: "s = [] \<or> \<not> p (hd s) \<Longrightarrow> dropWhile p s = s"
  by (cases s) auto

lemma trim_while_id: "s = [] \<or> (\<not> p (hd s) \<and> \<not> p (last s)) \<Longrightarrow> trim_while p s = s"
  unfolding trim_while_def by (cases "s = []") (auto simp: dropWhile_eq_self hd_rev)

lemma trim_while_idem [simp]: "trim_while p (trim_while p s) = trim_while p s"
  by (rule trim_while_id) (use trim_while_hd trim_while_last in blast)

lemma trim_while_Nil [simp]: "trim_while p [] = []"
  by (simp add: trim_while_def)

lemma TrimSpace_Nil [simp]: "TrimSpace [] = []"
  by (simp add: TrimSpace_def)

lemma TrimSpace_idem [simp]: "TrimSpace (TrimSpace s) = TrimSpace s"
  by (simp add: TrimSpace_def)

lemma HasPrefix_iff: "HasPrefix s p \<longleftrightarrow> (\<exists>t. s = p @ t)"
  unfolding HasPrefix_def by (metis append_eq_conv_conj append_take_drop_id)

lemma HasSuffix_iff: "HasSuffix s p \<longleftrightarrow> (\<exists>t. s = t @ p)"
proof
  assume "HasSuffix s p"
  then have "s = take (length s - length p) s @ p"
    unfolding HasSuffix_def using append_take_drop_id [of "length s - length p" s] by simp
  then show "\<exists>t. s = t @ p" ..
qed (auto simp: HasSuffix_def)

lemma HasPrefix_append [simp]: "HasPrefix (p @ s) p"
  by (auto simp: HasPrefix_iff)

lemma HasSuffix_append [simp]: "HasSuffix (s @ p) p"
  by (auto simp: HasSuffix_iff)

lemma TrimPrefix_append [simp]: "TrimPrefix (p @ s) p = s"
  by (simp add: TrimPrefix_def)

lemma TrimSuffix_append [simp]: "TrimSuffix (s @ p) p = s"
  by (simp add: TrimSuffix_def)

lemma char_of_digit_inj:
  "m < 10 \<Longrightarrow> n < 10 \<Longrightarrow> char_of (48 + m :: nat) = char_of (48 + n :: nat) \<Longrightarrow> m = n"
  by (drule arg_cong [where f = "of_char :: char \<Rightarrow> nat"]) simp

lemma nat_digits_small: "n < 10 \<Longrightarrow> nat_digits n = [char_of (48 + n)]"
  by (subst nat_digits.simps) simp

lemma nat_digits_large: "\<not> n < 10 \<Longrightarrow> nat_digits n = nat_digits (n div 10) @ [char_of (48 + n mod 10)]"
  by (subst nat_digits.simps) simp

lemma nat_digits_nonempty [simp]: "nat_digits n \<noteq> []"
  by (cases "n < 10") (simp_all add: nat_digits_small nat_digits_large)

lemma Nil_neq_nat_digits [simp]: "[] \<noteq> nat_digits n"
  using nat_digits_nonempty [of n] by metis

lemma nat_digits_inj: "nat_digits m = nat_digits n \<Longrightarrow> m = n"
proof (induction m arbitrary: n rule: nat_digits.induct)
  case (1 m)
  show ?case
  proof (cases "m < 10"; cases "n < 10")
    assume "m < 10" "n < 10"
    with "1.prems" show ?thesis by (auto simp: nat_digits_small intro: char_of_digit_inj)
  next
    assume "m < 10" "\<not> n < 10"
    with "1.prems" show ?thesis by (simp add: nat_digits_small nat_digits_large)
  next
    assume "\<not> m < 10" "n < 10"
    with "1.prems" show ?thesis by (simp add: nat_digits_small nat_digits_large)
  next
    assume mn: "\<not> m < 10" "\<not> n < 10"
    with "1.prems" have eq: "nat_digits (m div 10) = nat_digits (n div 10)"
      "char_of (48 + m mod 10) = char_of (48 + n mod 10)"
      by (simp_all add: nat_digits_large)
    then have "m div 10 = n div 10" using "1.IH" mn by blast
    moreover have "m mod 10 = n mod 10" using eq(2) by (intro char_of_digit_inj) simp_all
    ultimately show ?thesis by (metis div_mult_mod_eq)
  qed
qed

lemma set_nat_digits: "c \<in> set (nat_digits n) \<Longrightarrow> is_digit c"
proof (induction n rule: nat_digits.induct)
  case (1 n)
  have "\<And>k. k < 10 \<Longrightarrow> is_digit (char_of (48 + k :: nat))" by (simp add: is_digit_def)
  with 1 show ?case
    by (cases "n < 10") (auto simp: nat_digits_small nat_digits_large)
qed

lemma Itoa_inj: "Itoa i = Itoa j \<Longrightarrow> i = j"
proof -
  have d: "\<And>n. CHR ''-'' \<notin> set (nat_digits n)"
    using set_nat_digits by (fastforce simp: is_digit_def)
  have neq: "\<And>m n. ''-'' @ nat_digits m \<noteq> nat_digits n"
    using d by (metis append_Cons list.set_intros(1))
  assume "Itoa i = Itoa j"
  then show ?thesis
    using neq neq [symmetric] by (auto simp: Itoa_def split: if_splits dest: nat_digits_inj)
qed

lemma FirstNonEmpty_empty_iff: "FirstNonEmpty vs = '''' \<longleftrightarrow> (\<forall>v \<in> set vs. v = '''')"
  by (induction vs) auto

lemma FirstNonEmpty_in_set: "FirstNonEmpty vs \<noteq> '''' \<Longrightarrow> FirstNonEmpty vs \<in> set vs"
  by (induction vs) auto

subsection \<open>\<^verbatim>\<open>net/url\<close> escaping\<close>

text \<open>
  \<^verbatim>\<open>url.PathEscape\<close> and \<^verbatim>\<open>url.QueryEscape\<close>: letters, digits and the unreserved marks stay, a space of
  a query becomes a plus, and every other byte becomes \<^verbatim>\<open>%XX\<close> with upper-case hex digits.
\<close>

definition is_unreserved :: "char \<Rightarrow> bool" where
  "is_unreserved c \<longleftrightarrow> is_letter c \<or> is_digit c \<or> c \<in> set ''-_.~''"

definition upper_hex :: "nat \<Rightarrow> char" where
  "upper_hex n = (if n < 10 then char_of (48 + n) else char_of (55 + n))"

definition percent :: "char \<Rightarrow> string" where
  "percent c = (let n = (of_char c :: nat) in [CHR ''%'', upper_hex (n div 16), upper_hex (n mod 16)])"

definition path_escape_char :: "char \<Rightarrow> string" where
  "path_escape_char c = (if is_unreserved c \<or> c \<in> set ''$&+=:@'' then [c] else percent c)"

definition PathEscape :: "string \<Rightarrow> string" where
  "PathEscape s = concat (map path_escape_char s)"

definition query_escape_char :: "char \<Rightarrow> string" where
  "query_escape_char c =
     (if is_unreserved c then [c] else if c = CHR '' '' then ''+'' else percent c)"

definition QueryEscape :: "string \<Rightarrow> string" where
  "QueryEscape s = concat (map query_escape_char s)"

lemma upper_hex_inj: "m < 16 \<Longrightarrow> n < 16 \<Longrightarrow> upper_hex m = upper_hex n \<Longrightarrow> m = n"
  by (drule arg_cong [where f = "of_char :: char \<Rightarrow> nat"]) (auto simp: upper_hex_def split: if_splits)

lemma upper_hex_digit: "n < 16 \<Longrightarrow> is_digit (upper_hex n) \<or> is_upper (upper_hex n)"
  by (auto simp: upper_hex_def is_digit_def is_upper_def)

lemma of_char_less_256: "(of_char c :: nat) < 256"
  by (cases c) (auto simp: of_char_def horner_sum_simps)

lemma percent_inj: "percent c = percent d \<Longrightarrow> c = d"
proof -
  assume "percent c = percent d"
  then have h: "upper_hex (of_char c div 16) = upper_hex (of_char d div 16)"
    "upper_hex (of_char c mod 16) = upper_hex (of_char d mod 16)"
    by (simp_all add: percent_def Let_def)
  have lt: "(of_char c :: nat) div 16 < 16" "(of_char d :: nat) div 16 < 16"
    using of_char_less_256 [of c] of_char_less_256 [of d] by (simp_all add: less_mult_imp_div_less)
  have "(of_char c :: nat) div 16 = of_char d div 16"
    using h(1) lt by (intro upper_hex_inj)
  moreover have "(of_char c :: nat) mod 16 = of_char d mod 16"
    using h(2) by (intro upper_hex_inj) simp_all
  ultimately have "(of_char c :: nat) = of_char d" by (metis div_mult_mod_eq)
  then show "c = d" by simp
qed

text \<open>
  A code word is either one byte that is not a percent sign or three bytes that begin with one;
  such a code can be read back.
\<close>

lemma escape_concat_inj:
  assumes inj: "\<And>c d. f c = f d \<Longrightarrow> c = d"
    and shape: "\<And>c. f c = [c] \<and> c \<noteq> CHR ''%'' \<or> (\<exists>x y. f c = [CHR ''%'', x, y])"
  shows "concat (map f s) = concat (map f t) \<Longrightarrow> s = t"
proof (induction s arbitrary: t)
  case Nil
  then show ?case using shape [of "hd t"] by (cases t) auto
next
  case (Cons c s)
  then obtain d u where t: "t = d # u" using shape [of c] by (cases t) auto
  have "f c @ concat (map f s) = f d @ concat (map f u)" using Cons.prems t by simp
  then have "f c = f d \<and> concat (map f s) = concat (map f u)"
    using shape [of c] shape [of d] by (elim disjE exE conjE) simp_all
  then show ?case using Cons.IH inj t by blast
qed

lemma PathEscape_inj: "PathEscape s = PathEscape t \<Longrightarrow> s = t"
  unfolding PathEscape_def
proof (rule escape_concat_inj [of path_escape_char])
  show shape: "path_escape_char c = [c] \<and> c \<noteq> CHR ''%'' \<or> (\<exists>x y. path_escape_char c = [CHR ''%'', x, y])"
    for c
    by (auto simp: path_escape_char_def percent_def Let_def is_unreserved_def is_letter_def
        is_digit_def is_upper_def is_lower_def)
  show "path_escape_char c = path_escape_char d \<Longrightarrow> c = d" for c d
    by (auto simp: path_escape_char_def split: if_splits dest: percent_inj)
      (auto simp: percent_def Let_def)
qed

lemma PathEscape_no_slash: "CHR ''/'' \<notin> set (PathEscape s)"
proof -
  have h: "n < 16 \<Longrightarrow> upper_hex n \<noteq> CHR ''/''" for n
    using upper_hex_digit [of n] by (auto simp: is_digit_def is_upper_def)
  have "CHR ''/'' \<notin> set (percent c)" for c
    using h [of "of_char c div 16"] h [of "of_char c mod 16"] of_char_less_256 [of c]
    by (auto simp: percent_def Let_def less_mult_imp_div_less dest: sym)
  then show ?thesis
    by (auto simp: PathEscape_def path_escape_char_def is_unreserved_def is_letter_def
        is_digit_def is_upper_def is_lower_def split: if_splits)
qed

subsection \<open>Lemmas: maps\<close>

lemma mwf_Nil [simp]: "mwf []"
  by (simp add: mwf_def)

lemma mwf_mput [simp, intro]: "mwf m \<Longrightarrow> mwf (mput k v m)"
  by (simp add: mwf_def distinct_update)

lemma mwf_mdel [simp, intro]: "mwf m \<Longrightarrow> mwf (mdel k m)"
  by (simp add: mwf_def distinct_delete)

lemma map_of_mput [simp]: "map_of (mput k v m) = (map_of m)(k \<mapsto> v)"
  by (rule update_conv')

lemma map_of_mdel [simp]: "map_of (mdel k m) = (map_of m)(k := None)"
  by (rule delete_conv')

lemma mwf_values:
  "mwf m \<Longrightarrow> v \<in> set (map snd m) \<longleftrightarrow> (\<exists>k. map_of m k = Some v)"
  unfolding mwf_def by (force simp: map_of_eq_Some_iff)

lemma mread_mput [simp]: "mread (mput k v m) k' = (if k' = k then v else mread m k')"
  by (simp add: mread_def)

subsection \<open>Relations kept by programs\<close>

text \<open>
  \<^const>\<open>state_io_rel\<close> of the library says that a program moves the state along a relation.
  For a preorder it is closed under the constructs the model uses, so a relation kept by the
  primitives is kept by every program built from them.  An invariant \<open>I\<close> is the instance
  \<open>\<lambda>s t. I s \<longrightarrow> I t\<close>.
\<close>

locale step_preorder =
  fixes R :: "'s \<Rightarrow> 's \<Rightarrow> bool"
  assumes step_refl: "R s s"
    and step_trans: "R s t \<Longrightarrow> R t u \<Longrightarrow> R s u"
begin

lemma return: "state_io_rel R (State_Monad.return x)"
  by (simp add: state_io_rel_def step_refl)

lemma get: "state_io_rel R State_Monad.get"
  by (simp add: state_io_rel_def step_refl)

lemma bind:
  assumes "state_io_rel R m" and "\<And>x. state_io_rel R (f x)"
  shows "state_io_rel R (State_Monad.bind m f)"
proof (rule state_io_relI)
  fix a s u
  assume "run_state (State_Monad.bind m f) s = (a, u)"
  then obtain x t where "run_state m s = (x, t)" "run_state (f x) t = (a, u)"
    by (auto split: prod.splits)
  then have "R s t" "R t u" using assms by (auto dest: state_io_relD)
  then show "R s u" by (rule step_trans)
qed

lemma if_split: "(b \<Longrightarrow> state_io_rel R m) \<Longrightarrow> (\<not> b \<Longrightarrow> state_io_rel R n) \<Longrightarrow>
    state_io_rel R (if b then m else n)"
  by simp

lemma option_split: "(x = None \<Longrightarrow> state_io_rel R m) \<Longrightarrow>
    (\<And>y. x = Some y \<Longrightarrow> state_io_rel R (n y)) \<Longrightarrow>
    state_io_rel R (case x of None \<Rightarrow> m | Some y \<Rightarrow> n y)"
  by (cases x) simp_all

lemma sum_split: "(\<And>y. x = Inl y \<Longrightarrow> state_io_rel R (m y)) \<Longrightarrow>
    (\<And>y. x = Inr y \<Longrightarrow> state_io_rel R (n y)) \<Longrightarrow>
    state_io_rel R (case x of Inl y \<Rightarrow> m y | Inr y \<Rightarrow> n y)"
  by (cases x) simp_all

lemma prod_split: "(\<And>y z. x = (y, z) \<Longrightarrow> state_io_rel R (m y z)) \<Longrightarrow>
    state_io_rel R (case x of (y, z) \<Rightarrow> m y z)"
  by (cases x) simp_all

lemma for_each: "(\<And>x. x \<in> set xs \<Longrightarrow> state_io_rel R (f x)) \<Longrightarrow> state_io_rel R (for_each f xs)"
  by (induction xs) (auto intro!: return bind)

lemma for_each_err:
  "(\<And>x. x \<in> set xs \<Longrightarrow> state_io_rel R (f x)) \<Longrightarrow> state_io_rel R (for_each_err f xs)"
  by (induction xs) (auto intro!: return bind sum_split)

lemmas step_rules = return get bind if_split option_split sum_split prod_split for_each
  for_each_err

end

end
