(* ===== verification/Spec_Types.thy ===== *)
theory Spec_Types
  imports Go_Prelude
begin

text \<open>
  The data model of \<^verbatim>\<open>pkg/spec/types.go\<close>: status enumerations with their terminal classes, the
  submitted run specification, and the durable run, node, attempt and event records.
  A Go struct is a record whose fields carry a prefix naming the struct; a pointer or a
  nil-able time is an option, and \<open>zero_\<dots>\<close> is the struct's zero value, from which composite
  literals are written as record updates.
\<close>

subsection \<open>Statuses\<close>

datatype RunStatus = RunStatusAccepted | RunStatusAdmitted | RunStatusRunning
  | RunStatusSucceeded | RunStatusFailed | RunStatusCanceled

datatype NodeStatus = NodeStatusPending | NodeStatusReady | NodeStatusBuildingBindings
  | NodeStatusResolvingInputs | NodeStatusReleasing | NodeStatusStarting | NodeStatusRunning
  | NodeStatusSucceeded | NodeStatusFailed | NodeStatusCanceled | NodeStatusSkipped

datatype AttemptStatus = AttemptStatusPrepared | AttemptStatusStarted | AttemptStatusCompleted
  | AttemptStatusErrored

fun AttemptStatus_IsTerminal :: "AttemptStatus \<Rightarrow> bool" where
  "AttemptStatus_IsTerminal AttemptStatusCompleted = True"
| "AttemptStatus_IsTerminal AttemptStatusErrored = True"
| "AttemptStatus_IsTerminal _ = False"

fun NodeStatus_IsTerminal :: "NodeStatus \<Rightarrow> bool" where
  "NodeStatus_IsTerminal NodeStatusSucceeded = True"
| "NodeStatus_IsTerminal NodeStatusFailed = True"
| "NodeStatus_IsTerminal NodeStatusCanceled = True"
| "NodeStatus_IsTerminal NodeStatusSkipped = True"
| "NodeStatus_IsTerminal _ = False"

fun RunStatus_IsTerminal :: "RunStatus \<Rightarrow> bool" where
  "RunStatus_IsTerminal RunStatusSucceeded = True"
| "RunStatus_IsTerminal RunStatusFailed = True"
| "RunStatus_IsTerminal RunStatusCanceled = True"
| "RunStatus_IsTerminal _ = False"

text \<open>The string values of the constants, where the code converts a status to a string.\<close>

fun RunStatus_string :: "RunStatus \<Rightarrow> string" where
  "RunStatus_string RunStatusAccepted = ''Accepted''"
| "RunStatus_string RunStatusAdmitted = ''Admitted''"
| "RunStatus_string RunStatusRunning = ''Running''"
| "RunStatus_string RunStatusSucceeded = ''Succeeded''"
| "RunStatus_string RunStatusFailed = ''Failed''"
| "RunStatus_string RunStatusCanceled = ''Canceled''"

fun NodeStatus_string :: "NodeStatus \<Rightarrow> string" where
  "NodeStatus_string NodeStatusPending = ''Pending''"
| "NodeStatus_string NodeStatusReady = ''Ready''"
| "NodeStatus_string NodeStatusBuildingBindings = ''BuildingBindings''"
| "NodeStatus_string NodeStatusResolvingInputs = ''ResolvingInputs''"
| "NodeStatus_string NodeStatusReleasing = ''Releasing''"
| "NodeStatus_string NodeStatusStarting = ''Starting''"
| "NodeStatus_string NodeStatusRunning = ''Running''"
| "NodeStatus_string NodeStatusSucceeded = ''Succeeded''"
| "NodeStatus_string NodeStatusFailed = ''Failed''"
| "NodeStatus_string NodeStatusCanceled = ''Canceled''"
| "NodeStatus_string NodeStatusSkipped = ''Skipped''"

definition DeterministicAttemptID :: "string \<Rightarrow> string \<Rightarrow> int \<Rightarrow> string" where
  "DeterministicAttemptID runID nodeID attempt =
     runID @ ''-'' @ nodeID @ ''-attempt-'' @ Itoa attempt"

subsection \<open>The submitted specification\<close>

record FailurePolicy =
  fp_Mode :: string

record RunMetadata =
  rm_RunID :: string
  rm_SampleRunID :: string
  rm_SubmittedAt :: time
  rm_FailurePolicy :: FailurePolicy
  rm_RequesterID :: string
  rm_TraceID :: string
  rm_SourceSystem :: string

record ResourceProfile =
  rp_CPU :: string
  rp_Memory :: string

record TimeoutPolicy =
  tp_Seconds :: int

record RetryPolicy =
  rt_MaxAttempts :: int
  rt_RetryablePhases :: "string list"
  rt_RetryDelayHint :: string

record CleanupPolicy =
  cp_TTLSecondsAfterFinished :: int

record WeightedNodePreference =
  wp_NodeName :: string
  wp_Weight :: int

record PlacementHints =
  pl_NodeSelector :: "(string, string) gomap"
  pl_RequiredNodeName :: string
  pl_PreferredNodes :: "WeightedNodePreference list"

record Mount =
  mt_Source :: string
  mt_Target :: string
  mt_Mode :: string

record ArtifactBinding =
  ab_BindingName :: string
  ab_ChildInputName :: string
  ab_ProducerNodeID :: string
  ab_ProducerOutputName :: string
  ab_ArtifactID :: string
  ab_Required :: bool
  ab_ConsumePolicy :: string
  ab_ExpectedDigest :: string

record KueueHints =
  kh_QueueName :: string
  kh_WorkloadClass :: string
  kh_Labels :: "(string, string) gomap"

record Node =
  nd_NodeID :: string
  nd_Image :: string
  nd_Command :: "string list"
  nd_Args :: "string list"
  nd_Env :: "(string, string) gomap"
  nd_ExecutionClass :: string
  nd_ResourceProfile :: ResourceProfile
  nd_TimeoutPolicy :: TimeoutPolicy
  nd_RetryPolicy :: RetryPolicy
  nd_Mounts :: "Mount list"
  nd_Inputs :: "string list"
  nd_Outputs :: "string list"
  nd_ArtifactBindings :: "ArtifactBinding list"
  nd_WorkingDir :: string
  nd_ServiceAccountName :: string
  nd_Placement :: "PlacementHints option"
  nd_CleanupPolicy :: CleanupPolicy
  nd_Metadata :: "(string, string) gomap"
  nd_Kueue :: "KueueHints option"

record Graph =
  gr_Nodes :: "Node list"
  gr_Edges :: "string list list"

record Defaults =
  df_ExecutionClass :: string
  df_ResourceProfile :: ResourceProfile
  df_TimeoutPolicy :: TimeoutPolicy
  df_RetryPolicy :: RetryPolicy
  df_CleanupPolicy :: CleanupPolicy
  df_Placement :: "PlacementHints option"
  df_Namespace :: string

record ExecutableRunSpec =
  es_Run :: RunMetadata
  es_Graph :: Graph
  es_Defaults :: Defaults
  es_Metadata :: "(string, string) gomap"

subsection \<open>Durable records\<close>

record NodeObservation =
  ob_KueueObserved :: bool
  ob_QueueName :: string
  ob_WorkloadName :: string
  ob_KueuePendingReason :: string
  ob_KueueAdmitted :: bool
  ob_PodName :: string
  ob_PodNodeName :: string
  ob_PodScheduled :: bool
  ob_UnschedulableReason :: string

record RunCounters =
  rc_TotalNodes :: int
  rc_SucceededNodes :: int
  rc_FailedNodes :: int
  rc_CanceledNodes :: int
  rc_SkippedNodes :: int
  rc_RunningNodes :: int

record RunRecord =
  rr_RunID :: string
  rr_Status :: RunStatus
  rr_AcceptedAt :: time
  rr_StartedAt :: "time option"
  rr_FinishedAt :: "time option"
  rr_CurrentBottleneckLocation :: string
  rr_TerminalStopCause :: string
  rr_TerminalFailureReason :: string
  rr_Counters :: RunCounters
  rr_Metadata :: "(string, string) gomap"
  rr_Spec :: ExecutableRunSpec

record NodeRecord =
  nr_RunID :: string
  nr_NodeID :: string
  nr_Status :: NodeStatus
  nr_CurrentBottleneckLocation :: string
  nr_TerminalStopCause :: string
  nr_TerminalFailureReason :: string
  nr_AttemptCount :: int
  nr_RealizationAttemptCount :: int
  nr_CurrentAttemptID :: string
  nr_CurrentAttemptHandleJSON :: string
  nr_StartedAt :: "time option"
  nr_FinishedAt :: "time option"
  nr_Observation :: NodeObservation
  nr_CausedByNodeID :: string

record AttemptRecord =
  ar_RunID :: string
  ar_NodeID :: string
  ar_AttemptID :: string
  ar_Status :: AttemptStatus
  ar_StartedAt :: "time option"
  ar_FinishedAt :: "time option"
  ar_TerminalStopCause :: string
  ar_TerminalFailureReason :: string
  ar_BackendHandleJSON :: string
  ar_SubmissionWindowOpenedAt :: "time option"
  ar_CancellationRequestedAt :: "time option"
  ar_CancellationReason :: string
  ar_ProcessCompletedAt :: "time option"
  ar_RealizationReattemptableAt :: "time option"

record EventRecord =
  ev_RunID :: string
  ev_NodeID :: string
  ev_AttemptID :: string
  ev_Type :: string
  ev_Message :: string
  ev_OccurredAt :: time
  ev_Level :: string
  ev_StopCause :: string
  ev_FailureReason :: string

subsection \<open>Zero values\<close>

definition zero_ResourceProfile :: ResourceProfile where
  "zero_ResourceProfile = \<lparr>rp_CPU = '''', rp_Memory = ''''\<rparr>"

definition zero_RetryPolicy :: RetryPolicy where
  "zero_RetryPolicy = \<lparr>rt_MaxAttempts = 0, rt_RetryablePhases = [], rt_RetryDelayHint = ''''\<rparr>"

definition zero_CleanupPolicy :: CleanupPolicy where
  "zero_CleanupPolicy = \<lparr>cp_TTLSecondsAfterFinished = 0\<rparr>"

definition zero_PlacementHints :: PlacementHints where
  "zero_PlacementHints =
     \<lparr>pl_NodeSelector = [], pl_RequiredNodeName = '''', pl_PreferredNodes = []\<rparr>"

definition zero_Node :: Node where
  "zero_Node = \<lparr>nd_NodeID = '''', nd_Image = '''', nd_Command = [], nd_Args = [], nd_Env = [],
     nd_ExecutionClass = '''', nd_ResourceProfile = zero_ResourceProfile,
     nd_TimeoutPolicy = \<lparr>tp_Seconds = 0\<rparr>, nd_RetryPolicy = zero_RetryPolicy, nd_Mounts = [],
     nd_Inputs = [], nd_Outputs = [], nd_ArtifactBindings = [], nd_WorkingDir = '''',
     nd_ServiceAccountName = '''', nd_Placement = None, nd_CleanupPolicy = zero_CleanupPolicy,
     nd_Metadata = [], nd_Kueue = None\<rparr>"

definition zero_Defaults :: Defaults where
  "zero_Defaults = \<lparr>df_ExecutionClass = '''', df_ResourceProfile = zero_ResourceProfile,
     df_TimeoutPolicy = \<lparr>tp_Seconds = 0\<rparr>, df_RetryPolicy = zero_RetryPolicy,
     df_CleanupPolicy = zero_CleanupPolicy, df_Placement = None, df_Namespace = ''''\<rparr>"

definition zero_RunMetadata :: RunMetadata where
  "zero_RunMetadata = \<lparr>rm_RunID = '''', rm_SampleRunID = '''', rm_SubmittedAt = 0,
     rm_FailurePolicy = \<lparr>fp_Mode = ''''\<rparr>, rm_RequesterID = '''', rm_TraceID = '''',
     rm_SourceSystem = ''''\<rparr>"

definition zero_ExecutableRunSpec :: ExecutableRunSpec where
  "zero_ExecutableRunSpec = \<lparr>es_Run = zero_RunMetadata, es_Graph = \<lparr>gr_Nodes = [], gr_Edges = []\<rparr>,
     es_Defaults = zero_Defaults, es_Metadata = []\<rparr>"

definition zero_NodeObservation :: NodeObservation where
  "zero_NodeObservation = \<lparr>ob_KueueObserved = False, ob_QueueName = '''', ob_WorkloadName = '''',
     ob_KueuePendingReason = '''', ob_KueueAdmitted = False, ob_PodName = '''',
     ob_PodNodeName = '''', ob_PodScheduled = False, ob_UnschedulableReason = ''''\<rparr>"

definition zero_RunCounters :: RunCounters where
  "zero_RunCounters = \<lparr>rc_TotalNodes = 0, rc_SucceededNodes = 0, rc_FailedNodes = 0,
     rc_CanceledNodes = 0, rc_SkippedNodes = 0, rc_RunningNodes = 0\<rparr>"

text \<open>
  A status field of a literal that does not set it would be the empty string; every literal of the
  sources sets it, so the zero records take an arbitrary status.
\<close>

definition zero_RunRecord :: RunRecord where
  "zero_RunRecord = \<lparr>rr_RunID = '''', rr_Status = RunStatusAccepted, rr_AcceptedAt = 0,
     rr_StartedAt = None, rr_FinishedAt = None, rr_CurrentBottleneckLocation = '''',
     rr_TerminalStopCause = '''', rr_TerminalFailureReason = '''', rr_Counters = zero_RunCounters,
     rr_Metadata = [], rr_Spec = zero_ExecutableRunSpec\<rparr>"

definition zero_NodeRecord :: NodeRecord where
  "zero_NodeRecord = \<lparr>nr_RunID = '''', nr_NodeID = '''', nr_Status = NodeStatusPending,
     nr_CurrentBottleneckLocation = '''', nr_TerminalStopCause = '''',
     nr_TerminalFailureReason = '''', nr_AttemptCount = 0, nr_RealizationAttemptCount = 0,
     nr_CurrentAttemptID = '''', nr_CurrentAttemptHandleJSON = '''', nr_StartedAt = None,
     nr_FinishedAt = None, nr_Observation = zero_NodeObservation, nr_CausedByNodeID = ''''\<rparr>"

definition zero_AttemptRecord :: AttemptRecord where
  "zero_AttemptRecord = \<lparr>ar_RunID = '''', ar_NodeID = '''', ar_AttemptID = '''',
     ar_Status = AttemptStatusPrepared, ar_StartedAt = None, ar_FinishedAt = None,
     ar_TerminalStopCause = '''', ar_TerminalFailureReason = '''', ar_BackendHandleJSON = '''',
     ar_SubmissionWindowOpenedAt = None, ar_CancellationRequestedAt = None,
     ar_CancellationReason = '''', ar_ProcessCompletedAt = None,
     ar_RealizationReattemptableAt = None\<rparr>"

definition zero_EventRecord :: EventRecord where
  "zero_EventRecord = \<lparr>ev_RunID = '''', ev_NodeID = '''', ev_AttemptID = '''', ev_Type = '''',
     ev_Message = '''', ev_OccurredAt = 0, ev_Level = '''', ev_StopCause = '''',
     ev_FailureReason = ''''\<rparr>"

lemmas zero_defs = zero_ResourceProfile_def zero_RetryPolicy_def zero_CleanupPolicy_def
  zero_PlacementHints_def zero_Node_def zero_Defaults_def zero_RunMetadata_def
  zero_ExecutableRunSpec_def zero_NodeObservation_def zero_RunCounters_def zero_RunRecord_def
  zero_NodeRecord_def zero_AttemptRecord_def zero_EventRecord_def

subsection \<open>Lemmas\<close>

lemma DeterministicAttemptID_inj_attempt [simp]:
  "DeterministicAttemptID r n i = DeterministicAttemptID r n j \<longleftrightarrow> i = j"
  by (auto simp: DeterministicAttemptID_def dest: Itoa_inj)

lemma DeterministicAttemptID_nonempty [simp]: "DeterministicAttemptID r n i \<noteq> ''''"
  by (simp add: DeterministicAttemptID_def)

end
