(* ===== verification/Spec_Validate.thy ===== *)
theory Spec_Validate
  imports Spec_Types
begin

text \<open>
  \<^verbatim>\<open>pkg/spec/validate.go\<close>: the validation of a submitted run specification, with its depth-first
  cycle check, and the defaulting of node fields.

  Go iterates over a map in an unspecified order.  The order is the argument \<open>ord\<close> of the
  definitions: any function that returns its argument permuted (\<open>map_order\<close>).
\<close>

definition hostnameNodeSelectorKey :: string where
  "hostnameNodeSelectorKey = ''kubernetes.io/hostname''"

definition map_order :: "(string list \<Rightarrow> string list) \<Rightarrow> bool" where
  "map_order ord \<longleftrightarrow> (\<forall>xs. mset (ord xs) = mset xs)"

subsection \<open>Nodes\<close>

fun validate_labels :: "string \<Rightarrow> string list \<Rightarrow> unit result" where
  "validate_labels nodeID [] = ok"
| "validate_labels nodeID (k # ks) =
     (if \<not> HasPrefix k ''user.jumi.io/''
      then Inl (Errorf (''node '' @ nodeID @ '': kueue.labels['' @ Quote k
                          @ ''] must use user.jumi.io/ prefix''))
      else validate_labels nodeID ks)"

fun validate_bindings :: "string \<Rightarrow> ArtifactBinding list \<Rightarrow> unit result" where
  "validate_bindings nodeID [] = ok"
| "validate_bindings nodeID (b # bs) =
     (if ab_BindingName b = ''''
        then Inl (Errorf (''node '' @ nodeID @ '': artifactBindings[].bindingName is required''))
      else if ab_ProducerNodeID b = ''''
        then Inl (Errorf (''node '' @ nodeID @ '': artifactBinding '' @ ab_BindingName b
                            @ '' producerNodeId is required''))
      else if ab_ProducerOutputName b = ''''
        then Inl (Errorf (''node '' @ nodeID @ '': artifactBinding '' @ ab_BindingName b
                            @ '' producerOutputName is required''))
      else validate_bindings nodeID bs)"

definition placement_conflict :: "PlacementHints \<Rightarrow> bool" where
  "placement_conflict p \<longleftrightarrow>
     (let existing = TrimSpace (mread (pl_NodeSelector p) hostnameNodeSelectorKey)
      in pl_RequiredNodeName p \<noteq> '''' \<and> existing \<noteq> '''' \<and> existing \<noteq> pl_RequiredNodeName p)"

definition validate_node :: "(string list \<Rightarrow> string list) \<Rightarrow> Node \<Rightarrow> unit result" where
  "validate_node ord node =
     (let nodeID = nd_NodeID node in
      if nd_Image node = '''' then Inl (Errorf (''node '' @ nodeID @ '': image is required''))
      else if rt_MaxAttempts (nd_RetryPolicy node) < 0
        then Inl (Errorf (''node '' @ nodeID @ '': retryPolicy.maxAttempts must be >= 0''))
      else if tp_Seconds (nd_TimeoutPolicy node) < 0
        then Inl (Errorf (''node '' @ nodeID @ '': timeoutPolicy.seconds must be >= 0''))
      else
        (case (case nd_Placement node of
                 None \<Rightarrow> ok
               | Some p \<Rightarrow>
                   if placement_conflict p
                   then Inl (Errorf (''node '' @ nodeID @ '': requiredNodeName ''
                          @ Quote (pl_RequiredNodeName p) @ '' conflicts with nodeSelector[''
                          @ Quote hostnameNodeSelectorKey @ '']=''
                          @ Quote (TrimSpace (mread (pl_NodeSelector p) hostnameNodeSelectorKey))))
                   else ok) of
           Inl e \<Rightarrow> Inl e
         | Inr _ \<Rightarrow>
             (case (case nd_Kueue node of
                      None \<Rightarrow> ok
                    | Some k \<Rightarrow> validate_labels nodeID (ord (map fst (kh_Labels k)))) of
                Inl e \<Rightarrow> Inl e
              | Inr _ \<Rightarrow> validate_bindings nodeID (nd_ArtifactBindings node))))"

fun validate_nodes :: "(string list \<Rightarrow> string list) \<Rightarrow> Node list \<Rightarrow> string list \<Rightarrow> string list result"
where
  "validate_nodes ord [] nodes = Inr nodes"
| "validate_nodes ord (n # ns) nodes =
     (if nd_NodeID n = '''' then Inl (Errorf ''graph.nodes[].nodeId is required'')
      else if nd_NodeID n \<in> set nodes then Inl (Errorf (''duplicate nodeId: '' @ nd_NodeID n))
      else case validate_node ord n of
             Inl e \<Rightarrow> Inl e
           | Inr _ \<Rightarrow> validate_nodes ord ns (nd_NodeID n # nodes))"

subsection \<open>Edges\<close>

type_synonym adjacency = "(string, string list) gomap"

definition succs :: "adjacency \<Rightarrow> string \<Rightarrow> string list" where
  "succs adj n = (case map_of adj n of None \<Rightarrow> [] | Some xs \<Rightarrow> xs)"

fun validate_edges :: "string list \<Rightarrow> string list list \<Rightarrow> adjacency \<Rightarrow> adjacency result" where
  "validate_edges nodes [] adj = Inr adj"
| "validate_edges nodes (edge # edges) adj =
     (case edge of
        [from, to] \<Rightarrow>
          (if from = to then Inl (Errorf (''self-loop is not allowed: '' @ from))
           else if from \<notin> set nodes
             then Inl (Errorf (''edge source node does not exist: '' @ from))
           else if to \<notin> set nodes
             then Inl (Errorf (''edge target node does not exist: '' @ to))
           else validate_edges nodes edges (mput from (succs adj from @ [to]) adj))
      | _ \<Rightarrow> Inl (Errorf ''each edge must have exactly two endpoints''))"

subsection \<open>The cycle check\<close>

text \<open>
  \<open>visit\<close> is the closure of the source: the maps \<^verbatim>\<open>seen\<close> and \<^verbatim>\<open>stack\<close> are predicates on names,
  threaded through the calls, and \<open>visit_each\<close> is the loop over \<^verbatim>\<open>adj[node]\<close> (and the outer loop
  over the nodes).
\<close>

type_synonym marks = "(string \<Rightarrow> bool) \<times> (string \<Rightarrow> bool)"

function (sequential) visit :: "adjacency \<Rightarrow> string \<Rightarrow> marks \<Rightarrow> marks result"
  and visit_each :: "adjacency \<Rightarrow> string list \<Rightarrow> marks \<Rightarrow> marks result"
where
  "visit adj node (seen, stack) =
     (if stack node then Inl (Errorf ''graph must be acyclic'')
      else if seen node then Inr (seen, stack)
      else case visit_each adj (succs adj node) (seen(node := True), stack(node := True)) of
             Inl e \<Rightarrow> Inl e
           | Inr (seen', stack') \<Rightarrow> Inr (seen', stack'(node := False)))"
| "visit_each adj [] st = Inr st"
| "visit_each adj (n # ns) st =
     (case visit adj n st of Inl e \<Rightarrow> Inl e | Inr st' \<Rightarrow> visit_each adj ns st')"
  by pat_completeness auto

definition all_names :: "adjacency \<Rightarrow> string set" where
  "all_names adj = set (map fst adj)"

definition unseen :: "adjacency \<Rightarrow> marks \<Rightarrow> nat" where
  "unseen adj st = card {n \<in> all_names adj. \<not> fst st n}"

lemma visit_seen_grows:
  "visit_visit_each_dom (Inl (adj, node, st)) \<Longrightarrow>
     visit adj node st = Inr st' \<Longrightarrow> fst st n \<Longrightarrow> fst st' n"
  "visit_visit_each_dom (Inr (adj, ns, st)) \<Longrightarrow>
     visit_each adj ns st = Inr st' \<Longrightarrow> fst st n \<Longrightarrow> fst st' n"
proof (induction adj node st and adj ns st arbitrary: st' and st' rule: visit_visit_each.pinduct)
  case (1 adj node seen stack)
  then show ?case
    by (auto simp: visit.psimps split: if_splits sum.splits)
next
  case (2 adj st)
  then show ?case by (simp add: visit_each.psimps)
next
  case (3 adj n ns st)
  then show ?case by (auto simp: visit_each.psimps split: sum.splits)
qed

lemma unseen_mono: "(\<And>n. fst st n \<Longrightarrow> fst st' n) \<Longrightarrow> unseen adj st' \<le> unseen adj st"
  unfolding unseen_def all_names_def by (rule card_mono) auto

lemma unseen_mark:
  "\<not> seen node \<Longrightarrow> node \<in> all_names adj \<Longrightarrow>
     unseen adj (seen(node := True), s') < unseen adj (seen, s)"
  unfolding unseen_def all_names_def by (rule psubset_card_mono) auto

lemma succs_outside: "node \<notin> all_names adj \<Longrightarrow> succs adj node = []"
  by (simp add: succs_def all_names_def map_of_eq_None_iff [THEN iffD2])

termination visit
proof (relation "measures [\<lambda>x. case x of Inl (adj, n, st) \<Rightarrow> unseen adj st | Inr (adj, ns, st) \<Rightarrow> unseen adj st,
    \<lambda>x. case x of Inl _ \<Rightarrow> 1 | Inr (adj, ns, st) \<Rightarrow> 2 * length ns]", goal_cases)
  case 1
  then show ?case by simp
next
  case (2 adj node seen stack)
  have "unseen adj (seen(node := True), stack(node := True)) \<le> unseen adj (seen, stack)"
    by (rule unseen_mono) simp
  with 2 show ?case
    by (cases "node \<in> all_names adj") (auto simp: unseen_mark succs_outside)
next
  case (3 adj n ns st)
  then show ?case by simp
next
  case (4 adj n ns st st')
  then have "unseen adj st' \<le> unseen adj st"
    by (intro unseen_mono) (rule visit_seen_grows(1))
  then show ?case by auto
qed

text \<open>A graph is acyclic when no node reaches itself along the edges.\<close>

definition edge_rel :: "adjacency \<Rightarrow> string rel" where
  "edge_rel adj = {(a, b). b \<in> set (succs adj a)}"

text \<open>
  The nodes a successful search has finished: marked, and no longer on the stack.  They are closed
  under edges and lie on no cycle.
\<close>

definition finished :: "marks \<Rightarrow> string set" where
  "finished st = {n. fst st n \<and> \<not> snd st n}"

definition settled :: "adjacency \<Rightarrow> marks \<Rightarrow> bool" where
  "settled adj st \<longleftrightarrow>
     (\<forall>a b. a \<in> finished st \<longrightarrow> (a, b) \<in> edge_rel adj \<longrightarrow> b \<in> finished st) \<and>
     (\<forall>a \<in> finished st. (a, a) \<notin> (edge_rel adj)\<^sup>+)"

definition stack_seen :: "marks \<Rightarrow> bool" where
  "stack_seen st \<longleftrightarrow> (\<forall>n. snd st n \<longrightarrow> fst st n)"

lemma trancl_closed:
  "(a, b) \<in> r\<^sup>+ \<Longrightarrow> a \<in> A \<Longrightarrow> (\<And>x y. x \<in> A \<Longrightarrow> (x, y) \<in> r \<Longrightarrow> y \<in> A) \<Longrightarrow> b \<in> A"
  by (induction rule: trancl_induct) auto

lemma settled_finish:
  assumes "settled adj (seen, stack(n := True))" and "set (succs adj n) \<subseteq> finished (seen, stack(n := True))"
    and "\<not> stack n" and "seen n"
  shows "settled adj (seen, stack)"
proof -
  let ?F = "finished (seen, stack(n := True))"
  have F: "finished (seen, stack) = insert n ?F" and nF: "n \<notin> ?F"
    using assms(3,4) by (auto simp: finished_def)
  have closed: "\<And>a b. a \<in> ?F \<Longrightarrow> (a, b) \<in> edge_rel adj \<Longrightarrow> b \<in> ?F"
    using assms(1) by (auto simp: settled_def)
  have first: "\<And>b. (n, b) \<in> edge_rel adj \<Longrightarrow> b \<in> ?F"
    using assms(2) by (auto simp: edge_rel_def)
  have "(n, n) \<notin> (edge_rel adj)\<^sup>+"
  proof
    assume "(n, n) \<in> (edge_rel adj)\<^sup>+"
    then obtain b where "(n, b) \<in> edge_rel adj" "(b, n) \<in> (edge_rel adj)\<^sup>*"
      by (meson tranclD)
    moreover from this have "b \<in> ?F" by (intro first)
    ultimately have "n \<in> ?F"
      using closed by (auto dest!: rtranclD intro: trancl_closed [of b n _ ?F])
    with nF show False ..
  qed
  then show ?thesis
    using assms(1) closed first by (auto simp: settled_def F)
qed

lemma visit_sound:
  "visit adj node st = Inr st' \<Longrightarrow> settled adj st \<Longrightarrow> stack_seen st \<Longrightarrow>
     snd st' = snd st \<and> settled adj st' \<and> stack_seen st' \<and> node \<in> finished st' \<and>
     finished st \<subseteq> finished st'"
  "visit_each adj ns st = Inr st' \<Longrightarrow> settled adj st \<Longrightarrow> stack_seen st \<Longrightarrow>
     snd st' = snd st \<and> settled adj st' \<and> stack_seen st' \<and> set ns \<subseteq> finished st' \<and>
     finished st \<subseteq> finished st'"
proof (induction adj node st and adj ns st arbitrary: st' and st' rule: visit_visit_each.induct)
  case (1 adj node seen stack)
  show ?case
  proof (cases "seen node")
    case True
    with "1.prems" show ?thesis by (auto simp: finished_def split: if_splits)
  next
    case False
    let ?st = "(seen(node := True), stack(node := True))"
    from False "1.prems" have ns: "\<not> stack node" by (auto split: if_splits)
    with False "1.prems"(1) obtain st2 where
      v: "visit_each adj (succs adj node) ?st = Inr st2"
      and st': "st' = (fst st2, (snd st2)(node := False))"
      by (auto split: sum.splits)
    have eqF: "finished ?st = finished (seen, stack)"
      using False ns "1.prems"(3) by (auto simp: finished_def stack_seen_def)
    then have "settled adj ?st" "stack_seen ?st"
      using "1.prems"(2,3) by (auto simp: settled_def stack_seen_def)
    then have *: "snd st2 = stack(node := True)" "settled adj st2" "stack_seen st2"
      "set (succs adj node) \<subseteq> finished st2" "finished ?st \<subseteq> finished st2"
      using "1.IH" [OF ns False v] by auto
    then have st'': "st' = (fst st2, stack)" and st2: "st2 = (fst st2, stack(node := True))"
      using st' ns by (auto simp: fun_upd_def fun_eq_iff intro: prod_eqI)
    have "fst st2 node" using *(1,3) by (simp add: stack_seen_def)
    then have "settled adj (fst st2, stack)"
      using settled_finish [of adj "fst st2" stack node] * st2 ns by auto
    moreover have "finished st2 \<subseteq> finished (fst st2, stack)" "node \<in> finished (fst st2, stack)"
      using \<open>fst st2 node\<close> ns *(1) by (auto simp: finished_def)
    moreover have "stack_seen (fst st2, stack)"
      using *(1,3) by (auto simp: stack_seen_def)
    ultimately show ?thesis using *(5) eqF by (auto simp: st'')
  qed
next
  case (2 adj st)
  then show ?case by auto
next
  case (3 adj n ns st)
  then obtain st1 where v: "visit adj n st = Inr st1" and vs: "visit_each adj ns st1 = Inr st'"
    by (auto split: sum.splits)
  have "snd st1 = snd st" "settled adj st1" "stack_seen st1" "n \<in> finished st1"
    "finished st \<subseteq> finished st1"
    using "3.IH"(1) [OF v "3.prems"(2,3)] by auto
  moreover from this have "snd st' = snd st1 \<and> settled adj st' \<and> stack_seen st' \<and>
      set ns \<subseteq> finished st' \<and> finished st1 \<subseteq> finished st'"
    using "3.IH"(2) [OF v vs] by blast
  ultimately show ?case by auto
qed

text \<open>
  An error is only reported when a node on the stack is reached again; every node on the stack
  reaches the node being visited, so the graph has a cycle.
\<close>

lemma visit_stack:
  "visit adj node st = Inr st' \<Longrightarrow> snd st' = snd st"
  "visit_each adj ns st = Inr st' \<Longrightarrow> snd st' = snd st"
proof (induction adj node st and adj ns st arbitrary: st' and st' rule: visit_visit_each.induct)
  case (1 adj node seen stack)
  show ?case
  proof (cases "seen node")
    case True
    with "1.prems" show ?thesis by (auto split: if_splits)
  next
    case False
    with "1.prems" obtain st2 where "\<not> stack node"
      and v: "visit_each adj (succs adj node) (seen(node := True), stack(node := True)) = Inr st2"
      and st': "st' = (fst st2, (snd st2)(node := False))"
      by (auto split: if_splits sum.splits)
    with "1.IH" [OF _ False v] show ?thesis by (auto simp: fun_eq_iff)
  qed
next
  case (2 adj st)
  then show ?case by simp
next
  case (3 adj n ns st)
  then obtain st1 where v: "visit adj n st = Inr st1" "visit_each adj ns st1 = Inr st'"
    by (auto split: sum.splits)
  with "3.IH"(1) [OF v(1)] "3.IH"(2) [OF v] show ?case by simp
qed

lemma visit_complete:
  "visit adj node st = Inl e \<Longrightarrow> (\<And>s. snd st s \<Longrightarrow> (s, node) \<in> (edge_rel adj)\<^sup>+) \<Longrightarrow>
     \<exists>n. (n, n) \<in> (edge_rel adj)\<^sup>+"
  "visit_each adj ns st = Inl e \<Longrightarrow>
     (\<And>s n. snd st s \<Longrightarrow> n \<in> set ns \<Longrightarrow> (s, n) \<in> (edge_rel adj)\<^sup>+) \<Longrightarrow>
     \<exists>n. (n, n) \<in> (edge_rel adj)\<^sup>+"
proof (induction adj node st and adj ns st rule: visit_visit_each.induct)
  case (1 adj node seen stack)
  show ?case
  proof (cases "stack node")
    case True
    with "1.prems"(2) [of node] show ?thesis by auto
  next
    case False
    with "1.prems"(1) have "\<not> seen node"
      and v: "visit_each adj (succs adj node) (seen(node := True), stack(node := True)) = Inl e"
      by (auto split: if_splits sum.splits)
    show ?thesis
    proof (rule "1.IH" [OF False \<open>\<not> seen node\<close> v])
      fix s n
      assume s: "snd (seen(node := True), stack(node := True)) s" and "n \<in> set (succs adj node)"
      then have e: "(node, n) \<in> edge_rel adj" by (simp add: edge_rel_def)
      show "(s, n) \<in> (edge_rel adj)\<^sup>+"
      proof (cases "s = node")
        case False
        with s have "(s, node) \<in> (edge_rel adj)\<^sup>+" by (intro "1.prems"(2)) simp
        then show ?thesis using e by (rule trancl_into_trancl)
      qed (use e in auto)
    qed
  qed
next
  case (3 adj n ns st)
  show ?case
  proof (cases "visit adj n st")
    case (Inl e')
    with "3.prems"(1) have "visit adj n st = Inl e" by simp
    then show ?thesis using "3.prems"(2) by (intro "3.IH"(1)) auto
  next
    case (Inr st1)
    with "3.prems"(1) have v: "visit_each adj ns st1 = Inl e" by simp
    show ?thesis
      by (rule "3.IH"(2) [OF Inr v]) (use "3.prems"(2) visit_stack(1) [OF Inr] in auto)
  qed
qed simp

text \<open>The whole search, from no marks, decides acyclicity whatever the order of the roots.\<close>

abbreviation no_marks :: marks where
  "no_marks \<equiv> (\<lambda>_. False, \<lambda>_. False)"

lemma visit_each_acyclic_iff:
  assumes "\<And>a b. (a, b) \<in> edge_rel adj \<Longrightarrow> a \<in> set roots"
  shows "(\<exists>st. visit_each adj roots no_marks = Inr st) \<longleftrightarrow> acyclic (edge_rel adj)"
proof
  assume "\<exists>st. visit_each adj roots no_marks = Inr st"
  then obtain st where v: "visit_each adj roots no_marks = Inr st" ..
  have "settled adj no_marks" "stack_seen no_marks"
    by (auto simp: settled_def stack_seen_def finished_def)
  then have "settled adj st" "set roots \<subseteq> finished st"
    using visit_sound(2) [OF v] by auto
  then have "\<And>n. n \<in> set roots \<Longrightarrow> (n, n) \<notin> (edge_rel adj)\<^sup>+"
    by (auto simp: settled_def)
  moreover have "\<And>n. (n, n) \<in> (edge_rel adj)\<^sup>+ \<Longrightarrow> n \<in> set roots"
    using assms by (meson tranclD)
  ultimately show "acyclic (edge_rel adj)" by (auto simp: acyclic_def)
next
  assume ac: "acyclic (edge_rel adj)"
  show "\<exists>st. visit_each adj roots no_marks = Inr st"
  proof (cases "visit_each adj roots no_marks")
    case (Inl e)
    then have "\<exists>n. (n, n) \<in> (edge_rel adj)\<^sup>+" by (rule visit_complete(2)) simp
    with ac show ?thesis by (auto simp: acyclic_def)
  qed simp
qed

subsection \<open>\<^verbatim>\<open>ValidateExecutableRunSpec\<close>\<close>

text \<open>
  The argument is passed by value, so the default failure policy that the source stores in it
  between the two checks is not seen by anyone and has no counterpart here.
\<close>

definition ValidateExecutableRunSpec ::
  "(string list \<Rightarrow> string list) \<Rightarrow> ExecutableRunSpec \<Rightarrow> unit result" where
  "ValidateExecutableRunSpec ord spec =
     (if rm_RunID (es_Run spec) = '''' then Inl (Errorf ''run.runId is required'')
      else if gr_Nodes (es_Graph spec) = [] then Inl (Errorf ''graph.nodes must not be empty'')
      else case validate_nodes ord (gr_Nodes (es_Graph spec)) [] of
             Inl e \<Rightarrow> Inl e
           | Inr nodes \<Rightarrow>
               (case validate_edges nodes (gr_Edges (es_Graph spec)) [] of
                  Inl e \<Rightarrow> Inl e
                | Inr adj \<Rightarrow>
                    (case visit_each adj (ord nodes) no_marks of
                       Inl e \<Rightarrow> Inl e
                     | Inr _ \<Rightarrow> ok)))"

text \<open>What an accepted specification promises its consumers.\<close>

definition spec_edges :: "ExecutableRunSpec \<Rightarrow> string rel" where
  "spec_edges spec = {(a, b). [a, b] \<in> set (gr_Edges (es_Graph spec))}"

definition node_ok :: "Node \<Rightarrow> bool" where
  "node_ok n \<longleftrightarrow> nd_NodeID n \<noteq> '''' \<and> nd_Image n \<noteq> '''' \<and> 0 \<le> rt_MaxAttempts (nd_RetryPolicy n) \<and>
     0 \<le> tp_Seconds (nd_TimeoutPolicy n) \<and>
     (case nd_Placement n of None \<Rightarrow> True | Some p \<Rightarrow> \<not> placement_conflict p) \<and>
     (case nd_Kueue n of None \<Rightarrow> True
      | Some k \<Rightarrow> list_all (\<lambda>l. HasPrefix l ''user.jumi.io/'') (map fst (kh_Labels k))) \<and>
     list_all (\<lambda>b. ab_BindingName b \<noteq> '''' \<and> ab_ProducerNodeID b \<noteq> '''' \<and>
                   ab_ProducerOutputName b \<noteq> '''') (nd_ArtifactBindings n)"

definition spec_ok :: "ExecutableRunSpec \<Rightarrow> bool" where
  "spec_ok spec \<longleftrightarrow>
     (let ns = gr_Nodes (es_Graph spec); ids = map nd_NodeID ns in
      rm_RunID (es_Run spec) \<noteq> '''' \<and> ns \<noteq> [] \<and> distinct ids \<and> list_all node_ok ns \<and>
      list_all (\<lambda>e. length e = 2 \<and> set e \<subseteq> set ids) (gr_Edges (es_Graph spec)) \<and>
      acyclic (spec_edges spec))"

lemma validate_labels_iff:
  "validate_labels nodeID ks = ok \<longleftrightarrow> (\<forall>k \<in> set ks. HasPrefix k ''user.jumi.io/'')"
  by (induction ks) auto

lemma validate_bindings_iff:
  "validate_bindings nodeID bs = ok \<longleftrightarrow>
     (\<forall>b \<in> set bs. ab_BindingName b \<noteq> '''' \<and> ab_ProducerNodeID b \<noteq> '''' \<and>
                   ab_ProducerOutputName b \<noteq> '''')"
  by (induction bs) auto

lemma map_order_set: "map_order ord \<Longrightarrow> set (ord xs) = set xs"
  unfolding map_order_def by (metis set_mset_mset)

lemma validate_node_iff:
  assumes "map_order ord"
  shows "validate_node ord n = ok \<and> nd_NodeID n \<noteq> '''' \<longleftrightarrow> node_ok n"
proof -
  have "\<And>x. (case x of Inl e \<Rightarrow> Inl e | Inr _ \<Rightarrow> (y :: unit result)) = ok \<longleftrightarrow> x = ok \<and> y = ok" for y
    by (auto split: sum.splits)
  then show ?thesis
    by (auto simp: validate_node_def node_ok_def Let_def validate_labels_iff validate_bindings_iff
        map_order_set [OF assms] list_all_iff split: option.splits)
qed

lemma validate_nodes_iff:
  assumes "map_order ord"
  shows "validate_nodes ord ns seen = Inr out \<longleftrightarrow>
     list_all node_ok ns \<and> distinct (map nd_NodeID ns) \<and> set (map nd_NodeID ns) \<inter> set seen = {} \<and>
     out = rev (map nd_NodeID ns) @ seen"
proof (induction ns arbitrary: seen)
  case (Cons n ns)
  have "(case validate_node ord n of Inl e \<Rightarrow> Inl e | Inr _ \<Rightarrow> (x :: string list result)) = Inr out \<longleftrightarrow>
      validate_node ord n = ok \<and> x = Inr out" for x
    by (auto split: sum.splits)
  with validate_node_iff [OF assms, of n] Cons.IH [of "nd_NodeID n # seen"] show ?case
    by (auto simp: node_ok_def)
qed auto

lemma validate_edges_iff:
  "(\<exists>out. validate_edges nodes es adj = Inr out) \<longleftrightarrow>
     list_all (\<lambda>e. length e = 2 \<and> set e \<subseteq> set nodes \<and> e ! 0 \<noteq> e ! 1) es"
proof (induction es arbitrary: adj)
  case (Cons e es)
  show ?case
    by (cases "length e = 2")
      (auto simp: Cons.IH numeral_2_eq_2 length_Suc_conv split: list.splits)
qed simp

lemma succs_mput: "succs (mput a ys adj) b = (if b = a then ys else succs adj b)"
  by (simp add: succs_def)

lemma validate_edges_rel:
  "validate_edges nodes es adj = Inr out \<Longrightarrow>
     edge_rel out = edge_rel adj \<union> {(a, b). [a, b] \<in> set es}"
proof (induction es arbitrary: adj)
  case (Cons e es)
  from Cons.prems obtain a b where e: "e = [a, b]"
    and v: "validate_edges nodes es (mput a (succs adj a @ [b]) adj) = Inr out"
    by (auto split: list.splits if_splits)
  have "edge_rel (mput a (succs adj a @ [b]) adj) = insert (a, b) (edge_rel adj)"
    by (auto simp: edge_rel_def succs_mput split: if_splits)
  with Cons.IH [OF v] show ?case by (auto simp: e)
qed simp

lemma acyclic_no_loop: "acyclic (spec_edges spec) \<Longrightarrow> [a, a] \<notin> set (gr_Edges (es_Graph spec))"
  by (auto simp: acyclic_def spec_edges_def)

lemma validate_spec_iff:
  assumes ord: "map_order ord"
  shows "ValidateExecutableRunSpec ord spec = ok \<longleftrightarrow> spec_ok spec"
proof -
  let ?ns = "gr_Nodes (es_Graph spec)" and ?es = "gr_Edges (es_Graph spec)"
  let ?ids = "rev (map nd_NodeID ?ns)"
  have graph: "(case validate_edges ?ids ?es [] of Inl e \<Rightarrow> Inl e
      | Inr adj \<Rightarrow> (case visit_each adj (ord ?ids) no_marks of Inl e \<Rightarrow> Inl e | Inr _ \<Rightarrow> ok)) = ok
    \<longleftrightarrow> list_all (\<lambda>e. length e = 2 \<and> set e \<subseteq> set ?ids) ?es \<and> acyclic (spec_edges spec)"
    (is "?lhs \<longleftrightarrow> ?pairs \<and> ?acyclic")
  proof (cases "validate_edges ?ids ?es []")
    case (Inl e)
    then have "\<not> list_all (\<lambda>e. length e = 2 \<and> set e \<subseteq> set ?ids \<and> e ! 0 \<noteq> e ! 1) ?es"
      using validate_edges_iff [of ?ids ?es "[]"] by auto
    then have "\<not> (?pairs \<and> ?acyclic)"
      using acyclic_no_loop [of spec]
      by (fastforce simp: list_all_iff numeral_2_eq_2 length_Suc_conv)
    with Inl show ?thesis by simp
  next
    case (Inr adj)
    then have pairs: "list_all (\<lambda>e. length e = 2 \<and> set e \<subseteq> set ?ids \<and> e ! 0 \<noteq> e ! 1) ?es"
      using validate_edges_iff [of ?ids ?es "[]"] by auto
    then have p: ?pairs by (simp add: list_all_iff)
    have rel: "edge_rel adj = spec_edges spec"
      using validate_edges_rel [OF Inr] by (simp add: edge_rel_def succs_def spec_edges_def)
    have "\<And>a b. (a, b) \<in> edge_rel adj \<Longrightarrow> a \<in> set (ord ?ids)"
      using p by (force simp: rel spec_edges_def list_all_iff map_order_set [OF ord])
    then have "(\<exists>st. visit_each adj (ord ?ids) no_marks = Inr st) \<longleftrightarrow> ?acyclic"
      using visit_each_acyclic_iff rel by metis
    with Inr p show ?thesis by (auto split: sum.splits)
  qed
  show ?thesis
  proof (cases "validate_nodes ord ?ns []")
    case (Inl e)
    then have "\<not> (list_all node_ok ?ns \<and> distinct (map nd_NodeID ?ns))"
      using validate_nodes_iff [OF ord, of ?ns "[]" "?ids"] by auto
    with Inl show ?thesis by (auto simp: ValidateExecutableRunSpec_def spec_ok_def Let_def)
  next
    case (Inr out)
    then have "list_all node_ok ?ns \<and> distinct (map nd_NodeID ?ns) \<and> out = ?ids"
      using validate_nodes_iff [OF ord, of ?ns "[]" out] by auto
    with Inr graph show ?thesis
      by (auto simp: ValidateExecutableRunSpec_def spec_ok_def Let_def)
  qed
qed

definition demo_node :: "string \<Rightarrow> Node" where
  "demo_node i = zero_Node\<lparr>nd_NodeID := i, nd_Image := ''busybox''\<rparr>"

definition demo_spec :: "string list list \<Rightarrow> ExecutableRunSpec" where
  "demo_spec es = zero_ExecutableRunSpec\<lparr>es_Run := zero_RunMetadata\<lparr>rm_RunID := ''r1''\<rparr>,
     es_Graph := \<lparr>gr_Nodes = map demo_node [''a'', ''b'', ''c''], gr_Edges = es\<rparr>\<rparr>"

text \<open>
  C1: whatever the map iteration order, \<^verbatim>\<open>ValidateExecutableRunSpec\<close> accepts a specification exactly
  when it has a run id, nodes with distinct non-empty ids that are each well formed, edges that are
  pairs of declared nodes, and an acyclic edge relation.
\<close>

theorem ValidateExecutableRunSpec_correct:
  assumes "map_order ord"
  shows "ValidateExecutableRunSpec ord spec = ok \<longleftrightarrow> spec_ok spec"
  by (rule validate_spec_iff [OF assms])

theorem ValidateExecutableRunSpec_correct_witness:
  "spec_ok (demo_spec [[''a'', ''b''], [''b'', ''c''], [''a'', ''c'']]) \<and>
   \<not> spec_ok (demo_spec [[''a'', ''b''], [''b'', ''c''], [''c'', ''a'']])"
proof -
  have o: "map_order (\<lambda>xs. xs)" by (simp add: map_order_def)
  have "ValidateExecutableRunSpec (\<lambda>xs. xs)
      (demo_spec [[''a'', ''b''], [''b'', ''c''], [''a'', ''c'']]) = ok" by code_simp
  moreover have "ValidateExecutableRunSpec (\<lambda>xs. xs)
      (demo_spec [[''a'', ''b''], [''b'', ''c''], [''c'', ''a'']]) \<noteq> ok" by code_simp
  ultimately show ?thesis using ValidateExecutableRunSpec_correct [OF o] by blast
qed

subsection \<open>\<^verbatim>\<open>ApplyDefaults\<close>\<close>

text \<open>
  \<^verbatim>\<open>reflect.DeepEqual\<close> with the zero struct is equality with the zero record; lists stand for
  slices, so a slice that is empty without being nil counts as zero here.
\<close>

definition apply_node_defaults :: "Defaults \<Rightarrow> Node \<Rightarrow> Node" where
  "apply_node_defaults d n =
     (let n = (if nd_ExecutionClass n = '''' \<and> df_ExecutionClass d \<noteq> ''''
               then n\<lparr>nd_ExecutionClass := df_ExecutionClass d\<rparr> else n);
          n = (if nd_ResourceProfile n = zero_ResourceProfile
                  \<and> df_ResourceProfile d \<noteq> zero_ResourceProfile
               then n\<lparr>nd_ResourceProfile := df_ResourceProfile d\<rparr> else n);
          n = (if tp_Seconds (nd_TimeoutPolicy n) = 0 \<and> tp_Seconds (df_TimeoutPolicy d) \<noteq> 0
               then n\<lparr>nd_TimeoutPolicy := df_TimeoutPolicy d\<rparr> else n);
          n = (if rt_MaxAttempts (nd_RetryPolicy n) = 0 \<and> nd_RetryPolicy n = zero_RetryPolicy
                  \<and> df_RetryPolicy d \<noteq> zero_RetryPolicy
               then n\<lparr>nd_RetryPolicy := df_RetryPolicy d\<rparr> else n);
          n = (if nd_CleanupPolicy n = zero_CleanupPolicy
                  \<and> df_CleanupPolicy d \<noteq> zero_CleanupPolicy
               then n\<lparr>nd_CleanupPolicy := df_CleanupPolicy d\<rparr> else n)
      in if nd_Placement n = None \<and> df_Placement d \<noteq> None
         then n\<lparr>nd_Placement := df_Placement d\<rparr> else n)"

definition ApplyDefaults :: "Graph \<Rightarrow> Defaults \<Rightarrow> Graph" where
  "ApplyDefaults graph defaults =
     graph\<lparr>gr_Nodes := map (apply_node_defaults defaults) (gr_Nodes graph)\<rparr>"

lemma default_if: "(if x = z \<and> y \<noteq> z then y else x) = (if x = z then y else x)"
  by simp

lemma apply_node_defaults_eq:
  "apply_node_defaults d n =
     n\<lparr>nd_ExecutionClass := if nd_ExecutionClass n = '''' then df_ExecutionClass d
                           else nd_ExecutionClass n,
       nd_ResourceProfile := if nd_ResourceProfile n = zero_ResourceProfile
                             then df_ResourceProfile d else nd_ResourceProfile n,
       nd_TimeoutPolicy := if tp_Seconds (nd_TimeoutPolicy n) = 0
                           then df_TimeoutPolicy d else nd_TimeoutPolicy n,
       nd_RetryPolicy := if nd_RetryPolicy n = zero_RetryPolicy
                         then df_RetryPolicy d else nd_RetryPolicy n,
       nd_CleanupPolicy := if nd_CleanupPolicy n = zero_CleanupPolicy
                           then df_CleanupPolicy d else nd_CleanupPolicy n,
       nd_Placement := if nd_Placement n = None then df_Placement d else nd_Placement n\<rparr>"
proof -
  have upd:
    "\<And>c v. (if c then n\<lparr>nd_ExecutionClass := v\<rparr> else n) = n\<lparr>nd_ExecutionClass := if c then v else nd_ExecutionClass n\<rparr>"
    "\<And>c v. (if c then n\<lparr>nd_ResourceProfile := v\<rparr> else n) = n\<lparr>nd_ResourceProfile := if c then v else nd_ResourceProfile n\<rparr>"
    "\<And>c v. (if c then n\<lparr>nd_TimeoutPolicy := v\<rparr> else n) = n\<lparr>nd_TimeoutPolicy := if c then v else nd_TimeoutPolicy n\<rparr>"
    "\<And>c v. (if c then n\<lparr>nd_RetryPolicy := v\<rparr> else n) = n\<lparr>nd_RetryPolicy := if c then v else nd_RetryPolicy n\<rparr>"
    "\<And>c v. (if c then n\<lparr>nd_CleanupPolicy := v\<rparr> else n) = n\<lparr>nd_CleanupPolicy := if c then v else nd_CleanupPolicy n\<rparr>"
    "\<And>c v. (if c then n\<lparr>nd_Placement := v\<rparr> else n) = n\<lparr>nd_Placement := if c then v else nd_Placement n\<rparr>"
    for n :: Node by simp_all
  have t: "(if tp_Seconds t = 0 \<and> tp_Seconds u \<noteq> 0 then u else t) = (if tp_Seconds t = 0 then u else t)"
    for t u :: TimeoutPolicy by simp
  have r: "rt_MaxAttempts x = 0 \<and> x = zero_RetryPolicy \<and> P \<longleftrightarrow> x = zero_RetryPolicy \<and> P" for x P
    by (auto simp: zero_defs)
  show ?thesis
    unfolding apply_node_defaults_def Let_def upd
    by (simp add: t r default_if del: not_None_eq cong: if_cong split del: if_split)
qed



end
