(* ===== verification/Registry.thy ===== *)
theory Registry
  imports Spec_Types
begin

text \<open>
  \<^verbatim>\<open>pkg/registry\<close>: the store of runs, nodes, attempts and events.  The first part is the in-memory
  implementation \<^verbatim>\<open>memory.go\<close>, one function per method; a method runs under the registry's lock,
  so it is one atomic function \<open>registry \<Rightarrow> result \<times> registry\<close>.  The second part states what its
  clients rely on as the locale \<open>attempt_store\<close>, with the consequences proved inside the locale,
  and interprets it on the in-memory registry.

  Writing to a nil Go map panics; the branches where a method would do so return \<open>GoPanic\<close>, and
  the invariant \<open>reg_wf\<close> shows that they are not reached.
\<close>

record registry =
  reg_runs :: "(string, RunRecord) gomap"
  reg_nodes :: "(string, (string, NodeRecord) gomap) gomap"
  reg_attempts :: "(string, (string, (string, AttemptRecord) gomap) gomap) gomap"
  reg_events :: "(string, EventRecord list) gomap"

definition NewMemoryRegistry :: registry where
  "NewMemoryRegistry = \<lparr>reg_runs = [], reg_nodes = [], reg_attempts = [], reg_events = []\<rparr>"

text \<open>Reading nested maps: a missing entry of a map of maps reads as the empty (nil) map.\<close>

definition node_map :: "registry \<Rightarrow> string \<Rightarrow> (string, NodeRecord) gomap" where
  "node_map r runID = (case map_of (reg_nodes r) runID of None \<Rightarrow> [] | Some m \<Rightarrow> m)"

definition attempt_maps :: "registry \<Rightarrow> string \<Rightarrow> (string, (string, AttemptRecord) gomap) gomap" where
  "attempt_maps r runID = (case map_of (reg_attempts r) runID of None \<Rightarrow> [] | Some m \<Rightarrow> m)"

definition attempt_map :: "registry \<Rightarrow> string \<Rightarrow> string \<Rightarrow> (string, AttemptRecord) gomap" where
  "attempt_map r runID nodeID =
     (case map_of (attempt_maps r runID) nodeID of None \<Rightarrow> [] | Some m \<Rightarrow> m)"

definition run_at :: "registry \<Rightarrow> string \<Rightarrow> RunRecord option" where
  "run_at r runID = map_of (reg_runs r) runID"

definition node_at :: "registry \<Rightarrow> string \<Rightarrow> string \<Rightarrow> NodeRecord option" where
  "node_at r runID nodeID = map_of (node_map r runID) nodeID"

definition attempt_at :: "registry \<Rightarrow> string \<Rightarrow> string \<Rightarrow> string \<Rightarrow> AttemptRecord option" where
  "attempt_at r runID nodeID attemptID = map_of (attempt_map r runID nodeID) attemptID"

definition events_of :: "registry \<Rightarrow> string \<Rightarrow> EventRecord list" where
  "events_of r runID = (case map_of (reg_events r) runID of None \<Rightarrow> [] | Some es \<Rightarrow> es)"

definition put_node :: "string \<Rightarrow> string \<Rightarrow> NodeRecord \<Rightarrow> registry \<Rightarrow> registry" where
  "put_node runID nodeID node r =
     r\<lparr>reg_nodes := mput runID (mput nodeID node (node_map r runID)) (reg_nodes r)\<rparr>"

definition put_attempt :: "string \<Rightarrow> string \<Rightarrow> string \<Rightarrow> AttemptRecord \<Rightarrow> registry \<Rightarrow> registry" where
  "put_attempt runID nodeID attemptID attempt r =
     r\<lparr>reg_attempts := mput runID (mput nodeID (mput attemptID attempt (attempt_map r runID nodeID))
                                      (attempt_maps r runID)) (reg_attempts r)\<rparr>"

subsection \<open>Operations of \<^verbatim>\<open>MemoryRegistry\<close>\<close>

definition create_node :: "string \<Rightarrow> NodeRecord \<Rightarrow> registry \<Rightarrow> registry" where
  "create_node runID node r =
     (let r = put_node runID (nr_NodeID node) node r
      in r\<lparr>reg_attempts := mput runID (mput (nr_NodeID node) [] (attempt_maps r runID))
                             (reg_attempts r)\<rparr>)"

fun create_nodes :: "string \<Rightarrow> NodeRecord list \<Rightarrow> registry \<Rightarrow> registry" where
  "create_nodes runID [] r = r"
| "create_nodes runID (n # ns) r = create_nodes runID ns (create_node runID n r)"

definition CreateRun :: "RunRecord \<Rightarrow> NodeRecord list \<Rightarrow> registry \<Rightarrow> unit result \<times> registry" where
  "CreateRun record nodes r =
     (case run_at r (rr_RunID record) of
        Some _ \<Rightarrow> (Inl ErrRunAlreadyExists, r)
      | None \<Rightarrow>
          (let i = rr_RunID record;
               r = r\<lparr>reg_runs := mput i record (reg_runs r)\<rparr>;
               r = r\<lparr>reg_nodes := mput i [] (reg_nodes r)\<rparr>;
               r = r\<lparr>reg_attempts := mput i [] (reg_attempts r)\<rparr>;
               r = create_nodes i nodes r;
               r = r\<lparr>reg_events := mput i [] (reg_events r)\<rparr>
           in (ok, r)))"

definition GetRun :: "string \<Rightarrow> registry \<Rightarrow> RunRecord result \<times> registry" where
  "GetRun runID r =
     (case run_at r runID of None \<Rightarrow> (Inl ErrRunNotFound, r) | Some record \<Rightarrow> (Inr record, r))"

text \<open>
  \<^verbatim>\<open>sort.Slice\<close> is not stable and the map is read in an unspecified order, so the order of runs
  accepted at the same time is open: \<open>ord\<close> is any permutation, applied before a stable sort.
\<close>

definition ListRuns ::
  "(RunRecord list \<Rightarrow> RunRecord list) \<Rightarrow> registry \<Rightarrow> RunRecord list result \<times> registry" where
  "ListRuns ord r = (Inr (sort_key rr_AcceptedAt (ord (map snd (reg_runs r)))), r)"

definition GetNode :: "string \<Rightarrow> string \<Rightarrow> registry \<Rightarrow> NodeRecord result \<times> registry" where
  "GetNode runID nodeID r =
     (case map_of (reg_nodes r) runID of
        None \<Rightarrow> (Inl ErrRunNotFound, r)
      | Some nodes \<Rightarrow>
          (case map_of nodes nodeID of
             Some node \<Rightarrow> (Inr node, r)
           | None \<Rightarrow> (Inl (Errorf (''node not found: '' @ runID @ ''/'' @ nodeID)), r)))"

definition ListNodes :: "string \<Rightarrow> registry \<Rightarrow> NodeRecord list result \<times> registry" where
  "ListNodes runID r =
     (case map_of (reg_nodes r) runID of
        None \<Rightarrow> (Inl ErrRunNotFound, r)
      | Some nodes \<Rightarrow> (Inr (sort_key nr_NodeID (map snd nodes)), r))"

definition ListAttempts ::
  "string \<Rightarrow> string \<Rightarrow> registry \<Rightarrow> AttemptRecord list result \<times> registry" where
  "ListAttempts runID nodeID r =
     (case map_of (reg_attempts r) runID of
        None \<Rightarrow> (Inl ErrRunNotFound, r)
      | Some runAttempts \<Rightarrow>
          (case map_of runAttempts nodeID of
             None \<Rightarrow> (Inl ErrNodeNotFound, r)
           | Some nodeAttempts \<Rightarrow> (Inr (sort_key ar_AttemptID (map snd nodeAttempts)), r)))"

definition ListEvents ::
  "string \<Rightarrow> int \<Rightarrow> registry \<Rightarrow> EventRecord list result \<times> registry" where
  "ListEvents runID limit r =
     (case map_of (reg_events r) runID of
        None \<Rightarrow> (Inl ErrRunNotFound, r)
      | Some events \<Rightarrow>
          if limit \<le> 0 \<or> int (length events) \<le> limit then (Inr events, r)
          else let start = nat (int (length events) - limit) in (Inr (drop start events), r))"

definition UpdateRun ::
  "string \<Rightarrow> (RunRecord \<Rightarrow> RunRecord result) \<Rightarrow> registry \<Rightarrow> unit result \<times> registry" where
  "UpdateRun runID update r =
     (case run_at r runID of
        None \<Rightarrow> (Inl ErrRunNotFound, r)
      | Some record \<Rightarrow>
          (case update record of
             Inl e \<Rightarrow> (Inl e, r)
           | Inr record' \<Rightarrow> (ok, r\<lparr>reg_runs := mput runID record' (reg_runs r)\<rparr>)))"

definition UpdateNode ::
  "string \<Rightarrow> string \<Rightarrow> (NodeRecord \<Rightarrow> NodeRecord result) \<Rightarrow> registry \<Rightarrow> unit result \<times> registry" where
  "UpdateNode runID nodeID update r =
     (case map_of (reg_nodes r) runID of
        None \<Rightarrow> (Inl ErrRunNotFound, r)
      | Some runNodes \<Rightarrow>
          (case map_of runNodes nodeID of
             None \<Rightarrow> (Inl ErrNodeNotFound, r)
           | Some node \<Rightarrow>
               (case update node of
                  Inl e \<Rightarrow> (Inl e, r)
                | Inr node' \<Rightarrow> (ok, put_node runID nodeID node' r))))"

definition UpsertAttempt :: "AttemptRecord \<Rightarrow> registry \<Rightarrow> unit result \<times> registry" where
  "UpsertAttempt record r =
     (case map_of (reg_attempts r) (ar_RunID record) of
        None \<Rightarrow> (Inl ErrRunNotFound, r)
      | Some runAttempts \<Rightarrow>
          (case map_of runAttempts (ar_NodeID record) of
             None \<Rightarrow> (Inl ErrNodeNotFound, r)
           | Some _ \<Rightarrow>
               (ok, put_attempt (ar_RunID record) (ar_NodeID record) (ar_AttemptID record) record r)))"

definition AppendEvent :: "EventRecord \<Rightarrow> registry \<Rightarrow> unit result \<times> registry" where
  "AppendEvent event r =
     (case run_at r (ev_RunID event) of
        None \<Rightarrow> (Inl ErrRunNotFound, r)
      | Some _ \<Rightarrow>
          (ok, r\<lparr>reg_events := mput (ev_RunID event) (events_of r (ev_RunID event) @ [event])
                                (reg_events r)\<rparr>))"

definition lockedGetNode :: "string \<Rightarrow> string \<Rightarrow> registry \<Rightarrow> NodeRecord result" where
  "lockedGetNode runID nodeID r =
     (case map_of (reg_nodes r) runID of
        None \<Rightarrow> Inl ErrRunNotFound
      | Some runNodes \<Rightarrow>
          (case map_of runNodes nodeID of
             None \<Rightarrow> Inl ErrNodeNotFound
           | Some node \<Rightarrow> Inr node))"

definition lockedMutateAttempt ::
  "string \<Rightarrow> string \<Rightarrow> string \<Rightarrow> (AttemptRecord \<Rightarrow> AttemptRecord) \<Rightarrow> registry
     \<Rightarrow> unit result \<times> registry" where
  "lockedMutateAttempt runID nodeID attemptID mutate r =
     (case map_of (reg_attempts r) runID of
        None \<Rightarrow> (Inl ErrRunNotFound, r)
      | Some runAttempts \<Rightarrow>
          (case map_of runAttempts nodeID of
             None \<Rightarrow> (Inl ErrNodeNotFound, r)
           | Some nodeAttempts \<Rightarrow>
               (case map_of nodeAttempts attemptID of
                  None \<Rightarrow> (Inl ErrAttemptNotFound, r)
                | Some attempt \<Rightarrow>
                    (ok, put_attempt runID nodeID attemptID (mutate attempt) r))))"

definition GetCurrentAttempt ::
  "string \<Rightarrow> string \<Rightarrow> registry \<Rightarrow> AttemptRecord option result \<times> registry" where
  "GetCurrentAttempt runID nodeID r =
     (case lockedGetNode runID nodeID r of
        Inl e \<Rightarrow> (Inl e, r)
      | Inr node \<Rightarrow>
          if nr_CurrentAttemptID node = '''' then (Inr None, r)
          else (Inr (attempt_at r runID nodeID (nr_CurrentAttemptID node)), r))"

text \<open>\<open>now\<close> is the value \<^verbatim>\<open>time.Now().UTC()\<close> returns inside the method.\<close>

definition AllocateCurrentAttempt ::
  "time \<Rightarrow> string \<Rightarrow> string \<Rightarrow> registry \<Rightarrow> AttemptRecord result \<times> registry" where
  "AllocateCurrentAttempt now runID nodeID r =
     (case lockedGetNode runID nodeID r of
        Inl e \<Rightarrow> (Inl e, r)
      | Inr node \<Rightarrow>
          if nr_CurrentAttemptID node \<noteq> '''' \<and>
             (case attempt_at r runID nodeID (nr_CurrentAttemptID node) of
                None \<Rightarrow> False
              | Some cur \<Rightarrow> \<not> AttemptStatus_IsTerminal (ar_Status cur))
          then (Inl ErrAttemptNonTerminal, r)
          else
            let next = nr_RealizationAttemptCount node + 1;
                attemptID = DeterministicAttemptID runID nodeID next;
                attempt = zero_AttemptRecord\<lparr>ar_RunID := runID, ar_NodeID := nodeID,
                            ar_AttemptID := attemptID, ar_Status := AttemptStatusPrepared,
                            ar_StartedAt := Some now\<rparr>
            in if map_of (attempt_maps r runID) nodeID = None
               then (Inl (GoPanic ''assignment to entry in nil map''), r)
               else (Inr attempt,
                     put_node runID nodeID
                       (node\<lparr>nr_RealizationAttemptCount := next, nr_CurrentAttemptID := attemptID,
                             nr_Status := NodeStatusReady,
                             nr_CurrentBottleneckLocation := ''release_wait'',
                             nr_StartedAt := Some now\<rparr>)
                       (put_attempt runID nodeID attemptID attempt r)))"

definition OpenSemanticAttempt ::
  "string \<Rightarrow> string \<Rightarrow> string \<Rightarrow> time \<Rightarrow> registry \<Rightarrow> unit result \<times> registry" where
  "OpenSemanticAttempt runID nodeID attemptID openedAt r =
     (case lockedGetNode runID nodeID r of
        Inl e \<Rightarrow> (Inl e, r)
      | Inr node \<Rightarrow>
          if nr_CurrentAttemptID node \<noteq> attemptID then (Inl ErrAttemptNotFound, r)
          else
            (case lockedMutateAttempt runID nodeID attemptID
                    (\<lambda>a. a\<lparr>ar_SubmissionWindowOpenedAt := Some openedAt\<rparr>) r of
               (Inl e, r) \<Rightarrow> (Inl e, r)
             | (Inr _, r) \<Rightarrow>
                 (ok, put_node runID nodeID (node\<lparr>nr_AttemptCount := nr_AttemptCount node + 1\<rparr>) r)))"

definition PersistSubmissionFence ::
  "string \<Rightarrow> string \<Rightarrow> string \<Rightarrow> time \<Rightarrow> registry \<Rightarrow> unit result \<times> registry" where
  "PersistSubmissionFence runID nodeID attemptID openedAt r =
     lockedMutateAttempt runID nodeID attemptID
       (\<lambda>a. a\<lparr>ar_SubmissionWindowOpenedAt := Some openedAt\<rparr>) r"

text \<open>
  \<^verbatim>\<open>r.nodes[runID][nodeID]\<close> of a missing entry is the zero node; its attempt id is empty.
\<close>

definition PersistBackendHandle ::
  "string \<Rightarrow> string \<Rightarrow> string \<Rightarrow> string \<Rightarrow> registry \<Rightarrow> unit result \<times> registry" where
  "PersistBackendHandle runID nodeID attemptID handleJSON r =
     (case lockedMutateAttempt runID nodeID attemptID
             (\<lambda>a. a\<lparr>ar_BackendHandleJSON := handleJSON\<rparr>) r of
        (Inl e, r) \<Rightarrow> (Inl e, r)
      | (Inr _, r) \<Rightarrow>
          (let node = (case node_at r runID nodeID of None \<Rightarrow> zero_NodeRecord | Some n \<Rightarrow> n)
           in if nr_CurrentAttemptID node = attemptID
              then if map_of (reg_nodes r) runID = None
                   then (Inl (GoPanic ''assignment to entry in nil map''), r)
                   else (ok, put_node runID nodeID
                               (node\<lparr>nr_CurrentAttemptHandleJSON := handleJSON\<rparr>) r)
              else (ok, r)))"

definition PersistCancellationIntent ::
  "string \<Rightarrow> string \<Rightarrow> string \<Rightarrow> time \<Rightarrow> string \<Rightarrow> registry \<Rightarrow> unit result \<times> registry" where
  "PersistCancellationIntent runID nodeID attemptID requestedAt reason r =
     lockedMutateAttempt runID nodeID attemptID
       (\<lambda>a. a\<lparr>ar_CancellationRequestedAt := Some requestedAt, ar_CancellationReason := reason\<rparr>) r"

definition PersistProcessCompleted ::
  "string \<Rightarrow> string \<Rightarrow> string \<Rightarrow> time \<Rightarrow> registry \<Rightarrow> unit result \<times> registry" where
  "PersistProcessCompleted runID nodeID attemptID completedAt r =
     lockedMutateAttempt runID nodeID attemptID
       (\<lambda>a. a\<lparr>ar_ProcessCompletedAt := Some completedAt\<rparr>) r"

subsection \<open>The views after a write\<close>

lemma node_map_put_node:
  "node_map (put_node i n x r) j = (if j = i then mput n x (node_map r i) else node_map r j)"
  by (simp add: node_map_def put_node_def)

lemma node_at_put_node [simp]:
  "node_at (put_node i n x r) j m = (if j = i \<and> m = n then Some x else node_at r j m)"
  by (simp add: node_at_def node_map_put_node)

lemma put_node_frame [simp]:
  "run_at (put_node i n x r) = run_at r"
  "attempt_maps (put_node i n x r) = attempt_maps r"
  "attempt_map (put_node i n x r) = attempt_map r"
  "attempt_at (put_node i n x r) = attempt_at r"
  "events_of (put_node i n x r) = events_of r"
  "reg_runs (put_node i n x r) = reg_runs r"
  "reg_attempts (put_node i n x r) = reg_attempts r"
  "reg_events (put_node i n x r) = reg_events r"
  by (simp_all add: fun_eq_iff put_node_def run_at_def attempt_maps_def attempt_map_def
      attempt_at_def events_of_def)

lemma attempt_maps_put_attempt:
  "attempt_maps (put_attempt i n a x r) j =
     (if j = i then mput n (mput a x (attempt_map r i n)) (attempt_maps r i) else attempt_maps r j)"
  by (simp add: attempt_maps_def put_attempt_def)

lemma attempt_map_put_attempt:
  "attempt_map (put_attempt i n a x r) j m =
     (if j = i \<and> m = n then mput a x (attempt_map r i n) else attempt_map r j m)"
  by (simp add: attempt_map_def attempt_maps_put_attempt)

lemma attempt_at_put_attempt [simp]:
  "attempt_at (put_attempt i n a x r) j m b =
     (if j = i \<and> m = n \<and> b = a then Some x else attempt_at r j m b)"
  by (simp add: attempt_at_def attempt_map_put_attempt)

lemma put_attempt_frame [simp]:
  "run_at (put_attempt i n a x r) = run_at r"
  "node_map (put_attempt i n a x r) = node_map r"
  "node_at (put_attempt i n a x r) = node_at r"
  "events_of (put_attempt i n a x r) = events_of r"
  "reg_runs (put_attempt i n a x r) = reg_runs r"
  "reg_nodes (put_attempt i n a x r) = reg_nodes r"
  "reg_events (put_attempt i n a x r) = reg_events r"
  by (simp_all add: fun_eq_iff put_attempt_def run_at_def node_map_def node_at_def events_of_def)

text \<open>The lookups of the methods in terms of the views.\<close>

definition node_err :: "registry \<Rightarrow> string \<Rightarrow> go_error" where
  "node_err r runID =
     (if map_of (reg_nodes r) runID = None then ErrRunNotFound else ErrNodeNotFound)"

definition attempt_err :: "registry \<Rightarrow> string \<Rightarrow> string \<Rightarrow> go_error" where
  "attempt_err r runID nodeID =
     (if map_of (reg_attempts r) runID = None then ErrRunNotFound
      else if map_of (attempt_maps r runID) nodeID = None then ErrNodeNotFound
      else ErrAttemptNotFound)"

lemma lockedGetNode_eq:
  "lockedGetNode i n r = (case node_at r i n of None \<Rightarrow> Inl (node_err r i) | Some x \<Rightarrow> Inr x)"
  by (simp add: lockedGetNode_def node_at_def node_map_def node_err_def split: option.splits)

lemma UpdateNode_eq:
  "UpdateNode i n f r =
     (case node_at r i n of
        None \<Rightarrow> (Inl (node_err r i), r)
      | Some x \<Rightarrow> (case f x of Inl e \<Rightarrow> (Inl e, r) | Inr x' \<Rightarrow> (ok, put_node i n x' r)))"
  by (simp add: UpdateNode_def node_at_def node_map_def node_err_def split: option.splits)

lemma lockedMutateAttempt_eq:
  "lockedMutateAttempt i n a f r =
     (case attempt_at r i n a of
        None \<Rightarrow> (Inl (attempt_err r i n), r)
      | Some x \<Rightarrow> (ok, put_attempt i n a (f x) r))"
  by (simp add: lockedMutateAttempt_def attempt_at_def attempt_map_def attempt_maps_def
      attempt_err_def split: option.splits)

lemma UpsertAttempt_eq:
  "UpsertAttempt x r =
     (if map_of (attempt_maps r (ar_RunID x)) (ar_NodeID x) = None
      then (Inl (attempt_err r (ar_RunID x) (ar_NodeID x)), r)
      else (ok, put_attempt (ar_RunID x) (ar_NodeID x) (ar_AttemptID x) x r))"
  by (simp add: UpsertAttempt_def attempt_maps_def attempt_err_def split: option.splits)

lemmas registry_reads = GetRun_def ListRuns_def GetNode_def ListNodes_def ListAttempts_def
  ListEvents_def GetCurrentAttempt_def

lemmas registry_writes = UpdateRun_def UpdateNode_eq UpsertAttempt_eq AppendEvent_def
  AllocateCurrentAttempt_def OpenSemanticAttempt_def PersistSubmissionFence_def
  PersistBackendHandle_def PersistCancellationIntent_def PersistProcessCompleted_def
  lockedMutateAttempt_eq lockedGetNode_eq

text \<open>A read never changes the registry.\<close>

lemma reads_pure [simp]:
  "snd (GetRun i r) = r" "snd (ListRuns ord r) = r" "snd (GetNode i n r) = r"
  "snd (ListNodes i r) = r" "snd (ListAttempts i n r) = r" "snd (ListEvents i l r) = r"
  "snd (GetCurrentAttempt i n r) = r"
  by (simp_all add: registry_reads Let_def split: option.splits sum.splits)

subsection \<open>The invariant\<close>

definition reg_wf :: "registry \<Rightarrow> bool" where
  "reg_wf r \<longleftrightarrow>
     mwf (reg_runs r) \<and> mwf (reg_nodes r) \<and> mwf (reg_attempts r) \<and> mwf (reg_events r) \<and>
     dom (map_of (reg_nodes r)) = dom (run_at r) \<and>
     dom (map_of (reg_attempts r)) = dom (run_at r) \<and>
     dom (map_of (reg_events r)) = dom (run_at r) \<and>
     (\<forall>i. mwf (node_map r i) \<and> mwf (attempt_maps r i) \<and>
          dom (map_of (attempt_maps r i)) = dom (node_at r i)) \<and>
     (\<forall>i n. mwf (attempt_map r i n)) \<and>
     (\<forall>i x. run_at r i = Some x \<longrightarrow> rr_RunID x = i) \<and>
     (\<forall>i n x. node_at r i n = Some x \<longrightarrow> nr_RunID x = i \<and> nr_NodeID x = n) \<and>
     (\<forall>i n a x. attempt_at r i n a = Some x \<longrightarrow>
        ar_RunID x = i \<and> ar_NodeID x = n \<and> ar_AttemptID x = a) \<and>
     (\<forall>i. \<forall>e \<in> set (events_of r i). ev_RunID e = i)"

lemma reg_wfD:
  assumes "reg_wf r"
  shows "mwf (reg_runs r)" "mwf (node_map r i)" "mwf (attempt_map r i n)"
    and "dom (map_of (reg_nodes r)) = dom (run_at r)"
    and "dom (map_of (reg_attempts r)) = dom (run_at r)"
    and "dom (map_of (reg_events r)) = dom (run_at r)"
    and "dom (map_of (attempt_maps r i)) = dom (node_at r i)"
    and "run_at r i = Some x \<Longrightarrow> rr_RunID x = i"
    and "node_at r i n = Some y \<Longrightarrow> nr_RunID y = i \<and> nr_NodeID y = n"
    and "attempt_at r i n a = Some z \<Longrightarrow> ar_RunID z = i \<and> ar_NodeID z = n \<and> ar_AttemptID z = a"
    and "e \<in> set (events_of r i) \<Longrightarrow> ev_RunID e = i"
  using assms by (simp_all add: reg_wf_def)

lemma node_run_exists:
  assumes "reg_wf r" and "node_at r i n = Some x"
  shows "\<exists>y. run_at r i = Some y"
proof -
  have "i \<in> dom (map_of (reg_nodes r))"
    using assms(2) by (cases "map_of (reg_nodes r) i") (auto simp: node_at_def node_map_def)
  then show ?thesis using reg_wfD(4) [OF assms(1)] by (simp add: domD)
qed

lemma attempt_node_exists:
  assumes "reg_wf r" and "attempt_at r i n a = Some x"
  shows "\<exists>y. node_at r i n = Some y"
proof -
  have "n \<in> dom (map_of (attempt_maps r i))"
    using assms(2) by (cases "map_of (attempt_maps r i) n") (auto simp: attempt_at_def attempt_map_def)
  then show ?thesis using reg_wfD(7) [OF assms(1), of i] by (simp add: domD)
qed

lemma node_maps_present:
  assumes wf: "reg_wf r" and x: "node_at r i n = Some x"
  shows "i \<in> dom (map_of (reg_nodes r))" and "i \<in> dom (map_of (reg_attempts r))"
    and "n \<in> dom (map_of (attempt_maps r i))"
proof -
  have i: "i \<in> dom (run_at r)" using node_run_exists [OF wf x] by (simp add: dom_def)
  show "i \<in> dom (map_of (reg_nodes r))" using i reg_wfD(4) [OF wf] by metis
  show "i \<in> dom (map_of (reg_attempts r))" using i reg_wfD(5) [OF wf] by metis
  have "n \<in> dom (node_at r i)" using x by (simp add: dom_def)
  then show "n \<in> dom (map_of (attempt_maps r i))" using reg_wfD(7) [OF wf, of i] by metis
qed

lemma reg_wf_NewMemoryRegistry: "reg_wf NewMemoryRegistry"
  by (simp add: reg_wf_def NewMemoryRegistry_def run_at_def node_at_def node_map_def
      attempt_maps_def attempt_map_def attempt_at_def events_of_def dom_def)

lemma reg_wf_put_node:
  assumes wf: "reg_wf r" and ex: "node_at r i n = Some y" and ids: "nr_RunID x = i" "nr_NodeID x = n"
  shows "reg_wf (put_node i n x r)"
proof -
  have "dom (map_of (reg_nodes (put_node i n x r))) = dom (run_at r)"
    using reg_wfD(4) [OF wf] node_maps_present(1) [OF wf ex] by (simp add: put_node_def insert_absorb)
  moreover have "dom (node_at (put_node i n x r) j) = dom (node_at r j)" for j
    using ex by (auto simp: dom_def)
  moreover have "mwf (reg_nodes (put_node i n x r))"
    using wf by (simp add: reg_wf_def put_node_def)
  ultimately show ?thesis
    using wf ids by (simp add: reg_wf_def node_map_put_node)
qed

lemma reg_wf_put_attempt:
  assumes wf: "reg_wf r" and ex: "node_at r i n = Some y"
    and ids: "ar_RunID x = i" "ar_NodeID x = n" "ar_AttemptID x = a"
  shows "reg_wf (put_attempt i n a x r)"
proof -
  note p = node_maps_present [OF wf ex]
  have "dom (map_of (reg_attempts (put_attempt i n a x r))) = dom (run_at r)"
    using reg_wfD(5) [OF wf] p(2) by (simp add: put_attempt_def insert_absorb)
  moreover have "dom (map_of (attempt_maps (put_attempt i n a x r) j)) = dom (node_at r j)" for j
    using reg_wfD(7) [OF wf, of j] p(3) by (cases "j = i") (simp_all add: attempt_maps_put_attempt insert_absorb)
  moreover have "mwf (reg_attempts (put_attempt i n a x r))"
    using wf by (simp add: reg_wf_def put_attempt_def)
  ultimately show ?thesis
    using wf ids by (simp add: reg_wf_def attempt_maps_put_attempt attempt_map_put_attempt)
qed

text \<open>
  Attempts are numbered: every attempt of a node carries the id of a realization cycle that the
  node has counted, and the current attempt of a node exists.
\<close>

definition reg_numbered :: "registry \<Rightarrow> bool" where
  "reg_numbered r \<longleftrightarrow>
     (\<forall>i n x. node_at r i n = Some x \<longrightarrow>
        0 \<le> nr_RealizationAttemptCount x \<and>
        (nr_CurrentAttemptID x = '''' \<or> attempt_at r i n (nr_CurrentAttemptID x) \<noteq> None) \<and>
        (\<forall>a. attempt_at r i n a \<noteq> None \<longrightarrow>
           (\<exists>k. 1 \<le> k \<and> k \<le> nr_RealizationAttemptCount x \<and> a = DeterministicAttemptID i n k)))"

lemma reg_numberedD:
  assumes "reg_numbered r" and "node_at r i n = Some x"
  shows "0 \<le> nr_RealizationAttemptCount x"
    and "nr_CurrentAttemptID x = '''' \<or> (\<exists>y. attempt_at r i n (nr_CurrentAttemptID x) = Some y)"
    and "attempt_at r i n a = Some y \<Longrightarrow>
      \<exists>k. 1 \<le> k \<and> k \<le> nr_RealizationAttemptCount x \<and> a = DeterministicAttemptID i n k"
  using assms by (simp_all add: reg_numbered_def)

lemma reg_numbered_fresh:
  assumes "reg_numbered r" and "node_at r i n = Some x" and "nr_RealizationAttemptCount x < k"
  shows "attempt_at r i n (DeterministicAttemptID i n k) = None"
  using reg_numberedD(3) [OF assms(1,2), of "DeterministicAttemptID i n k"] assms(3)
  by (cases "attempt_at r i n (DeterministicAttemptID i n k)") auto

definition fresh_node :: "NodeRecord \<Rightarrow> bool" where
  "fresh_node x \<longleftrightarrow> nr_CurrentAttemptID x = '''' \<and> 0 \<le> nr_RealizationAttemptCount x"

definition keeps_identity :: "(NodeRecord \<Rightarrow> NodeRecord result) \<Rightarrow> bool" where
  "keeps_identity f \<longleftrightarrow>
     (\<forall>x y. f x = Inr y \<longrightarrow> nr_RunID y = nr_RunID x \<and> nr_NodeID y = nr_NodeID x \<and>
        nr_RealizationAttemptCount y = nr_RealizationAttemptCount x \<and>
        nr_CurrentAttemptID y \<in> {'''', nr_CurrentAttemptID x})"

definition keeps_run_id :: "(RunRecord \<Rightarrow> RunRecord result) \<Rightarrow> bool" where
  "keeps_run_id f \<longleftrightarrow> (\<forall>x y. f x = Inr y \<longrightarrow> rr_RunID y = rr_RunID x)"

text \<open>
  The histories of a registry: every method, called the way the clients call it (an update keeps
  the identity of its record, an upsert overwrites an existing attempt).
\<close>

inductive reg_step :: "registry \<Rightarrow> registry \<Rightarrow> bool" where
  create: "list_all (\<lambda>n. nr_RunID n = rr_RunID x \<and> fresh_node n) ns \<Longrightarrow>
     reg_step r (snd (CreateRun x ns r))"
| update_run: "keeps_run_id f \<Longrightarrow> reg_step r (snd (UpdateRun i f r))"
| update_node: "keeps_identity g \<Longrightarrow> reg_step r (snd (UpdateNode i n g r))"
| upsert: "attempt_at r (ar_RunID a) (ar_NodeID a) (ar_AttemptID a) \<noteq> None \<Longrightarrow>
     reg_step r (snd (UpsertAttempt a r))"
| append_event: "reg_step r (snd (AppendEvent e r))"
| allocate: "reg_step r (snd (AllocateCurrentAttempt now i n r))"
| open_attempt: "reg_step r (snd (OpenSemanticAttempt i n ai now r))"
| fence: "reg_step r (snd (PersistSubmissionFence i n ai now r))"
| handle: "reg_step r (snd (PersistBackendHandle i n ai h r))"
| cancel_intent: "reg_step r (snd (PersistCancellationIntent i n ai now why r))"
| completed: "reg_step r (snd (PersistProcessCompleted i n ai now r))"

inductive reachable :: "registry \<Rightarrow> bool" where
  new: "reachable NewMemoryRegistry"
| step: "reachable r \<Longrightarrow> reg_step r r' \<Longrightarrow> reachable r'"

definition reg_inv :: "registry \<Rightarrow> bool" where
  "reg_inv r \<longleftrightarrow> reg_wf r \<and> reg_numbered r"

lemma reg_invD:
  assumes "reg_inv r"
  shows "reg_wf r" and "reg_numbered r"
    and "node_at r i n = Some x \<Longrightarrow> nr_RunID x = i \<and> nr_NodeID x = n"
    and "attempt_at r i n a = Some z \<Longrightarrow> ar_RunID z = i \<and> ar_NodeID z = n \<and> ar_AttemptID z = a"
    and "attempt_at r i n a = Some z \<Longrightarrow> \<exists>y. node_at r i n = Some y"
  using assms attempt_node_exists [of r i n a z] by (simp_all add: reg_inv_def reg_wf_def)

lemma reg_inv_put_node:
  assumes inv: "reg_inv r" and ex: "node_at r i n = Some y"
    and ids: "nr_RunID x = i" "nr_NodeID x = n"
    and num: "nr_RealizationAttemptCount x = nr_RealizationAttemptCount y"
      "nr_CurrentAttemptID x \<in> {'''', nr_CurrentAttemptID y}"
  shows "reg_inv (put_node i n x r)"
  using inv reg_wf_put_node [OF _ ex ids] reg_numberedD [OF _ ex] num ids
  by (auto simp: reg_inv_def reg_numbered_def)

lemma reg_inv_put_attempt:
  assumes inv: "reg_inv r" and ex: "attempt_at r i n a = Some y"
    and ids: "ar_RunID x = i" "ar_NodeID x = n" "ar_AttemptID x = a"
  shows "reg_inv (put_attempt i n a x r)"
proof -
  note wf = reg_invD(1) [OF inv] and num = reg_invD(2) [OF inv]
  obtain nr where nr: "node_at r i n = Some nr" using attempt_node_exists [OF wf ex] by blast
  have "reg_numbered (put_attempt i n a x r)"
    using num ex by (simp add: reg_numbered_def)
  with reg_wf_put_attempt [OF wf nr ids] show ?thesis by (simp add: reg_inv_def)
qed

lemma reg_inv_lockedMutateAttempt:
  assumes inv: "reg_inv r"
    and f: "\<And>x. ar_RunID (f x) = ar_RunID x \<and> ar_NodeID (f x) = ar_NodeID x \<and>
      ar_AttemptID (f x) = ar_AttemptID x"
  shows "reg_inv (snd (lockedMutateAttempt i n a f r))"
proof (cases "attempt_at r i n a")
  case (Some x)
  then have "ar_RunID x = i \<and> ar_NodeID x = n \<and> ar_AttemptID x = a"
    using reg_invD(4) [OF inv] by simp
  with f Some inv show ?thesis
    by (simp add: lockedMutateAttempt_eq reg_inv_put_attempt [OF inv Some])
qed (simp add: lockedMutateAttempt_eq inv)

lemma reg_inv_allocate:
  assumes inv: "reg_inv r" shows "reg_inv (snd (AllocateCurrentAttempt now i n r))"
proof (cases "node_at r i n")
  case None
  then show ?thesis by (simp add: AllocateCurrentAttempt_def lockedGetNode_eq inv)
next
  case (Some x)
  note wf = reg_invD(1) [OF inv] and num = reg_invD(2) [OF inv]
  let ?k = "nr_RealizationAttemptCount x + 1"
  let ?a = "DeterministicAttemptID i n ?k"
  have ids: "nr_RunID x = i" "nr_NodeID x = n" using reg_wfD(9) [OF wf Some] by simp_all
  have k0: "0 \<le> nr_RealizationAttemptCount x" by (rule reg_numberedD(1) [OF num Some])
  have old: "\<exists>k. 1 \<le> k \<and> k \<le> ?k \<and> b = DeterministicAttemptID i n k"
    if "attempt_at r i n b = Some z" for b z
    using reg_numberedD(3) [OF num Some that] by force
  have step: "reg_inv (put_node i n
      (x\<lparr>nr_RealizationAttemptCount := ?k, nr_CurrentAttemptID := ?a, nr_Status := s,
         nr_CurrentBottleneckLocation := l, nr_StartedAt := t\<rparr>) (put_attempt i n ?a y r))"
    if y: "ar_RunID y = i" "ar_NodeID y = n" "ar_AttemptID y = ?a" for s l t y
  proof -
    have "reg_wf (put_attempt i n ?a y r)" by (rule reg_wf_put_attempt [OF wf Some y])
    then have "reg_wf (put_node i n
      (x\<lparr>nr_RealizationAttemptCount := ?k, nr_CurrentAttemptID := ?a, nr_Status := s,
         nr_CurrentBottleneckLocation := l, nr_StartedAt := t\<rparr>) (put_attempt i n ?a y r))"
      by (rule reg_wf_put_node [where y = x]) (simp_all add: Some ids)
    then show ?thesis
      using num k0 old by (auto simp: reg_inv_def reg_numbered_def)
  qed
  show ?thesis
    using inv by (auto simp: AllocateCurrentAttempt_def lockedGetNode_eq Some Let_def intro!: step)
qed

lemma reg_inv_open:
  assumes inv: "reg_inv r" shows "reg_inv (snd (OpenSemanticAttempt i n a t r))"
proof -
  let ?m = "lockedMutateAttempt i n a (\<lambda>a. a\<lparr>ar_SubmissionWindowOpenedAt := Some t\<rparr>) r"
  have m: "reg_inv (snd ?m)" by (rule reg_inv_lockedMutateAttempt [OF inv]) simp
  have same: "node_at (snd ?m) = node_at r" by (simp add: lockedMutateAttempt_eq split: option.splits)
  show ?thesis
  proof (cases "node_at r i n")
    case (Some x)
    have "nr_RunID x = i \<and> nr_NodeID x = n" by (rule reg_invD(3) [OF inv Some])
    then have "reg_inv (put_node i n (x\<lparr>nr_AttemptCount := k\<rparr>) (snd ?m))" for k
      by (intro reg_inv_put_node [OF m, where y = x]) (simp_all add: same Some)
    then show ?thesis
      using m inv by (auto simp: OpenSemanticAttempt_def lockedGetNode_eq Some split: prod.splits sum.splits)
  qed (simp add: OpenSemanticAttempt_def lockedGetNode_eq inv)
qed

lemma reg_inv_handle:
  assumes inv: "reg_inv r" shows "reg_inv (snd (PersistBackendHandle i n a h r))"
proof -
  let ?m = "lockedMutateAttempt i n a (\<lambda>a. a\<lparr>ar_BackendHandleJSON := h\<rparr>) r"
  have m: "reg_inv (snd ?m)" by (rule reg_inv_lockedMutateAttempt [OF inv]) simp
  have same: "node_at (snd ?m) = node_at r" by (simp add: lockedMutateAttempt_eq split: option.splits)
  show ?thesis
  proof (cases "attempt_at r i n a")
    case (Some y)
    then obtain x where x: "node_at r i n = Some x"
      using reg_invD(5) [OF inv] by blast
    have "nr_RunID x = i \<and> nr_NodeID x = n" by (rule reg_invD(3) [OF inv x])
    then have "reg_inv (put_node i n (x\<lparr>nr_CurrentAttemptHandleJSON := h\<rparr>) (snd ?m))"
      by (intro reg_inv_put_node [OF m, where y = x]) (simp_all add: same x)
    then show ?thesis
      using m by (simp add: PersistBackendHandle_def lockedMutateAttempt_eq Some x Let_def)
  qed (simp add: PersistBackendHandle_def lockedMutateAttempt_eq inv)
qed

lemma reg_inv_update_node:
  assumes inv: "reg_inv r" and f: "keeps_identity f" shows "reg_inv (snd (UpdateNode i n f r))"
proof (cases "node_at r i n")
  case (Some x)
  have ids: "nr_RunID x = i \<and> nr_NodeID x = n" by (rule reg_invD(3) [OF inv Some])
  show ?thesis
  proof (cases "f x")
    case (Inr y)
    then have "reg_inv (put_node i n y r)"
      using f ids by (intro reg_inv_put_node [OF inv Some]) (auto simp: keeps_identity_def)
    with Inr Some show ?thesis by (simp add: UpdateNode_eq)
  qed (simp add: UpdateNode_eq Some inv)
qed (simp add: UpdateNode_eq inv)

lemma reg_inv_update_run:
  assumes inv: "reg_inv r" and f: "keeps_run_id f" shows "reg_inv (snd (UpdateRun i f r))"
proof (cases "run_at r i")
  case (Some x)
  show ?thesis
  proof (cases "f x")
    case (Inr y)
    let ?r = "r\<lparr>reg_runs := mput i y (reg_runs r)\<rparr>"
    have y: "rr_RunID y = i"
      using f Inr reg_wfD(8) [OF reg_invD(1) [OF inv] Some] by (auto simp: keeps_run_id_def)
    have run: "run_at ?r = (run_at r)(i \<mapsto> y)" by (simp add: run_at_def fun_eq_iff)
    have frame: "node_map ?r = node_map r" "attempt_maps ?r = attempt_maps r"
      "node_at ?r = node_at r" "attempt_map ?r = attempt_map r" "attempt_at ?r = attempt_at r"
      "events_of ?r = events_of r"
      by (simp_all add: fun_eq_iff node_map_def node_at_def attempt_maps_def attempt_map_def
          attempt_at_def events_of_def)
    have "dom (run_at ?r) = dom (run_at r)" using Some by (simp add: run insert_absorb domI)
    then have "reg_inv ?r"
      using inv y unfolding reg_inv_def reg_wf_def reg_numbered_def frame
      by (simp add: run del: fun_upd_apply) (simp add: fun_upd_apply)
    with Inr Some show ?thesis by (simp add: UpdateRun_def)
  qed (simp add: UpdateRun_def Some inv)
qed (simp add: UpdateRun_def inv)

lemma reg_inv_append_event:
  assumes inv: "reg_inv r" shows "reg_inv (snd (AppendEvent e r))"
proof (cases "run_at r (ev_RunID e)")
  case (Some x)
  let ?i = "ev_RunID e"
  let ?r = "r\<lparr>reg_events := mput ?i (events_of r ?i @ [e]) (reg_events r)\<rparr>"
  have ev: "events_of ?r j = (if j = ?i then events_of r ?i @ [e] else events_of r j)" for j
    by (simp add: events_of_def)
  have frame: "run_at ?r = run_at r" "node_map ?r = node_map r" "attempt_maps ?r = attempt_maps r"
    "node_at ?r = node_at r" "attempt_map ?r = attempt_map r" "attempt_at ?r = attempt_at r"
    by (simp_all add: fun_eq_iff run_at_def node_map_def node_at_def attempt_maps_def
        attempt_map_def attempt_at_def)
  have "?i \<in> dom (map_of (reg_events r))"
    using reg_wfD(6) [OF reg_invD(1) [OF inv]] Some by (simp add: domI)
  then have "dom (map_of (reg_events ?r)) = dom (map_of (reg_events r))"
    by (simp add: insert_absorb)
  then have "reg_inv ?r"
    using inv unfolding reg_inv_def reg_wf_def reg_numbered_def frame by (auto simp: ev)
  with Some show ?thesis by (simp add: AppendEvent_def)
qed (simp add: AppendEvent_def inv)

lemma reg_inv_upsert:
  assumes "reg_inv r" and "attempt_at r (ar_RunID a) (ar_NodeID a) (ar_AttemptID a) \<noteq> None"
  shows "reg_inv (snd (UpsertAttempt a r))"
  using assms reg_inv_put_attempt [OF assms(1)] by (auto simp: UpsertAttempt_eq)

lemma create_node_views [simp]:
  "run_at (create_node i n r) = run_at r" "events_of (create_node i n r) = events_of r"
  "node_map (create_node i n r) = node_map (put_node i (nr_NodeID n) n r)"
  "node_at (create_node i n r) = node_at (put_node i (nr_NodeID n) n r)"
  "attempt_maps (create_node i n r) j =
     (if j = i then mput (nr_NodeID n) [] (attempt_maps r i) else attempt_maps r j)"
  "reg_runs (create_node i n r) = reg_runs r" "reg_events (create_node i n r) = reg_events r"
  by (simp_all add: fun_eq_iff create_node_def Let_def run_at_def events_of_def node_map_def
      node_at_def put_node_def attempt_maps_def)

lemma create_node_attempts [simp]:
  "attempt_map (create_node i n r) j m =
     (if j = i \<and> m = nr_NodeID n then [] else attempt_map r j m)"
  "attempt_at (create_node i n r) j m a =
     (if j = i \<and> m = nr_NodeID n then None else attempt_at r j m a)"
  by (simp_all add: attempt_map_def attempt_at_def)

lemma reg_inv_create_node:
  assumes inv: "reg_inv r" and i: "i \<in> dom (run_at r)" and n: "nr_RunID n = i" "fresh_node n"
  shows "reg_inv (create_node i n r)"
proof -
  note wf = reg_invD(1) [OF inv]
  have "reg_numbered (create_node i n r)"
    using reg_invD(2) [OF inv] n(2) by (auto simp: reg_numbered_def fresh_node_def)
  moreover have "mwf (reg_nodes (create_node i n r))" "mwf (reg_attempts (create_node i n r))"
    using wf by (simp_all add: reg_wf_def create_node_def Let_def put_node_def)
  moreover have "dom (map_of (reg_nodes (create_node i n r))) = dom (run_at r)"
    "dom (map_of (reg_attempts (create_node i n r))) = dom (run_at r)"
    using reg_wfD(4,5) [OF wf] i by (simp_all add: create_node_def Let_def put_node_def insert_absorb)
  moreover have "dom (map_of (attempt_maps (create_node i n r) j)) = dom (node_at (create_node i n r) j)"
    for j using reg_wfD(7) [OF wf, of j] by (auto simp: dom_def)
  ultimately show ?thesis
    using wf n(1) by (simp add: reg_inv_def reg_wf_def node_map_put_node)
qed

lemma reg_inv_create_nodes:
  "reg_inv r \<Longrightarrow> i \<in> dom (run_at r) \<Longrightarrow> list_all (\<lambda>n. nr_RunID n = i \<and> fresh_node n) ns \<Longrightarrow>
     reg_inv (create_nodes i ns r)"
  by (induction ns arbitrary: r) (simp_all add: reg_inv_create_node)

lemma create_nodes_events:
  "(create_nodes i ns r)\<lparr>reg_events := es\<rparr> = create_nodes i ns (r\<lparr>reg_events := es\<rparr>)"
proof (induction ns arbitrary: r)
  case (Cons n ns)
  have "(create_node i n r)\<lparr>reg_events := es\<rparr> = create_node i n (r\<lparr>reg_events := es\<rparr>)"
    by (cases r) (simp add: create_node_def put_node_def node_map_def attempt_maps_def Let_def)
  with Cons.IH show ?case by simp
qed simp

lemma create_nodes_frame [simp]:
  "reg_runs (create_nodes i ns r) = reg_runs r" "reg_events (create_nodes i ns r) = reg_events r"
  by (induction ns arbitrary: r) simp_all

text \<open>The registry in which a new run has its empty maps, before its nodes are entered.\<close>

definition enter_run :: "RunRecord \<Rightarrow> registry \<Rightarrow> registry" where
  "enter_run x r = \<lparr>reg_runs = mput (rr_RunID x) x (reg_runs r), reg_nodes = mput (rr_RunID x) [] (reg_nodes r),
     reg_attempts = mput (rr_RunID x) [] (reg_attempts r), reg_events = mput (rr_RunID x) [] (reg_events r)\<rparr>"

lemma CreateRun_eq:
  "CreateRun x ns r =
     (if run_at r (rr_RunID x) = None then (ok, create_nodes (rr_RunID x) ns (enter_run x r))
      else (Inl ErrRunAlreadyExists, r))"
  by (cases r) (auto simp: CreateRun_def enter_run_def Let_def create_nodes_events split: option.splits)

lemma enter_run_views:
  "run_at (enter_run x r) = (run_at r)(rr_RunID x \<mapsto> x)"
  "node_map (enter_run x r) = (node_map r)(rr_RunID x := [])"
  "attempt_maps (enter_run x r) = (attempt_maps r)(rr_RunID x := [])"
  "events_of (enter_run x r) = (events_of r)(rr_RunID x := [])"
  "node_at (enter_run x r) j = (if j = rr_RunID x then Map.empty else node_at r j)"
  "attempt_map (enter_run x r) j m = (if j = rr_RunID x then [] else attempt_map r j m)"
  "attempt_at (enter_run x r) j m a = (if j = rr_RunID x then None else attempt_at r j m a)"
  by (simp_all add: fun_eq_iff enter_run_def run_at_def node_map_def node_at_def attempt_maps_def
      attempt_map_def attempt_at_def events_of_def)

lemma reg_inv_enter_run:
  assumes inv: "reg_inv r" shows "reg_inv (enter_run x r)"
proof -
  have "reg_numbered (enter_run x r)"
    using reg_invD(2) [OF inv] by (simp add: reg_numbered_def enter_run_views)
  moreover have "reg_wf (enter_run x r)"
    using reg_invD(1) [OF inv] by (simp add: reg_wf_def enter_run_views) (simp add: enter_run_def)
  ultimately show ?thesis by (simp add: reg_inv_def)
qed

lemma reg_inv_create:
  assumes inv: "reg_inv r" and ns: "list_all (\<lambda>n. nr_RunID n = rr_RunID x \<and> fresh_node n) ns"
  shows "reg_inv (snd (CreateRun x ns r))"
  using reg_inv_create_nodes [OF reg_inv_enter_run [OF inv] _ ns] inv
  by (simp add: CreateRun_eq enter_run_views)

lemma reg_inv_step: "reg_step r r' \<Longrightarrow> reg_inv r \<Longrightarrow> reg_inv r'"
  by (induction rule: reg_step.induct)
    (simp_all add: reg_inv_create reg_inv_update_run reg_inv_update_node reg_inv_upsert
      reg_inv_append_event reg_inv_allocate reg_inv_open reg_inv_handle
      PersistSubmissionFence_def PersistCancellationIntent_def PersistProcessCompleted_def
      reg_inv_lockedMutateAttempt)

lemma reg_inv_new: "reg_inv NewMemoryRegistry"
  using reg_wf_NewMemoryRegistry
  by (simp add: reg_inv_def reg_numbered_def NewMemoryRegistry_def node_at_def node_map_def)

lemma reachable_inv: "reachable r \<Longrightarrow> reg_inv r"
  by (induction rule: reachable.induct) (simp_all add: reg_inv_new reg_inv_step)

subsection \<open>Properties of the in-memory registry\<close>

lemma allocate_cases:
  assumes inv: "reg_inv r"
  shows "AllocateCurrentAttempt now i n r =
    (case node_at r i n of
       None \<Rightarrow> (Inl (node_err r i), r)
     | Some x \<Rightarrow>
         if nr_CurrentAttemptID x \<noteq> '''' \<and>
            \<not> AttemptStatus_IsTerminal (ar_Status (the (attempt_at r i n (nr_CurrentAttemptID x))))
         then (Inl ErrAttemptNonTerminal, r)
         else
           let k = nr_RealizationAttemptCount x + 1; a = DeterministicAttemptID i n k;
               y = zero_AttemptRecord\<lparr>ar_RunID := i, ar_NodeID := n, ar_AttemptID := a,
                     ar_Status := AttemptStatusPrepared, ar_StartedAt := Some now\<rparr>
           in (Inr y, put_node i n
                 (x\<lparr>nr_RealizationAttemptCount := k, nr_CurrentAttemptID := a,
                    nr_Status := NodeStatusReady, nr_CurrentBottleneckLocation := ''release_wait'',
                    nr_StartedAt := Some now\<rparr>) (put_attempt i n a y r)))"
proof (cases "node_at r i n")
  case (Some x)
  then have "map_of (attempt_maps r i) n \<noteq> None"
    using node_maps_present(3) [OF reg_invD(1) [OF inv] Some] by (simp add: domIff)
  moreover have "nr_CurrentAttemptID x = '''' \<or> (\<exists>y. attempt_at r i n (nr_CurrentAttemptID x) = Some y)"
    by (rule reg_numberedD(2) [OF reg_invD(2) [OF inv] Some])
  ultimately show ?thesis
    by (auto simp: AllocateCurrentAttempt_def lockedGetNode_eq Some Let_def)
qed (simp add: AllocateCurrentAttempt_def lockedGetNode_eq)

lemma handle_no_panic:
  assumes inv: "reg_inv r" shows "fst (PersistBackendHandle i n a h r) \<noteq> Inl (GoPanic m)"
proof (cases "attempt_at r i n a")
  case None
  then show ?thesis
    by (auto simp: PersistBackendHandle_def lockedMutateAttempt_eq attempt_err_def)
next
  case (Some y)
  then obtain x where "node_at r i n = Some x" using reg_invD(5) [OF inv] by blast
  then have "map_of (reg_nodes r) i \<noteq> None"
    using node_maps_present(1) [OF reg_invD(1) [OF inv]] by (simp add: domIff)
  with Some show ?thesis by (auto simp: PersistBackendHandle_def lockedMutateAttempt_eq Let_def)
qed

text \<open>
  C3: in every registry reached from the empty one by any sequence of method calls, the four nested
  maps agree on their keys, every record sits under its own ids, attempts carry the ids of counted
  realization cycles, the current attempt of a node exists, and no method writes to a nil map.
\<close>

theorem reachable_registry_wf:
  assumes "reachable r"
  shows "reg_wf r \<and> reg_numbered r \<and>
    fst (AllocateCurrentAttempt now i n r) \<noteq> Inl (GoPanic m) \<and>
    fst (PersistBackendHandle i n a h r) \<noteq> Inl (GoPanic m)"
proof -
  have inv: "reg_inv r" by (rule reachable_inv [OF assms])
  have "fst (AllocateCurrentAttempt now i n r) \<noteq> Inl (GoPanic m)"
    by (simp add: allocate_cases [OF inv] node_err_def Let_def split: option.splits)
  with inv handle_no_panic [OF inv] show ?thesis by (simp add: reg_inv_def)
qed

definition demo_registry :: registry where
  "demo_registry =
     snd (CreateRun (zero_RunRecord\<lparr>rr_RunID := ''r''\<rparr>)
            [zero_NodeRecord\<lparr>nr_RunID := ''r'', nr_NodeID := ''a''\<rparr>] NewMemoryRegistry)"

lemma reachable_demo: "reachable demo_registry"
  unfolding demo_registry_def
  by (rule reachable.step [OF reachable.new reg_step.create]) (simp add: fresh_node_def zero_defs)

theorem reachable_registry_wf_witness:
  "reg_wf demo_registry \<and> fst (AllocateCurrentAttempt 5 ''r'' ''a'' demo_registry) \<noteq> Inl (GoPanic ''x'')"
  using reachable_registry_wf [OF reachable_demo] by blast



lemma sort_key_unique:
  assumes "distinct (map f xs)" and "mset xs = mset ys"
  shows "sort_key f xs = sort_key f ys"
proof -
  have s: "set xs = set ys" by (rule mset_eq_setD [OF assms(2)])
  have inj: "inj_on f (set xs)" using assms(1) by (simp add: distinct_map)
  have "mset (map f ys) = mset (map f xs)" using assms(2) by simp
  then have "distinct (map f ys)" using assms(1) mset_eq_imp_distinct_iff by blast
  then have "map f (sort_key f xs) = map f (sort_key f ys)"
    using assms(1) s
    by (intro sorted_distinct_set_unique) (simp_all add: distinct_map)
  then show ?thesis using inj s by (simp add: inj_on_map_eq_map)
qed

text \<open>
  The node ids of a run are distinct, so neither the order of the map nor the instability of
  \<^verbatim>\<open>sort.Slice\<close> shows in \<^verbatim>\<open>ListNodes\<close>.
\<close>

lemma ListNodes_any_order:
  assumes wf: "reg_wf r" and m: "map_of (reg_nodes r) i = Some m" and p: "mset xs = mset (map snd m)"
  shows "ListNodes i r = (Inr (sort_key nr_NodeID xs), r)"
proof -
  have m': "node_map r i = m" by (simp add: node_map_def m)
  have mm: "mwf m" using reg_wfD(2) [OF wf, of i] by (simp add: m')
  have "map nr_NodeID (map snd m) = map fst m"
    using mm reg_wfD(9) [OF wf, of i] by (auto simp: mwf_def node_at_def m')
  then have "distinct (map nr_NodeID (map snd m))" using mm by (simp only: mwf_def)
  from sort_key_unique [OF this p [symmetric]] show ?thesis by (simp add: ListNodes_def m)
qed

lemma ListNodes_exact:
  assumes "reg_wf r" and "run_at r i \<noteq> None"
  shows "\<exists>ns. fst (ListNodes i r) = Inr ns \<and> sorted (map nr_NodeID ns) \<and> distinct (map nr_NodeID ns) \<and>
    (\<forall>x. x \<in> set ns \<longleftrightarrow> node_at r i (nr_NodeID x) = Some x)"
proof -
  obtain m where m: "map_of (reg_nodes r) i = Some m"
    using assms(2) reg_wfD(4) [OF assms(1)] by (metis domD domIff)
  have m': "node_map r i = m" by (simp add: node_map_def m)
  have mm: "mwf m" using reg_wfD(2) [OF assms(1), of i] by (simp add: m')
  have at: "node_at r i k = map_of m k" for k by (simp add: node_at_def m')
  have idn: "map nr_NodeID (map snd m) = map fst m"
    using mm reg_wfD(9) [OF assms(1), of i] by (auto simp: mwf_def at)
  let ?ns = "sort_key nr_NodeID (map snd m)"
  have "mset (map nr_NodeID ?ns) = mset (map fst m)"
    by (simp only: idn [symmetric] mset_map mset_sort)
  then have dn: "distinct (map nr_NodeID ?ns)"
    using mm unfolding mwf_def by (rule mset_eq_imp_distinct_iff [THEN iffD2])
  have sn: "x \<in> set ?ns \<longleftrightarrow> node_at r i (nr_NodeID x) = Some x" for x
    using mwf_values [OF mm, of x] reg_wfD(9) [OF assms(1), of i] by (auto simp: at)
  show ?thesis
    using dn sn by (intro exI [of _ ?ns]) (simp add: ListNodes_def m)
qed

lemma ListRuns_exact:
  assumes "reg_wf r" and "\<And>xs. mset (ord xs) = mset xs"
  shows "\<exists>rs. fst (ListRuns ord r) = Inr rs \<and> sorted (map rr_AcceptedAt rs) \<and> distinct (map rr_RunID rs) \<and>
    (\<forall>x. x \<in> set rs \<longleftrightarrow> run_at r (rr_RunID x) = Some x)"
proof -
  have idr: "map rr_RunID (map snd (reg_runs r)) = map fst (reg_runs r)"
    using reg_wfD(1,8) [OF assms(1)] by (auto simp: mwf_def run_at_def)
  let ?rs = "sort_key rr_AcceptedAt (ord (map snd (reg_runs r)))"
  have "mset (map rr_RunID ?rs) = mset (map fst (reg_runs r))"
    by (simp only: idr [symmetric] mset_map mset_sort assms(2))
  then have dr: "distinct (map rr_RunID ?rs)"
    using reg_wfD(1) [OF assms(1)] unfolding mwf_def by (rule mset_eq_imp_distinct_iff [THEN iffD2])
  have "set (ord (map snd (reg_runs r))) = set (map snd (reg_runs r))"
    by (rule mset_eq_setD [OF assms(2)])
  then have "x \<in> set ?rs \<longleftrightarrow> run_at r (rr_RunID x) = Some x" for x
    using mwf_values [OF reg_wfD(1) [OF assms(1)], of x] reg_wfD(8) [OF assms(1)] by (auto simp: run_at_def)
  then show ?thesis
    using dr by (intro exI [of _ ?rs]) (simp add: ListRuns_def)
qed

lemma ListEvents_exact:
  assumes "reg_wf r" and "run_at r i \<noteq> None"
  shows "\<exists>es older. fst (ListEvents i limit r) = Inr es \<and> events_of r i = older @ es \<and>
       length es = (if limit \<le> 0 then length (events_of r i)
                    else min (nat limit) (length (events_of r i)))"
proof -
  obtain es where es: "map_of (reg_events r) i = Some es"
    using assms(2) reg_wfD(6) [OF assms(1)] by (metis domD domIff)
  show ?thesis
  proof (cases "limit \<le> 0 \<or> int (length es) \<le> limit")
    case True
    then show ?thesis by (auto simp: ListEvents_def es events_of_def)
  next
    case False
    let ?k = "nat (int (length es) - limit)"
    have "\<exists>older. es = older @ drop ?k es" by (metis append_take_drop_id)
    moreover have "length (drop ?k es) = min (nat limit) (length es)" using False by auto
    ultimately show ?thesis using False by (auto simp: ListEvents_def es events_of_def Let_def)
  qed
qed

text \<open>
  C5: the list methods return exactly what the registry holds: \<^verbatim>\<open>ListNodes\<close> every node once in
  ascending order of its id, \<^verbatim>\<open>ListRuns\<close> every run once, oldest
  first, and \<^verbatim>\<open>ListEvents\<close> the newest \<open>limit\<close> events in the order they were appended.
\<close>

theorem registry_lists:
  assumes "reachable r" and "run_at r i \<noteq> None" and "\<And>xs. mset (ord xs) = mset xs"
  shows "\<exists>ns rs es.
    fst (ListNodes i r) = Inr ns \<and> sorted (map nr_NodeID ns) \<and> distinct (map nr_NodeID ns) \<and>
    (\<forall>x. x \<in> set ns \<longleftrightarrow> node_at r i (nr_NodeID x) = Some x) \<and>
    fst (ListRuns ord r) = Inr rs \<and> sorted (map rr_AcceptedAt rs) \<and> distinct (map rr_RunID rs) \<and>
    (\<forall>x. x \<in> set rs \<longleftrightarrow> run_at r (rr_RunID x) = Some x) \<and>
    fst (ListEvents i limit r) = Inr es \<and>
    (\<exists>older. events_of r i = older @ es \<and>
       length es = (if limit \<le> 0 then length (events_of r i)
                    else min (nat limit) (length (events_of r i))))"
proof -
  have wf: "reg_wf r" using reachable_inv [OF assms(1)] by (rule reg_invD(1))
  show ?thesis
    using ListNodes_exact [OF wf assms(2)] ListRuns_exact [OF wf assms(3)] ListEvents_exact [OF wf assms(2), of limit]
    by blast
qed

theorem registry_lists_witness:
  "\<exists>ns. fst (ListNodes ''r'' demo_registry) = Inr ns \<and> sorted (map nr_NodeID ns)"
proof -
  have "run_at demo_registry ''r'' \<noteq> None"
    by (simp add: demo_registry_def CreateRun_def NewMemoryRegistry_def run_at_def Let_def zero_defs)
  from registry_lists [OF reachable_demo this, of "\<lambda>xs. xs" 1] show ?thesis by auto
qed

subsection \<open>The contract of a registry\<close>

text \<open>
  What the executor relies on, whatever the implementation: the attempts of a node as the methods
  \<^verbatim>\<open>AllocateCurrentAttempt\<close>, \<^verbatim>\<open>OpenSemanticAttempt\<close>, \<^verbatim>\<open>GetCurrentAttempt\<close> and \<^verbatim>\<open>UpsertAttempt\<close> of the
  interface promise them.
\<close>

definition settled_node :: "(string \<Rightarrow> AttemptRecord option) \<Rightarrow> NodeRecord \<Rightarrow> bool" where
  "settled_node att x \<longleftrightarrow> nr_CurrentAttemptID x = '''' \<or>
     (\<exists>y. att (nr_CurrentAttemptID x) = Some y \<and> AttemptStatus_IsTerminal (ar_Status y))"

locale attempt_store =
  fixes inv :: "'s \<Rightarrow> bool"
    and node :: "'s \<Rightarrow> string \<Rightarrow> string \<Rightarrow> NodeRecord option"
    and attempt :: "'s \<Rightarrow> string \<Rightarrow> string \<Rightarrow> string \<Rightarrow> AttemptRecord option"
    and allocate :: "time \<Rightarrow> string \<Rightarrow> string \<Rightarrow> 's \<Rightarrow> AttemptRecord result \<times> 's"
    and open_att :: "string \<Rightarrow> string \<Rightarrow> string \<Rightarrow> time \<Rightarrow> 's \<Rightarrow> unit result \<times> 's"
    and current :: "string \<Rightarrow> string \<Rightarrow> 's \<Rightarrow> AttemptRecord option result \<times> 's"
    and upsert :: "AttemptRecord \<Rightarrow> 's \<Rightarrow> unit result \<times> 's"
  assumes current_exists: "inv s \<Longrightarrow> node s i n = Some x \<Longrightarrow> nr_CurrentAttemptID x \<noteq> '''' \<Longrightarrow>
      \<exists>y. attempt s i n (nr_CurrentAttemptID x) = Some y"
    and allocate_inv: "inv s \<Longrightarrow> inv (snd (allocate now i n s))"
    and allocate_blocked: "inv s \<Longrightarrow> node s i n = Some x \<Longrightarrow> \<not> settled_node (attempt s i n) x \<Longrightarrow>
      allocate now i n s = (Inl ErrAttemptNonTerminal, s)"
    and allocate_ok: "inv s \<Longrightarrow> node s i n = Some x \<Longrightarrow> settled_node (attempt s i n) x \<Longrightarrow>
      \<exists>a s'. allocate now i n s = (Inr a, s') \<and>
        ar_RunID a = i \<and> ar_NodeID a = n \<and>
        ar_AttemptID a = DeterministicAttemptID i n (nr_RealizationAttemptCount x + 1) \<and>
        ar_Status a = AttemptStatusPrepared \<and> ar_SubmissionWindowOpenedAt a = None \<and>
        attempt s' i n (ar_AttemptID a) = Some a \<and>
        (\<exists>x'. node s' i n = Some x' \<and> nr_CurrentAttemptID x' = ar_AttemptID a \<and>
           nr_RealizationAttemptCount x' = nr_RealizationAttemptCount x + 1 \<and>
           nr_AttemptCount x' = nr_AttemptCount x)"
    and open_inv: "inv s \<Longrightarrow> inv (snd (open_att i n a t s))"
    and open_ok: "inv s \<Longrightarrow> node s i n = Some x \<Longrightarrow> nr_CurrentAttemptID x = a \<Longrightarrow>
      attempt s i n a = Some y \<Longrightarrow>
      \<exists>s'. open_att i n a t s = (ok, s') \<and>
        attempt s' i n a = Some (y\<lparr>ar_SubmissionWindowOpenedAt := Some t\<rparr>) \<and>
        node s' i n = Some (x\<lparr>nr_AttemptCount := nr_AttemptCount x + 1\<rparr>)"
    and open_stale: "inv s \<Longrightarrow> node s i n = Some x \<Longrightarrow> nr_CurrentAttemptID x \<noteq> a \<Longrightarrow>
      open_att i n a t s = (Inl ErrAttemptNotFound, s)"
    and current_ok: "inv s \<Longrightarrow> node s i n = Some x \<Longrightarrow>
      current i n s = (Inr (if nr_CurrentAttemptID x = '''' then None
                            else attempt s i n (nr_CurrentAttemptID x)), s)"
    and upsert_ok: "inv s \<Longrightarrow> attempt s i n (ar_AttemptID z) = Some y \<Longrightarrow> ar_RunID z = i \<Longrightarrow>
      ar_NodeID z = n \<Longrightarrow>
      \<exists>s'. upsert z s = (ok, s') \<and> inv s' \<and> node s' i n = node s i n \<and>
        attempt s' i n (ar_AttemptID z) = Some z"
begin

text \<open>After an allocation the node is blocked until the new attempt becomes terminal.\<close>

lemma allocate_once:
  assumes "inv s" and "allocate now i n s = (Inr a, s')" and "node s i n = Some x"
  shows "allocate now' i n s' = (Inl ErrAttemptNonTerminal, s')"
proof -
  have set: "settled_node (attempt s i n) x" using allocate_blocked assms by fastforce
  from allocate_ok [OF assms(1,3) set, of now] assms(2) obtain x' where
    x': "node s' i n = Some x'" "nr_CurrentAttemptID x' = ar_AttemptID a"
    "attempt s' i n (ar_AttemptID a) = Some a" "ar_Status a = AttemptStatusPrepared"
    "ar_AttemptID a \<noteq> ''''" by auto
  then have "\<not> settled_node (attempt s' i n) x'" by (simp add: settled_node_def)
  moreover have "inv s'" using allocate_inv [OF assms(1), of now i n] assms(2) by simp
  ultimately show ?thesis using allocate_blocked x'(1) by blast
qed

text \<open>
  Crossing the fence is durable before any later step can allocate again: the attempt that
  \<open>current\<close> returns carries the fence time, exactly one opportunity is consumed, and the node
  stays blocked.
\<close>

lemma fence_protocol:
  assumes "inv s" and "allocate now i n s = (Inr a, s1)" and "node s i n = Some x"
    and "open_att i n (ar_AttemptID a) t s1 = (res, s2)"
  shows "res = ok \<and>
    current i n s2 = (Inr (Some (a\<lparr>ar_SubmissionWindowOpenedAt := Some t\<rparr>)), s2) \<and>
    (\<exists>x2. node s2 i n = Some x2 \<and> nr_AttemptCount x2 = nr_AttemptCount x + 1 \<and>
       nr_RealizationAttemptCount x2 = nr_RealizationAttemptCount x + 1) \<and>
    allocate now' i n s2 = (Inl ErrAttemptNonTerminal, s2)"
proof -
  have set: "settled_node (attempt s i n) x" using allocate_blocked assms(1-3) by fastforce
  from allocate_ok [OF assms(1,3) set, of now] assms(2) obtain x1 where
    x1: "node s1 i n = Some x1" "nr_CurrentAttemptID x1 = ar_AttemptID a"
    "attempt s1 i n (ar_AttemptID a) = Some a" "ar_Status a = AttemptStatusPrepared"
    "ar_AttemptID a \<noteq> ''''" "nr_RealizationAttemptCount x1 = nr_RealizationAttemptCount x + 1"
    "nr_AttemptCount x1 = nr_AttemptCount x" by auto
  have i1: "inv s1" using allocate_inv [OF assms(1), of now i n] assms(2) by simp
  have i2: "inv s2" using open_inv [OF i1, of i n "ar_AttemptID a" t] assms(4) by simp
  from open_ok [OF i1 x1(1,2,3), of t] assms(4)
  have r: "res = ok" and s2: "attempt s2 i n (ar_AttemptID a) = Some (a\<lparr>ar_SubmissionWindowOpenedAt := Some t\<rparr>)"
    "node s2 i n = Some (x1\<lparr>nr_AttemptCount := nr_AttemptCount x1 + 1\<rparr>)" by auto
  have "\<not> settled_node (attempt s2 i n) (x1\<lparr>nr_AttemptCount := nr_AttemptCount x1 + 1\<rparr>)"
    using s2 x1 by (simp add: settled_node_def)
  then have "allocate now' i n s2 = (Inl ErrAttemptNonTerminal, s2)"
    using allocate_blocked [OF i2 s2(2)] by blast
  moreover have "current i n s2 = (Inr (Some (a\<lparr>ar_SubmissionWindowOpenedAt := Some t\<rparr>)), s2)"
    using current_ok [OF i2 s2(2)] s2(1) x1(2,5) by simp
  ultimately show ?thesis using r s2(2) x1(6,7) by simp
qed

text \<open>A terminal record of the current attempt unblocks the next cycle, with the next number.\<close>

lemma terminal_unblocks:
  assumes i: "inv s" and x: "node s i n = Some x" "nr_CurrentAttemptID x \<noteq> ''''"
    and z: "ar_RunID z = i" "ar_NodeID z = n" "ar_AttemptID z = nr_CurrentAttemptID x"
      "AttemptStatus_IsTerminal (ar_Status z)"
    and u: "upsert z s = (res, s1)"
  shows "res = ok \<and> (\<exists>a s2. allocate now i n s1 = (Inr a, s2) \<and>
     ar_AttemptID a = DeterministicAttemptID i n (nr_RealizationAttemptCount x + 1))"
proof -
  obtain y where "attempt s i n (ar_AttemptID z) = Some y" using current_exists [OF i x] z(3) by auto
  from upsert_ok [OF i this z(1,2)] u
  have s1: "res = ok" "inv s1" "node s1 i n = Some x" "attempt s1 i n (nr_CurrentAttemptID x) = Some z"
    using x(1) z(3) by auto
  then have "settled_node (attempt s1 i n) x" using z(4) by (simp add: settled_node_def)
  from allocate_ok [OF s1(2,3) this, of now] s1(1) show ?thesis by blast
qed

end

text \<open>The in-memory registry keeps the contract.\<close>

lemma settled_node_iff:
  "reg_inv r \<Longrightarrow> node_at r i n = Some x \<Longrightarrow>
     settled_node (attempt_at r i n) x \<longleftrightarrow> nr_CurrentAttemptID x = '''' \<or>
       AttemptStatus_IsTerminal (ar_Status (the (attempt_at r i n (nr_CurrentAttemptID x))))"
  using reg_numberedD(2) [OF reg_invD(2)] by (fastforce simp: settled_node_def)

interpretation mem: attempt_store reg_inv node_at attempt_at AllocateCurrentAttempt
  OpenSemanticAttempt GetCurrentAttempt UpsertAttempt
proof (unfold_locales, goal_cases)
  case (1 s i n x)
  then show ?case using reg_numberedD(2) [OF reg_invD(2)] by blast
next
  case (2 s now i n)
  then show ?case by (rule reg_inv_allocate)
next
  case (3 s i n x now)
  then show ?case by (simp add: allocate_cases settled_node_iff)
next
  case (4 s i n x now)
  then show ?case
    by (auto simp: allocate_cases settled_node_iff Let_def zero_defs)
next
  case (5 s i n a t)
  then show ?case by (rule reg_inv_open)
next
  case (6 s i n x a y t)
  then show ?case by (simp add: OpenSemanticAttempt_def lockedGetNode_eq lockedMutateAttempt_eq)
next
  case (7 s i n x a t)
  then show ?case by (simp add: OpenSemanticAttempt_def lockedGetNode_eq)
next
  case (8 s i n x)
  then show ?case by (simp add: GetCurrentAttempt_def lockedGetNode_eq)
next
  case (9 s i n z y)
  have "map_of (attempt_maps s i) n \<noteq> None"
    using 9(2) by (cases "map_of (attempt_maps s i) n") (auto simp: attempt_at_def attempt_map_def)
  moreover have "reg_inv (put_attempt i n (ar_AttemptID z) z s)"
    using reg_inv_put_attempt [OF 9(1,2)] 9(3,4) by simp
  ultimately show ?case using 9 by (simp add: UpsertAttempt_eq)
qed



end
