(* ===== verification/Provenance.thy ===== *)
theory Provenance
  imports Go_Prelude
begin

text \<open>
  \<^verbatim>\<open>pkg/provenance/manifest.go\<close>: the manifest of observed artifacts that a finished node leaves
  behind, its validation, the lookup of an output, and the path under which the manifest of an
  attempt is stored.  The decoding of the JSON document is the argument \<open>unmarshal\<close>.
\<close>

definition DefaultArtifactsManifestPath :: string where
  "DefaultArtifactsManifestPath = ''/out/_meta/artifacts.manifest.json''"

definition ArtifactManifestSchemaVersion :: string where
  "ArtifactManifestSchemaVersion = ''jumi.observedArtifactManifest.v1''"

record ArtifactLineageInput =
  li_InputName :: string
  li_ArtifactDigest :: string
  li_ProducerLogicalURI :: string

record ArtifactLineage =
  ln_Inputs :: "ArtifactLineageInput list"

text \<open>The provenance package has its own location types, with a node-local variant only.\<close>

record ProvNodeLocalLocation =
  pn_NodeName :: string
  pn_Path :: string

record ProvArtifactLocation =
  pa_NodeLocal :: "ProvNodeLocalLocation option"

record ArtifactRecord =
  at_OutputName :: string
  at_DeclaredPath :: string
  at_AbsolutePath :: string
  at_Type :: string
  at_URI :: string
  at_LogicalURI :: string
  at_Digest :: string
  at_SizeBytes :: int
  at_ProducerAttemptID :: string
  at_Locations :: "ProvArtifactLocation list"
  at_Provenance :: "ArtifactLineage option"

record ArtifactManifest =
  am_SchemaVersion :: string
  am_RunID :: string
  am_SampleRunID :: string
  am_NodeID :: string
  am_AttemptID :: string
  am_ContainerName :: string
  am_HelperVersion :: string
  am_CreatedAt :: string
  am_OutputRoot :: string
  am_Artifacts :: "ArtifactRecord list"

fun check_artifacts :: "ArtifactRecord list \<Rightarrow> string list \<Rightarrow> unit result" where
  "check_artifacts [] seen = ok"
| "check_artifacts (a # as) seen =
     (if at_OutputName a = '''' then Inl (Errorf ''artifact outputName is required'')
      else if at_OutputName a \<in> set seen
      then Inl (Errorf (''duplicate artifact outputName '' @ Quote (at_OutputName a)))
      else check_artifacts as (at_OutputName a # seen))"

definition ParseArtifactManifest ::
  "('b \<Rightarrow> ArtifactManifest result) \<Rightarrow> 'b \<Rightarrow> ArtifactManifest result" where
  "ParseArtifactManifest unmarshal data =
     (case unmarshal data of
        Inl e \<Rightarrow> Inl e
      | Inr manifest \<Rightarrow>
          (case check_artifacts (am_Artifacts manifest) [] of
             Inl e \<Rightarrow> Inl e
           | Inr _ \<Rightarrow> Inr manifest))"

fun find_artifact :: "string \<Rightarrow> ArtifactRecord list \<Rightarrow> ArtifactRecord option" where
  "find_artifact name [] = None"
| "find_artifact name (a # as) = (if at_OutputName a = name then Some a else find_artifact name as)"

definition ByOutputName :: "ArtifactManifest \<Rightarrow> string \<Rightarrow> ArtifactRecord option" where
  "ByOutputName m name = find_artifact name (am_Artifacts m)"

definition AttemptArtifactsManifestPath :: "string \<Rightarrow> string \<Rightarrow> string \<Rightarrow> string" where
  "AttemptArtifactsManifestPath runID nodeID attemptID =
     ''/out/_meta/jumi/runs/'' @ PathEscape runID @ ''/nodes/'' @ PathEscape nodeID
       @ ''/attempts/'' @ PathEscape attemptID @ ''/artifacts.manifest.json''"

subsection \<open>Properties\<close>

lemma check_artifacts_iff:
  "check_artifacts as seen = ok \<longleftrightarrow>
     '''' \<notin> at_OutputName ` set as \<and> distinct (map at_OutputName as) \<and>
     at_OutputName ` set as \<inter> set seen = {}"
  by (induction as arbitrary: seen) auto

lemma find_artifact_iff:
  "distinct (map at_OutputName as) \<Longrightarrow>
     find_artifact name as = Some a \<longleftrightarrow> a \<in> set as \<and> at_OutputName a = name"
  by (induction as) (auto simp: rev_image_eqI)

text \<open>
  C7: a manifest is accepted exactly when it decodes and its outputs have distinct non-empty names,
  it is returned as decoded, and every name then determines the artifact that the lookup returns.
\<close>

theorem ParseArtifactManifest_unique_outputs:
  "ParseArtifactManifest unmarshal data = Inr m \<longleftrightarrow>
     unmarshal data = Inr m \<and> '''' \<notin> at_OutputName ` set (am_Artifacts m) \<and>
     distinct (map at_OutputName (am_Artifacts m)) \<and>
     (\<forall>name a. ByOutputName m name = Some a \<longleftrightarrow>
        a \<in> set (am_Artifacts m) \<and> at_OutputName a = name)"
proof -
  have "ParseArtifactManifest unmarshal data = Inr m \<longleftrightarrow>
      unmarshal data = Inr m \<and> check_artifacts (am_Artifacts m) [] = ok"
    by (auto simp: ParseArtifactManifest_def split: sum.splits)
  then show ?thesis by (auto simp: check_artifacts_iff ByOutputName_def find_artifact_iff)
qed

lemma append_slash_inj:
  assumes "CHR ''/'' \<notin> set a" and "CHR ''/'' \<notin> set b" and "a @ CHR ''/'' # x = b @ CHR ''/'' # y"
  shows "a = b \<and> x = y"
  using assms by (induction a arbitrary: b) (auto simp: Cons_eq_append_conv append_eq_Cons_conv)

text \<open>
  The manifest path of an attempt determines its run, node and attempt, whatever characters the
  ids contain, so two attempts never share a manifest file.
\<close>

theorem AttemptArtifactsManifestPath_inj:
  "AttemptArtifactsManifestPath r n a = AttemptArtifactsManifestPath r' n' a' \<longleftrightarrow>
     r = r' \<and> n = n' \<and> a = a'"
proof
  assume "AttemptArtifactsManifestPath r n a = AttemptArtifactsManifestPath r' n' a'"
  then have "PathEscape r @ CHR ''/'' # (''nodes/'' @ PathEscape n @ ''/attempts/'' @ PathEscape a
        @ ''/artifacts.manifest.json'')
    = PathEscape r' @ CHR ''/'' # (''nodes/'' @ PathEscape n' @ ''/attempts/'' @ PathEscape a'
        @ ''/artifacts.manifest.json'')" by (simp add: AttemptArtifactsManifestPath_def)
  from append_slash_inj [OF PathEscape_no_slash PathEscape_no_slash this]
  have r: "PathEscape r = PathEscape r'"
    and "PathEscape n @ CHR ''/'' # (''attempts/'' @ PathEscape a @ ''/artifacts.manifest.json'')
      = PathEscape n' @ CHR ''/'' # (''attempts/'' @ PathEscape a' @ ''/artifacts.manifest.json'')"
    by simp_all
  from append_slash_inj [OF PathEscape_no_slash PathEscape_no_slash this(2)]
  have "PathEscape n = PathEscape n'" "PathEscape a = PathEscape a'" by simp_all
  with r show "r = r' \<and> n = n' \<and> a = a'" by (simp add: PathEscape_inj)
qed simp

end
