(* ===== verification/Handoff.thy ===== *)
theory Handoff
  imports Go_Prelude
begin

text \<open>
  \<^verbatim>\<open>pkg/handoff\<close>: the client side of the artifact-handoff service.  The data of \<^verbatim>\<open>client.go\<close>, the
  normalisation of a resolve response, the no-op client and the HTTP client.

  What is outside the repository is an argument: \<open>hc_Do\<close> is the HTTP transport, \<open>hc_NewRequest\<close>
  the check \<^verbatim>\<open>http.NewRequestWithContext\<close> makes of a URL, and the response decoders are functions
  from body bytes.  A marshalled body is the value that is marshalled (every body consists of
  strings, booleans and integers, which always marshal).
\<close>

subsection \<open>Data\<close>

record ResolveBindingRequest =
  rq_RunID :: string
  rq_SampleRunID :: string
  rq_ChildNodeID :: string
  rq_BindingName :: string
  rq_ChildInputName :: string
  rq_ProducerNodeID :: string
  rq_ProducerAttemptID :: string
  rq_ChildAttemptID :: string
  rq_ProducerOutputName :: string
  rq_ArtifactID :: string
  rq_ConsumePolicy :: string
  rq_ExpectedDigest :: string
  rq_Required :: bool
  rq_TargetNodeName :: string

record PlacementIntent =
  pi_Mode :: string
  pi_NodeName :: string

record NodeLocalLocation =
  nl_NodeName :: string
  nl_Path :: string

record HTTPSource =
  hs_URI :: string
  hs_Headers :: "(string, string) gomap"

record ArtifactLocation =
  al_NodeLocal :: "NodeLocalLocation option"
  al_HTTP :: "HTTPSource option"

record MaterializationPlan =
  mp_Mode :: string
  mp_URI :: string
  mp_ExpectedDigest :: string
  mp_ExpectedSize :: int
  mp_SourceLocation :: "ArtifactLocation option"
  mp_LocalPath :: string

record MaterializationCondition =
  mc_Kind :: string
  mc_NodeName :: string
  mc_BackendID :: string
  mc_SourceRef :: string
  mc_State :: string

record MaterializationCandidate =
  cd_Priority :: int
  cd_Mode :: string
  cd_SourceRef :: string
  cd_ExpectedDigest :: string
  cd_ExpectedSize :: int
  cd_LocalPath :: string
  cd_SourceLocation :: "ArtifactLocation option"
  cd_URI :: string
  cd_Conditions :: "MaterializationCondition list"

record ResolveBindingResponse =
  rs_ResolutionStatus :: string
  rs_Decision :: string
  rs_PlacementIntent :: PlacementIntent
  rs_MaterializationPlan :: MaterializationPlan
  rs_MaterializationCandidates :: "MaterializationCandidate list"
  rs_Reason :: string
  rs_Retryable :: bool
  rs_SourceNodeName :: string
  rs_ArtifactURI :: string
  rs_RequiresMaterialization :: bool

record NotifyNodeTerminalRequest =
  nt_SampleRunID :: string
  nt_NodeID :: string
  nt_AttemptID :: string
  nt_TerminalState :: string

record FinalizeSampleRunRequest =
  fs_SampleRunID :: string

record EvaluateGCRequest =
  gc_SampleRunID :: string

record GetSampleRunLifecycleRequest =
  lc_SampleRunID :: string

record SampleRunLifecycle =
  sl_SampleRunID :: string
  sl_Finalized :: bool
  sl_FinalizedAt :: string
  sl_RetentionPolicySource :: string
  sl_RetentionDuration :: string
  sl_RetentionUntil :: string
  sl_GCEligible :: bool
  sl_GCEligibleAt :: string
  sl_GCBlockedReason :: string
  sl_TerminalNodeCount :: int
  sl_SucceededNodeCount :: int
  sl_FailedNodeCount :: int
  sl_CanceledNodeCount :: int
  sl_RetainedArtifactCount :: int
  sl_RetainedArtifactBytes :: int

record RegisterArtifactRequest =
  ra_SampleRunID :: string
  ra_ProducerNodeID :: string
  ra_ProducerAttemptID :: string
  ra_OutputName :: string
  ra_ArtifactID :: string
  ra_Digest :: string
  ra_NodeName :: string
  ra_URI :: string
  ra_LogicalURI :: string
  ra_Locations :: "ArtifactLocation list"
  ra_SizeBytes :: int

definition zero_MaterializationPlan :: MaterializationPlan where
  "zero_MaterializationPlan = \<lparr>mp_Mode = '''', mp_URI = '''', mp_ExpectedDigest = '''',
     mp_ExpectedSize = 0, mp_SourceLocation = None, mp_LocalPath = ''''\<rparr>"

definition zero_ResolveBindingResponse :: ResolveBindingResponse where
  "zero_ResolveBindingResponse = \<lparr>rs_ResolutionStatus = '''', rs_Decision = '''',
     rs_PlacementIntent = \<lparr>pi_Mode = '''', pi_NodeName = ''''\<rparr>,
     rs_MaterializationPlan = zero_MaterializationPlan, rs_MaterializationCandidates = [],
     rs_Reason = '''', rs_Retryable = False, rs_SourceNodeName = '''', rs_ArtifactURI = '''',
     rs_RequiresMaterialization = False\<rparr>"

definition zero_SampleRunLifecycle :: SampleRunLifecycle where
  "zero_SampleRunLifecycle = \<lparr>sl_SampleRunID = '''', sl_Finalized = False, sl_FinalizedAt = '''',
     sl_RetentionPolicySource = '''', sl_RetentionDuration = '''', sl_RetentionUntil = '''',
     sl_GCEligible = False, sl_GCEligibleAt = '''', sl_GCBlockedReason = '''',
     sl_TerminalNodeCount = 0, sl_SucceededNodeCount = 0, sl_FailedNodeCount = 0,
     sl_CanceledNodeCount = 0, sl_RetainedArtifactCount = 0, sl_RetainedArtifactBytes = 0\<rparr>"

lemmas handoff_zero_defs = zero_MaterializationPlan_def zero_ResolveBindingResponse_def
  zero_SampleRunLifecycle_def

subsection \<open>Normalisation of a resolve response\<close>

definition isZeroMaterializationPlan :: "MaterializationPlan \<Rightarrow> bool" where
  "isZeroMaterializationPlan plan \<longleftrightarrow>
     TrimSpace (mp_Mode plan) = '''' \<and> TrimSpace (mp_URI plan) = '''' \<and>
     TrimSpace (mp_ExpectedDigest plan) = '''' \<and> mp_SourceLocation plan = None \<and>
     TrimSpace (mp_LocalPath plan) = ''''"

definition planFromCandidate :: "MaterializationCandidate \<Rightarrow> MaterializationPlan" where
  "planFromCandidate c = \<lparr>mp_Mode = cd_Mode c, mp_URI = cd_URI c,
     mp_ExpectedDigest = cd_ExpectedDigest c, mp_ExpectedSize = cd_ExpectedSize c,
     mp_SourceLocation = cd_SourceLocation c, mp_LocalPath = cd_LocalPath c\<rparr>"

definition redactArtifactLocation :: "ArtifactLocation option \<Rightarrow> ArtifactLocation option" where
  "redactArtifactLocation loc =
     (case loc of
        None \<Rightarrow> None
      | Some l \<Rightarrow>
          (case al_HTTP l of
             None \<Rightarrow> Some l
           | Some h \<Rightarrow> Some (l\<lparr>al_HTTP := Some (h\<lparr>hs_Headers := []\<rparr>)\<rparr>)))"

definition redactResolveBindingResponse :: "ResolveBindingResponse \<Rightarrow> ResolveBindingResponse" where
  "redactResolveBindingResponse r =
     r\<lparr>rs_MaterializationPlan := (rs_MaterializationPlan r)
          \<lparr>mp_SourceLocation := redactArtifactLocation (mp_SourceLocation (rs_MaterializationPlan r))\<rparr>,
       rs_MaterializationCandidates :=
          map (\<lambda>c. c\<lparr>cd_SourceLocation := redactArtifactLocation (cd_SourceLocation c)\<rparr>)
              (rs_MaterializationCandidates r)\<rparr>"

definition normalizeResolveBindingResponse :: "ResolveBindingResponse \<Rightarrow> ResolveBindingResponse" where
  "normalizeResolveBindingResponse r =
     (let r = (if pi_NodeName (rs_PlacementIntent r) = '''' \<and> rs_SourceNodeName r \<noteq> ''''
               then r\<lparr>rs_PlacementIntent := (rs_PlacementIntent r)\<lparr>pi_NodeName := rs_SourceNodeName r\<rparr>\<rparr>
               else r);
          r = (if pi_Mode (rs_PlacementIntent r) = '''' \<and> pi_NodeName (rs_PlacementIntent r) \<noteq> ''''
               then r\<lparr>rs_PlacementIntent := (rs_PlacementIntent r)\<lparr>pi_Mode := ''required_node''\<rparr>\<rparr>
               else r);
          r = (case rs_MaterializationCandidates r of
                 [] \<Rightarrow> r
               | c # _ \<Rightarrow>
                   if isZeroMaterializationPlan (rs_MaterializationPlan r)
                   then r\<lparr>rs_MaterializationPlan := planFromCandidate c\<rparr> else r);
          r = redactResolveBindingResponse r;
          r = (if mp_URI (rs_MaterializationPlan r) = '''' \<and> rs_ArtifactURI r \<noteq> ''''
               then r\<lparr>rs_MaterializationPlan := (rs_MaterializationPlan r)\<lparr>mp_URI := rs_ArtifactURI r\<rparr>\<rparr>
               else r)
      in if mp_Mode (rs_MaterializationPlan r) = ''''
         then r\<lparr>rs_MaterializationPlan := (rs_MaterializationPlan r)
                  \<lparr>mp_Mode := if rs_RequiresMaterialization r then ''remote_fetch''
                             else if mp_URI (rs_MaterializationPlan r) \<noteq> '''' then ''remote_fetch''
                             else ''none''\<rparr>\<rparr>
         else r)"

subsection \<open>The no-op client\<close>

definition Noop_ResolveBinding :: "ResolveBindingRequest \<Rightarrow> ResolveBindingResponse result" where
  "Noop_ResolveBinding req = Inr (normalizeResolveBindingResponse
     (zero_ResolveBindingResponse
        \<lparr>rs_ResolutionStatus := ''RESOLVED'', rs_Decision := ''noop'',
         rs_PlacementIntent := \<lparr>pi_Mode = ''preferred_node'',
           pi_NodeName = FirstNonEmpty [rq_TargetNodeName req, rq_ProducerNodeID req]\<rparr>,
         rs_MaterializationPlan := zero_MaterializationPlan\<lparr>mp_Mode := ''none''\<rparr>\<rparr>))"

definition Noop_RegisterArtifact :: "RegisterArtifactRequest \<Rightarrow> unit result" where
  "Noop_RegisterArtifact req = ok"

definition Noop_NotifyNodeTerminal :: "NotifyNodeTerminalRequest \<Rightarrow> unit result" where
  "Noop_NotifyNodeTerminal req = ok"

definition Noop_FinalizeSampleRun :: "FinalizeSampleRunRequest \<Rightarrow> unit result" where
  "Noop_FinalizeSampleRun req = ok"

definition Noop_EvaluateGC :: "EvaluateGCRequest \<Rightarrow> unit result" where
  "Noop_EvaluateGC req = ok"

definition Noop_GetSampleRunLifecycle ::
  "GetSampleRunLifecycleRequest \<Rightarrow> (SampleRunLifecycle \<times> bool) result" where
  "Noop_GetSampleRunLifecycle req =
     Inr (zero_SampleRunLifecycle\<lparr>sl_SampleRunID := lc_SampleRunID req\<rparr>, False)"

subsection \<open>The HTTP client\<close>

text \<open>The binding as it travels: the request without its run id.\<close>

record WireBinding =
  wb_BindingName :: string
  wb_SampleRunID :: string
  wb_ChildNodeID :: string
  wb_ChildInputName :: string
  wb_ProducerNodeID :: string
  wb_ProducerAttemptID :: string
  wb_ChildAttemptID :: string
  wb_ProducerOutputName :: string
  wb_ArtifactID :: string
  wb_ConsumePolicy :: string
  wb_ExpectedDigest :: string
  wb_Required :: bool

definition wire_binding :: "ResolveBindingRequest \<Rightarrow> WireBinding" where
  "wire_binding req = \<lparr>wb_BindingName = rq_BindingName req, wb_SampleRunID = rq_SampleRunID req,
     wb_ChildNodeID = rq_ChildNodeID req, wb_ChildInputName = rq_ChildInputName req,
     wb_ProducerNodeID = rq_ProducerNodeID req, wb_ProducerAttemptID = rq_ProducerAttemptID req,
     wb_ChildAttemptID = rq_ChildAttemptID req, wb_ProducerOutputName = rq_ProducerOutputName req,
     wb_ArtifactID = rq_ArtifactID req, wb_ConsumePolicy = rq_ConsumePolicy req,
     wb_ExpectedDigest = rq_ExpectedDigest req, wb_Required = rq_Required req\<rparr>"

datatype http_payload = NoBody
  | ResolveBody WireBinding string
  | RegisterBody RegisterArtifactRequest
  | NotifyBody NotifyNodeTerminalRequest
  | FinalizeBody FinalizeSampleRunRequest
  | EvaluateBody EvaluateGCRequest

record http_request =
  hr_Method :: string
  hr_URL :: string
  hr_ContentType :: string
  hr_Body :: http_payload

record http_response =
  hp_StatusCode :: int
  hp_Body :: string

record HTTPClient =
  hc_baseURL :: string
  hc_NewRequest :: "string \<Rightarrow> string \<Rightarrow> go_error option"
  hc_Do :: "http_request \<Rightarrow> http_response result"

definition TrimRight :: "string \<Rightarrow> string \<Rightarrow> string" where
  "TrimRight s cutset = rev (dropWhile (\<lambda>c. c \<in> set cutset) (rev s))"

definition NewHTTPClientWithClient ::
  "string \<Rightarrow> (string \<Rightarrow> string \<Rightarrow> go_error option) \<Rightarrow> (http_request \<Rightarrow> http_response result)
     \<Rightarrow> HTTPClient" where
  "NewHTTPClientWithClient baseURL newRequest doReq =
     \<lparr>hc_baseURL = TrimRight baseURL ''/'', hc_NewRequest = newRequest, hc_Do = doReq\<rparr>"

text \<open>The shape every POST method has: build the request, send it, reject a status of 300 or more.\<close>

definition http_post :: "HTTPClient \<Rightarrow> string \<Rightarrow> string \<Rightarrow> http_payload \<Rightarrow> http_response result" where
  "http_post c path op payload =
     (let url = hc_baseURL c @ path in
      case hc_NewRequest c ''POST'' url of
        Some e \<Rightarrow> Inl e
      | None \<Rightarrow>
          (case hc_Do c \<lparr>hr_Method = ''POST'', hr_URL = url, hr_ContentType = ''application/json'',
                         hr_Body = payload\<rparr> of
             Inl e \<Rightarrow> Inl e
           | Inr resp \<Rightarrow>
               if hp_StatusCode resp \<ge> 300 then Inl (HTTPError (hp_StatusCode resp) op) else Inr resp))"

definition http_post_unit :: "HTTPClient \<Rightarrow> string \<Rightarrow> string \<Rightarrow> http_payload \<Rightarrow> unit result" where
  "http_post_unit c path op payload =
     (case http_post c path op payload of Inl e \<Rightarrow> Inl e | Inr _ \<Rightarrow> ok)"

definition HTTP_ResolveBinding ::
  "(string \<Rightarrow> ResolveBindingResponse result) \<Rightarrow> HTTPClient \<Rightarrow> ResolveBindingRequest
     \<Rightarrow> ResolveBindingResponse result" where
  "HTTP_ResolveBinding decode c req =
     (case http_post c ''/v1/handoffs:resolve'' ''resolve''
             (ResolveBody (wire_binding req) (rq_TargetNodeName req)) of
        Inl e \<Rightarrow> Inl e
      | Inr resp \<Rightarrow>
          (case decode (hp_Body resp) of
             Inl e \<Rightarrow> Inl e
           | Inr resolved \<Rightarrow> Inr (normalizeResolveBindingResponse resolved)))"

definition HTTP_RegisterArtifact :: "HTTPClient \<Rightarrow> RegisterArtifactRequest \<Rightarrow> unit result" where
  "HTTP_RegisterArtifact c req =
     http_post_unit c ''/v1/artifacts:register'' ''register artifact'' (RegisterBody req)"

definition HTTP_NotifyNodeTerminal :: "HTTPClient \<Rightarrow> NotifyNodeTerminalRequest \<Rightarrow> unit result" where
  "HTTP_NotifyNodeTerminal c req =
     http_post_unit c ''/v1/nodes:notifyTerminal'' ''notify node terminal'' (NotifyBody req)"

definition HTTP_FinalizeSampleRun :: "HTTPClient \<Rightarrow> FinalizeSampleRunRequest \<Rightarrow> unit result" where
  "HTTP_FinalizeSampleRun c req =
     http_post_unit c ''/v1/sampleRuns:finalize'' ''finalize sample run'' (FinalizeBody req)"

definition HTTP_EvaluateGC :: "HTTPClient \<Rightarrow> EvaluateGCRequest \<Rightarrow> unit result" where
  "HTTP_EvaluateGC c req =
     http_post_unit c ''/v1/sampleRuns:evaluateGC'' ''evaluate gc'' (EvaluateBody req)"

definition HTTP_GetSampleRunLifecycle ::
  "(string \<Rightarrow> SampleRunLifecycle result) \<Rightarrow> HTTPClient \<Rightarrow> GetSampleRunLifecycleRequest
     \<Rightarrow> (SampleRunLifecycle \<times> bool) result" where
  "HTTP_GetSampleRunLifecycle decode c req =
     (let url = hc_baseURL c @ ''/v1/sampleRuns:lifecycle?sampleRunId=''
                  @ QueryEscape (lc_SampleRunID req) in
      case hc_NewRequest c ''GET'' url of
        Some e \<Rightarrow> Inl e
      | None \<Rightarrow>
          (case hc_Do c \<lparr>hr_Method = ''GET'', hr_URL = url, hr_ContentType = '''', hr_Body = NoBody\<rparr> of
             Inl e \<Rightarrow> Inl e
           | Inr resp \<Rightarrow>
               if hp_StatusCode resp = 200
               then (case decode (hp_Body resp) of
                       Inl e \<Rightarrow> Inl e
                     | Inr lifecycle \<Rightarrow> Inr (lifecycle, True))
               else if hp_StatusCode resp = 404 then Inr (zero_SampleRunLifecycle, False)
               else Inl (HTTPError (hp_StatusCode resp) ''get sample run lifecycle'')))"

subsection \<open>Properties\<close>

text \<open>The result of the normalisation, field by field.\<close>

definition chosen_plan :: "ResolveBindingResponse \<Rightarrow> MaterializationPlan" where
  "chosen_plan r =
     (if rs_MaterializationCandidates r \<noteq> [] \<and> isZeroMaterializationPlan (rs_MaterializationPlan r)
      then planFromCandidate (hd (rs_MaterializationCandidates r)) else rs_MaterializationPlan r)"

definition chosen_uri :: "ResolveBindingResponse \<Rightarrow> string" where
  "chosen_uri r = FirstNonEmpty [mp_URI (chosen_plan r), rs_ArtifactURI r]"

definition chosen_mode :: "ResolveBindingResponse \<Rightarrow> string" where
  "chosen_mode r = FirstNonEmpty [mp_Mode (chosen_plan r),
     if rs_RequiresMaterialization r \<or> chosen_uri r \<noteq> '''' then ''remote_fetch'' else ''none'']"

definition chosen_node :: "ResolveBindingResponse \<Rightarrow> string" where
  "chosen_node r = FirstNonEmpty [pi_NodeName (rs_PlacementIntent r), rs_SourceNodeName r]"

lemma normalize_eq:
  "normalizeResolveBindingResponse r =
     r\<lparr>rs_PlacementIntent :=
         \<lparr>pi_Mode = if pi_Mode (rs_PlacementIntent r) = '''' \<and> chosen_node r \<noteq> ''''
                    then ''required_node'' else pi_Mode (rs_PlacementIntent r),
          pi_NodeName = chosen_node r\<rparr>,
       rs_MaterializationPlan := (chosen_plan r)
         \<lparr>mp_SourceLocation := redactArtifactLocation (mp_SourceLocation (chosen_plan r)),
          mp_URI := chosen_uri r, mp_Mode := chosen_mode r\<rparr>,
       rs_MaterializationCandidates :=
         map (\<lambda>c. c\<lparr>cd_SourceLocation := redactArtifactLocation (cd_SourceLocation c)\<rparr>)
           (rs_MaterializationCandidates r)\<rparr>"
proof -
  let ?p = "chosen_plan r"
  let ?r1 = "r\<lparr>rs_PlacementIntent :=
         \<lparr>pi_Mode = if pi_Mode (rs_PlacementIntent r) = '''' \<and> chosen_node r \<noteq> ''''
                    then ''required_node'' else pi_Mode (rs_PlacementIntent r),
          pi_NodeName = chosen_node r\<rparr>\<rparr>"
  have s1: "(let r = (if pi_NodeName (rs_PlacementIntent r) = '''' \<and> rs_SourceNodeName r \<noteq> ''''
               then r\<lparr>rs_PlacementIntent := (rs_PlacementIntent r)\<lparr>pi_NodeName := rs_SourceNodeName r\<rparr>\<rparr>
               else r) in
          if pi_Mode (rs_PlacementIntent r) = '''' \<and> pi_NodeName (rs_PlacementIntent r) \<noteq> ''''
               then r\<lparr>rs_PlacementIntent := (rs_PlacementIntent r)\<lparr>pi_Mode := ''required_node''\<rparr>\<rparr>
               else r) = ?r1"
    by (cases "rs_PlacementIntent r") (auto simp: chosen_node_def Let_def)
  have s2: "(case rs_MaterializationCandidates ?r1 of
                 [] \<Rightarrow> ?r1
               | c # _ \<Rightarrow>
                   if isZeroMaterializationPlan (rs_MaterializationPlan ?r1)
                   then ?r1\<lparr>rs_MaterializationPlan := planFromCandidate c\<rparr> else ?r1)
      = ?r1\<lparr>rs_MaterializationPlan := ?p\<rparr>"
    by (cases "rs_MaterializationCandidates r") (simp_all add: chosen_plan_def)
  show ?thesis
    unfolding normalizeResolveBindingResponse_def
    by (simp only: s1 [unfolded Let_def] Let_def s2)
      (simp add: redactResolveBindingResponse_def chosen_uri_def chosen_mode_def)
qed

lemma redact_idem [simp]: "redactArtifactLocation (redactArtifactLocation l) = redactArtifactLocation l"
  by (simp add: redactArtifactLocation_def split: option.splits)

lemma redact_None [simp]: "redactArtifactLocation l = None \<longleftrightarrow> l = None"
  by (simp add: redactArtifactLocation_def split: option.splits)

definition no_headers :: "ArtifactLocation option \<Rightarrow> bool" where
  "no_headers l \<longleftrightarrow> (\<forall>x h. l = Some x \<longrightarrow> al_HTTP x = Some h \<longrightarrow> hs_Headers h = [])"

lemma redact_no_headers: "no_headers (redactArtifactLocation l)"
  by (auto simp: no_headers_def redactArtifactLocation_def split: option.splits)

lemma chosen_plan_normalized:
  "chosen_plan (normalizeResolveBindingResponse r) =
     (if isZeroMaterializationPlan (rs_MaterializationPlan (normalizeResolveBindingResponse r)) \<and>
         rs_MaterializationCandidates r \<noteq> []
      then planFromCandidate ((hd (rs_MaterializationCandidates r))
        \<lparr>cd_SourceLocation := redactArtifactLocation (cd_SourceLocation (hd (rs_MaterializationCandidates r)))\<rparr>)
      else rs_MaterializationPlan (normalizeResolveBindingResponse r))"
  by (cases "rs_MaterializationCandidates r") (simp_all add: chosen_plan_def normalize_eq)

text \<open>
  A plan that is still blank after the normalisation was taken from the first candidate, or there
  is no candidate: taking it again gives the same plan.
\<close>

lemma blank_again:
  assumes z: "isZeroMaterializationPlan (rs_MaterializationPlan (normalizeResolveBindingResponse r))"
    and c: "rs_MaterializationCandidates r \<noteq> []"
  shows "chosen_plan r = planFromCandidate (hd (rs_MaterializationCandidates r))"
proof -
  let ?p = "chosen_plan r"
  from z have "TrimSpace (chosen_mode r) = ''''" "TrimSpace (chosen_uri r) = ''''"
    "TrimSpace (mp_ExpectedDigest ?p) = ''''" "mp_SourceLocation ?p = None"
    "TrimSpace (mp_LocalPath ?p) = ''''"
    by (simp_all add: isZeroMaterializationPlan_def normalize_eq)
  moreover from this(1,2) have "TrimSpace (mp_Mode ?p) = ''''" "TrimSpace (mp_URI ?p) = ''''"
    by (auto simp: chosen_mode_def chosen_uri_def split: if_splits)
  ultimately have "isZeroMaterializationPlan ?p" by (simp add: isZeroMaterializationPlan_def)
  then show ?thesis using c by (auto simp: chosen_plan_def split: if_splits)
qed

lemma normalize_idem:
  "normalizeResolveBindingResponse (normalizeResolveBindingResponse r) = normalizeResolveBindingResponse r"
proof -
  let ?n = "normalizeResolveBindingResponse r"
  have node: "chosen_node ?n = chosen_node r" by (simp add: chosen_node_def normalize_eq)
  have flags: "rs_ArtifactURI ?n = rs_ArtifactURI r"
    "rs_RequiresMaterialization ?n = rs_RequiresMaterialization r" by (simp_all add: normalize_eq)
  have np: "rs_MaterializationPlan ?n = (chosen_plan r)
      \<lparr>mp_SourceLocation := redactArtifactLocation (mp_SourceLocation (chosen_plan r)),
       mp_URI := chosen_uri r, mp_Mode := chosen_mode r\<rparr>" by (simp add: normalize_eq)
  have plan: "(chosen_plan ?n)\<lparr>mp_SourceLocation := redactArtifactLocation (mp_SourceLocation (chosen_plan ?n)),
        mp_URI := chosen_uri ?n, mp_Mode := chosen_mode ?n\<rparr> = rs_MaterializationPlan ?n"
  proof (cases "isZeroMaterializationPlan (rs_MaterializationPlan ?n) \<and> rs_MaterializationCandidates r \<noteq> []")
    case True
    let ?c = "hd (rs_MaterializationCandidates r)"
    have p: "chosen_plan r = planFromCandidate ?c" using blank_again True by blast
    have q: "chosen_plan ?n = (planFromCandidate ?c)
        \<lparr>mp_SourceLocation := redactArtifactLocation (cd_SourceLocation ?c)\<rparr>"
      using True by (simp add: chosen_plan_normalized planFromCandidate_def)
    have u: "chosen_uri ?n = chosen_uri r" by (simp add: chosen_uri_def p q flags)
    have m: "chosen_mode ?n = chosen_mode r" unfolding chosen_mode_def u by (simp add: p q flags)
    show ?thesis unfolding q u m np p by (simp add: planFromCandidate_def)
  next
    case False
    then have q: "chosen_plan ?n = rs_MaterializationPlan ?n" by (simp only: chosen_plan_normalized if_False)
    have f: "mp_URI (rs_MaterializationPlan ?n) = chosen_uri r"
      "mp_Mode (rs_MaterializationPlan ?n) = chosen_mode r" by (simp_all add: normalize_eq)
    have u: "chosen_uri ?n = chosen_uri r"
      unfolding chosen_uri_def [of ?n] q f flags by (simp add: chosen_uri_def)
    have m: "chosen_mode ?n = chosen_mode r"
      unfolding chosen_mode_def [of ?n] q f u flags by (simp add: chosen_mode_def)
    show ?thesis unfolding q u m np by simp
  qed
  show ?thesis
    unfolding normalize_eq [of ?n] plan node by (simp add: normalize_eq [of r])
qed


definition demo_request :: ResolveBindingRequest where
  "demo_request = \<lparr>rq_RunID = ''r'', rq_SampleRunID = ''s'', rq_ChildNodeID = ''c'',
     rq_BindingName = ''b'', rq_ChildInputName = ''i'', rq_ProducerNodeID = ''p'',
     rq_ProducerAttemptID = '''', rq_ChildAttemptID = '''', rq_ProducerOutputName = ''o'',
     rq_ArtifactID = '''', rq_ConsumePolicy = '''', rq_ExpectedDigest = '''', rq_Required = True,
     rq_TargetNodeName = ''''\<rparr>"


text \<open>
  An HTTP call of the client returns an error exactly when the request cannot be built, the
  transport fails, or the service answers with a status of 300 or more, and in the last case the
  error carries that status and the name of the operation; the lifecycle query treats 404 as absent.
\<close>

theorem HTTP_status_errors:
  assumes "hc_NewRequest c = (\<lambda>_ _. None)" and "\<And>q. hc_Do c q = Inr \<lparr>hp_StatusCode = code, hp_Body = body\<rparr>"
  shows "HTTP_RegisterArtifact c ra = (if code \<ge> 300 then Inl (HTTPError code ''register artifact'') else ok) \<and>
    HTTP_NotifyNodeTerminal c nt = (if code \<ge> 300 then Inl (HTTPError code ''notify node terminal'') else ok) \<and>
    HTTP_FinalizeSampleRun c fs = (if code \<ge> 300 then Inl (HTTPError code ''finalize sample run'') else ok) \<and>
    HTTP_EvaluateGC c gc = (if code \<ge> 300 then Inl (HTTPError code ''evaluate gc'') else ok) \<and>
    (code \<ge> 300 \<longrightarrow> HTTP_ResolveBinding decode c req = Inl (HTTPError code ''resolve'')) \<and>
    (code = 404 \<longrightarrow> HTTP_GetSampleRunLifecycle decodeL c lc = Inr (zero_SampleRunLifecycle, False)) \<and>
    (code \<noteq> 200 \<and> code \<noteq> 404 \<longrightarrow>
       HTTP_GetSampleRunLifecycle decodeL c lc = Inl (HTTPError code ''get sample run lifecycle''))"
  using assms
  by (simp add: HTTP_RegisterArtifact_def HTTP_NotifyNodeTerminal_def HTTP_FinalizeSampleRun_def
      HTTP_EvaluateGC_def HTTP_ResolveBinding_def HTTP_GetSampleRunLifecycle_def
      http_post_unit_def http_post_def Let_def)

theorem HTTP_status_errors_witness:
  "HTTP_FinalizeSampleRun (NewHTTPClientWithClient ''http://h/'' (\<lambda>_ _. None)
     (\<lambda>_. Inr \<lparr>hp_StatusCode = 503, hp_Body = ''''\<rparr>)) \<lparr>fs_SampleRunID = ''s''\<rparr>
   = Inl (HTTPError 503 ''finalize sample run'')"
  using HTTP_status_errors [of "NewHTTPClientWithClient ''http://h/'' (\<lambda>_ _. None)
     (\<lambda>_. Inr \<lparr>hp_StatusCode = 503, hp_Body = ''''\<rparr>)" 503 "''''"]
  by (simp add: NewHTTPClientWithClient_def)

end
