(* ===== verification/Reconcile.thy ===== *)
theory Reconcile
  imports Registry
begin

text \<open>
  The pure half of \<^verbatim>\<open>pkg/executor/reconcile.go\<close>: the classification of a node's durable truth that
  every node runner makes before it does anything else.  The pair \<^verbatim>\<open>(attempt, hasAttempt)\<close> of the
  source is an option.
\<close>

datatype ReconcileDecision = ReconcileFresh | ReconcileResumePreFence | ReconcileReattach
  | ReconcileResolveByIdentity | ReconcileTerminalRepair

fun ReconcileDecision_String :: "ReconcileDecision \<Rightarrow> string" where
  "ReconcileDecision_String ReconcileFresh = ''fresh''"
| "ReconcileDecision_String ReconcileResumePreFence = ''resume_pre_fence''"
| "ReconcileDecision_String ReconcileReattach = ''reattach''"
| "ReconcileDecision_String ReconcileResolveByIdentity = ''resolve_by_identity''"
| "ReconcileDecision_String ReconcileTerminalRepair = ''terminal_repair''"

definition ClassifyReconcile :: "NodeRecord \<Rightarrow> AttemptRecord option \<Rightarrow> ReconcileDecision" where
  "ClassifyReconcile node attempt =
     (if NodeStatus_IsTerminal (nr_Status node) then ReconcileTerminalRepair
      else case attempt of
        Some a \<Rightarrow>
          if AttemptStatus_IsTerminal (ar_Status a)
          then (if ar_RealizationReattemptableAt a \<noteq> None \<and> ar_SubmissionWindowOpenedAt a = None
                then ReconcileFresh else ReconcileTerminalRepair)
          else if nr_CurrentAttemptHandleJSON node \<noteq> '''' \<or> ar_BackendHandleJSON a \<noteq> ''''
          then ReconcileReattach
          else if nr_CurrentAttemptID node = '''' then ReconcileFresh
          else if ar_SubmissionWindowOpenedAt a \<noteq> None then ReconcileResolveByIdentity
          else ReconcileResumePreFence
      | None \<Rightarrow>
          if nr_CurrentAttemptHandleJSON node \<noteq> '''' then ReconcileReattach else ReconcileFresh)"

lemma ReconcileDecision_String_inj: "ReconcileDecision_String d = ReconcileDecision_String d' \<longleftrightarrow> d = d'"
  by (cases d; cases d') simp_all

text \<open>
  What GetNode and GetCurrentAttempt return on one registry: the classification a runner makes when
  no one interferes between its two reads.
\<close>

definition classify_at :: "registry \<Rightarrow> string \<Rightarrow> string \<Rightarrow> ReconcileDecision result" where
  "classify_at r i n =
     (case (fst (GetNode i n r), fst (GetCurrentAttempt i n r)) of
        (Inr node, Inr att) \<Rightarrow> Inr (ClassifyReconcile node att)
      | (Inl e, _) \<Rightarrow> Inl e
      | (_, Inl e) \<Rightarrow> Inl e)"

lemma classify_at_eq:
  assumes "reg_inv r" and "node_at r i n = Some x"
  shows "classify_at r i n = Inr (ClassifyReconcile x
     (if nr_CurrentAttemptID x = '''' then None else attempt_at r i n (nr_CurrentAttemptID x)))"
proof -
  have "GetNode i n r = (Inr x, r)"
    using assms(2) by (auto simp: GetNode_def node_at_def node_map_def split: option.splits)
  with mem.current_ok [OF assms] show ?thesis by (simp add: classify_at_def)
qed

text \<open>
  C11: user code may only be submitted from a decision that the durable facts prove safe.  A fresh
  attempt or a resumed one is chosen only for a non-terminal node with no handle on record whose
  current attempt, if any, never crossed the submission fence; a crossed fence on a live attempt
  always leads to reattaching or to resolving by identity, and a terminal attempt that crossed the
  fence is only repaired.
\<close>

theorem ClassifyReconcile_no_replacement:
  assumes "attempt \<noteq> None \<longrightarrow> nr_CurrentAttemptID node \<noteq> ''''"
  shows "(ClassifyReconcile node attempt \<in> {ReconcileFresh, ReconcileResumePreFence} \<longrightarrow>
       \<not> NodeStatus_IsTerminal (nr_Status node) \<and>
       (\<forall>a. attempt = Some a \<longrightarrow> ar_SubmissionWindowOpenedAt a = None \<and>
          (\<not> AttemptStatus_IsTerminal (ar_Status a) \<longrightarrow>
             nr_CurrentAttemptHandleJSON node = '''' \<and> ar_BackendHandleJSON a = ''''))) \<and>
     (\<forall>a. attempt = Some a \<longrightarrow> ar_SubmissionWindowOpenedAt a \<noteq> None \<longrightarrow>
        \<not> NodeStatus_IsTerminal (nr_Status node) \<longrightarrow>
        ClassifyReconcile node attempt =
          (if AttemptStatus_IsTerminal (ar_Status a) then ReconcileTerminalRepair
           else if nr_CurrentAttemptHandleJSON node \<noteq> '''' \<or> ar_BackendHandleJSON a \<noteq> ''''
           then ReconcileReattach else ReconcileResolveByIdentity))"
  using assms by (auto simp: ClassifyReconcile_def split: option.splits if_splits)

theorem ClassifyReconcile_no_replacement_witness:
  "ClassifyReconcile (zero_NodeRecord\<lparr>nr_Status := NodeStatusReleasing, nr_CurrentAttemptID := ''a''\<rparr>)
     (Some (zero_AttemptRecord\<lparr>ar_SubmissionWindowOpenedAt := Some 3\<rparr>)) = ReconcileResolveByIdentity"
  using ClassifyReconcile_no_replacement
    [of "Some (zero_AttemptRecord\<lparr>ar_SubmissionWindowOpenedAt := Some 3\<rparr>)"
        "zero_NodeRecord\<lparr>nr_Status := NodeStatusReleasing, nr_CurrentAttemptID := ''a''\<rparr>"]
  by (simp add: zero_defs)

text \<open>
  C12: a crash right after the fence is crossed is recoverable without a second execution: in the
  registry that \<^verbatim>\<open>AllocateCurrentAttempt\<close> and \<^verbatim>\<open>OpenSemanticAttempt\<close> leave behind, a restarted runner
  of the node classifies it as to be resolved by identity (or reattached when the node still
  carries a handle), never as fresh or resumable.
\<close>

theorem restart_after_fence:
  assumes "reachable r" and x: "node_at r i n = Some x"
    and alloc: "AllocateCurrentAttempt now i n r = (Inr a, r1)"
    and opened: "OpenSemanticAttempt i n (ar_AttemptID a) t r1 = (ok, r2)"
  shows "classify_at r2 i n = Inr (if nr_CurrentAttemptHandleJSON x \<noteq> '''' then ReconcileReattach
    else ReconcileResolveByIdentity)"
proof -
  have inv: "reg_inv r" by (rule reachable_inv [OF assms(1)])
  let ?id = "DeterministicAttemptID i n (nr_RealizationAttemptCount x + 1)"
  from alloc x have a: "ar_AttemptID a = ?id" "ar_Status a = AttemptStatusPrepared"
      "ar_BackendHandleJSON a = ''''"
    and r1: "node_at r1 i n = Some (x\<lparr>nr_RealizationAttemptCount := nr_RealizationAttemptCount x + 1,
        nr_CurrentAttemptID := ?id, nr_Status := NodeStatusReady,
        nr_CurrentBottleneckLocation := ''release_wait'', nr_StartedAt := Some now\<rparr>)"
      "attempt_at r1 i n ?id = Some a"
    by (auto simp: allocate_cases [OF inv] Let_def zero_defs split: if_splits)
  have inv2: "reg_inv r2"
    using reg_inv_allocate [OF inv, of now i n] reg_inv_open [of r1 i n "ar_AttemptID a" t] alloc opened
    by simp
  from opened r1 a(1) have "node_at r2 i n = Some (x\<lparr>nr_RealizationAttemptCount :=
        nr_RealizationAttemptCount x + 1, nr_CurrentAttemptID := ?id, nr_Status := NodeStatusReady,
        nr_CurrentBottleneckLocation := ''release_wait'', nr_StartedAt := Some now,
        nr_AttemptCount := nr_AttemptCount x + 1\<rparr>)"
      "attempt_at r2 i n ?id = Some (a\<lparr>ar_SubmissionWindowOpenedAt := Some t\<rparr>)"
    by (auto simp: OpenSemanticAttempt_def lockedGetNode_eq lockedMutateAttempt_eq)
  then show ?thesis
    using classify_at_eq [OF inv2] a by (simp add: ClassifyReconcile_def)
qed

theorem restart_after_fence_witness:
  "\<exists>r2. classify_at r2 ''r'' ''a'' = Inr ReconcileResolveByIdentity"
proof -
  have x: "node_at demo_registry ''r'' ''a'' = Some (zero_NodeRecord\<lparr>nr_RunID := ''r'', nr_NodeID := ''a''\<rparr>)"
    by code_simp
  then have "settled_node (attempt_at demo_registry ''r'' ''a'')
      (zero_NodeRecord\<lparr>nr_RunID := ''r'', nr_NodeID := ''a''\<rparr>)"
    by (simp add: settled_node_def zero_defs)
  then obtain a r1 where alloc: "AllocateCurrentAttempt 5 ''r'' ''a'' demo_registry = (Inr a, r1)"
    using mem.allocate_ok [OF reachable_inv [OF reachable_demo] x] by blast
  obtain res r2 where o: "OpenSemanticAttempt ''r'' ''a'' (ar_AttemptID a) 7 r1 = (res, r2)"
    by (metis surj_pair)
  then have "res = ok" using mem.fence_protocol [OF reachable_inv [OF reachable_demo] alloc x] by blast
  with o restart_after_fence [OF reachable_demo x alloc] show ?thesis by (auto simp: zero_defs)
qed

end
