(* ===== verification/Backend.thy ===== *)
theory Backend
  imports Spec_Types Provenance
begin

text \<open>
  \<^verbatim>\<open>pkg/backend/backend.go\<close>: what the executor sees of a backend.  An adapter is a record of the
  operations of the Go interface; the three optional interfaces that the executor asks for by type
  assertion are optional fields.  Handles and prepared nodes are opaque tokens.  An operation takes
  the moment of the call (a tick of the executor's world), so that two calls may answer differently.
\<close>

type_synonym Handle = string
type_synonym PreparedNode = string

record OptionalKueueInfo =
  kq_Observed :: bool
  kq_QueueName :: string
  kq_WorkloadName :: string
  kq_PendingReason :: string
  kq_Admitted :: bool
  kq_PodName :: string
  kq_PodNodeName :: string
  kq_Scheduled :: bool
  kq_UnschedulableReason :: string

record ExecutionResult =
  er_Succeeded :: bool
  er_TerminalStopCause :: string
  er_TerminalFailureReason :: string
  er_Kueue :: "OptionalKueueInfo option"

record OutputMetadata =
  om_OutputName :: string
  om_URI :: string
  om_LogicalURI :: string
  om_Digest :: string
  om_SizeBytes :: int
  om_ProducerAttemptID :: string
  om_Locations :: "ProvArtifactLocation list"
  om_NodeName :: string
  om_PodName :: string

datatype ResolveOutcome = ResolveUnknown | ResolveFound | ResolveAbsentNow | ResolveConflict

fun ResolveOutcome_String :: "ResolveOutcome \<Rightarrow> string" where
  "ResolveOutcome_String ResolveFound = ''found''"
| "ResolveOutcome_String ResolveAbsentNow = ''absent_now''"
| "ResolveOutcome_String ResolveConflict = ''conflict''"
| "ResolveOutcome_String ResolveUnknown = ''unknown''"

text \<open>
  The contexts of the executor: the background context, the context of a run (which a cancellation
  or a timeout may end at any tick), and one that was canceled before the call.
\<close>

datatype ctx = CtxBackground | CtxRun | CtxCanceled

record HandlePersister =
  hp_MarshalHandle :: "Handle \<Rightarrow> string option result"
  hp_UnmarshalHandle :: "string \<Rightarrow> Handle option result"

record Adapter =
  ad_PrepareNode :: "nat \<Rightarrow> ctx \<Rightarrow> RunRecord \<Rightarrow> Node \<Rightarrow> PreparedNode result"
  ad_StartNode :: "nat \<Rightarrow> ctx \<Rightarrow> PreparedNode \<Rightarrow> Handle result"
  ad_ObserveNode :: "nat \<Rightarrow> ctx \<Rightarrow> Handle \<Rightarrow> OptionalKueueInfo option result"
  ad_WaitNode :: "nat \<Rightarrow> ctx \<Rightarrow> Handle \<Rightarrow> ExecutionResult result"
  ad_CancelNode :: "nat \<Rightarrow> ctx \<Rightarrow> Handle \<Rightarrow> unit result"
  ad_HandlePersister :: "HandlePersister option"
  ad_AttemptResolver :: "(nat \<Rightarrow> ctx \<Rightarrow> RunRecord \<Rightarrow> Node \<Rightarrow> string
     \<Rightarrow> Handle \<times> ResolveOutcome \<times> go_error option) option"
  ad_OutputMetadataProvider :: "(nat \<Rightarrow> ctx \<Rightarrow> Handle \<Rightarrow> Node
     \<Rightarrow> (string, OutputMetadata) gomap result) option"

end
