(* ===== verification/Go_Filepath.thy ===== *)
theory Go_Filepath
  imports Go_Prelude
begin

text \<open>
  The functions of \<^verbatim>\<open>path/filepath\<close> that the sources use, on Unix: \<open>Clean\<close>, \<open>IsAbs\<close>, \<open>IsLocal\<close> and
  \<open>Rel\<close>, defined on the slash-separated elements of a path.
\<close>

fun split_slash :: "string \<Rightarrow> string list" where
  "split_slash [] = [[]]"
| "split_slash (c # cs) =
     (if c = CHR ''/'' then [] # split_slash cs
      else case split_slash cs of [] \<Rightarrow> [[c]] | w # ws \<Rightarrow> (c # w) # ws)"

definition IsAbs :: "string \<Rightarrow> bool" where
  "IsAbs p \<longleftrightarrow> HasPrefix p ''/''"

text \<open>
  The elements of a cleaned path, kept in reverse while reading from the left: empty and dot
  elements vanish, a dot-dot removes its predecessor, and is kept only at the front of a path that
  is not rooted.
\<close>

fun clean_elems :: "bool \<Rightarrow> string list \<Rightarrow> string list \<Rightarrow> string list" where
  "clean_elems rooted acc [] = rev acc"
| "clean_elems rooted acc (w # ws) =
     (if w = '''' \<or> w = ''.'' then clean_elems rooted acc ws
      else if w = ''..''
      then (case acc of
              [] \<Rightarrow> if rooted then clean_elems rooted [] ws else clean_elems rooted [''..''] ws
            | v # vs \<Rightarrow> if v = ''..'' then clean_elems rooted (''..'' # acc) ws
                       else clean_elems rooted vs ws)
      else clean_elems rooted (w # acc) ws)"

definition Clean :: "string \<Rightarrow> string" where
  "Clean p =
     (let es = clean_elems (IsAbs p) [] (split_slash p)
      in if IsAbs p then CHR ''/'' # Join es ''/'' else if es = [] then ''.'' else Join es ''/'')"

definition IsLocal :: "string \<Rightarrow> bool" where
  "IsLocal p \<longleftrightarrow>
     \<not> IsAbs p \<and> p \<noteq> '''' \<and>
     (let q = (if ''.'' \<in> set (split_slash p) \<or> ''..'' \<in> set (split_slash p) then Clean p else p)
      in q \<noteq> ''..'' \<and> \<not> HasPrefix q ''../'')"

fun drop_common :: "string list \<Rightarrow> string list \<Rightarrow> string list \<times> string list" where
  "drop_common (b # bs) (t # ts) = (if b = t then drop_common bs ts else (b # bs, t # ts))"
| "drop_common bs ts = (bs, ts)"

definition Rel :: "string \<Rightarrow> string \<Rightarrow> string result" where
  "Rel basepath targpath =
     (let base = Clean basepath; targ = Clean targpath;
          err = Inl (Errorf (''Rel: can't make '' @ targpath @ '' relative to '' @ basepath)) in
      if targ = base then Inr ''.''
      else if IsAbs base \<noteq> IsAbs targ then err
      else
        let (bs, ts) = drop_common (if base = ''.'' then [] else split_slash base) (split_slash targ)
        in if bs \<noteq> [] \<and> hd bs = ''..'' then err
           else Inr (Join (replicate (length bs) ''..'' @ ts) ''/''))"

subsection \<open>Lemmas\<close>

lemma split_slash_nonempty [simp]: "split_slash s \<noteq> []"
  by (induction s) (auto split: list.splits)

lemma split_slash_elems: "w \<in> set (split_slash s) \<Longrightarrow> CHR ''/'' \<notin> set w"
  by (induction s arbitrary: w) (auto split: list.splits if_splits)

lemma split_slash_append:
  "CHR ''/'' \<notin> set w \<Longrightarrow> split_slash (w @ CHR ''/'' # s) = w # split_slash s"
  by (induction w) (auto split: list.splits)

lemma split_slash_single: "CHR ''/'' \<notin> set w \<Longrightarrow> split_slash w = [w]"
  by (induction w) auto

lemma split_slash_Join:
  "ws \<noteq> [] \<Longrightarrow> (\<And>w. w \<in> set ws \<Longrightarrow> CHR ''/'' \<notin> set w) \<Longrightarrow> split_slash (Join ws ''/'') = ws"
proof (induction ws "''/''" rule: Join.induct)
  case (3 x y ys)
  then show ?case using split_slash_append [of x "Join (y # ys) ''/''"] by simp
qed (simp_all add: split_slash_single)

definition plain_elem :: "string \<Rightarrow> bool" where
  "plain_elem w \<longleftrightarrow> w \<noteq> '''' \<and> w \<noteq> ''.'' \<and> w \<noteq> ''..'' \<and> CHR ''/'' \<notin> set w"

text \<open>A cleaned path that is not rooted is a run of dot-dots followed by plain elements.\<close>

lemma clean_elems_shape:
  assumes "\<And>w. w \<in> set ws \<Longrightarrow> CHR ''/'' \<notin> set w"
    and "acc = rev ps @ replicate k ''..''" and "list_all plain_elem ps"
  shows "\<exists>j qs. clean_elems False acc ws = replicate j ''..'' @ qs \<and> list_all plain_elem qs"
  using assms
proof (induction "False" acc ws arbitrary: ps k rule: clean_elems.induct)
  case (1 acc)
  then have "clean_elems False acc [] = replicate k ''..'' @ ps" by (simp add: rev_replicate)
  then show ?case using "1.prems" by blast
next
  case (2 acc w ws)
  consider (skip) "w = '''' \<or> w = ''.''" | (up) "w = ''..''" | (plain) "plain_elem w"
    using "2.prems"(1) by (auto simp: plain_elem_def)
  then show ?case
  proof cases
    case skip
    then show ?thesis using "2.hyps"(1) "2.prems" by simp
  next
    case up
    show ?thesis
    proof (cases ps rule: rev_cases)
      case Nil
      then have acc: "acc = replicate k ''..''" using "2.prems" by simp
      show ?thesis
      proof (cases k)
        case 0
        have "\<exists>j qs. clean_elems False [''..''] ws = replicate j ''..'' @ qs \<and> list_all plain_elem qs"
          using "2.hyps"(3) [of "[]" 1] up acc 0 "2.prems" by simp
        then show ?thesis using up acc 0 by simp
      next
        case (Suc m)
        have "\<exists>j qs. clean_elems False (''..'' # acc) ws = replicate j ''..'' @ qs \<and> list_all plain_elem qs"
          using "2.hyps"(4) [of _ _ "[]" "Suc k"] up acc Suc "2.prems" by simp
        then show ?thesis using up acc Suc by simp
      qed
    next
      case (snoc ps' v)
      then have v: "v \<noteq> ''..''" and acc: "acc = v # rev ps' @ replicate k ''..''"
        using "2.prems" by (auto simp: plain_elem_def)
      have "\<exists>j qs. clean_elems False (rev ps' @ replicate k ''..'') ws = replicate j ''..'' @ qs \<and>
          list_all plain_elem qs"
        using "2.hyps"(5) [of v "rev ps' @ replicate k ''..''" ps' k] up acc v snoc "2.prems" by simp
      then show ?thesis using up acc v by simp
    qed
  next
    case plain
    then have n: "w \<noteq> ''''" "w \<noteq> ''.''" "w \<noteq> ''..''" by (auto simp: plain_elem_def)
    have "\<exists>j qs. clean_elems False (w # acc) ws = replicate j ''..'' @ qs \<and> list_all plain_elem qs"
      using "2.hyps"(6) [of "ps @ [w]" k] n plain "2.prems" by simp
    then show ?thesis using n by simp
  qed
qed

lemma clean_elems_plain:
  "list_all plain_elem qs \<Longrightarrow> clean_elems rooted acc qs = rev acc @ qs"
  by (induction qs arbitrary: acc) (auto simp: plain_elem_def)

lemma Join_first_char:
  "ws \<noteq> [] \<Longrightarrow> hd ws \<noteq> [] \<Longrightarrow> HasPrefix (Join ws sep) ''/'' \<longleftrightarrow> HasPrefix (hd ws) ''/''"
  by (cases ws; cases "tl ws") (auto simp: HasPrefix_def neq_Nil_conv)

lemma plain_not_abs: "list_all plain_elem qs \<Longrightarrow> qs \<noteq> [] \<Longrightarrow> \<not> IsAbs (Join qs ''/'')"
proof -
  assume q: "list_all plain_elem qs" "qs \<noteq> []"
  then have "plain_elem (hd qs)" by (cases qs) auto
  then have "hd qs \<noteq> []" "\<not> HasPrefix (hd qs) ''/''"
    by (auto simp: plain_elem_def HasPrefix_iff)
  with q show ?thesis by (simp add: IsAbs_def Join_first_char)
qed

lemma plain_split: "list_all plain_elem qs \<Longrightarrow> qs \<noteq> [] \<Longrightarrow> split_slash (Join qs ''/'') = qs"
  by (rule split_slash_Join) (auto simp: list_all_iff plain_elem_def)

lemma Clean_plain: "list_all plain_elem qs \<Longrightarrow> qs \<noteq> [] \<Longrightarrow> Clean (Join qs ''/'') = Join qs ''/''"
  by (simp add: Clean_def plain_not_abs plain_split clean_elems_plain)

lemma Join_Cons: "ws \<noteq> [] \<Longrightarrow> Join (w # ws) sep = w @ sep @ Join ws sep"
  by (cases ws) auto

lemma clean_elems_no_up:
  "''..'' \<notin> set ws \<Longrightarrow> ''..'' \<notin> set acc \<Longrightarrow> ''..'' \<notin> set (clean_elems rooted acc ws)"
proof (induction ws arbitrary: acc)
  case (Cons w ws)
  then have "w \<noteq> ''..''" by auto
  with Cons show ?case by simp
qed simp

text \<open>A local path cleans to the current directory or to plain elements below it.\<close>

lemma Clean_local:
  assumes "IsLocal p"
  shows "Clean p = ''.'' \<or> (\<exists>qs. qs \<noteq> [] \<and> list_all plain_elem qs \<and> Clean p = Join qs ''/'')"
proof -
  have na: "\<not> IsAbs p" using assms by (simp add: IsLocal_def)
  obtain j qs where e: "clean_elems False [] (split_slash p) = replicate j ''..'' @ qs"
      and qs: "list_all plain_elem qs"
    using clean_elems_shape [of "split_slash p" "[]" "[]" 0] split_slash_elems by auto
  have j0: "j = 0"
  proof (cases "''.'' \<in> set (split_slash p) \<or> ''..'' \<in> set (split_slash p)")
    case True
    then have "Clean p \<noteq> ''..''" "\<not> HasPrefix (Clean p) ''../''"
      using assms by (auto simp: IsLocal_def Let_def)
    moreover have "Join (''..'' # ws) ''/'' = ''..'' \<or> HasPrefix (Join (''..'' # ws) ''/'') ''../''" for ws
      by (cases ws) (simp_all add: HasPrefix_def)
    ultimately show ?thesis using na e by (cases j) (auto simp: Clean_def)
  next
    case False
    have "''..'' \<notin> set (clean_elems False [] (split_slash p))"
      by (rule clean_elems_no_up) (use False in auto)
    then show ?thesis unfolding e by (cases j) simp_all
  qed
  then show ?thesis using na e qs by (auto simp: Clean_def Let_def)
qed

end
