(* ===== verification/Exec_Bindings.thy ===== *)
theory Exec_Bindings
  imports Spec_Validate Handoff Backend Go_Filepath
begin

text \<open>
  The functions of \<^verbatim>\<open>pkg/executor/executor.go\<close> that compute without touching the registry or the
  backend: the environment a resolved input binding puts into a container, the placement hints it
  asks for, the reading of a resolve response, and the classification of errors.
\<close>

subsection \<open>Constants and local types\<close>

datatype resolveAction = resolveProceed | resolveRetry | resolveFail | resolveSkipOptional

record bindingLocalityHint =
  lh_BindingName :: string
  lh_ChildInputName :: string
  lh_PreferredNodeName :: string
  lh_PlacementMode :: string
  lh_Decision :: string
  lh_RequiresMaterialization :: bool

record postSchedulingResolve =
  ps_Binding :: ArtifactBinding
  ps_Request :: ResolveBindingRequest
  ps_InitialDecision :: string
  ps_InitialMode :: string

definition defaultNanShutdownGracePeriod :: string where
  "defaultNanShutdownGracePeriod = ''25s''"

text \<open>The eleven suffixes of the environment keys of an input.\<close>

definition materializationEnvSuffixes :: "string list" where
  "materializationEnvSuffixes = [''_STATUS'', ''_DECISION'', ''_URI'', ''_SOURCE_NODE'',
     ''_PLACEMENT_MODE'', ''_MATERIALIZATION_MODE'', ''_EXPECTED_DIGEST'', ''_EXPECTED_SIZE_BYTES'',
     ''_NODE_LOCAL_PATH'', ''_LOCAL_PATH'', ''_REQUIRES_MATERIALIZATION'']"

subsection \<open>Environment keys\<close>

definition env_char :: "char \<Rightarrow> bool" where
  "env_char c \<longleftrightarrow> is_letter c \<or> is_digit c"

fun env_segment :: "bool \<Rightarrow> string \<Rightarrow> string" where
  "env_segment prevUnderscore [] = []"
| "env_segment prevUnderscore (c # cs) =
     (if env_char c then to_upper_char c # env_segment False cs
      else if prevUnderscore then env_segment True cs
      else CHR ''_'' # env_segment True cs)"

definition sanitizeEnvSegment :: "string \<Rightarrow> string" where
  "sanitizeEnvSegment value =
     (if value = '''' then ''UNSPECIFIED''
      else let result = Trim (env_segment False value) ''_''
           in if result = '''' then ''UNSPECIFIED'' else result)"

definition binding_name :: "ArtifactBinding \<Rightarrow> string" where
  "binding_name b = FirstNonEmpty [ab_ChildInputName b, ab_BindingName b, ab_ProducerOutputName b]"

fun validate_env_keys :: "ArtifactBinding list \<Rightarrow> (string, string) gomap \<Rightarrow> unit result" where
  "validate_env_keys [] seen = ok"
| "validate_env_keys (b # bs) seen =
     (let original = binding_name b; key = sanitizeEnvSegment original in
      case map_of seen key of
        Some existing \<Rightarrow> Inl (Errorf (''input env key collision: '' @ Quote existing @ '' and ''
          @ Quote original @ '' both sanitize to '' @ Quote key))
      | None \<Rightarrow> validate_env_keys bs (mput key original seen))"

definition validateResolvedBindingEnvKeys :: "ArtifactBinding list \<Rightarrow> unit result" where
  "validateResolvedBindingEnvKeys bindings = validate_env_keys bindings []"

definition materializationEnvKey :: "string \<Rightarrow> string \<Rightarrow> string" where
  "materializationEnvKey base suffix = ''JUMI_INPUT_'' @ base @ suffix"

subsection \<open>Local paths\<close>

definition sanitizeResolvedLocalPath :: "string \<Rightarrow> string" where
  "sanitizeResolvedLocalPath value =
     (let trimmed = TrimSpace value in
      if trimmed = '''' then ''''
      else if IsAbs trimmed \<or> \<not> IsLocal trimmed then ''''
      else let cleaned = Clean trimmed in
        case Rel ''inputs'' cleaned of
          Inl _ \<Rightarrow> ''''
        | Inr rel \<Rightarrow>
            if rel = ''.'' \<or> rel = ''..'' \<or> HasPrefix rel (''..'' @ ''/'') then '''' else cleaned)"

subsection \<open>Reading a resolve response\<close>

definition requiresMaterialization :: "ResolveBindingResponse \<Rightarrow> bool" where
  "requiresMaterialization resolved \<longleftrightarrow>
     (let mode = TrimSpace (mp_Mode (rs_MaterializationPlan resolved))
      in mode \<noteq> '''' \<and> \<not> EqualFold mode ''none'')"

definition missingBindingFailureReason :: "ResolveBindingResponse \<Rightarrow> string" where
  "missingBindingFailureReason resolved =
     (if rs_Decision resolved = ''producer_failed'' then ''input_resolution_producer_failed''
      else ''input_resolution_missing'')"

definition resolveBindingFailureReason ::
  "ArtifactBinding \<Rightarrow> ResolveBindingResponse \<Rightarrow> string" where
  "resolveBindingFailureReason binding resolved =
     (let s = ToUpper (TrimSpace (rs_ResolutionStatus resolved)) in
      if s = ''RESOLVED'' then ''''
      else if s = ''PENDING''
      then (if rs_Retryable resolved then ''input_resolution_pending''
            else ''input_resolution_pending_not_retryable'')
      else if s = ''MISSING''
      then (if \<not> ab_Required binding then '''' else missingBindingFailureReason resolved)
      else if s = ''PRODUCER_FAILED'' then ''input_resolution_producer_failed''
      else if s = ''POLICY_BLOCKED'' then ''input_resolution_policy_blocked''
      else if s = ''DIGEST_MISMATCH'' then ''input_resolution_digest_mismatch''
      else if s = ''GC_EXPIRED'' then ''input_resolution_gc_expired''
      else if s = ''UNAVAILABLE''
      then (if rs_Retryable resolved then ''input_resolution_unavailable_retryable''
            else ''input_resolution_unavailable'')
      else ''input_resolution_unknown_status'')"

definition classifyResolvedBinding ::
  "ArtifactBinding \<Rightarrow> ResolveBindingResponse \<Rightarrow> resolveAction \<times> string" where
  "classifyResolvedBinding binding resolved =
     (let s = ToUpper (TrimSpace (rs_ResolutionStatus resolved)) in
      if s = '''' \<or> s = ''RESOLVED'' then (resolveProceed, '''')
      else if s = ''PENDING''
      then (if rs_Retryable resolved then (resolveRetry, ''input_resolution_pending'')
            else (resolveFail, ''input_resolution_pending_not_retryable''))
      else if s = ''MISSING''
      then (if ab_Required binding then (resolveFail, missingBindingFailureReason resolved)
            else (resolveSkipOptional, ''''))
      else if s = ''PRODUCER_FAILED'' then (resolveFail, ''input_resolution_producer_failed'')
      else if s = ''POLICY_BLOCKED'' then (resolveFail, ''input_resolution_policy_blocked'')
      else if s = ''DIGEST_MISMATCH'' then (resolveFail, ''input_resolution_digest_mismatch'')
      else if s = ''GC_EXPIRED'' then (resolveFail, ''input_resolution_gc_expired'')
      else if s = ''UNAVAILABLE''
      then (if rs_Retryable resolved then (resolveRetry, ''input_resolution_unavailable_retryable'')
            else (resolveFail, ''input_resolution_unavailable''))
      else (resolveFail, ''input_resolution_unknown_status''))"

definition contract_error :: "ArtifactBinding \<Rightarrow> string \<Rightarrow> unit result" where
  "contract_error binding what =
     Inl (Errorf (''input_materialization_contract_invalid: binding '' @ ab_BindingName binding @ what))"

definition check_placement_contract ::
  "ArtifactBinding \<Rightarrow> ResolveBindingResponse \<Rightarrow> unit result" where
  "check_placement_contract binding resolved =
     (let mode = TrimSpace (pi_Mode (rs_PlacementIntent resolved)) in
      if mode = '''' then ok
      else if mode = ''preferred_node'' \<or> mode = ''required_node''
      then (if TrimSpace (pi_NodeName (rs_PlacementIntent resolved)) = ''''
            then contract_error binding ('' placement mode '' @ mode @ '' requires nodeName'')
            else ok)
      else contract_error binding ('' has unsupported placement mode '' @ Quote mode))"

definition check_plan_contract :: "ArtifactBinding \<Rightarrow> MaterializationPlan \<Rightarrow> unit result" where
  "check_plan_contract binding plan =
     (let mode0 = TrimSpace (mp_Mode plan);
          mode = (if mode0 = '''' then ''none'' else mode0);
          local_ok = (let localPath = TrimSpace (mp_LocalPath plan) in
             if localPath \<noteq> '''' \<and> sanitizeResolvedLocalPath localPath = ''''
             then contract_error binding ('' has unsafe localPath '' @ Quote localPath)
             else ok)
      in
      if mode = ''none'' then ok
      else if mode = ''local_reuse''
      then (case mp_SourceLocation plan of
              None \<Rightarrow> contract_error binding '' local_reuse requires nodeLocal source''
            | Some l \<Rightarrow>
                (case al_NodeLocal l of
                   None \<Rightarrow> contract_error binding '' local_reuse requires nodeLocal source''
                 | Some nl \<Rightarrow>
                     if TrimSpace (nl_Path nl) = ''''
                     then contract_error binding '' local_reuse requires nodeLocal path''
                     else local_ok))
      else if mode = ''remote_fetch''
      then (if TrimSpace (mp_URI plan) = '''' \<and>
               (case mp_SourceLocation plan of
                  None \<Rightarrow> True
                | Some l \<Rightarrow> (case al_HTTP l of None \<Rightarrow> True | Some h \<Rightarrow> TrimSpace (hs_URI h) = ''''))
            then contract_error binding '' remote_fetch requires URI or HTTP source''
            else local_ok)
      else contract_error binding ('' has unsupported materialization mode '' @ Quote mode))"

definition validateResolvedBindingContract ::
  "ArtifactBinding \<Rightarrow> ResolveBindingResponse \<Rightarrow> unit result" where
  "validateResolvedBindingContract binding resolved =
     (case check_placement_contract binding resolved of
        Inl e \<Rightarrow> Inl e
      | Inr _ \<Rightarrow> check_plan_contract binding (rs_MaterializationPlan resolved))"

definition resolveFailureReason :: "go_error \<Rightarrow> string" where
  "resolveFailureReason err =
     (let msg = Error err
      in if HasPrefix msg ''input_resolution_'' then msg else ''resolve_handoff_error'')"

definition isMaterializationFailureReason :: "string \<Rightarrow> bool" where
  "isMaterializationFailureReason reason \<longleftrightarrow>
     reason \<in> set [''input_materialization_digest_mismatch'',
       ''input_materialization_remote_unavailable'', ''input_materialization_path_rejected'',
       ''input_materialization_local_source_missing'']"

definition terminalFailureReasonFromResult :: "ExecutionResult \<Rightarrow> string" where
  "terminalFailureReasonFromResult result =
     (let reason = TrimSpace (er_TerminalFailureReason result)
      in if isMaterializationFailureReason reason then reason
         else FirstNonEmpty [reason, ''node_execution_failed''])"

definition isTransientResolveBindingError :: "go_error \<Rightarrow> bool" where
  "isTransientResolveBindingError err =
     (if errors_Is err ContextCanceled then False
      else if errors_Is err ContextDeadlineExceeded then True
      else case unwrap err of
        NetError _ \<Rightarrow> True
      | _ \<Rightarrow>
          if status_Code err \<in> {codes_Unavailable, codes_DeadlineExceeded, codes_ResourceExhausted,
               codes_Aborted, codes_Internal} then True
          else if status_Code err \<in> {codes_InvalidArgument, codes_NotFound, codes_FailedPrecondition,
               codes_PermissionDenied, codes_Unauthenticated, codes_Unimplemented} then False
          else case unwrap err of
            HTTPError c _ \<Rightarrow> c \<in> {408, 425, 429, 500, 502, 503, 504}
          | _ \<Rightarrow> False)"

subsection \<open>The execution node\<close>

text \<open>
  Copying the maps has no effect on their contents.  The copied placement carries the node selector
  alone.
\<close>

definition cloneNode :: "Node \<Rightarrow> Node" where
  "cloneNode node =
     (case nd_Placement node of
        None \<Rightarrow> node
      | Some p \<Rightarrow> node\<lparr>nd_Placement := Some (zero_PlacementHints\<lparr>pl_NodeSelector := pl_NodeSelector p\<rparr>)\<rparr>)"

definition set_env :: "string \<Rightarrow> string \<Rightarrow> Node \<Rightarrow> Node" where
  "set_env k v node = node\<lparr>nd_Env := mput k v (nd_Env node)\<rparr>"

definition injectResolvedBindingEnv ::
  "Node \<Rightarrow> ArtifactBinding \<Rightarrow> ResolveBindingResponse \<Rightarrow> Node" where
  "injectResolvedBindingEnv node binding resolved =
     (let base = sanitizeEnvSegment (binding_name binding);
          key = materializationEnvKey base;
          plan = rs_MaterializationPlan resolved;
          node = set_env (key ''_STATUS'') (rs_ResolutionStatus resolved) node;
          node = set_env (key ''_DECISION'') (rs_Decision resolved) node;
          node = set_env (key ''_URI'') (mp_URI plan) node;
          node = set_env (key ''_SOURCE_NODE'') (pi_NodeName (rs_PlacementIntent resolved)) node;
          node = set_env (key ''_PLACEMENT_MODE'') (pi_Mode (rs_PlacementIntent resolved)) node;
          node = set_env (key ''_MATERIALIZATION_MODE'') (mp_Mode plan) node;
          node = set_env (key ''_EXPECTED_DIGEST'') (mp_ExpectedDigest plan) node;
          node = (if mp_ExpectedSize plan > 0
                  then set_env (key ''_EXPECTED_SIZE_BYTES'') (Itoa (mp_ExpectedSize plan)) node
                  else node);
          node = (case mp_SourceLocation plan of
                    None \<Rightarrow> node
                  | Some l \<Rightarrow>
                      (case al_NodeLocal l of
                         None \<Rightarrow> node
                       | Some nl \<Rightarrow> set_env (key ''_NODE_LOCAL_PATH'') (nl_Path nl) node));
          safeLocalPath = sanitizeResolvedLocalPath (mp_LocalPath plan);
          node = (if safeLocalPath \<noteq> '''' then set_env (key ''_LOCAL_PATH'') safeLocalPath node
                  else node)
      in set_env (key ''_REQUIRES_MATERIALIZATION'')
           (if requiresMaterialization resolved then ''true'' else ''false'') node)"

definition injectRuntimeContextEnv :: "Node \<Rightarrow> RunRecord \<Rightarrow> string \<Rightarrow> Node" where
  "injectRuntimeContextEnv node run attemptID =
     (let node = set_env ''JUMI_RUN_ID'' (rr_RunID run) node;
          node = set_env ''JUMI_NODE_ID'' (nd_NodeID node) node;
          node = set_env ''JUMI_ATTEMPT_ID'' attemptID node;
          node = set_env ''JUMI_OUTPUT_ROOT'' ''/out'' node;
          node = (if TrimSpace (mread (nd_Env node) ''JUMI_SHUTDOWN_GRACE_PERIOD'') = ''''
                  then set_env ''JUMI_SHUTDOWN_GRACE_PERIOD'' defaultNanShutdownGracePeriod node
                  else node);
          sampleRunID = rm_SampleRunID (es_Run (rr_Spec run));
          node = (if sampleRunID \<noteq> '''' then set_env ''JUMI_SAMPLE_RUN_ID'' sampleRunID node
                  else node)
      in if nd_Outputs node \<noteq> []
         then set_env ''JUMI_OUTPUT_MANIFEST_PATH''
                (AttemptArtifactsManifestPath (rr_RunID run) (nd_NodeID node) attemptID) node
         else node)"

subsection \<open>Placement\<close>

text \<open>The first loop: the required node all hints agree on, and whether a preferred node is named.\<close>

fun collect_required ::
  "bindingLocalityHint list \<Rightarrow> string \<Rightarrow> bool \<Rightarrow> (string \<times> bool) result" where
  "collect_required [] requiredNode hasPreferred = Inr (requiredNode, hasPreferred)"
| "collect_required (h # hs) requiredNode hasPreferred =
     (if lh_PlacementMode h = ''required_node''
      then (if TrimSpace (lh_PreferredNodeName h) = '''' then collect_required hs requiredNode hasPreferred
            else if requiredNode = '''' then collect_required hs (lh_PreferredNodeName h) hasPreferred
            else if requiredNode \<noteq> lh_PreferredNodeName h
            then Inl (Errorf (''conflicting required_node placement intents: '' @ requiredNode
                        @ '' vs '' @ lh_PreferredNodeName h))
            else collect_required hs requiredNode hasPreferred)
      else if lh_PlacementMode h = ''preferred_node''
      then collect_required hs requiredNode
             (hasPreferred \<or> TrimSpace (lh_PreferredNodeName h) \<noteq> '''')
      else collect_required hs requiredNode hasPreferred)"

fun collect_preferred :: "bindingLocalityHint list \<Rightarrow> string list \<Rightarrow> WeightedNodePreference list" where
  "collect_preferred [] seen = []"
| "collect_preferred (h # hs) seen =
     (if lh_PlacementMode h \<noteq> ''preferred_node'' \<or> TrimSpace (lh_PreferredNodeName h) = ''''
      then collect_preferred hs seen
      else if lh_PreferredNodeName h \<in> set seen then collect_preferred hs seen
      else \<lparr>wp_NodeName = lh_PreferredNodeName h, wp_Weight = 100\<rparr>
             # collect_preferred hs (lh_PreferredNodeName h # seen))"

definition applyPlacementHints :: "Node \<Rightarrow> bindingLocalityHint list \<Rightarrow> Node result" where
  "applyPlacementHints node hints =
     (if hints = [] then Inr node
      else case collect_required hints '''' False of
        Inl e \<Rightarrow> Inl e
      | Inr (requiredNode, hasPreferred) \<Rightarrow>
          if requiredNode = '''' \<and> \<not> hasPreferred then Inr node
          else
            let p = (case nd_Placement node of None \<Rightarrow> zero_PlacementHints | Some p \<Rightarrow> p) in
            if requiredNode \<noteq> ''''
            then (if pl_PreferredNodes p \<noteq> []
                  then Inl (Errorf (''preferred placement already set while applying required_node=''
                              @ requiredNode))
                  else
                    let existing = TrimSpace (mread (pl_NodeSelector p) hostnameNodeSelectorKey) in
                    if existing \<noteq> '''' \<and> existing \<noteq> requiredNode
                    then Inl (Errorf (''node selector '' @ hostnameNodeSelectorKey @ ''='' @ existing
                                @ '' conflicts with required_node='' @ requiredNode))
                    else Inr (node\<lparr>nd_Placement := Some (p
                           \<lparr>pl_NodeSelector := mput hostnameNodeSelectorKey requiredNode (pl_NodeSelector p),
                            pl_RequiredNodeName := requiredNode\<rparr>)\<rparr>))
            else if pl_RequiredNodeName p \<noteq> ''''
            then Inl (Errorf ''required placement already set while applying preferred nodes'')
            else
              let preferred = collect_preferred hints [] in
              Inr (node\<lparr>nd_Placement := Some (if preferred \<noteq> []
                     then p\<lparr>pl_PreferredNodes := preferred\<rparr> else p)\<rparr>))"

subsection \<open>Artifacts and statuses\<close>

definition toHandoffLocation :: "string \<Rightarrow> ProvArtifactLocation \<Rightarrow> ArtifactLocation" where
  "toHandoffLocation fallbackNodeName loc =
     \<lparr>al_NodeLocal =
        (case pa_NodeLocal loc of
           None \<Rightarrow> None
         | Some nl \<Rightarrow>
             Some \<lparr>nl_NodeName = (if pn_NodeName nl = '''' then fallbackNodeName else pn_NodeName nl),
                   nl_Path = pn_Path nl\<rparr>),
      al_HTTP = None\<rparr>"

definition toHandoffLocations :: "ProvArtifactLocation list \<Rightarrow> string \<Rightarrow> ArtifactLocation list" where
  "toHandoffLocations locations fallbackNodeName =
     map (toHandoffLocation fallbackNodeName) locations"

definition nodeStatusFromAttempt :: "AttemptRecord \<Rightarrow> NodeStatus" where
  "nodeStatusFromAttempt attempt =
     (if ar_TerminalStopCause attempt = ''canceled'' then NodeStatusCanceled
      else if ar_Status attempt = AttemptStatusCompleted then NodeStatusSucceeded
      else NodeStatusFailed)"

definition causedByMessage :: "string \<Rightarrow> string" where
  "causedByMessage rootNodeID =
     (if rootNodeID = '''' then ''''
      else ''caused_by='' @ rootNodeID @ '' (fast-fail downstream cancellation)'')"

definition effectiveMaxAttempts :: "int \<Rightarrow> int" where
  "effectiveMaxAttempts m = (if m < 1 then 1 else m)"

fun eventLevelForRunStatus :: "RunStatus \<Rightarrow> string" where
  "eventLevelForRunStatus RunStatusSucceeded = ''info''"
| "eventLevelForRunStatus RunStatusCanceled = ''warn''"
| "eventLevelForRunStatus _ = ''error''"

subsection \<open>Environment segments\<close>

definition env_ok :: "string \<Rightarrow> bool" where
  "env_ok s \<longleftrightarrow> s \<noteq> '''' \<and> list_all (\<lambda>c. is_upper c \<or> is_digit c \<or> c = CHR ''_'') s \<and>
     hd s \<noteq> CHR ''_'' \<and> last s \<noteq> CHR ''_'' \<and>
     successively (\<lambda>a b. \<not> (a = CHR ''_'' \<and> b = CHR ''_'')) s"

lemma to_upper_env_char: "env_char c \<Longrightarrow> is_upper (to_upper_char c) \<or> is_digit (to_upper_char c)"
  by (auto simp: env_char_def is_letter_def is_upper_def is_lower_def is_digit_def to_upper_char_def Let_def)

lemma upper_digit_fixed:
  "is_upper c \<or> is_digit c \<Longrightarrow> env_char c \<and> to_upper_char c = c \<and> c \<noteq> CHR ''_''"
  by (auto simp: env_char_def is_letter_def is_upper_def is_lower_def is_digit_def to_upper_char_def Let_def)

lemma env_segment_shape:
  "list_all (\<lambda>c. is_upper c \<or> is_digit c \<or> c = CHR ''_'') (env_segment p s) \<and>
   successively (\<lambda>a b. \<not> (a = CHR ''_'' \<and> b = CHR ''_'')) (env_segment p s) \<and>
   (p \<longrightarrow> env_segment p s = [] \<or> hd (env_segment p s) \<noteq> CHR ''_'')"
proof (induction p s rule: env_segment.induct)
  case (2 p c cs)
  show ?case
  proof (cases "env_char c")
    case True
    then have "is_upper (to_upper_char c) \<or> is_digit (to_upper_char c)" by (rule to_upper_env_char)
    moreover from this have "to_upper_char c \<noteq> CHR ''_''" using upper_digit_fixed by blast
    ultimately show ?thesis using True "2.IH"(1) by (auto simp: successively_Cons)
  next
    case False
    with "2.IH"(2,3) show ?thesis by (cases p) (auto simp: successively_Cons)
  qed
qed simp

lemma trim_while_sublist: "\<exists>u v. s = u @ trim_while p s @ v"
proof -
  let ?t = "dropWhile p s"
  have "s = takeWhile p s @ ?t" by simp
  moreover have "?t = rev (dropWhile p (rev ?t)) @ rev (takeWhile p (rev ?t))"
    by (metis rev_append rev_rev_ident takeWhile_dropWhile_id)
  ultimately show ?thesis unfolding trim_while_def by metis
qed

lemma sanitizeEnvSegment_ok: "env_ok (sanitizeEnvSegment value)"
proof (cases "value = '''' \<or> Trim (env_segment False value) ''_'' = ''''")
  case True
  have "env_ok ''UNSPECIFIED''" by (simp add: env_ok_def is_upper_def)
  with True show ?thesis by (auto simp: sanitizeEnvSegment_def)
next
  case False
  let ?r = "Trim (env_segment False value) ''_''"
  have r: "?r = trim_while (\<lambda>c. c \<in> set ''_'') (env_segment False value)" by (simp add: Trim_def)
  obtain u v where "env_segment False value = u @ ?r @ v"
    using trim_while_sublist [of "env_segment False value"] unfolding r by blast
  then have "list_all (\<lambda>c. is_upper c \<or> is_digit c \<or> c = CHR ''_'') (u @ ?r @ v)"
      "successively (\<lambda>a b. \<not> (a = CHR ''_'' \<and> b = CHR ''_'')) (u @ ?r @ v)"
    using env_segment_shape [of False "value"] by metis+
  then have "list_all (\<lambda>c. is_upper c \<or> is_digit c \<or> c = CHR ''_'') ?r"
      "successively (\<lambda>a b. \<not> (a = CHR ''_'' \<and> b = CHR ''_'')) ?r"
    by (simp_all add: successively_append_iff)
  moreover have "hd ?r \<noteq> CHR ''_''" "last ?r \<noteq> CHR ''_''"
    using False trim_while_hd [of "\<lambda>c. c \<in> set ''_''"] trim_while_last [of "\<lambda>c. c \<in> set ''_''"]
    unfolding r by fastforce+
  ultimately show ?thesis using False by (simp add: sanitizeEnvSegment_def env_ok_def)
qed

lemma env_segment_id:
  "list_all (\<lambda>c. is_upper c \<or> is_digit c \<or> c = CHR ''_'') s \<Longrightarrow>
   successively (\<lambda>a b. \<not> (a = CHR ''_'' \<and> b = CHR ''_'')) s \<Longrightarrow>
   (p \<longrightarrow> s = [] \<or> hd s \<noteq> CHR ''_'') \<Longrightarrow> env_segment p s = s"
proof (induction p s rule: env_segment.induct)
  case (2 p c cs)
  have us: "\<not> env_char (CHR ''_'')"
    by (simp add: env_char_def is_letter_def is_upper_def is_lower_def is_digit_def)
  show ?case
  proof (cases "c = CHR ''_''")
    case True
    then have "\<not> p" "cs = [] \<or> hd cs \<noteq> CHR ''_''" using "2.prems" by (auto simp: successively_Cons)
    with True us "2.IH"(3) "2.prems" show ?thesis by (auto simp: successively_Cons)
  next
    case False
    then have "env_char c \<and> to_upper_char c = c" using "2.prems"(1) upper_digit_fixed [of c] by auto
    with False "2.IH"(1) "2.prems" show ?thesis by (auto simp: successively_Cons)
  qed
qed simp

lemma sanitizeEnvSegment_id: "env_ok s \<Longrightarrow> sanitizeEnvSegment s = s"
  using env_segment_id [of s False]
  by (auto simp: env_ok_def sanitizeEnvSegment_def Trim_def trim_while_id)


subsection \<open>Environment keys of several inputs\<close>

lemma validate_env_keys_iff:
  "validate_env_keys bs seen = ok \<longleftrightarrow>
     distinct (map (\<lambda>b. sanitizeEnvSegment (binding_name b)) bs) \<and>
     (\<lambda>b. sanitizeEnvSegment (binding_name b)) ` set bs \<inter> dom (map_of seen) = {}"
proof (induction bs arbitrary: seen)
  case (Cons b bs)
  show ?case
  proof (cases "map_of seen (sanitizeEnvSegment (binding_name b))")
    case None
    let ?k = "\<lambda>b. sanitizeEnvSegment (binding_name b)"
    have "dom (map_of (mput (?k b) (binding_name b) seen)) = insert (?k b) (dom (map_of seen))" by simp
    with None Cons.IH [of "mput (?k b) (binding_name b) seen"] show ?thesis
      by (simp add: Let_def domIff del: map_of_mput) blast
  next
    case (Some x)
    then show ?thesis by (auto simp: Let_def)
  qed
qed simp

lemma suffix_of_suffix:
  assumes "b @ s = b' @ s'" and "length s \<le> length s'"
  shows "\<exists>w. s' = w @ s \<and> b = b' @ w"
  using assms by (auto simp: append_eq_append_conv2)

text \<open>Only one of the suffixes is a proper suffix of another.\<close>

lemma env_suffix_clash:
  assumes "s \<in> set materializationEnvSuffixes" and "s' \<in> set materializationEnvSuffixes"
    and "s \<noteq> s'" and "HasSuffix s' s"
  shows "s = ''_LOCAL_PATH'' \<and> s' = ''_NODE_LOCAL_PATH''"
proof -
  have "list_all (\<lambda>s. list_all (\<lambda>s'. s \<noteq> s' \<and> HasSuffix s' s \<longrightarrow>
      s = ''_LOCAL_PATH'' \<and> s' = ''_NODE_LOCAL_PATH'') materializationEnvSuffixes)
      materializationEnvSuffixes" by code_simp
  with assms show ?thesis by (simp only: list_all_iff) blast
qed

lemma env_key_collision:
  assumes "s \<in> set materializationEnvSuffixes" and "s' \<in> set materializationEnvSuffixes"
    and "s \<noteq> s'" and "length s \<le> length s'"
    and "materializationEnvKey b s = materializationEnvKey b' s'"
  shows "s = ''_LOCAL_PATH'' \<and> s' = ''_NODE_LOCAL_PATH'' \<and> b = b' @ ''_NODE''"
proof -
  have "b @ s = b' @ s'" using assms(5) by (simp add: materializationEnvKey_def)
  from suffix_of_suffix [OF this assms(4)] obtain w where w: "s' = w @ s" "b = b' @ w" by blast
  have "HasSuffix s' s" unfolding w(1) by simp
  then have c: "s = ''_LOCAL_PATH'' \<and> s' = ''_NODE_LOCAL_PATH''" by (rule env_suffix_clash [OF assms(1-3)])
  then have "w = ''_NODE''" using w(1) by auto
  with c w(2) show ?thesis by simp
qed

text \<open>What one binding writes, as pairs of a suffix and a value, in the order of the writes.\<close>

definition env_writes :: "ResolveBindingResponse \<Rightarrow> (string \<times> string) list" where
  "env_writes r = (let plan = rs_MaterializationPlan r in
     [(''_STATUS'', rs_ResolutionStatus r), (''_DECISION'', rs_Decision r), (''_URI'', mp_URI plan),
      (''_SOURCE_NODE'', pi_NodeName (rs_PlacementIntent r)),
      (''_PLACEMENT_MODE'', pi_Mode (rs_PlacementIntent r)),
      (''_MATERIALIZATION_MODE'', mp_Mode plan), (''_EXPECTED_DIGEST'', mp_ExpectedDigest plan)] @
     (if mp_ExpectedSize plan > 0 then [(''_EXPECTED_SIZE_BYTES'', Itoa (mp_ExpectedSize plan))] else []) @
     (case mp_SourceLocation plan of None \<Rightarrow> []
      | Some l \<Rightarrow> (case al_NodeLocal l of None \<Rightarrow> [] | Some nl \<Rightarrow> [(''_NODE_LOCAL_PATH'', nl_Path nl)])) @
     (if sanitizeResolvedLocalPath (mp_LocalPath plan) \<noteq> ''''
      then [(''_LOCAL_PATH'', sanitizeResolvedLocalPath (mp_LocalPath plan))] else []) @
     [(''_REQUIRES_MATERIALIZATION'', if requiresMaterialization r then ''true'' else ''false'')])"

definition binding_key :: "ArtifactBinding \<Rightarrow> string \<Rightarrow> string" where
  "binding_key b = materializationEnvKey (sanitizeEnvSegment (binding_name b))"

lemma inject_env_eq:
  "injectResolvedBindingEnv node b r =
     foldl (\<lambda>n (s, v). set_env (binding_key b s) v n) node (env_writes r)"
  by (cases "0 < mp_ExpectedSize (rs_MaterializationPlan r)";
      cases "sanitizeResolvedLocalPath (mp_LocalPath (rs_MaterializationPlan r)) = ''''";
      cases "mp_SourceLocation (rs_MaterializationPlan r)")
    (simp_all add: injectResolvedBindingEnv_def env_writes_def binding_key_def Let_def split: option.split)

lemma env_writes_suffixes:
  "set (map fst (env_writes r)) \<subseteq> set materializationEnvSuffixes \<and> distinct (map fst (env_writes r))"
  by (cases "0 < mp_ExpectedSize (rs_MaterializationPlan r)";
      cases "sanitizeResolvedLocalPath (mp_LocalPath (rs_MaterializationPlan r)) = ''''";
      cases "mp_SourceLocation (rs_MaterializationPlan r)")
    (simp_all add: env_writes_def materializationEnvSuffixes_def Let_def split: option.split)

lemma foldl_set_env_other:
  "k \<notin> (\<lambda>(s, v). f s) ` set ws \<Longrightarrow>
     mread (nd_Env (foldl (\<lambda>n (s, v). set_env (f s) v n) node ws)) k = mread (nd_Env node) k"
  by (induction ws arbitrary: node) (auto simp: set_env_def)

lemma foldl_set_env_read:
  assumes "(s, v) \<in> set ws" and "distinct (map fst ws)"
    and "\<And>s'. s' \<in> fst ` set ws \<Longrightarrow> s' \<noteq> s \<Longrightarrow> f s' \<noteq> f s"
  shows "mread (nd_Env (foldl (\<lambda>n (s, v). set_env (f s) v n) node ws)) (f s) = v"
  using assms
proof (induction ws arbitrary: node)
  case (Cons w ws)
  show ?case
  proof (cases "w = (s, v)")
    case True
    then have "s \<notin> fst ` set ws" using Cons.prems(2) by auto
    then have "f s \<notin> (\<lambda>(s, v). f s) ` set ws" using Cons.prems(3) by (fastforce simp: image_iff)
    with True show ?thesis by (simp add: foldl_set_env_other) (simp add: set_env_def)
  next
    case False
    with Cons show ?thesis by (auto simp: case_prod_beta)
  qed
qed simp

text \<open>
  C14: an accepted list of input bindings has pairwise different environment segments, and after all
  of them are injected, in any order, every variable that a binding sets still has the value of
  that binding, except possibly the two path variables.
\<close>

definition inject_all :: "Node \<Rightarrow> (ArtifactBinding \<times> ResolveBindingResponse) list \<Rightarrow> Node" where
  "inject_all node xs = foldl (\<lambda>n (b, r). injectResolvedBindingEnv n b r) node xs"

lemma other_binding_keys:
  assumes "sanitizeEnvSegment (binding_name b') \<noteq> sanitizeEnvSegment (binding_name b)"
    and "s \<in> set materializationEnvSuffixes" and "s \<notin> {''_LOCAL_PATH'', ''_NODE_LOCAL_PATH''}"
  shows "binding_key b s \<notin> (\<lambda>(s, v). binding_key b' s) ` set (env_writes r)"
proof
  assume "binding_key b s \<in> (\<lambda>(s, v). binding_key b' s) ` set (env_writes r)"
  then obtain s' v where k: "binding_key b s = binding_key b' s'" and "(s', v) \<in> set (env_writes r)" by auto
  then have s': "s' \<in> set materializationEnvSuffixes" using env_writes_suffixes [of r] by force
  consider "s = s'" | "s \<noteq> s'" "length s \<le> length s'" | "s \<noteq> s'" "length s' \<le> length s" by linarith
  then show False
  proof cases
    case 1
    then show False using k assms(1) by (simp add: binding_key_def materializationEnvKey_def)
  next
    case 2
    then show False using env_key_collision [OF assms(2) s'] k assms(3) unfolding binding_key_def by blast
  next
    case 3
    then show False
      using env_key_collision [OF s' assms(2)] k [symmetric] assms(3) unfolding binding_key_def by blast
  qed
qed

lemma own_binding_keys:
  assumes "s \<in> set materializationEnvSuffixes" and "s' \<in> set materializationEnvSuffixes"
    and "s' \<noteq> s" and "s \<notin> {''_LOCAL_PATH'', ''_NODE_LOCAL_PATH''}"
  shows "binding_key b s' \<noteq> binding_key b s"
proof
  assume eq: "binding_key b s' = binding_key b s"
  show False
  proof (cases "length s \<le> length s'")
    case True
    from env_key_collision [OF assms(1,2) assms(3) [symmetric] True eq [symmetric, unfolded binding_key_def]]
    show False using assms(4) by simp
  next
    case False
    then have "length s' \<le> length s" by simp
    from env_key_collision [OF assms(2,1,3) this eq [unfolded binding_key_def]]
    show False using assms(4) by simp
  qed
qed

lemma inject_all_other:
  assumes "\<And>b' r'. (b', r') \<in> set xs \<Longrightarrow>
      sanitizeEnvSegment (binding_name b') \<noteq> sanitizeEnvSegment (binding_name b)"
    and "s \<in> set materializationEnvSuffixes" and "s \<notin> {''_LOCAL_PATH'', ''_NODE_LOCAL_PATH''}"
  shows "mread (nd_Env (inject_all node xs)) (binding_key b s) = mread (nd_Env node) (binding_key b s)"
  using assms(1)
proof (induction xs arbitrary: node)
  case (Cons x xs)
  obtain b' r' where x: "x = (b', r')" by (cases x)
  have "mread (nd_Env (injectResolvedBindingEnv node b' r')) (binding_key b s)
      = mread (nd_Env node) (binding_key b s)"
    unfolding inject_env_eq
    by (rule foldl_set_env_other, rule other_binding_keys [OF _ assms(2,3)]) (use Cons.prems x in auto)
  moreover have "mread (nd_Env (inject_all (injectResolvedBindingEnv node b' r') xs)) (binding_key b s)
      = mread (nd_Env (injectResolvedBindingEnv node b' r')) (binding_key b s)"
    by (rule Cons.IH) (use Cons.prems in auto)
  moreover have "inject_all node (x # xs) = inject_all (injectResolvedBindingEnv node b' r') xs"
    by (simp add: inject_all_def x)
  ultimately show ?case by simp
qed (simp add: inject_all_def)


definition demo_binding :: "string \<Rightarrow> ArtifactBinding" where
  "demo_binding name = \<lparr>ab_BindingName = name, ab_ChildInputName = name, ab_ProducerNodeID = ''p'',
     ab_ProducerOutputName = ''o'', ab_ArtifactID = '''', ab_Required = True, ab_ConsumePolicy = '''',
     ab_ExpectedDigest = ''''\<rparr>"

definition demo_response :: "string \<Rightarrow> string \<Rightarrow> ResolveBindingResponse" where
  "demo_response uri path = zero_ResolveBindingResponse
     \<lparr>rs_ResolutionStatus := ''RESOLVED'', rs_MaterializationPlan := zero_MaterializationPlan
        \<lparr>mp_Mode := ''remote_fetch'', mp_URI := uri, mp_LocalPath := path,
         mp_SourceLocation := Some \<lparr>al_NodeLocal = Some \<lparr>nl_NodeName = ''n'', nl_Path = ''/data/'' @ uri\<rparr>,
           al_HTTP = None\<rparr>\<rparr>\<rparr>"



subsection \<open>Local paths stay below the inputs directory\<close>

lemma Join_nonempty: "ws \<noteq> [] \<Longrightarrow> hd ws \<noteq> '''' \<Longrightarrow> Join ws sep \<noteq> ''''"
  by (cases ws; cases "tl ws") auto

lemma Rel_inputs:
  assumes qs: "list_all plain_elem qs" "qs \<noteq> []"
  shows "Rel ''inputs'' (Join qs ''/'') =
    Inr (if qs = [''inputs''] then ''.''
         else if hd qs = ''inputs'' then Join (tl qs) ''/'' else ''../'' @ Join qs ''/'')"
proof -
  have p: "plain_elem ''inputs''" by (simp add: plain_elem_def)
  have base: "Clean ''inputs'' = ''inputs''" "split_slash ''inputs'' = [''inputs'']" "\<not> IsAbs ''inputs''"
    using Clean_plain [of "[''inputs'']"] plain_split [of "[''inputs'']"] plain_not_abs [of "[''inputs'']"] p
    by simp_all
  have targ: "Clean (Join qs ''/'') = Join qs ''/''" "split_slash (Join qs ''/'') = qs"
    "\<not> IsAbs (Join qs ''/'')"
    using qs by (simp_all add: Clean_plain plain_split plain_not_abs)
  have eq: "Join qs ''/'' = ''inputs'' \<longleftrightarrow> qs = [''inputs'']"
    using targ(2) base(2) by (metis Join.simps(2))
  obtain q qs' where q: "qs = q # qs'" using qs(2) by (cases qs) auto
  show ?thesis
  proof (cases "qs = [''inputs'']")
    case True
    then show ?thesis using base by (simp add: Rel_def)
  next
    case False
    have d: "drop_common [''inputs''] qs = (if q = ''inputs'' then ([], qs') else ([''inputs''], qs))"
      by (cases qs') (simp_all add: q)
    have "Rel ''inputs'' (Join qs ''/'') =
      (let (bs, ts) = drop_common [''inputs''] qs
       in if bs \<noteq> [] \<and> hd bs = ''..'' then Inl (Errorf (''Rel: can't make '' @ Join qs ''/'' @ '' relative to '' @ ''inputs''))
          else Inr (Join (replicate (length bs) ''..'' @ ts) ''/''))"
      unfolding Rel_def Let_def base targ using False eq base(3) targ(3) by simp
    then show ?thesis using False q d by (simp add: Join_Cons)
  qed
qed

lemma Rel_inputs_dot: "Rel ''inputs'' ''.'' = Inr ''../.''"
  by code_simp

lemma sanitize_path_eq:
  "sanitizeResolvedLocalPath v =
     (let p = Clean (TrimSpace v)
      in if TrimSpace v \<noteq> '''' \<and> IsLocal (TrimSpace v) \<and> HasPrefix p ''inputs/'' then p else '''')"
proof (cases "TrimSpace v \<noteq> '''' \<and> IsLocal (TrimSpace v)")
  case False
  then show ?thesis by (auto simp: sanitizeResolvedLocalPath_def Let_def)
next
  case True
  let ?p = "Clean (TrimSpace v)"
  have na: "\<not> IsAbs (TrimSpace v)" using True by (simp add: IsLocal_def)
  consider (dot) "?p = ''.''" | (plain) qs where "qs \<noteq> []" "list_all plain_elem qs" "?p = Join qs ''/''"
    using Clean_local True by blast
  then show ?thesis
  proof cases
    case dot
    then show ?thesis using True na
      by (simp add: sanitizeResolvedLocalPath_def Rel_inputs_dot HasPrefix_def)
  next
    case (plain qs)
    obtain q qs' where q: "qs = q # qs'" using plain(1) by (cases qs) auto
    have ps: "plain_elem q" "list_all plain_elem qs'" using plain(2) q by simp_all
    have pre: "HasPrefix ?p ''inputs/'' \<longleftrightarrow> q = ''inputs'' \<and> qs' \<noteq> []"
    proof
      assume "HasPrefix ?p ''inputs/''"
      then obtain t where "Join qs ''/'' = ''inputs'' @ CHR ''/'' # t" unfolding plain HasPrefix_iff by auto
      then have "qs = ''inputs'' # split_slash t"
        using plain_split [OF plain(2,1)] split_slash_append [of "''inputs''" t] by simp
      then show "q = ''inputs'' \<and> qs' \<noteq> []" using q by simp
    next
      assume "q = ''inputs'' \<and> qs' \<noteq> []"
      then show "HasPrefix ?p ''inputs/''" unfolding plain q by (simp add: Join_Cons HasPrefix_def)
    qed
    have "Join qs' ''/'' \<noteq> ''.'' \<and> Join qs' ''/'' \<noteq> ''..'' \<and> \<not> HasPrefix (Join qs' ''/'') ''../''"
      if ne: "qs' \<noteq> []"
    proof -
      obtain a as where as: "qs' = a # as" using ne by (cases qs') auto
      have sp: "split_slash (Join qs' ''/'') = a # as" using plain_split [OF ps(2) ne] as by simp
      have a: "a \<noteq> ''.''" "a \<noteq> ''..''" using ps(2) as by (simp_all add: plain_elem_def)
      have up: "split_slash (''../'' @ t) = ''..'' # split_slash t" for t by simp
      have "Join qs' ''/'' \<noteq> ''../'' @ t" for t
        using sp a(2) arg_cong [of "Join qs' ''/''" "''../'' @ t" split_slash] unfolding up by auto
      then have "\<not> HasPrefix (Join qs' ''/'') ''../''" by (simp only: HasPrefix_iff simp_thms)
      moreover have "Join qs' ''/'' \<noteq> ''.''" "Join qs' ''/'' \<noteq> ''..''" using sp a by auto
      ultimately show ?thesis by blast
    qed
    then show ?thesis
      using True na pre q unfolding sanitizeResolvedLocalPath_def Let_def plain(3) Rel_inputs [OF plain(2,1)]
      by (auto simp: HasPrefix_def)
  qed
qed

text \<open>
  C16: whatever path a resolver sends, the local path passed on to the container is either empty or
  \<^verbatim>\<open>inputs/\<close> followed by one or more plain elements (no dot, dot-dot or empty element), so it cannot
  leave the inputs directory; and a path of that form is passed on unchanged.
\<close>

theorem sanitizeResolvedLocalPath_safe:
  "(sanitizeResolvedLocalPath v \<noteq> '''' \<longrightarrow>
      (\<exists>qs. qs \<noteq> [] \<and> list_all plain_elem qs \<and> sanitizeResolvedLocalPath v = ''inputs/'' @ Join qs ''/'')) \<and>
   (\<forall>qs. qs \<noteq> [] \<and> list_all plain_elem qs \<and> TrimSpace v = v \<and> v = ''inputs/'' @ Join qs ''/'' \<longrightarrow>
      sanitizeResolvedLocalPath v = v)"
proof (intro conjI impI allI)
  assume ne: "sanitizeResolvedLocalPath v \<noteq> ''''"
  then have loc: "IsLocal (TrimSpace v)" and p: "sanitizeResolvedLocalPath v = Clean (TrimSpace v)"
    and pre: "HasPrefix (Clean (TrimSpace v)) ''inputs/''"
    by (auto simp: sanitize_path_eq Let_def split: if_splits)
  from Clean_local [OF loc] pre obtain qs where qs: "qs \<noteq> []" "list_all plain_elem qs"
    "Clean (TrimSpace v) = Join qs ''/''" by (auto simp: HasPrefix_def)
  from pre obtain t where "Join qs ''/'' = ''inputs'' @ CHR ''/'' # t" unfolding qs HasPrefix_iff by auto
  then have q: "qs = ''inputs'' # split_slash t"
    using plain_split [OF qs(2,1)] split_slash_append [of "''inputs''" t] by simp
  then show "\<exists>qs. qs \<noteq> [] \<and> list_all plain_elem qs \<and> sanitizeResolvedLocalPath v = ''inputs/'' @ Join qs ''/''"
    using qs(2) unfolding p qs(3) by (intro exI [of _ "split_slash t"]) (simp add: Join_Cons)
next
  fix qs
  assume a: "qs \<noteq> [] \<and> list_all plain_elem qs \<and> TrimSpace v = v \<and> v = ''inputs/'' @ Join qs ''/''"
  then have v: "v = Join (''inputs'' # qs) ''/''" by (simp add: Join_Cons)
  have ps: "list_all plain_elem (''inputs'' # qs)" using a by (simp add: plain_elem_def)
  have c: "Clean v = v" unfolding v by (rule Clean_plain [OF ps]) simp
  have "split_slash v = ''inputs'' # qs" unfolding v by (rule plain_split [OF ps]) simp
  then have "''.'' \<notin> set (split_slash v) \<and> ''..'' \<notin> set (split_slash v)"
    using ps by (auto simp: list_all_iff plain_elem_def)
  moreover have "\<not> IsAbs v" unfolding v by (rule plain_not_abs [OF ps]) simp
  moreover have pre: "HasPrefix v ''inputs/''" "v \<noteq> ''''" "v \<noteq> ''..''" "\<not> HasPrefix v ''../''"
    using a by (auto simp: HasPrefix_def)
  ultimately have "IsLocal v" by (auto simp: IsLocal_def)
  moreover have "TrimSpace v = v" using a by blast
  ultimately show "sanitizeResolvedLocalPath v = v"
    unfolding sanitize_path_eq Let_def using c pre by simp
qed

theorem sanitizeResolvedLocalPath_safe_witness:
  "sanitizeResolvedLocalPath ''inputs/ref/genome.fa'' = ''inputs/ref/genome.fa''"
proof -
  have "TrimSpace ''inputs/ref/genome.fa'' = ''inputs/ref/genome.fa''" by code_simp
  then show ?thesis
    by (intro sanitizeResolvedLocalPath_safe [THEN conjunct2, THEN spec, THEN mp,
          of "[''ref'', ''genome.fa'']"]) (simp add: plain_elem_def)
qed

subsection \<open>Placement hints\<close>

definition named_hint :: "string \<Rightarrow> bindingLocalityHint \<Rightarrow> bool" where
  "named_hint mode h \<longleftrightarrow> lh_PlacementMode h = mode \<and> TrimSpace (lh_PreferredNodeName h) \<noteq> ''''"

lemma collect_required_correct:
  "collect_required hs q p = Inr (q', p') \<Longrightarrow> TrimSpace q \<noteq> '''' \<or> q = '''' \<Longrightarrow>
     (\<forall>h \<in> set hs. named_hint ''required_node'' h \<longrightarrow> lh_PreferredNodeName h = q') \<and>
     (q \<noteq> '''' \<longrightarrow> q' = q) \<and>
     (q' = '''' \<longleftrightarrow> q = '''' \<and> (\<forall>h \<in> set hs. \<not> named_hint ''required_node'' h)) \<and>
     (p' \<longleftrightarrow> p \<or> (\<exists>h \<in> set hs. named_hint ''preferred_node'' h))"
proof (induction hs arbitrary: q p)
  case (Cons h hs)
  have n: "TrimSpace (lh_PreferredNodeName h) \<noteq> '''' \<Longrightarrow> lh_PreferredNodeName h \<noteq> ''''" by auto
  consider (req) "named_hint ''required_node'' h" | (pref) "named_hint ''preferred_node'' h"
    | (none) "\<not> named_hint ''required_node'' h" "\<not> named_hint ''preferred_node'' h" by blast
  then show ?case
  proof cases
    case req
    then have "\<not> named_hint ''preferred_node'' h" by (simp add: named_hint_def)
    with req n Cons.IH [of "lh_PreferredNodeName h" p] Cons.IH [of q p] Cons.prems show ?thesis
      by (auto simp: named_hint_def split: if_splits)
  next
    case pref
    then have "\<not> named_hint ''required_node'' h" by (simp add: named_hint_def)
    with pref Cons.IH [of q True] Cons.prems show ?thesis by (auto simp: named_hint_def split: if_splits)
  next
    case none
    with Cons.IH [of q p] Cons.prems show ?thesis by (auto simp: named_hint_def split: if_splits)
  qed
qed auto

lemma collect_preferred_correct:
  "set (map wp_NodeName (collect_preferred hs seen)) =
     lh_PreferredNodeName ` {h \<in> set hs. named_hint ''preferred_node'' h} - set seen \<and>
   distinct (map wp_NodeName (collect_preferred hs seen)) \<and>
   (\<forall>w \<in> set (collect_preferred hs seen). wp_Weight w = 100)"
proof (induction hs arbitrary: seen)
  case (Cons h hs)
  show ?case
    using Cons.IH [of seen] Cons.IH [of "lh_PreferredNodeName h # seen"]
    by (auto simp: named_hint_def image_iff)
qed simp

text \<open>
  C17: applying placement hints either fails or satisfies them: if some hint requires a node, all
  such hints name that node and the pod is pinned to it by the host name selector and the required
  node; otherwise the preferred nodes are exactly the nodes that hints prefer, each once with weight
  100.  Everything of the node except its placement is kept, and without named hints the node is
  unchanged.
\<close>

theorem applyPlacementHints_correct:
  assumes "applyPlacementHints node hints = Inr node'"
  shows "node'\<lparr>nd_Placement := nd_Placement node\<rparr> = node \<and>
    (\<forall>h \<in> set hints. named_hint ''required_node'' h \<longrightarrow>
       (\<exists>p. nd_Placement node' = Some p \<and> pl_RequiredNodeName p = lh_PreferredNodeName h \<and>
          mread (pl_NodeSelector p) hostnameNodeSelectorKey = lh_PreferredNodeName h)) \<and>
    ((\<forall>h \<in> set hints. \<not> named_hint ''required_node'' h) \<longrightarrow>
       (if \<exists>h \<in> set hints. named_hint ''preferred_node'' h
        then \<exists>p. nd_Placement node' = Some p \<and> pl_RequiredNodeName p = '''' \<and>
           set (map wp_NodeName (pl_PreferredNodes p)) =
             lh_PreferredNodeName ` {h \<in> set hints. named_hint ''preferred_node'' h} \<and>
           distinct (map wp_NodeName (pl_PreferredNodes p)) \<and>
           (\<forall>w \<in> set (pl_PreferredNodes p). wp_Weight w = 100)
        else node' = node))"
proof (cases "hints = []")
  case True
  then show ?thesis using assms by (auto simp: applyPlacementHints_def)
next
  case False
  then obtain q p where c: "collect_required hints '''' False = Inr (q, p)"
    using assms by (auto simp: applyPlacementHints_def split: sum.splits)
  note cr = collect_required_correct [OF c, simplified]
  let ?p = "case nd_Placement node of None \<Rightarrow> zero_PlacementHints | Some p \<Rightarrow> p"
  show ?thesis
  proof (cases "q = ''''")
    case True
    have pref: "collect_preferred hints [] \<noteq> []" if "\<exists>h \<in> set hints. named_hint ''preferred_node'' h"
      using that collect_preferred_correct [of hints "[]"] by auto
    show ?thesis
    proof (cases p)
      case True
      with \<open>q = ''''\<close> assms False c pref cr have
        "node' = node\<lparr>nd_Placement := Some (?p\<lparr>pl_PreferredNodes := collect_preferred hints []\<rparr>)\<rparr>"
        "pl_RequiredNodeName ?p = ''''"
        by (auto simp: applyPlacementHints_def Let_def split: if_splits)
      with \<open>q = ''''\<close> True cr collect_preferred_correct [of hints "[]"] show ?thesis by auto
    next
      case np: False
      with \<open>q = ''''\<close> assms False c have "node' = node"
        by (auto simp: applyPlacementHints_def split: if_splits)
      with \<open>q = ''''\<close> np cr show ?thesis by auto
    qed
  next
    case nq: False
    with assms False c have
      "node' = node\<lparr>nd_Placement := Some (?p\<lparr>pl_NodeSelector := mput hostnameNodeSelectorKey q (pl_NodeSelector ?p),
          pl_RequiredNodeName := q\<rparr>)\<rparr>"
      by (auto simp: applyPlacementHints_def Let_def split: if_splits)
    with nq cr show ?thesis by auto
  qed
qed

definition demo_hint :: "string \<Rightarrow> string \<Rightarrow> bindingLocalityHint" where
  "demo_hint mode node = \<lparr>lh_BindingName = ''b'', lh_ChildInputName = '''', lh_PreferredNodeName = node,
     lh_PlacementMode = mode, lh_Decision = '''', lh_RequiresMaterialization = False\<rparr>"

theorem applyPlacementHints_correct_witness:
  "\<exists>n p. applyPlacementHints zero_Node [demo_hint ''preferred_node'' ''n2'', demo_hint ''required_node'' ''n1''] = Inr n \<and>
     nd_Placement n = Some p \<and> pl_RequiredNodeName p = ''n1''"
proof -
  let ?hs = "[demo_hint ''preferred_node'' ''n2'', demo_hint ''required_node'' ''n1'']"
  have c: "applyPlacementHints zero_Node ?hs = Inr (zero_Node\<lparr>nd_Placement := Some (zero_PlacementHints
      \<lparr>pl_NodeSelector := [(''kubernetes.io/hostname'', ''n1'')], pl_RequiredNodeName := ''n1''\<rparr>)\<rparr>)"
    by code_simp
  have h: "named_hint ''required_node'' (demo_hint ''required_node'' ''n1'')" by code_simp
  have "\<exists>p. nd_Placement (zero_Node\<lparr>nd_Placement := Some (zero_PlacementHints
      \<lparr>pl_NodeSelector := [(''kubernetes.io/hostname'', ''n1'')], pl_RequiredNodeName := ''n1''\<rparr>)\<rparr>) = Some p \<and>
      pl_RequiredNodeName p = lh_PreferredNodeName (demo_hint ''required_node'' ''n1'')"
    using applyPlacementHints_correct [OF c] h by simp
  then show ?thesis using c by (auto simp: demo_hint_def)
qed


subsection \<open>Reading responses\<close>



end
