(* ===== verification/Exec_World.thy ===== *)
theory Exec_World
  imports Reconcile Exec_Bindings
begin

text \<open>
  The world in which the executor runs, and the primitive steps its programs are made of.

  A program is a value of the library's state monad over \<open>world\<close>.  What is not the executor's own
  code is the argument \<open>E\<close> of type \<open>env\<close>: the clock, the backend adapter, the handoff service, the
  failures of the store, and the other goroutines.  Every primitive that reads it advances the
  tick, so the answers may differ from call to call.  Registry methods are atomic; between two of
  them other goroutines may have changed the registry, which is \<open>en_interf\<close>.  A failing store call
  (\<open>en_fault\<close>) returns an error and changes nothing; its flag says whether the update function had
  already run, which matters where the source sets a local variable inside one.

  \<open>w_log\<close> is a ghost record of the calls that leave the process; the start of a node is recorded
  with the registry at that moment.
\<close>

record activeRun =
  ac_canceled :: bool
  ac_handles :: "(string, Handle) gomap"
  ac_unresolved :: bool

record runner_locals =
  rl_localityHints :: "bindingLocalityHint list"
  rl_postSchedulingResolves :: "postSchedulingResolve list"
  rl_localityFallbackStarted :: bool
  rl_localityActualNode :: string

datatype log_entry =
    LPrepare string
  | LStart string string registry
  | LObserve Handle
  | LWait Handle
  | LCancel Handle
  | LIdentity string
  | LResolve ResolveBindingRequest
  | LRegister RegisterArtifactRequest
  | LNotify NotifyNodeTerminalRequest
  | LFinalize string
  | LEvaluateGC string
  | LExecuteRun string
  | LRecoverCanceledRun string

text \<open>The goroutine that watches a running graph: the two channels of capacity one, and its end.\<close>

record watcher =
  wt_firstErr :: "string option"
  wt_fastFailRoot :: "string option"
  wt_done :: bool

record world =
  w_reg :: registry
  w_tick :: nat
  w_metrics :: "(string, nat) gomap"
  w_active :: "(string, activeRun) gomap"
  w_registered :: "string list"
  w_locals :: "string \<Rightarrow> runner_locals"
  w_watch :: watcher
  w_log :: "log_entry list"

record env =
  en_clock :: "nat \<Rightarrow> time"
  en_ctxErr :: "nat \<Rightarrow> go_error option"
  en_fault :: "nat \<Rightarrow> (go_error \<times> bool) option"
  en_interf :: "nat \<Rightarrow> registry \<Rightarrow> registry"
  en_adapter :: Adapter
  en_ResolveBinding :: "nat \<Rightarrow> ctx \<Rightarrow> ResolveBindingRequest \<Rightarrow> ResolveBindingResponse result"
  en_RegisterArtifact :: "nat \<Rightarrow> ctx \<Rightarrow> RegisterArtifactRequest \<Rightarrow> unit result"
  en_NotifyNodeTerminal :: "nat \<Rightarrow> ctx \<Rightarrow> NotifyNodeTerminalRequest \<Rightarrow> unit result"
  en_FinalizeSampleRun :: "nat \<Rightarrow> ctx \<Rightarrow> FinalizeSampleRunRequest \<Rightarrow> unit result"
  en_EvaluateGC :: "nat \<Rightarrow> ctx \<Rightarrow> EvaluateGCRequest \<Rightarrow> unit result"

type_synonym 'a prog = "(world, 'a) state"

abbreviation ret :: "'a \<Rightarrow> 'a prog" where
  "ret x \<equiv> State_Monad.return x"

text \<open>Sequencing of calls that return an error: the rest runs only after a success.\<close>

definition bindR :: "('e + 'a) prog \<Rightarrow> ('a \<Rightarrow> ('e + 'b) prog) \<Rightarrow> ('e + 'b) prog" where
  "bindR m f = do { r \<leftarrow> m; case r of Inl e \<Rightarrow> ret (Inl e) | Inr x \<Rightarrow> f x }"

text \<open>
  A part of a function that may return from it: \<open>Inl res\<close> is the value returned early.
  \<open>or_return\<close> is the idiom \<^verbatim>\<open>if err != nil { return err }\<close>, \<open>body\<close> the whole function.
\<close>

type_synonym 'a early = "unit result + 'a"

definition or_return :: "'a result prog \<Rightarrow> 'a early prog" where
  "or_return m = do { r \<leftarrow> m; ret (case r of Inl e \<Rightarrow> Inl (Inl e) | Inr x \<Rightarrow> Inr x) }"

definition return_early :: "unit result prog \<Rightarrow> 'a early prog" where
  "return_early m = do { r \<leftarrow> m; ret (Inl r) }"

definition body :: "unit result early prog \<Rightarrow> unit result prog" where
  "body m = do { r \<leftarrow> m; ret (case r of Inl res \<Rightarrow> res | Inr res \<Rightarrow> res) }"

subsection \<open>Primitive steps\<close>

definition next_tick :: "nat prog" where
  "next_tick = do { w \<leftarrow> State_Monad.get; State_Monad.set (w\<lparr>w_tick := w_tick w + 1\<rparr>); ret (w_tick w) }"

definition log_call :: "log_entry \<Rightarrow> unit prog" where
  "log_call l = State_Monad.update (\<lambda>w. w\<lparr>w_log := w_log w @ [l]\<rparr>)"

definition time_Now :: "env \<Rightarrow> time prog" where
  "time_Now E = do { t \<leftarrow> next_tick; ret (en_clock E t) }"

definition reg_op :: "env \<Rightarrow> (registry \<Rightarrow> 'a result \<times> registry) \<Rightarrow> 'a result prog" where
  "reg_op E f = do {
     t \<leftarrow> next_tick;
     w \<leftarrow> State_Monad.get;
     let r = en_interf E t (w_reg w);
     case en_fault E t of
       Some (e, _) \<Rightarrow> do { State_Monad.set (w\<lparr>w_reg := r\<rparr>); ret (Inl e) }
     | None \<Rightarrow> (case f r of (res, r') \<Rightarrow> do { State_Monad.set (w\<lparr>w_reg := r'\<rparr>); ret res }) }"

text \<open>
  An update whose function sets a local variable to \<open>out x\<close> for the record \<open>x\<close> it is given (the
  variable keeps the value \<open>dflt\<close> when the function does not run).
\<close>

definition reg_update_node_out ::
  "env \<Rightarrow> string \<Rightarrow> string \<Rightarrow> (NodeRecord \<Rightarrow> NodeRecord) \<Rightarrow> (NodeRecord \<Rightarrow> 'a) \<Rightarrow> 'a \<Rightarrow> 'a prog" where
  "reg_update_node_out E runID nodeID f out dflt = do {
     t \<leftarrow> next_tick;
     w \<leftarrow> State_Monad.get;
     let r = en_interf E t (w_reg w);
     let v = (case node_at r runID nodeID of None \<Rightarrow> dflt | Some x \<Rightarrow> out x);
     case en_fault E t of
       Some (_, late) \<Rightarrow> do { State_Monad.set (w\<lparr>w_reg := r\<rparr>); ret (if late then v else dflt) }
     | None \<Rightarrow> do {
         State_Monad.set (w\<lparr>w_reg := snd (UpdateNode runID nodeID (\<lambda>x. Inr (f x)) r)\<rparr>);
         ret v } }"

definition inc :: "string \<Rightarrow> unit prog" where
  "inc counter = State_Monad.update (\<lambda>w. w\<lparr>w_metrics :=
     mput counter (case map_of (w_metrics w) counter of None \<Rightarrow> 1 | Some n \<Rightarrow> n + 1) (w_metrics w)\<rparr>)"

definition appendEvent :: "env \<Rightarrow> EventRecord \<Rightarrow> unit prog" where
  "appendEvent E event = do { _ \<leftarrow> reg_op E (AppendEvent event); ret () }"

text \<open>\<^verbatim>\<open>ctx.Err()\<close> of a context of the run \<open>runID\<close>.\<close>

definition ctx_Err :: "env \<Rightarrow> string \<Rightarrow> ctx \<Rightarrow> go_error option prog" where
  "ctx_Err E runID c = do {
     t \<leftarrow> next_tick;
     w \<leftarrow> State_Monad.get;
     ret (case c of
            CtxBackground \<Rightarrow> None
          | CtxCanceled \<Rightarrow> Some ContextCanceled
          | CtxRun \<Rightarrow>
              (if (case map_of (w_active w) runID of None \<Rightarrow> False | Some a \<Rightarrow> ac_canceled a)
               then Some ContextCanceled else en_ctxErr E t)) }"

subsection \<open>Calls to the backend and to the handoff service\<close>

definition adapter_PrepareNode :: "env \<Rightarrow> ctx \<Rightarrow> RunRecord \<Rightarrow> Node \<Rightarrow> PreparedNode result prog" where
  "adapter_PrepareNode E c run node = do {
     t \<leftarrow> next_tick; log_call (LPrepare (nd_NodeID node));
     ret (ad_PrepareNode (en_adapter E) t c run node) }"

definition adapter_StartNode ::
  "env \<Rightarrow> ctx \<Rightarrow> string \<Rightarrow> string \<Rightarrow> PreparedNode \<Rightarrow> Handle result prog" where
  "adapter_StartNode E c nodeID attemptID prepared = do {
     t \<leftarrow> next_tick; w \<leftarrow> State_Monad.get; log_call (LStart nodeID attemptID (w_reg w));
     ret (ad_StartNode (en_adapter E) t c prepared) }"

definition adapter_ObserveNode :: "env \<Rightarrow> ctx \<Rightarrow> Handle \<Rightarrow> OptionalKueueInfo option result prog" where
  "adapter_ObserveNode E c h = do {
     t \<leftarrow> next_tick; log_call (LObserve h); ret (ad_ObserveNode (en_adapter E) t c h) }"

definition adapter_WaitNode :: "env \<Rightarrow> ctx \<Rightarrow> Handle \<Rightarrow> ExecutionResult result prog" where
  "adapter_WaitNode E c h = do {
     t \<leftarrow> next_tick; log_call (LWait h); ret (ad_WaitNode (en_adapter E) t c h) }"

definition adapter_CancelNode :: "env \<Rightarrow> ctx \<Rightarrow> Handle \<Rightarrow> unit result prog" where
  "adapter_CancelNode E c h = do {
     t \<leftarrow> next_tick; log_call (LCancel h); ret (ad_CancelNode (en_adapter E) t c h) }"

definition handoff_ResolveBinding ::
  "env \<Rightarrow> ctx \<Rightarrow> ResolveBindingRequest \<Rightarrow> ResolveBindingResponse result prog" where
  "handoff_ResolveBinding E c req = do {
     t \<leftarrow> next_tick; log_call (LResolve req); ret (en_ResolveBinding E t c req) }"

definition handoff_RegisterArtifact :: "env \<Rightarrow> ctx \<Rightarrow> RegisterArtifactRequest \<Rightarrow> unit result prog" where
  "handoff_RegisterArtifact E c req = do {
     t \<leftarrow> next_tick; log_call (LRegister req); ret (en_RegisterArtifact E t c req) }"

definition handoff_NotifyNodeTerminal ::
  "env \<Rightarrow> ctx \<Rightarrow> NotifyNodeTerminalRequest \<Rightarrow> unit result prog" where
  "handoff_NotifyNodeTerminal E c req = do {
     t \<leftarrow> next_tick; log_call (LNotify req); ret (en_NotifyNodeTerminal E t c req) }"

definition handoff_FinalizeSampleRun ::
  "env \<Rightarrow> ctx \<Rightarrow> FinalizeSampleRunRequest \<Rightarrow> unit result prog" where
  "handoff_FinalizeSampleRun E c req = do {
     t \<leftarrow> next_tick; log_call (LFinalize (fs_SampleRunID req)); ret (en_FinalizeSampleRun E t c req) }"

definition handoff_EvaluateGC :: "env \<Rightarrow> ctx \<Rightarrow> EvaluateGCRequest \<Rightarrow> unit result prog" where
  "handoff_EvaluateGC E c req = do {
     t \<leftarrow> next_tick; log_call (LEvaluateGC (gc_SampleRunID req)); ret (en_EvaluateGC E t c req) }"

subsection \<open>The active run\<close>

definition upd_active :: "string \<Rightarrow> (activeRun \<Rightarrow> activeRun) \<Rightarrow> unit prog" where
  "upd_active runID f = State_Monad.update (\<lambda>w.
     case map_of (w_active w) runID of
       None \<Rightarrow> w
     | Some a \<Rightarrow> w\<lparr>w_active := mput runID (f a) (w_active w)\<rparr>)"

definition markUnresolved :: "string \<Rightarrow> unit prog" where
  "markUnresolved runID = upd_active runID (\<lambda>a. a\<lparr>ac_unresolved := True\<rparr>)"

definition isUnresolved :: "string \<Rightarrow> bool prog" where
  "isUnresolved runID = do {
     w \<leftarrow> State_Monad.get;
     ret (case map_of (w_active w) runID of None \<Rightarrow> False | Some a \<Rightarrow> ac_unresolved a) }"

definition new_activeRun :: activeRun where
  "new_activeRun = \<lparr>ac_canceled = False, ac_handles = [], ac_unresolved = False\<rparr>"

definition registerActiveRun :: "string \<Rightarrow> unit prog" where
  "registerActiveRun runID = State_Monad.update (\<lambda>w.
     w\<lparr>w_active := mput runID new_activeRun (w_active w),
       w_registered := (if runID \<in> set (w_registered w) then w_registered w
                        else runID # w_registered w)\<rparr>)"

definition unregisterActiveRun :: "string \<Rightarrow> unit prog" where
  "unregisterActiveRun runID = State_Monad.update (\<lambda>w.
     w\<lparr>w_registered := removeAll runID (w_registered w)\<rparr>)"

definition getActiveRun :: "string \<Rightarrow> activeRun option prog" where
  "getActiveRun runID = do {
     w \<leftarrow> State_Monad.get;
     ret (if runID \<in> set (w_registered w) then map_of (w_active w) runID else None) }"

definition cancel_active :: "string \<Rightarrow> unit prog" where
  "cancel_active runID = upd_active runID (\<lambda>a. a\<lparr>ac_canceled := True\<rparr>)"

text \<open>The handles in the order the map is read: \<open>mo\<close> is any permutation.\<close>

definition snapshotHandles :: "(Handle list \<Rightarrow> Handle list) \<Rightarrow> string \<Rightarrow> Handle list prog" where
  "snapshotHandles mo runID = do {
     w \<leftarrow> State_Monad.get;
     ret (case map_of (w_active w) runID of None \<Rightarrow> [] | Some a \<Rightarrow> mo (map snd (ac_handles a))) }"

subsection \<open>Durations as text\<close>

definition strip_zeros :: "string \<Rightarrow> string" where
  "strip_zeros s = rev (dropWhile (\<lambda>c. c = CHR ''0'') (rev s))"

fun pad_digits :: "nat \<Rightarrow> int \<Rightarrow> string" where
  "pad_digits 0 v = []"
| "pad_digits (Suc p) v = pad_digits p (v div 10) @ [char_of (48 + nat (v mod 10))]"

definition frac_digits :: "int \<Rightarrow> nat \<Rightarrow> string" where
  "frac_digits v prec =
     (let s = strip_zeros (pad_digits prec v) in if s = '''' then '''' else CHR ''.'' # s)"

definition Duration_String :: "duration \<Rightarrow> string" where
  "Duration_String d =
     (let u = \<bar>d\<bar>;
          body =
            (if u = 0 then ''0s''
             else if u < 1000 then Itoa u @ ''ns''
             else if u < 1000000
             then Itoa (u div 1000) @ frac_digits (u mod 1000) 3 @ [CHR 0xC2, CHR 0xB5] @ ''s''
             else if u < 1000000000
             then Itoa (u div 1000000) @ frac_digits (u mod 1000000) 6 @ ''ms''
             else
               let secs = u div 1000000000; mins = secs div 60; hours = mins div 60;
                   s = Itoa (secs mod 60) @ frac_digits (u mod 1000000000) 9 @ ''s''
               in if mins = 0 then s
                  else (if hours = 0 then '''' else Itoa hours @ ''h'')
                         @ Itoa (mins mod 60) @ ''m'' @ s)
      in if d < 0 then CHR ''-'' # body else body)"

definition Truncate :: "duration \<Rightarrow> duration \<Rightarrow> duration" where
  "Truncate d m = (if m \<le> 0 then d else d - sgn d * (\<bar>d\<bar> mod m))"

end
