(* ===== verification/Exec_Outcome.thy ===== *)
theory Exec_Outcome
  imports Exec_World
begin

text \<open>
  The node runner of \<^verbatim>\<open>executor.go\<close>, first part: how an attempt ends.  Failing, canceling, deferring
  and finalizing an attempt, and the recovery of an attempt that an earlier process left behind.
  One definition per method, with its registry calls, events, notifications and returns in order.
\<close>

record nodeRunner =
  rn_runID :: string
  rn_node :: Node

abbreviation rn_nodeID :: "nodeRunner \<Rightarrow> string" where
  "rn_nodeID r \<equiv> nd_NodeID (rn_node r)"

definition realizationAttemptCeiling :: int where
  "realizationAttemptCeiling = 32"

definition node_event :: "nodeRunner \<Rightarrow> string \<Rightarrow> string \<Rightarrow> time \<Rightarrow> string \<Rightarrow> EventRecord" where
  "node_event r attemptID ty t level = zero_EventRecord\<lparr>ev_RunID := rn_runID r,
     ev_NodeID := rn_nodeID r, ev_AttemptID := attemptID, ev_Type := ty, ev_OccurredAt := t,
     ev_Level := level\<rparr>"

definition attempt_record :: "nodeRunner \<Rightarrow> string \<Rightarrow> AttemptStatus \<Rightarrow> AttemptRecord" where
  "attempt_record r attemptID s = zero_AttemptRecord\<lparr>ar_RunID := rn_runID r,
     ar_NodeID := rn_nodeID r, ar_AttemptID := attemptID, ar_Status := s\<rparr>"

definition update_node :: "env \<Rightarrow> nodeRunner \<Rightarrow> (NodeRecord \<Rightarrow> NodeRecord) \<Rightarrow> unit result prog" where
  "update_node E r f = reg_op E (UpdateNode (rn_runID r) (rn_nodeID r) (\<lambda>x. Inr (f x)))"

definition upd_locals :: "nodeRunner \<Rightarrow> (runner_locals \<Rightarrow> runner_locals) \<Rightarrow> unit prog" where
  "upd_locals r f = State_Monad.update (\<lambda>w.
     w\<lparr>w_locals := (w_locals w)(rn_nodeID r := f (w_locals w (rn_nodeID r)))\<rparr>)"

definition get_locals :: "nodeRunner \<Rightarrow> runner_locals prog" where
  "get_locals r = do { w \<leftarrow> State_Monad.get; ret (w_locals w (rn_nodeID r)) }"

subsection \<open>Reading the run\<close>

definition isRunCanceled :: "env \<Rightarrow> nodeRunner \<Rightarrow> bool prog" where
  "isRunCanceled E r = do {
     run \<leftarrow> reg_op E (GetRun (rn_runID r));
     ret (case run of Inl _ \<Rightarrow> False | Inr run \<Rightarrow> rr_Status run = RunStatusCanceled) }"

definition effectiveCancellationReason :: "env \<Rightarrow> nodeRunner \<Rightarrow> string \<Rightarrow> string prog" where
  "effectiveCancellationReason E r reason =
     (if reason \<noteq> '''' \<and> reason \<noteq> ''cancellation_requested'' then ret reason
      else do {
        run \<leftarrow> reg_op E (GetRun (rn_runID r));
        ret (case run of
               Inr run \<Rightarrow>
                 if rr_TerminalFailureReason run \<noteq> '''' \<and>
                    rr_TerminalFailureReason run \<noteq> ''cancellation_requested''
                 then rr_TerminalFailureReason run
                 else FirstNonEmpty [reason, ''cancellation_requested'']
             | Inl _ \<Rightarrow> FirstNonEmpty [reason, ''cancellation_requested'']) })"

definition sampleRunID :: "env \<Rightarrow> nodeRunner \<Rightarrow> string prog" where
  "sampleRunID E r = do {
     run \<leftarrow> reg_op E (GetRun (rn_runID r));
     ret (case run of Inl _ \<Rightarrow> '''' | Inr run \<Rightarrow> rm_SampleRunID (es_Run (rr_Spec run))) }"

fun find_node :: "string \<Rightarrow> NodeRecord list \<Rightarrow> string" where
  "find_node nodeID [] = ''''"
| "find_node nodeID (n # ns) =
     (if nr_NodeID n = nodeID then nr_CurrentAttemptID n else find_node nodeID ns)"

definition lookupNodeAttemptID :: "env \<Rightarrow> nodeRunner \<Rightarrow> string \<Rightarrow> string prog" where
  "lookupNodeAttemptID E r nodeID = do {
     nodes \<leftarrow> reg_op E (ListNodes (rn_runID r));
     ret (case nodes of Inl _ \<Rightarrow> '''' | Inr ns \<Rightarrow> find_node nodeID ns) }"

definition notifyNodeTerminal ::
  "env \<Rightarrow> nodeRunner \<Rightarrow> ctx \<Rightarrow> string \<Rightarrow> string \<Rightarrow> unit result prog" where
  "notifyNodeTerminal E r c terminalState attemptID = do {
     s \<leftarrow> sampleRunID E r;
     handoff_NotifyNodeTerminal E c \<lparr>nt_SampleRunID = FirstNonEmpty [s, rn_runID r],
       nt_NodeID = rn_nodeID r, nt_AttemptID = attemptID, nt_TerminalState = terminalState\<rparr> }"

subsection \<open>Locality bookkeeping\<close>

definition recordLocalityFallbackSuccess :: "env \<Rightarrow> nodeRunner \<Rightarrow> string \<Rightarrow> unit prog" where
  "recordLocalityFallbackSuccess E r attemptID = do {
     l \<leftarrow> get_locals r;
     if \<not> rl_localityFallbackStarted l then ret ()
     else do {
       inc ''jumi_locality_fallback_succeeded'';
       t \<leftarrow> time_Now E;
       appendEvent E ((node_event r attemptID ''node.locality.fallback_succeeded'' t ''info'')
         \<lparr>ev_Message := FirstNonEmpty [rl_localityActualNode l, ''fallback preserved node success'']\<rparr>);
       upd_locals r (\<lambda>l. l\<lparr>rl_localityFallbackStarted := False\<rparr>) } }"

definition recordLocalityFallbackFailure :: "env \<Rightarrow> nodeRunner \<Rightarrow> string \<Rightarrow> unit prog" where
  "recordLocalityFallbackFailure E r attemptID = do {
     l \<leftarrow> get_locals r;
     if \<not> rl_localityFallbackStarted l then ret ()
     else do {
       inc ''jumi_locality_fallback_failed'';
       t \<leftarrow> time_Now E;
       appendEvent E ((node_event r attemptID ''node.locality.fallback_failed'' t ''error'')
         \<lparr>ev_Message := FirstNonEmpty [rl_localityActualNode l, ''fallback path failed'']\<rparr>);
       upd_locals r (\<lambda>l. l\<lparr>rl_localityFallbackStarted := False\<rparr>) } }"

subsection \<open>Ending an attempt\<close>

definition notify_failed_event ::
  "env \<Rightarrow> nodeRunner \<Rightarrow> string \<Rightarrow> string \<Rightarrow> go_error \<Rightarrow> unit prog" where
  "notify_failed_event E r attemptID stopCause e = do {
     t \<leftarrow> time_Now E;
     appendEvent E ((node_event r attemptID ''node.handoff.notify_failed'' t ''error'')
       \<lparr>ev_StopCause := stopCause, ev_FailureReason := ''notify_node_terminal_error'',
        ev_Message := Error e\<rparr>) }"

definition cancelNode :: "env \<Rightarrow> nodeRunner \<Rightarrow> string \<Rightarrow> string \<Rightarrow> unit result prog" where
  "cancelNode E r attemptID reason = do {
     finishedAt \<leftarrow> time_Now E;
     terminalReason \<leftarrow> effectiveCancellationReason E r reason;
     _ \<leftarrow> reg_op E (UpsertAttempt ((attempt_record r attemptID AttemptStatusErrored)
            \<lparr>ar_FinishedAt := Some finishedAt, ar_TerminalStopCause := ''canceled'',
             ar_TerminalFailureReason := terminalReason\<rparr>));
     appendEvent E ((node_event r attemptID ''node.canceled'' finishedAt ''warn'')
       \<lparr>ev_StopCause := ''canceled'', ev_FailureReason := terminalReason\<rparr>);
     bindR (update_node E r (\<lambda>cur. cur\<lparr>nr_Status := NodeStatusCanceled,
              nr_TerminalStopCause := ''canceled'', nr_TerminalFailureReason := terminalReason,
              nr_CurrentBottleneckLocation := '''', nr_FinishedAt := Some finishedAt,
              nr_CurrentAttemptHandleJSON := ''''\<rparr>)) (\<lambda>_. do {
       n \<leftarrow> notifyNodeTerminal E r CtxBackground ''Canceled'' attemptID;
       case n of
         Inl e \<Rightarrow> do { notify_failed_event E r attemptID ''canceled'' e; ret ok }
       | Inr _ \<Rightarrow> ret ok }) }"

definition terminalizeFailed ::
  "env \<Rightarrow> nodeRunner \<Rightarrow> go_error \<Rightarrow> string \<Rightarrow> string \<Rightarrow> string \<Rightarrow> unit result prog" where
  "terminalizeFailed E r cause attemptID terminalStopCause failureReason = do {
     finishedAt \<leftarrow> time_Now E;
     appendEvent E ((node_event r attemptID ''node.failed'' finishedAt ''error'')
       \<lparr>ev_StopCause := terminalStopCause, ev_FailureReason := failureReason\<rparr>);
     _ \<leftarrow> update_node E r (\<lambda>cur. cur\<lparr>nr_Status := NodeStatusFailed,
            nr_TerminalStopCause := terminalStopCause, nr_TerminalFailureReason := failureReason,
            nr_CurrentBottleneckLocation := '''', nr_FinishedAt := Some finishedAt,
            nr_CurrentAttemptHandleJSON := ''''\<rparr>);
     n \<leftarrow> notifyNodeTerminal E r CtxBackground ''Failed'' attemptID;
     case n of
       Inl e \<Rightarrow> do { notify_failed_event E r attemptID ''failed'' e; ret (Inl cause) }
     | Inr _ \<Rightarrow> ret (Inl cause) }"

definition terminalizeFailedNoRetry ::
  "env \<Rightarrow> nodeRunner \<Rightarrow> go_error \<Rightarrow> string \<Rightarrow> string \<Rightarrow> string \<Rightarrow> unit result prog" where
  "terminalizeFailedNoRetry E r cause attemptID terminalStopCause failureReason = do {
     recordLocalityFallbackFailure E r attemptID;
     canceled \<leftarrow> isRunCanceled E r;
     if canceled then cancelNode E r attemptID ''cancellation_requested''
     else terminalizeFailed E r cause attemptID terminalStopCause failureReason }"

definition openedOpportunityCount :: "env \<Rightarrow> nodeRunner \<Rightarrow> int result prog" where
  "openedOpportunityCount E r =
     bindR (reg_op E (ListAttempts (rn_runID r) (rn_nodeID r))) (\<lambda>attempts.
       ret (Inr (int (length (filter (\<lambda>a. ar_SubmissionWindowOpenedAt a \<noteq> None) attempts)))))"

definition realizationRetriesRemaining :: "env \<Rightarrow> nodeRunner \<Rightarrow> int option prog" where
  "realizationRetriesRemaining E r = do {
     node \<leftarrow> reg_op E (GetNode (rn_runID r) (rn_nodeID r));
     ret (case node of
            Inl _ \<Rightarrow> None
          | Inr node \<Rightarrow>
              (let remaining = realizationAttemptCeiling - nr_RealizationAttemptCount node
               in if remaining \<le> 0 then None else Some remaining)) }"

definition realize_again ::
  "env \<Rightarrow> nodeRunner \<Rightarrow> string \<Rightarrow> string \<Rightarrow> string \<Rightarrow> int \<Rightarrow> unit result prog" where
  "realize_again E r attemptID terminalStopCause failureReason remaining = do {
     finishedAt \<leftarrow> time_Now E;
     cur \<leftarrow> reg_op E (GetCurrentAttempt (rn_runID r) (rn_nodeID r));
     _ \<leftarrow> (case cur of
            Inr (Some cur) \<Rightarrow>
              if ar_AttemptID cur = attemptID \<and> ar_SubmissionWindowOpenedAt cur = None
              then reg_op E (UpsertAttempt (cur\<lparr>ar_RealizationReattemptableAt := Some finishedAt\<rparr>))
              else ret ok
          | _ \<Rightarrow> ret ok);
     appendEvent E ((node_event r attemptID ''node.attempt_failed'' finishedAt ''warn'')
       \<lparr>ev_StopCause := terminalStopCause, ev_FailureReason := failureReason,
        ev_Message := ''pre-submission realization failed, will re-realize ('' @ Itoa remaining
          @ '' realization cycles remaining)''\<rparr>);
     _ \<leftarrow> update_node E r (\<lambda>cur. cur\<lparr>nr_Status := NodeStatusPending,
            nr_CurrentBottleneckLocation := ''retry_wait'', nr_TerminalStopCause := '''',
            nr_TerminalFailureReason := '''', nr_FinishedAt := None,
            nr_CurrentAttemptID := '''', nr_CurrentAttemptHandleJSON := ''''\<rparr>);
     ret (Inl errNodeRetry) }"

definition failNode ::
  "env \<Rightarrow> nodeRunner \<Rightarrow> go_error \<Rightarrow> string \<Rightarrow> string \<Rightarrow> string \<Rightarrow> bool \<Rightarrow> unit result prog" where
  "failNode E r cause attemptID terminalStopCause failureReason realizationRetryable = do {
     recordLocalityFallbackFailure E r attemptID;
     canceled \<leftarrow> isRunCanceled E r;
     if canceled then cancelNode E r attemptID ''cancellation_requested''
     else do {
       remaining \<leftarrow> realizationRetriesRemaining E r;
       case (realizationRetryable, remaining) of
         (True, Some remaining) \<Rightarrow>
           realize_again E r attemptID terminalStopCause failureReason remaining
       | _ \<Rightarrow> terminalizeFailed E r cause attemptID terminalStopCause failureReason } }"

definition reconcileUnresolved :: "env \<Rightarrow> nodeRunner \<Rightarrow> string \<Rightarrow> unit result prog" where
  "reconcileUnresolved E r attemptID = do {
     t \<leftarrow> time_Now E;
     appendEvent E ((node_event r attemptID ''node.recovery.unresolved'' t ''warn'')
       \<lparr>ev_FailureReason := ''reconcile_unresolved'', ev_Message :=
          ''backend truth unresolved; reconcile-by-identity deferred (no replacement attempt)''\<rparr>);
     _ \<leftarrow> update_node E r (\<lambda>cur. cur\<lparr>nr_CurrentBottleneckLocation := ''reconcile_unresolved''\<rparr>);
     markUnresolved (rn_runID r);
     ret (Inl errReconcileUnresolved) }"

definition deferFinalizationAfterSuccess ::
  "env \<Rightarrow> nodeRunner \<Rightarrow> string \<Rightarrow> string \<Rightarrow> go_error \<Rightarrow> unit result prog" where
  "deferFinalizationAfterSuccess E r attemptID finalizationReason cause = do {
     completedAt \<leftarrow> time_Now E;
     p \<leftarrow> reg_op E (PersistProcessCompleted (rn_runID r) (rn_nodeID r) attemptID completedAt);
     case p of
       Inl e \<Rightarrow> do {
         t \<leftarrow> time_Now E;
         appendEvent E ((node_event r attemptID ''node.finalization.evidence_persist_failed'' t ''error'')
           \<lparr>ev_FailureReason := finalizationReason, ev_Message := Error e\<rparr>);
         markUnresolved (rn_runID r);
         ret (Inl errReconcileUnresolved) }
     | Inr _ \<Rightarrow> do {
         t \<leftarrow> time_Now E;
         appendEvent E ((node_event r attemptID ''node.finalization.deferred'' t ''warn'')
           \<lparr>ev_FailureReason := finalizationReason, ev_Message :=
              ''user process completed; platform finalization failed ('' @ finalizationReason
              @ ''); will reconcile finalization without rerunning user code: '' @ Error cause\<rparr>);
         _ \<leftarrow> update_node E r (\<lambda>cur. cur\<lparr>nr_CurrentBottleneckLocation := ''finalization_pending''\<rparr>);
         markUnresolved (rn_runID r);
         ret (Inl errReconcileUnresolved) } }"

subsection \<open>Registering outputs\<close>

definition collectOutputMetadata ::
  "env \<Rightarrow> nodeRunner \<Rightarrow> ctx \<Rightarrow> Handle \<Rightarrow> Node \<Rightarrow> (string, OutputMetadata) gomap result prog" where
  "collectOutputMetadata E r c h node =
     (case ad_OutputMetadataProvider (en_adapter E) of
        None \<Rightarrow>
          ret (if nd_Outputs node \<noteq> []
               then Inl (Errorf (''output metadata provider required for declared outputs on node ''
                           @ rn_nodeID r))
               else Inr [])
      | Some provider \<Rightarrow> do {
          t \<leftarrow> next_tick;
          ret (case provider t c h node of
                 Inl e \<Rightarrow> Inl (Wrapf (''collect output metadata for node '' @ rn_nodeID r @ '': '') e)
               | Inr m \<Rightarrow> Inr m) })"

definition normalize_uris :: "OutputMetadata \<Rightarrow> OutputMetadata" where
  "normalize_uris m =
     (if HasPrefix (TrimSpace (om_URI m)) ''jumi://''
      then m\<lparr>om_LogicalURI := (if TrimSpace (om_LogicalURI m) = '''' then om_URI m else om_LogicalURI m),
             om_URI := ''''\<rparr>
      else m)"

definition artifact_request ::
  "nodeRunner \<Rightarrow> string \<Rightarrow> string \<Rightarrow> string \<Rightarrow> OutputMetadata \<Rightarrow> RegisterArtifactRequest" where
  "artifact_request r sid attemptID outputName m =
     \<lparr>ra_SampleRunID = sid, ra_ProducerNodeID = rn_nodeID r,
      ra_ProducerAttemptID = attemptID, ra_OutputName = outputName,
      ra_ArtifactID = sid @ ''/'' @ rn_nodeID r @ ''/'' @ attemptID @ ''/'' @ outputName,
      ra_Digest = om_Digest m, ra_NodeName = om_NodeName m, ra_URI = om_URI m,
      ra_LogicalURI = om_LogicalURI m,
      ra_Locations = toHandoffLocations (om_Locations m) (om_NodeName m),
      ra_SizeBytes = om_SizeBytes m\<rparr>"

definition register_output ::
  "env \<Rightarrow> nodeRunner \<Rightarrow> ctx \<Rightarrow> string \<Rightarrow> string \<Rightarrow> (string, OutputMetadata) gomap \<Rightarrow> string
     \<Rightarrow> unit result prog" where
  "register_output E r c sid attemptID outputMetadata outputName =
     (if outputName = '''' then ret ok
      else case map_of outputMetadata outputName of
        None \<Rightarrow> ret (Inl (Errorf (''required output '' @ outputName @ '' missing from manifest for node ''
                            @ rn_nodeID r)))
      | Some m \<Rightarrow>
          if TrimSpace (om_Digest m) = ''''
          then ret (Inl (Errorf (''required output '' @ outputName @ '' has empty digest for node ''
                           @ rn_nodeID r)))
          else
            let m = normalize_uris m in
            if TrimSpace (om_URI m) = '''' \<and> om_Locations m = []
            then ret (Inl (Errorf (''required output '' @ outputName
                             @ '' has neither uri nor locations for node '' @ rn_nodeID r)))
            else do {
              res \<leftarrow> handoff_RegisterArtifact E c (artifact_request r sid attemptID outputName m);
              case res of
                Inl e \<Rightarrow> ret (Inl (Wrapf (''register artifact '' @ outputName @ '' for node ''
                                    @ rn_nodeID r @ '': '') e))
              | Inr _ \<Rightarrow> do { inc ''jumi_artifacts_registered''; ret ok } })"

definition registerNodeOutputs ::
  "env \<Rightarrow> nodeRunner \<Rightarrow> ctx \<Rightarrow> Handle \<Rightarrow> string \<Rightarrow> Node \<Rightarrow> unit result prog" where
  "registerNodeOutputs E r c h attemptID node =
     (if nd_Outputs node = [] then ret ok
      else bindR (collectOutputMetadata E r c h node) (\<lambda>outputMetadata. do {
        s \<leftarrow> sampleRunID E r;
        for_each_err (register_output E r c (FirstNonEmpty [s, rn_runID r]) attemptID outputMetadata)
          (nd_Outputs node) }))"

subsection \<open>Waiting for the backend\<close>

definition record_failure ::
  "env \<Rightarrow> nodeRunner \<Rightarrow> string \<Rightarrow> time \<Rightarrow> time \<Rightarrow> ExecutionResult \<Rightarrow> unit result prog" where
  "record_failure E r attemptID startedAt finishedAt result = do {
     recordLocalityFallbackFailure E r attemptID;
     let failureReason = terminalFailureReasonFromResult result;
     let terminalStopCause = FirstNonEmpty [er_TerminalStopCause result, ''failed''];
     _ \<leftarrow> reg_op E (UpsertAttempt ((attempt_record r attemptID AttemptStatusErrored)
            \<lparr>ar_StartedAt := Some startedAt, ar_FinishedAt := Some finishedAt,
             ar_TerminalStopCause := terminalStopCause,
             ar_TerminalFailureReason := failureReason\<rparr>));
     terminalizeFailedNoRetry E r (Errorf failureReason) attemptID terminalStopCause failureReason }"

definition record_success ::
  "env \<Rightarrow> nodeRunner \<Rightarrow> string \<Rightarrow> time \<Rightarrow> time \<Rightarrow> ExecutionResult \<Rightarrow> unit result prog" where
  "record_success E r attemptID startedAt finishedAt result = do {
     let stop = FirstNonEmpty [er_TerminalStopCause result, ''finished''];
     _ \<leftarrow> reg_op E (UpsertAttempt ((attempt_record r attemptID AttemptStatusCompleted)
            \<lparr>ar_StartedAt := Some startedAt, ar_FinishedAt := Some finishedAt,
             ar_TerminalStopCause := stop,
             ar_TerminalFailureReason := er_TerminalFailureReason result\<rparr>));
     bindR (update_node E r (\<lambda>cur. cur\<lparr>nr_Status := NodeStatusSucceeded,
              nr_TerminalStopCause := stop,
              nr_TerminalFailureReason := er_TerminalFailureReason result,
              nr_CurrentBottleneckLocation := '''', nr_FinishedAt := Some finishedAt,
              nr_CurrentAttemptHandleJSON := ''''\<rparr>)) (\<lambda>_. do {
       appendEvent E ((node_event r attemptID ''node.succeeded'' finishedAt ''info'')
         \<lparr>ev_StopCause := stop\<rparr>);
       ret ok }) }"

definition waitAndFinalize ::
  "env \<Rightarrow> nodeRunner \<Rightarrow> ctx \<Rightarrow> Handle \<Rightarrow> string \<Rightarrow> time \<Rightarrow> Node \<Rightarrow> unit result prog" where
  "waitAndFinalize E r c h attemptID startedAt execNode = do {
     waited \<leftarrow> adapter_WaitNode E c h;
     case waited of
       Inl _ \<Rightarrow> do {
         recordLocalityFallbackFailure E r attemptID;
         canceled \<leftarrow> isRunCanceled E r;
         done \<leftarrow> (if canceled then ret (Some ContextCanceled) else ctx_Err E (rn_runID r) c);
         if done \<noteq> None then cancelNode E r attemptID ''cancellation_requested''
         else reconcileUnresolved E r attemptID }
     | Inr result \<Rightarrow> do {
         finishedAt \<leftarrow> time_Now E;
         if \<not> er_Succeeded result then record_failure E r attemptID startedAt finishedAt result
         else do {
           recordLocalityFallbackSuccess E r attemptID;
           reg \<leftarrow> registerNodeOutputs E r CtxBackground h attemptID execNode;
           case reg of
             Inl e \<Rightarrow> deferFinalizationAfterSuccess E r attemptID ''register_artifact_error'' e
           | Inr _ \<Rightarrow> do {
               n \<leftarrow> notifyNodeTerminal E r CtxBackground ''Succeeded'' attemptID;
               case n of
                 Inl e \<Rightarrow> deferFinalizationAfterSuccess E r attemptID ''notify_node_terminal_error'' e
               | Inr _ \<Rightarrow> record_success E r attemptID startedAt finishedAt result } } } }"

subsection \<open>Handles\<close>

definition registerHandle :: "nodeRunner \<Rightarrow> Handle \<Rightarrow> unit prog" where
  "registerHandle r h = upd_active (rn_runID r)
     (\<lambda>a. a\<lparr>ac_handles := mput (rn_nodeID r) h (ac_handles a)\<rparr>)"

definition unregisterHandle :: "nodeRunner \<Rightarrow> unit prog" where
  "unregisterHandle r = upd_active (rn_runID r)
     (\<lambda>a. a\<lparr>ac_handles := mdel (rn_nodeID r) (ac_handles a)\<rparr>)"

definition persistHandle :: "env \<Rightarrow> nodeRunner \<Rightarrow> Handle \<Rightarrow> string \<Rightarrow> unit result prog" where
  "persistHandle E r h attemptID =
     (case ad_HandlePersister (en_adapter E) of
        None \<Rightarrow> ret ok
      | Some p \<Rightarrow>
          (case hp_MarshalHandle p h of
             Inr (Some data) \<Rightarrow>
               reg_op E (PersistBackendHandle (rn_runID r) (rn_nodeID r) attemptID data)
           | _ \<Rightarrow> ret ok))"

definition tryRestoreHandle :: "env \<Rightarrow> nodeRunner \<Rightarrow> (Handle \<times> string) option prog" where
  "tryRestoreHandle E r =
     (case ad_HandlePersister (en_adapter E) of
        None \<Rightarrow> ret None
      | Some p \<Rightarrow> do {
          node \<leftarrow> reg_op E (GetNode (rn_runID r) (rn_nodeID r));
          ret (case node of
                 Inl _ \<Rightarrow> None
               | Inr node \<Rightarrow>
                   if nr_CurrentAttemptHandleJSON node = '''' then None
                   else if nr_Status node \<in> {NodeStatusRunning, NodeStatusStarting, NodeStatusReleasing}
                   then (case hp_UnmarshalHandle p (nr_CurrentAttemptHandleJSON node) of
                           Inr (Some h) \<Rightarrow> Some (h, nr_CurrentAttemptID node)
                         | _ \<Rightarrow> None)
                   else None) })"

definition runFromHandle :: "env \<Rightarrow> nodeRunner \<Rightarrow> ctx \<Rightarrow> Handle \<Rightarrow> string \<Rightarrow> unit result prog" where
  "runFromHandle E r c h attemptID = do {
     registerHandle r h;
     startedAt \<leftarrow> time_Now E;
     appendEvent E ((node_event r attemptID ''node.recovery.reattached'' startedAt ''info'')
       \<lparr>ev_Message := ''reattached to in-flight backend job after executor restart''\<rparr>);
     res \<leftarrow> waitAndFinalize E r c h attemptID startedAt (rn_node r);
     unregisterHandle r;
     ret res }"

subsection \<open>Recovering an attempt\<close>

definition repairTerminalProjection ::
  "env \<Rightarrow> nodeRunner \<Rightarrow> NodeRecord \<Rightarrow> AttemptRecord option \<Rightarrow> unit result prog" where
  "repairTerminalProjection E r node attempt = do {
     node \<leftarrow> (case attempt of
        Some a \<Rightarrow>
          if \<not> NodeStatus_IsTerminal (nr_Status node) \<and> AttemptStatus_IsTerminal (ar_Status a)
          then do {
            let repaired = nodeStatusFromAttempt a;
            _ \<leftarrow> update_node E r (\<lambda>cur.
                   if NodeStatus_IsTerminal (nr_Status cur) then cur
                   else cur\<lparr>nr_Status := repaired, nr_TerminalStopCause := ar_TerminalStopCause a,
                            nr_TerminalFailureReason := ar_TerminalFailureReason a,
                            nr_CurrentBottleneckLocation := '''', nr_FinishedAt := ar_FinishedAt a,
                            nr_CurrentAttemptHandleJSON := ''''\<rparr>);
            t \<leftarrow> time_Now E;
            appendEvent E ((node_event r (ar_AttemptID a) ''node.recovery.repaired'' t ''info'')
              \<lparr>ev_StopCause := ar_TerminalStopCause a, ev_FailureReason := ar_TerminalFailureReason a,
               ev_Message := ''repaired stale node projection to '' @ NodeStatus_string repaired\<rparr>);
            ret (node\<lparr>nr_Status := repaired, nr_TerminalFailureReason := ar_TerminalFailureReason a\<rparr>) }
          else ret node
      | None \<Rightarrow> ret node);
     ret (if nr_Status node = NodeStatusFailed
          then Inl (Errorf (''node '' @ rn_nodeID r @ '' already terminal (failed): ''
                      @ nr_TerminalFailureReason node))
          else ok) }"

definition attachResolvedHandle ::
  "env \<Rightarrow> nodeRunner \<Rightarrow> ctx \<Rightarrow> Handle \<Rightarrow> string \<Rightarrow> AttemptRecord \<Rightarrow> unit result prog" where
  "attachResolvedHandle E r c h attemptID currentAttempt = do {
     p \<leftarrow> persistHandle E r h attemptID;
     case p of
       Inl _ \<Rightarrow> reconcileUnresolved E r attemptID
     | Inr _ \<Rightarrow> do {
         t \<leftarrow> time_Now E;
         appendEvent E ((node_event r attemptID ''node.recovery.identity_resolved'' t ''info'')
           \<lparr>ev_Message :=
              ''resolved backend job by deterministic identity (read-only); reattaching same attempt''\<rparr>);
         canceled \<leftarrow> (if ar_CancellationRequestedAt currentAttempt \<noteq> None then ret True
                      else isRunCanceled E r);
         if canceled then do {
           x \<leftarrow> adapter_CancelNode E CtxBackground h;
           case x of
             Inl _ \<Rightarrow> reconcileUnresolved E r attemptID
           | Inr _ \<Rightarrow> runFromHandle E r CtxCanceled h attemptID }
         else runFromHandle E r c h attemptID } }"

definition reconcileByIdentity ::
  "env \<Rightarrow> nodeRunner \<Rightarrow> ctx \<Rightarrow> NodeRecord \<Rightarrow> AttemptRecord \<Rightarrow> unit result prog" where
  "reconcileByIdentity E r c node currentAttempt =
     (let attemptID = nr_CurrentAttemptID node in
      case ad_AttemptResolver (en_adapter E) of
        None \<Rightarrow> reconcileUnresolved E r attemptID
      | Some resolver \<Rightarrow>
          bindR (reg_op E (GetRun (rn_runID r))) (\<lambda>run. do {
            t \<leftarrow> next_tick;
            log_call (LIdentity attemptID);
            case resolver t c run (rn_node r) attemptID of
              (h, ResolveFound, _) \<Rightarrow> attachResolvedHandle E r c h attemptID currentAttempt
            | (_, ResolveConflict, _) \<Rightarrow> do {
                t \<leftarrow> time_Now E;
                appendEvent E ((node_event r attemptID ''node.recovery.identity_conflict'' t ''error'')
                  \<lparr>ev_FailureReason := ''identity_conflict'', ev_Message :=
                     ''backend job at deterministic identity has a mismatched jumi.io/attempt-marker annotation; not this attempt (no attach/replace)''\<rparr>);
                reconcileUnresolved E r attemptID }
            | (_, _, resErr) \<Rightarrow> do {
                (case resErr of
                   None \<Rightarrow> ret ()
                 | Some e \<Rightarrow> do {
                     t \<leftarrow> time_Now E;
                     appendEvent E ((node_event r attemptID ''node.recovery.identity_unknown'' t ''warn'')
                       \<lparr>ev_FailureReason := ''identity_resolve_error'', ev_Message := Error e\<rparr>) });
                reconcileUnresolved E r attemptID } }))"

text \<open>
  A decision that is dealt with before allocation ends the attempt (\<open>Inl\<close>); otherwise the decision and
  the node are passed on.
\<close>

definition reconcileBeforeAllocation ::
  "env \<Rightarrow> nodeRunner \<Rightarrow> ctx \<Rightarrow> (ReconcileDecision \<times> NodeRecord) early prog" where
  "reconcileBeforeAllocation E r c =
     bindR (or_return (reg_op E (GetNode (rn_runID r) (rn_nodeID r)))) (\<lambda>node.
     bindR (or_return (reg_op E (GetCurrentAttempt (rn_runID r) (rn_nodeID r)))) (\<lambda>attempt.
       (case ClassifyReconcile node attempt of
          ReconcileTerminalRepair \<Rightarrow> return_early (repairTerminalProjection E r node attempt)
        | ReconcileReattach \<Rightarrow> do {
            h \<leftarrow> tryRestoreHandle E r;
            case h of
              Some (h, attemptID) \<Rightarrow> return_early (runFromHandle E r c h attemptID)
            | None \<Rightarrow> return_early (reconcileUnresolved E r (nr_CurrentAttemptID node)) }
        | ReconcileResolveByIdentity \<Rightarrow>
            return_early (reconcileByIdentity E r c node
              (case attempt of None \<Rightarrow> zero_AttemptRecord | Some a \<Rightarrow> a))
        | decision \<Rightarrow> ret (Inr (decision, node)))))"

subsection \<open>Driving a canceled node to its end\<close>

definition markNodeCanceledNoAttempt :: "env \<Rightarrow> nodeRunner \<Rightarrow> unit prog" where
  "markNodeCanceledNoAttempt E r = do {
     finishedAt \<leftarrow> time_Now E;
     reason \<leftarrow> effectiveCancellationReason E r ''cancellation_requested'';
     _ \<leftarrow> update_node E r (\<lambda>cur.
            if NodeStatus_IsTerminal (nr_Status cur) then cur
            else cur\<lparr>nr_Status := NodeStatusCanceled, nr_TerminalStopCause := ''canceled'',
                     nr_TerminalFailureReason := reason, nr_CurrentBottleneckLocation := '''',
                     nr_FinishedAt := Some finishedAt\<rparr>);
     appendEvent E ((node_event r '''' ''node.canceled'' finishedAt ''warn'')
       \<lparr>ev_StopCause := ''canceled'', ev_FailureReason := reason\<rparr>) }"

definition driveCancellation :: "env \<Rightarrow> nodeRunner \<Rightarrow> ctx \<Rightarrow> unit prog" where
  "driveCancellation E r c = do {
     node \<leftarrow> reg_op E (GetNode (rn_runID r) (rn_nodeID r));
     case node of
       Inl _ \<Rightarrow> ret ()
     | Inr node \<Rightarrow>
         if NodeStatus_IsTerminal (nr_Status node) then ret ()
         else do {
           att \<leftarrow> reg_op E (GetCurrentAttempt (rn_runID r) (rn_nodeID r));
           case att of
             Inl _ \<Rightarrow> ret ()
           | Inr attempt \<Rightarrow>
               let currentAttempt = (case attempt of None \<Rightarrow> zero_AttemptRecord | Some a \<Rightarrow> a) in
               (case ClassifyReconcile node attempt of
                  ReconcileTerminalRepair \<Rightarrow> do {
                    _ \<leftarrow> repairTerminalProjection E r node attempt; ret () }
                | ReconcileReattach \<Rightarrow> do {
                    h \<leftarrow> tryRestoreHandle E r;
                    case h of
                      Some (h, attemptID) \<Rightarrow> do {
                        _ \<leftarrow> adapter_CancelNode E CtxBackground h;
                        _ \<leftarrow> runFromHandle E r CtxCanceled h attemptID;
                        ret () }
                    | None \<Rightarrow> do {
                        _ \<leftarrow> reconcileUnresolved E r (nr_CurrentAttemptID node); ret () } }
                | ReconcileResolveByIdentity \<Rightarrow> do {
                    _ \<leftarrow> reconcileByIdentity E r c node currentAttempt; ret () }
                | _ \<Rightarrow>
                    let attemptID = FirstNonEmpty [nr_CurrentAttemptID node, ar_AttemptID currentAttempt] in
                    if attemptID = '''' then markNodeCanceledNoAttempt E r
                    else do { _ \<leftarrow> cancelNode E r attemptID ''cancellation_requested''; ret () }) } }"

end
