(* ===== verification/Exec_Node.thy ===== *)
theory Exec_Node
  imports Exec_Outcome
begin

text \<open>
  The node runner of \<^verbatim>\<open>executor.go\<close>, second part: one attempt from its allocation to its end, and the
  loop around it.  \<^verbatim>\<open>runAttemptBody\<close> is one long method; its consecutive parts are definitions of
  their own (\<open>begin_attempt\<close>, \<open>resolve_inputs\<close>, \<open>place_and_prepare\<close>, \<open>cross_fence\<close>,
  \<open>start_and_observe\<close>), each of which may return from the method.
\<close>

definition resolveBindingMaxAttempts :: nat where
  "resolveBindingMaxAttempts = 3"

definition resolveBindingPendingMaxAttempts :: nat where
  "resolveBindingPendingMaxAttempts = 5"

definition resolveBindingPendingInitialDelay :: duration where
  "resolveBindingPendingInitialDelay = 1000000000"

definition resolveBindingPendingMaxDelay :: duration where
  "resolveBindingPendingMaxDelay = 10000000000"

definition resolveBindingPendingBackoffFactor :: int where
  "resolveBindingPendingBackoffFactor = 2"

definition bool_string :: "bool \<Rightarrow> string" where
  "bool_string b = (if b then ''true'' else ''false'')"

subsection \<open>Resolving a binding\<close>

text \<open>
  The loops count the iterations that are left, so iteration number \<open>attempt\<close> of \<open>m\<close> runs with
  \<open>m - attempt\<close> behind it.  Waiting for the delay or the end of the context is \<open>ctx_Err\<close>.
\<close>

fun resolve_retry ::
  "env \<Rightarrow> nodeRunner \<Rightarrow> ctx \<Rightarrow> ResolveBindingRequest \<Rightarrow> string \<Rightarrow> string \<Rightarrow> nat
     \<Rightarrow> ResolveBindingResponse result prog" where
  "resolve_retry E r c req attemptID bindingName 0 = ret (Inr zero_ResolveBindingResponse)"
| "resolve_retry E r c req attemptID bindingName (Suc left) = do {
     res \<leftarrow> handoff_ResolveBinding E c req;
     case res of
       Inr resolved \<Rightarrow> ret (Inr resolved)
     | Inl err \<Rightarrow>
         if \<not> isTransientResolveBindingError err then ret (Inl err)
         else do {
           t \<leftarrow> time_Now E;
           appendEvent E ((node_event r attemptID ''node.input_resolve_retry'' t ''warn'')
             \<lparr>ev_FailureReason := ''resolve_handoff_error'', ev_Message :=
                ''binding='' @ bindingName @ '' attempt=''
                @ Itoa (int resolveBindingMaxAttempts - int left) @ ''/''
                @ Itoa (int resolveBindingMaxAttempts) @ '' error='' @ Error err\<rparr>);
           if left = 0 then ret (Inl err)
           else do {
             ended \<leftarrow> ctx_Err E (rn_runID r) c;
             case ended of
               Some e \<Rightarrow> ret (Inl e)
             | None \<Rightarrow> resolve_retry E r c req attemptID bindingName left } } }"

definition resolveBindingWithRetry ::
  "env \<Rightarrow> nodeRunner \<Rightarrow> ctx \<Rightarrow> ResolveBindingRequest \<Rightarrow> string \<Rightarrow> string
     \<Rightarrow> ResolveBindingResponse result prog" where
  "resolveBindingWithRetry E r c req attemptID bindingName =
     resolve_retry E r c req attemptID bindingName resolveBindingMaxAttempts"

fun resolve_pending ::
  "env \<Rightarrow> nodeRunner \<Rightarrow> ctx \<Rightarrow> ResolveBindingRequest \<Rightarrow> string \<Rightarrow> ArtifactBinding
     \<Rightarrow> ResolveBindingResponse \<Rightarrow> duration \<Rightarrow> nat \<Rightarrow> ResolveBindingResponse result prog" where
  "resolve_pending E r c req attemptID binding lastResolved pendingDelay 0 =
     ret (Inl (Errorf (resolveBindingFailureReason binding lastResolved)))"
| "resolve_pending E r c req attemptID binding lastResolved pendingDelay (Suc left) =
     bindR (resolveBindingWithRetry E r c req attemptID (ab_BindingName binding)) (\<lambda>resolved.
       case classifyResolvedBinding binding resolved of
         (resolveProceed, _) \<Rightarrow>
           (case validateResolvedBindingContract binding resolved of
              Inl e \<Rightarrow> ret (Inl e)
            | Inr _ \<Rightarrow> ret (Inr resolved))
       | (resolveSkipOptional, _) \<Rightarrow> ret (Inr resolved)
       | (resolveFail, failureReason) \<Rightarrow> ret (Inl (Errorf failureReason))
       | (resolveRetry, failureReason) \<Rightarrow> do {
           t \<leftarrow> time_Now E;
           appendEvent E ((node_event r attemptID ''node.input_resolve_pending'' t ''warn'')
             \<lparr>ev_FailureReason := failureReason, ev_Message :=
                ''binding='' @ ab_BindingName binding @ '' status='' @ rs_ResolutionStatus resolved
                @ '' attempt='' @ Itoa (int resolveBindingPendingMaxAttempts - int left) @ ''/''
                @ Itoa (int resolveBindingPendingMaxAttempts) @ '' nextDelay=''
                @ Duration_String pendingDelay\<rparr>);
           if left = 0 then ret (Inl (Errorf failureReason))
           else do {
             ended \<leftarrow> ctx_Err E (rn_runID r) c;
             case ended of
               Some e \<Rightarrow> ret (Inl e)
             | None \<Rightarrow>
                 resolve_pending E r c req attemptID binding resolved
                   (min (pendingDelay * resolveBindingPendingBackoffFactor)
                        resolveBindingPendingMaxDelay) left } })"

definition resolveBindingForExecution ::
  "env \<Rightarrow> nodeRunner \<Rightarrow> ctx \<Rightarrow> ResolveBindingRequest \<Rightarrow> string \<Rightarrow> ArtifactBinding
     \<Rightarrow> ResolveBindingResponse result prog" where
  "resolveBindingForExecution E r c req attemptID binding =
     resolve_pending E r c req attemptID binding zero_ResolveBindingResponse
       resolveBindingPendingInitialDelay resolveBindingPendingMaxAttempts"

subsection \<open>Locality\<close>

definition shouldObserveScheduling :: "nodeRunner \<Rightarrow> bool prog" where
  "shouldObserveScheduling r = do {
     l \<leftarrow> get_locals r;
     ret ((case nd_Kueue (rn_node r) of None \<Rightarrow> False | Some k \<Rightarrow> kh_QueueName k \<noteq> '''')
          \<or> rl_localityHints l \<noteq> []) }"

definition recordLocalityHint ::
  "env \<Rightarrow> nodeRunner \<Rightarrow> ArtifactBinding \<Rightarrow> ResolveBindingResponse \<Rightarrow> string \<Rightarrow> unit prog" where
  "recordLocalityHint E r binding resolved attemptID =
     (if pi_NodeName (rs_PlacementIntent resolved) = '''' then ret ()
      else do {
        let hint = \<lparr>lh_BindingName = ab_BindingName binding,
              lh_ChildInputName = ab_ChildInputName binding,
              lh_PreferredNodeName = pi_NodeName (rs_PlacementIntent resolved),
              lh_PlacementMode = pi_Mode (rs_PlacementIntent resolved),
              lh_Decision = rs_Decision resolved,
              lh_RequiresMaterialization = requiresMaterialization resolved\<rparr>;
        upd_locals r (\<lambda>l. l\<lparr>rl_localityHints := rl_localityHints l @ [hint]\<rparr>);
        inc ''jumi_locality_preferred'';
        t \<leftarrow> time_Now E;
        appendEvent E ((node_event r attemptID ''node.locality.preferred'' t ''info'')
          \<lparr>ev_Message := ''binding=''
             @ FirstNonEmpty [ab_ChildInputName binding, ab_BindingName binding]
             @ '' preferredNode='' @ lh_PreferredNodeName hint
             @ '' mode='' @ FirstNonEmpty [lh_PlacementMode hint, ''unspecified'']\<rparr>) })"

definition recordPostSchedulingResolve ::
  "nodeRunner \<Rightarrow> ArtifactBinding \<Rightarrow> ResolveBindingRequest \<Rightarrow> ResolveBindingResponse \<Rightarrow> unit prog" where
  "recordPostSchedulingResolve r binding req resolved =
     upd_locals r (\<lambda>l. l\<lparr>rl_postSchedulingResolves := rl_postSchedulingResolves l @
       [\<lparr>ps_Binding = binding, ps_Request = req, ps_InitialDecision = rs_Decision resolved,
         ps_InitialMode = mp_Mode (rs_MaterializationPlan resolved)\<rparr>]\<rparr>)"

definition resolve_after_scheduling ::
  "env \<Rightarrow> nodeRunner \<Rightarrow> ctx \<Rightarrow> string \<Rightarrow> string \<Rightarrow> postSchedulingResolve \<Rightarrow> unit prog" where
  "resolve_after_scheduling E r c attemptID targetNodeName item = do {
     let bindingName = FirstNonEmpty [ab_ChildInputName (ps_Binding item), ab_BindingName (ps_Binding item)];
     inc ''jumi_input_resolve_requests'';
     res \<leftarrow> resolveBindingWithRetry E r c ((ps_Request item)\<lparr>rq_TargetNodeName := targetNodeName\<rparr>)
              attemptID (ab_BindingName (ps_Binding item));
     t \<leftarrow> time_Now E;
     case res of
       Inl err \<Rightarrow>
         appendEvent E ((node_event r attemptID ''node.input_post_scheduling_resolve_failed'' t ''warn'')
           \<lparr>ev_FailureReason := ''post_scheduling_resolve_error'', ev_Message :=
              ''binding='' @ bindingName @ '' targetNode='' @ targetNodeName
              @ '' error='' @ Error err\<rparr>)
     | Inr resolved \<Rightarrow>
         appendEvent E ((node_event r attemptID ''node.input_post_scheduling_resolved'' t ''info'')
           \<lparr>ev_Message := ''binding='' @ bindingName @ '' targetNode='' @ targetNodeName
              @ '' decision='' @ rs_Decision resolved @ '' status='' @ rs_ResolutionStatus resolved
              @ '' materialization='' @ mp_Mode (rs_MaterializationPlan resolved)
              @ '' initialDecision='' @ ps_InitialDecision item
              @ '' initialMaterialization='' @ ps_InitialMode item
              @ '' observationOnly=true runtimeEnvUpdated=false''\<rparr>) }"

definition resolvePostSchedulingBindings ::
  "env \<Rightarrow> nodeRunner \<Rightarrow> ctx \<Rightarrow> string \<Rightarrow> string \<Rightarrow> unit prog" where
  "resolvePostSchedulingBindings E r c attemptID targetNodeName = do {
     let targetNodeName = TrimSpace targetNodeName;
     l \<leftarrow> get_locals r;
     if targetNodeName = '''' \<or> rl_postSchedulingResolves l = [] then ret ()
     else for_each (resolve_after_scheduling E r c attemptID targetNodeName)
            (rl_postSchedulingResolves l) }"

definition observe_hint ::
  "env \<Rightarrow> nodeRunner \<Rightarrow> string \<Rightarrow> string \<Rightarrow> bindingLocalityHint \<Rightarrow> unit prog" where
  "observe_hint E r attemptID podNodeName hint = do {
     let bindingName = FirstNonEmpty [lh_ChildInputName hint, lh_BindingName hint];
     let message = ''binding='' @ bindingName @ '' podNode='' @ podNodeName @ '' preferredNode=''
                     @ lh_PreferredNodeName hint;
     if podNodeName = lh_PreferredNodeName hint then do {
       inc ''jumi_locality_matched'';
       t \<leftarrow> time_Now E;
       appendEvent E ((node_event r attemptID ''node.locality.matched'' t ''info'')
         \<lparr>ev_Message := message\<rparr>) }
     else do {
       inc ''jumi_locality_miss'';
       t \<leftarrow> time_Now E;
       appendEvent E ((node_event r attemptID ''node.locality.missed'' t ''warn'')
         \<lparr>ev_Message := message\<rparr>);
       if lh_Decision hint = ''remote_fetch'' \<or> lh_RequiresMaterialization hint then do {
         upd_locals r (\<lambda>l. l\<lparr>rl_localityFallbackStarted := True\<rparr>);
         inc ''jumi_locality_fallback_started'';
         t \<leftarrow> time_Now E;
         appendEvent E ((node_event r attemptID ''node.locality.fallback_started'' t ''info'')
           \<lparr>ev_Message := ''binding='' @ bindingName @ '' decision='' @ lh_Decision hint
              @ '' materialization='' @ bool_string (lh_RequiresMaterialization hint)\<rparr>) }
       else ret () } }"

definition observeLocality ::
  "env \<Rightarrow> nodeRunner \<Rightarrow> OptionalKueueInfo option \<Rightarrow> string \<Rightarrow> unit prog" where
  "observeLocality E r info attemptID =
     (case info of
        None \<Rightarrow> ret ()
      | Some info \<Rightarrow>
          if kq_PodNodeName info = '''' then ret ()
          else do {
            l \<leftarrow> get_locals r;
            for_each (observe_hint E r attemptID (kq_PodNodeName info)) (rl_localityHints l) })"

definition hint_applied ::
  "env \<Rightarrow> nodeRunner \<Rightarrow> string \<Rightarrow> string \<Rightarrow> bindingLocalityHint \<Rightarrow> unit prog" where
  "hint_applied E r attemptID appliedRequired hint = do {
     let bindingName = FirstNonEmpty [lh_ChildInputName hint, lh_BindingName hint];
     if lh_PlacementMode hint = ''required_node'' then
       if appliedRequired = lh_PreferredNodeName hint \<and> appliedRequired \<noteq> '''' then do {
         t \<leftarrow> time_Now E;
         appendEvent E ((node_event r attemptID ''node.placement.required_applied'' t ''info'')
           \<lparr>ev_Message := ''binding='' @ bindingName @ '' nodeSelector[kubernetes.io/hostname]=''
              @ appliedRequired\<rparr>) }
       else ret ()
     else if lh_PlacementMode hint = ''preferred_node'' then do {
       t \<leftarrow> time_Now E;
       appendEvent E ((node_event r attemptID ''node.placement.preferred_applied'' t ''info'')
         \<lparr>ev_Message := ''binding='' @ bindingName @ '' preferredNode='' @ lh_PreferredNodeName hint
            @ '' mapped to backend preferred placement''\<rparr>) }
     else ret () }"

definition recordPlacementHintApplication ::
  "env \<Rightarrow> nodeRunner \<Rightarrow> string \<Rightarrow> bindingLocalityHint list \<Rightarrow> PlacementHints option \<Rightarrow> unit prog" where
  "recordPlacementHintApplication E r attemptID hints placement =
     (if hints = [] then ret ()
      else
        let appliedRequired =
              (case placement of
                 None \<Rightarrow> ''''
               | Some p \<Rightarrow> TrimSpace (mread (pl_NodeSelector p) ''kubernetes.io/hostname''))
        in for_each (hint_applied E r attemptID appliedRequired) hints)"

subsection \<open>One attempt\<close>

definition errored_attempt :: "env \<Rightarrow> nodeRunner \<Rightarrow> string \<Rightarrow> time \<Rightarrow> string \<Rightarrow> unit prog" where
  "errored_attempt E r attemptID now reason = do {
     finishedAt \<leftarrow> time_Now E;
     _ \<leftarrow> reg_op E (UpsertAttempt ((attempt_record r attemptID AttemptStatusErrored)
            \<lparr>ar_StartedAt := Some now, ar_FinishedAt := Some finishedAt,
             ar_TerminalStopCause := ''failed'', ar_TerminalFailureReason := reason\<rparr>));
     ret () }"

definition fail_attempt ::
  "env \<Rightarrow> nodeRunner \<Rightarrow> go_error \<Rightarrow> string \<Rightarrow> time \<Rightarrow> string \<Rightarrow> bool \<Rightarrow> unit result prog" where
  "fail_attempt E r err attemptID now reason retryable = do {
     errored_attempt E r attemptID now reason;
     failNode E r err attemptID ''failed'' reason retryable }"

definition advance_node :: "env \<Rightarrow> nodeRunner \<Rightarrow> NodeStatus \<Rightarrow> string \<Rightarrow> unit early prog" where
  "advance_node E r s bottleneck = or_return (update_node E r
     (\<lambda>cur. cur\<lparr>nr_Status := s, nr_CurrentBottleneckLocation := bottleneck\<rparr>))"

definition info_event :: "env \<Rightarrow> nodeRunner \<Rightarrow> string \<Rightarrow> string \<Rightarrow> string \<Rightarrow> unit prog" where
  "info_event E r attemptID ty message = do {
     t \<leftarrow> time_Now E;
     appendEvent E ((node_event r attemptID ty t ''info'')\<lparr>ev_Message := message\<rparr>) }"

text \<open>The attempt to work on: the one to resume, or a new one.\<close>

definition begin_attempt ::
  "env \<Rightarrow> nodeRunner \<Rightarrow> ReconcileDecision \<Rightarrow> NodeRecord \<Rightarrow> (string \<times> time) early prog" where
  "begin_attempt E r decision node =
     (if decision = ReconcileResumePreFence then do {
        let attemptID = nr_CurrentAttemptID node;
        now \<leftarrow> time_Now E;
        bindR (advance_node E r NodeStatusReady ''release_wait'') (\<lambda>_. do {
          appendEvent E ((node_event r attemptID ''node.recovery.resumed'' now ''info'')
            \<lparr>ev_Message := ''resuming same attempt: submission fence not crossed''\<rparr>);
          ret (Inr (attemptID, now)) }) }
      else do {
        t \<leftarrow> time_Now E;
        bindR (or_return (reg_op E (AllocateCurrentAttempt t (rn_runID r) (rn_nodeID r)))) (\<lambda>allocated.
          case ar_StartedAt allocated of
            Some now \<Rightarrow> ret (Inr (ar_AttemptID allocated, now))
          | None \<Rightarrow> do { now \<leftarrow> time_Now E; ret (Inr (ar_AttemptID allocated, now)) }) })"

definition binding_request ::
  "nodeRunner \<Rightarrow> RunRecord \<Rightarrow> string \<Rightarrow> string \<Rightarrow> ArtifactBinding \<Rightarrow> ResolveBindingRequest" where
  "binding_request r run attemptID producerAttemptID binding =
     \<lparr>rq_RunID = rn_runID r,
      rq_SampleRunID = FirstNonEmpty [rm_SampleRunID (es_Run (rr_Spec run)), rn_runID r],
      rq_ChildNodeID = rn_nodeID r, rq_BindingName = ab_BindingName binding,
      rq_ChildInputName = ab_ChildInputName binding, rq_ProducerNodeID = ab_ProducerNodeID binding,
      rq_ProducerAttemptID = producerAttemptID, rq_ChildAttemptID = attemptID,
      rq_ProducerOutputName = ab_ProducerOutputName binding, rq_ArtifactID = ab_ArtifactID binding,
      rq_ConsumePolicy = ab_ConsumePolicy binding, rq_ExpectedDigest = ab_ExpectedDigest binding,
      rq_Required = ab_Required binding, rq_TargetNodeName = ''''\<rparr>"

definition resolve_input ::
  "env \<Rightarrow> nodeRunner \<Rightarrow> ctx \<Rightarrow> RunRecord \<Rightarrow> string \<Rightarrow> time \<Rightarrow> ArtifactBinding \<Rightarrow> Node
     \<Rightarrow> Node early prog" where
  "resolve_input E r c run attemptID now binding executionNode = do {
     inc ''jumi_input_resolve_requests'';
     producer \<leftarrow> lookupNodeAttemptID E r (ab_ProducerNodeID binding);
     let req = binding_request r run attemptID producer binding;
     res \<leftarrow> resolveBindingForExecution E r c req attemptID binding;
     case res of
       Inl err \<Rightarrow> return_early
         (fail_attempt E r err attemptID now (resolveFailureReason err) False)
     | Inr resolved \<Rightarrow> do {
         info_event E r attemptID ''node.input_resolved''
           (''binding='' @ ab_BindingName binding @ '' decision='' @ rs_Decision resolved
            @ '' status='' @ rs_ResolutionStatus resolved);
         (if rs_Decision resolved = ''remote_fetch'' then inc ''jumi_input_remote_fetch'' else ret ());
         (if requiresMaterialization resolved then inc ''jumi_input_materializations'' else ret ());
         recordPostSchedulingResolve r binding req resolved;
         recordLocalityHint E r binding resolved attemptID;
         ret (Inr (injectResolvedBindingEnv executionNode binding resolved)) } }"

fun resolve_inputs ::
  "env \<Rightarrow> nodeRunner \<Rightarrow> ctx \<Rightarrow> RunRecord \<Rightarrow> string \<Rightarrow> time \<Rightarrow> ArtifactBinding list \<Rightarrow> Node
     \<Rightarrow> Node early prog" where
  "resolve_inputs E r c run attemptID now [] executionNode = ret (Inr executionNode)"
| "resolve_inputs E r c run attemptID now (b # bs) executionNode =
     bindR (resolve_input E r c run attemptID now b executionNode)
       (resolve_inputs E r c run attemptID now bs)"

definition build_bindings ::
  "env \<Rightarrow> nodeRunner \<Rightarrow> ctx \<Rightarrow> RunRecord \<Rightarrow> string \<Rightarrow> time \<Rightarrow> Node \<Rightarrow> Node early prog" where
  "build_bindings E r c run attemptID now executionNode =
     (let bindings = nd_ArtifactBindings (rn_node r) in
      if bindings = [] then ret (Inr executionNode)
      else case validateResolvedBindingEnvKeys bindings of
        Inl err \<Rightarrow> return_early (fail_attempt E r err attemptID now ''input_env_key_collision'' False)
      | Inr _ \<Rightarrow>
          bindR (advance_node E r NodeStatusBuildingBindings ''building_bindings'') (\<lambda>_. do {
            info_event E r attemptID ''node.building_bindings'' ''building artifact bindings'';
            bindR (advance_node E r NodeStatusResolvingInputs ''resolving_inputs'') (\<lambda>_.
              resolve_inputs E r c run attemptID now bindings executionNode) }))"

definition place_and_prepare ::
  "env \<Rightarrow> nodeRunner \<Rightarrow> ctx \<Rightarrow> RunRecord \<Rightarrow> string \<Rightarrow> time \<Rightarrow> Node
     \<Rightarrow> (Node \<times> PreparedNode) early prog" where
  "place_and_prepare E r c run attemptID now executionNode = do {
     l \<leftarrow> get_locals r;
     let hints = rl_localityHints l;
     case applyPlacementHints (injectRuntimeContextEnv executionNode run attemptID) hints of
       Inl err \<Rightarrow> return_early (fail_attempt E r err attemptID now ''placement_conflict'' False)
     | Inr executionNode \<Rightarrow> do {
         recordPlacementHintApplication E r attemptID hints (nd_Placement executionNode);
         bindR (advance_node E r NodeStatusStarting ''backend_prepare'') (\<lambda>_. do {
           info_event E r attemptID ''node.starting'' ''backend prepare starting'';
           p \<leftarrow> adapter_PrepareNode E c run executionNode;
           case p of
             Inl err \<Rightarrow> return_early (fail_attempt E r err attemptID now ''backend_prepare_error'' True)
           | Inr prepared \<Rightarrow>
               bindR (advance_node E r NodeStatusReleasing ''release_wait'') (\<lambda>_. do {
                 info_event E r attemptID ''node.releasing'' ''bounded release waiting/start in progress'';
                 ret (Inr (executionNode, prepared)) }) }) } }"

text \<open>The budget of execution opportunities and the submission fence.\<close>

definition cross_fence :: "env \<Rightarrow> nodeRunner \<Rightarrow> string \<Rightarrow> time \<Rightarrow> unit early prog" where
  "cross_fence E r attemptID now =
     bindR (or_return (openedOpportunityCount E r)) (\<lambda>opened.
       let maxAttempts = effectiveMaxAttempts (rt_MaxAttempts (nd_RetryPolicy (rn_node r))) in
       if opened \<ge> maxAttempts then do {
         errored_attempt E r attemptID now ''attempt_budget_exhausted'';
         return_early (terminalizeFailed E r
           (Errorf (''user-code execution opportunity budget exhausted (MaxAttempts=''
              @ Itoa maxAttempts @ '')''))
           attemptID ''failed'' ''attempt_budget_exhausted'') }
       else do {
         openedAt \<leftarrow> time_Now E;
         fence \<leftarrow> reg_op E (OpenSemanticAttempt (rn_runID r) (rn_nodeID r) attemptID openedAt);
         case fence of
           Inl err \<Rightarrow> return_early
             (fail_attempt E r err attemptID now ''submission_fence_persist_error'' True)
         | Inr _ \<Rightarrow> ret (Inr ()) })"

definition kueue_observation :: "OptionalKueueInfo \<Rightarrow> NodeObservation" where
  "kueue_observation k = \<lparr>ob_KueueObserved = kq_Observed k, ob_QueueName = kq_QueueName k,
     ob_WorkloadName = kq_WorkloadName k, ob_KueuePendingReason = kq_PendingReason k,
     ob_KueueAdmitted = kq_Admitted k, ob_PodName = kq_PodName k, ob_PodNodeName = kq_PodNodeName k,
     ob_PodScheduled = kq_Scheduled k, ob_UnschedulableReason = kq_UnschedulableReason k\<rparr>"

text \<open>What an observation of the queue records; the result is the bottleneck.\<close>

definition record_observation ::
  "env \<Rightarrow> nodeRunner \<Rightarrow> ctx \<Rightarrow> string \<Rightarrow> OptionalKueueInfo \<Rightarrow> string prog" where
  "record_observation E r c attemptID k = do {
     upd_locals r (\<lambda>l. l\<lparr>rl_localityActualNode := kq_PodNodeName k\<rparr>);
     _ \<leftarrow> update_node E r (\<lambda>cur. cur\<lparr>nr_Observation := kueue_observation k\<rparr>);
     observeLocality E r (Some k) attemptID;
     (if kq_Scheduled k \<and> kq_PodNodeName k \<noteq> ''''
      then resolvePostSchedulingBindings E r c attemptID (kq_PodNodeName k) else ret ());
     if \<not> kq_Admitted k then do {
       info_event E r attemptID ''node.kueue.pending''
         (FirstNonEmpty [kq_PendingReason k, ''waiting for Kueue admission'']);
       ret ''kueue_pending'' }
     else do {
       info_event E r attemptID ''node.kueue.admitted''
         (FirstNonEmpty [kq_WorkloadName k, ''Kueue admitted workload'']);
       if \<not> kq_Scheduled k \<and> kq_UnschedulableReason k \<noteq> '''' then do {
         t \<leftarrow> time_Now E;
         appendEvent E ((node_event r attemptID ''node.scheduler.pending'' t ''warn'')
           \<lparr>ev_Message := kq_UnschedulableReason k\<rparr>);
         info_event E r attemptID ''node.kueue.pod_observed''
           (FirstNonEmpty [kq_PodName k, ''pod observed'']);
         ret ''scheduler_pending'' }
       else ret ''running'' } }"

definition observe_scheduling ::
  "env \<Rightarrow> nodeRunner \<Rightarrow> ctx \<Rightarrow> string \<Rightarrow> Handle \<Rightarrow> string prog" where
  "observe_scheduling E r c attemptID h = do {
     should \<leftarrow> shouldObserveScheduling r;
     if \<not> should then ret ''running''
     else do {
       info \<leftarrow> adapter_ObserveNode E c h;
       case info of
         Inr (Some k) \<Rightarrow> if kq_Observed k then record_observation E r c attemptID k else ret ''running''
       | _ \<Rightarrow> ret ''running'' } }"

definition observe_and_wait ::
  "env \<Rightarrow> nodeRunner \<Rightarrow> ctx \<Rightarrow> string \<Rightarrow> Node \<Rightarrow> Handle \<Rightarrow> duration \<Rightarrow> unit result prog" where
  "observe_and_wait E r c attemptID executionNode h releaseDelay = do {
     _ \<leftarrow> persistHandle E r h attemptID;
     startedAt \<leftarrow> time_Now E;
     (if releaseDelay \<ge> 200000000
      then appendEvent E ((node_event r attemptID ''node.release.waited'' startedAt ''info'')
             \<lparr>ev_Message := ''bounded release delayed start by ''
                @ Duration_String (Truncate releaseDelay 10000000)\<rparr>)
      else ret ());
     _ \<leftarrow> reg_op E (UpsertAttempt ((attempt_record r attemptID AttemptStatusStarted)
            \<lparr>ar_StartedAt := Some startedAt\<rparr>));
     bottleneck \<leftarrow> observe_scheduling E r c attemptID h;
     body (bindR (advance_node E r NodeStatusRunning bottleneck) (\<lambda>_. do {
       appendEvent E ((node_event r attemptID ''node.running'' startedAt ''info'')
         \<lparr>ev_Message := ''backend start completed and node is running''\<rparr>);
       res \<leftarrow> waitAndFinalize E r c h attemptID startedAt executionNode;
       ret (Inr res) })) }"

definition start_and_observe ::
  "env \<Rightarrow> nodeRunner \<Rightarrow> ctx \<Rightarrow> string \<Rightarrow> Node \<Rightarrow> PreparedNode \<Rightarrow> unit result prog" where
  "start_and_observe E r c attemptID executionNode prepared = do {
     releaseStartedAt \<leftarrow> time_Now E;
     started \<leftarrow> adapter_StartNode E c (rn_nodeID r) attemptID prepared;
     releasedAt \<leftarrow> time_Now E;
     case started of
       Inl _ \<Rightarrow> reconcileUnresolved E r attemptID
     | Inr h \<Rightarrow> do {
         inc ''jumi_jobs_created'';
         registerHandle r h;
         res \<leftarrow> observe_and_wait E r c attemptID executionNode h (releasedAt - releaseStartedAt);
         unregisterHandle r;
         ret res } }"

definition realize_and_start ::
  "env \<Rightarrow> nodeRunner \<Rightarrow> ctx \<Rightarrow> RunRecord \<Rightarrow> string \<times> time \<Rightarrow> unit result early prog" where
  "realize_and_start E r c run p = (case p of (attemptID, now) \<Rightarrow> do {
     appendEvent E ((node_event r attemptID ''node.ready'' now ''info'')
       \<lparr>ev_Message := ''node became ready for release''\<rparr>);
     bindR (build_bindings E r c run attemptID now (cloneNode (rn_node r))) (\<lambda>executionNode.
     bindR (place_and_prepare E r c run attemptID now executionNode) (\<lambda>(executionNode, prepared).
     bindR (cross_fence E r attemptID now) (\<lambda>_. do {
       res \<leftarrow> start_and_observe E r c attemptID executionNode prepared;
       ret (Inr res) }))) })"

definition runAttemptBody :: "env \<Rightarrow> nodeRunner \<Rightarrow> ctx \<Rightarrow> unit result prog" where
  "runAttemptBody E r c = body
     (bindR (reconcileBeforeAllocation E r c) (\<lambda>(decision, node).
      bindR (or_return (reg_op E (GetRun (rn_runID r)))) (\<lambda>run. do {
        upd_locals r (\<lambda>l. l\<lparr>rl_postSchedulingResolves := []\<rparr>);
        bindR (begin_attempt E r decision node) (realize_and_start E r c run) })))"

text \<open>
  \<^verbatim>\<open>RunE\<close>.  The loop has no bound of its own: \<open>fuel\<close> counts its iterations and \<open>None\<close> means that it
  has not returned.  The timeout of the node ends the run's context, which is \<open>en_ctxErr\<close>.
\<close>

fun RunE :: "nat \<Rightarrow> env \<Rightarrow> nodeRunner \<Rightarrow> ctx \<Rightarrow> unit result option prog" where
  "RunE 0 E r c = ret None"
| "RunE (Suc fuel) E r c = do {
     res \<leftarrow> runAttemptBody E r c;
     case res of
       Inr _ \<Rightarrow> ret (Some ok)
     | Inl err \<Rightarrow> if errors_Is err errNodeRetry then RunE fuel E r c else ret (Some (Inl err)) }"

end
