(* ===== verification/Exec_Engine.thy ===== *)
theory Exec_Engine
  imports Exec_Node Spec_Validate
begin

text \<open>
  The engines of \<^verbatim>\<open>executor.go\<close> and the startup sweep of \<^verbatim>\<open>reconcile.go\<close>: admission, cancellation,
  running a graph, finalizing a run, recovery.

  The graph library dag-go is a parameter, a record of the calls the engine makes on a graph value.
  \<open>dg_Wait\<close> is given the node runners and the watcher's tick and runs them; its result \<open>None\<close> means
  that it has not returned.  A goroutine that outlives its caller is recorded in the log.
\<close>

subsection \<open>\<^verbatim>\<open>NoopEngine\<close>\<close>

definition run_event :: "string \<Rightarrow> string \<Rightarrow> time \<Rightarrow> string \<Rightarrow> EventRecord" where
  "run_event runID ty t level = zero_EventRecord\<lparr>ev_RunID := runID, ev_Type := ty,
     ev_OccurredAt := t, ev_Level := level\<rparr>"

definition update_run :: "env \<Rightarrow> string \<Rightarrow> (RunRecord \<Rightarrow> RunRecord) \<Rightarrow> unit result prog" where
  "update_run E runID f = reg_op E (UpdateRun runID (\<lambda>x. Inr (f x)))"

definition Noop_Admit :: "env \<Rightarrow> RunRecord \<Rightarrow> unit result prog" where
  "Noop_Admit E record = do {
     now \<leftarrow> time_Now E;
     bindR (update_run E (rr_RunID record) (\<lambda>run. run\<lparr>rr_Status := RunStatusAdmitted,
              rr_CurrentBottleneckLocation := ''dispatch_wait'', rr_StartedAt := Some now\<rparr>)) (\<lambda>_. do {
       appendEvent E ((run_event (rr_RunID record) ''run.admitted'' now ''info'')
         \<lparr>ev_Message := ''run admitted to executor''\<rparr>);
       ret ok }) }"

definition mark_node_canceled :: "env \<Rightarrow> string \<Rightarrow> time \<Rightarrow> NodeRecord \<Rightarrow> unit prog" where
  "mark_node_canceled E runID now node = do {
     canceled \<leftarrow> reg_update_node_out E runID (nr_NodeID node)
       (\<lambda>cur. if nr_Status cur \<in> {NodeStatusSucceeded, NodeStatusFailed, NodeStatusCanceled,
                                  NodeStatusSkipped} then cur
              else cur\<lparr>nr_Status := NodeStatusCanceled, nr_TerminalStopCause := ''canceled'',
                       nr_TerminalFailureReason := ''cancellation_requested'',
                       nr_FinishedAt := Some now\<rparr>)
       (\<lambda>cur. nr_Status cur \<notin> {NodeStatusSucceeded, NodeStatusFailed, NodeStatusCanceled,
                                  NodeStatusSkipped}) False;
     if canceled
     then appendEvent E ((run_event runID ''node.canceled'' now ''warn'')
            \<lparr>ev_NodeID := nr_NodeID node, ev_StopCause := ''canceled'',
             ev_FailureReason := ''cancellation_requested''\<rparr>)
     else ret () }"

definition markRunCanceled :: "env \<Rightarrow> string \<Rightarrow> unit result prog" where
  "markRunCanceled E runID = do {
     now \<leftarrow> time_Now E;
     bindR (update_run E runID (\<lambda>run. run\<lparr>rr_Status := RunStatusCanceled,
              rr_TerminalStopCause := ''canceled'',
              rr_TerminalFailureReason := ''cancellation_requested'', rr_FinishedAt := Some now\<rparr>)) (\<lambda>_. do {
       appendEvent E ((run_event runID ''run.canceled'' now ''warn'')
         \<lparr>ev_StopCause := ''canceled'', ev_FailureReason := ''cancellation_requested''\<rparr>);
       bindR (reg_op E (ListNodes runID)) (\<lambda>nodes. do {
         for_each (mark_node_canceled E runID now) nodes;
         ret ok }) }) }"

definition Noop_Cancel :: "env \<Rightarrow> string \<Rightarrow> string \<Rightarrow> unit result prog" where
  "Noop_Cancel E runID reason = markRunCanceled E runID"

subsection \<open>Admission and cancellation\<close>

definition Admit :: "env \<Rightarrow> RunRecord \<Rightarrow> unit result prog" where
  "Admit E record = do {
     now \<leftarrow> time_Now E;
     bindR (update_run E (rr_RunID record) (\<lambda>run. run\<lparr>rr_Status := RunStatusAdmitted,
              rr_CurrentBottleneckLocation := ''dispatch_wait'', rr_StartedAt := Some now\<rparr>)) (\<lambda>_. do {
       appendEvent E ((run_event (rr_RunID record) ''run.admitted'' now ''info'')
         \<lparr>ev_Message := ''run admitted to dag executor''\<rparr>);
       log_call (LExecuteRun (rr_RunID record));
       ret ok }) }"

definition cancel_run_record :: "string \<Rightarrow> RunRecord \<Rightarrow> RunRecord" where
  "cancel_run_record reason run =
     (if rr_Status run \<in> {RunStatusSucceeded, RunStatusFailed, RunStatusCanceled} then run
      else run\<lparr>rr_Status := RunStatusCanceled, rr_TerminalStopCause := ''canceled'',
               rr_TerminalFailureReason := FirstNonEmpty [reason, ''cancellation_requested''],
               rr_CurrentBottleneckLocation := ''''\<rparr>)"

text \<open>What \<^verbatim>\<open>Cancel\<close> does to a node: the new record, whether it ended here, the attempt to notify.\<close>

definition cancel_node_record ::
  "string \<Rightarrow> time \<Rightarrow> NodeRecord \<Rightarrow> NodeRecord \<times> bool \<times> string" where
  "cancel_node_record reason now cur =
     (if nr_Status cur \<in> {NodeStatusSucceeded, NodeStatusFailed, NodeStatusCanceled, NodeStatusSkipped}
      then (cur, False, '''')
      else if nr_Status cur \<in> {NodeStatusPending, NodeStatusReady, NodeStatusReleasing,
                 NodeStatusBuildingBindings, NodeStatusResolvingInputs, NodeStatusStarting}
      then (cur\<lparr>nr_Status := NodeStatusCanceled, nr_TerminalStopCause := ''canceled'',
                nr_TerminalFailureReason := FirstNonEmpty [reason, ''cancellation_requested''],
                nr_CurrentBottleneckLocation := '''', nr_FinishedAt := Some now\<rparr>, True, '''')
      else (cur\<lparr>nr_CurrentBottleneckLocation := ''canceling''\<rparr>, False, nr_CurrentAttemptID cur))"

definition cancel_node :: "env \<Rightarrow> string \<Rightarrow> string \<Rightarrow> time \<Rightarrow> NodeRecord \<Rightarrow> unit prog" where
  "cancel_node E runID reason now node = do {
     let why = FirstNonEmpty [reason, ''cancellation_requested''];
     (canceledImmediately, intentAttemptID) \<leftarrow> reg_update_node_out E runID (nr_NodeID node)
       (\<lambda>cur. fst (cancel_node_record reason now cur))
       (\<lambda>cur. snd (cancel_node_record reason now cur)) (False, '''');
     (if intentAttemptID \<noteq> '''' then do {
        _ \<leftarrow> reg_op E (PersistCancellationIntent runID (nr_NodeID node) intentAttemptID now why);
        ret () }
      else ret ());
     if canceledImmediately
     then appendEvent E ((run_event runID ''node.canceled'' now ''warn'')
            \<lparr>ev_NodeID := nr_NodeID node, ev_StopCause := ''canceled'', ev_FailureReason := why\<rparr>)
     else ret () }"

definition cancel_handles :: "env \<Rightarrow> (Handle list \<Rightarrow> Handle list) \<Rightarrow> string \<Rightarrow> unit prog" where
  "cancel_handles E mo runID = do {
     cancel_active runID;
     hs \<leftarrow> snapshotHandles mo runID;
     for_each (\<lambda>h. do { _ \<leftarrow> adapter_CancelNode E CtxBackground h; ret () }) hs }"

definition Cancel ::
  "env \<Rightarrow> (Handle list \<Rightarrow> Handle list) \<Rightarrow> string \<Rightarrow> string \<Rightarrow> unit result prog" where
  "Cancel E mo runID reason = do {
     now \<leftarrow> time_Now E;
     bindR (update_run E runID (cancel_run_record reason)) (\<lambda>_. do {
       appendEvent E ((run_event runID ''run.cancel.requested'' now ''warn'')
         \<lparr>ev_StopCause := ''canceled'',
          ev_FailureReason := FirstNonEmpty [reason, ''cancellation_requested'']\<rparr>);
       active \<leftarrow> getActiveRun runID;
       (if active \<noteq> None then cancel_handles E mo runID else ret ());
       bindR (reg_op E (ListNodes runID)) (\<lambda>nodes. do {
         for_each (cancel_node E runID reason now) nodes;
         ret ok }) }) }"

subsection \<open>Finalizing a run\<close>

record outcome =
  oc_counters :: RunCounters
  oc_status :: RunStatus
  oc_stop :: string
  oc_reason :: string

definition count_node :: "outcome \<Rightarrow> NodeRecord \<Rightarrow> outcome" where
  "count_node x node =
     (let c = oc_counters x in
      case nr_Status node of
        NodeStatusSucceeded \<Rightarrow> x\<lparr>oc_counters := c\<lparr>rc_SucceededNodes := rc_SucceededNodes c + 1\<rparr>\<rparr>
      | NodeStatusFailed \<Rightarrow>
          x\<lparr>oc_counters := c\<lparr>rc_FailedNodes := rc_FailedNodes c + 1\<rparr>, oc_status := RunStatusFailed,
            oc_stop := ''failed'',
            oc_reason := (if oc_reason x = '''' then nr_TerminalFailureReason node else oc_reason x)\<rparr>
      | NodeStatusCanceled \<Rightarrow>
          (let x = x\<lparr>oc_counters := c\<lparr>rc_CanceledNodes := rc_CanceledNodes c + 1\<rparr>\<rparr> in
           if oc_status x \<noteq> RunStatusFailed
           then x\<lparr>oc_status := RunStatusCanceled, oc_stop := ''canceled'',
                  oc_reason := FirstNonEmpty [nr_TerminalFailureReason node, oc_reason x]\<rparr>
           else x)
      | NodeStatusSkipped \<Rightarrow> x\<lparr>oc_counters := c\<lparr>rc_SkippedNodes := rc_SkippedNodes c + 1\<rparr>\<rparr>
      | NodeStatusRunning \<Rightarrow> x\<lparr>oc_counters := c\<lparr>rc_RunningNodes := rc_RunningNodes c + 1\<rparr>\<rparr>
      | NodeStatusStarting \<Rightarrow> x\<lparr>oc_counters := c\<lparr>rc_RunningNodes := rc_RunningNodes c + 1\<rparr>\<rparr>
      | NodeStatusReleasing \<Rightarrow> x\<lparr>oc_counters := c\<lparr>rc_RunningNodes := rc_RunningNodes c + 1\<rparr>\<rparr>
      | NodeStatusReady \<Rightarrow> x\<lparr>oc_counters := c\<lparr>rc_RunningNodes := rc_RunningNodes c + 1\<rparr>\<rparr>
      | _ \<Rightarrow> x)"

definition run_outcome :: "RunRecord \<Rightarrow> NodeRecord list \<Rightarrow> bool \<Rightarrow> string \<Rightarrow> outcome" where
  "run_outcome run nodes succeeded reason =
     (let x = foldl count_node
                \<lparr>oc_counters = zero_RunCounters\<lparr>rc_TotalNodes := int (length nodes)\<rparr>,
                 oc_status = RunStatusSucceeded, oc_stop = ''finished'', oc_reason = ''''\<rparr> nodes;
          x = (if rr_Status run = RunStatusCanceled
               then x\<lparr>oc_status := RunStatusCanceled, oc_stop := ''canceled'',
                      oc_reason := FirstNonEmpty [rr_TerminalFailureReason run, oc_reason x, reason,
                                     ''cancellation_requested'']\<rparr>
               else x)
      in if \<not> succeeded \<and> oc_status x = RunStatusSucceeded
         then x\<lparr>oc_status := RunStatusFailed, oc_stop := ''failed'',
                oc_reason := (if oc_reason x = '''' then reason else oc_reason x)\<rparr>
         else x)"

text \<open>The reaction to a failing handoff call: the run fails if it had succeeded.\<close>

definition handoff_failed ::
  "env \<Rightarrow> string \<Rightarrow> string \<Rightarrow> string \<Rightarrow> go_error \<Rightarrow> outcome \<Rightarrow> outcome result prog" where
  "handoff_failed E runID ty failureReason err x = do {
     t \<leftarrow> time_Now E;
     appendEvent E ((run_event runID ty t ''error'')
       \<lparr>ev_StopCause := ''failed'', ev_FailureReason := failureReason, ev_Message := Error err\<rparr>);
     if oc_status x = RunStatusSucceeded
     then bindR (update_run E runID (\<lambda>cur. cur\<lparr>rr_Status := RunStatusFailed,
                   rr_TerminalStopCause := ''failed'', rr_TerminalFailureReason := failureReason\<rparr>))
            (\<lambda>_. ret (Inr (x\<lparr>oc_status := RunStatusFailed, oc_stop := ''failed'',
                             oc_reason := failureReason\<rparr>)))
     else ret (Inr x) }"

definition finalizeRun :: "env \<Rightarrow> ctx \<Rightarrow> string \<Rightarrow> bool \<Rightarrow> string \<Rightarrow> unit result prog" where
  "finalizeRun E c runID succeeded reason =
     bindR (reg_op E (GetRun runID)) (\<lambda>run.
     bindR (reg_op E (ListNodes runID)) (\<lambda>nodes. do {
       now \<leftarrow> time_Now E;
       let x = run_outcome run nodes succeeded reason;
       let sample = FirstNonEmpty [rm_SampleRunID (es_Run (rr_Spec run)), runID];
       bindR (update_run E runID (\<lambda>cur. cur\<lparr>rr_Status := oc_status x, rr_FinishedAt := Some now,
                rr_Counters := oc_counters x, rr_TerminalStopCause := oc_stop x,
                rr_TerminalFailureReason := oc_reason x, rr_CurrentBottleneckLocation := ''''\<rparr>)) (\<lambda>_. do {
         f \<leftarrow> handoff_FinalizeSampleRun E c \<lparr>fs_SampleRunID = sample\<rparr>;
         bindR (case f of
                  Inl err \<Rightarrow> handoff_failed E runID ''run.handoff.finalize_failed''
                               ''handoff_finalize_error'' err x
                | Inr _ \<Rightarrow> do { inc ''jumi_sample_runs_finalized''; ret (Inr x) }) (\<lambda>x. do {
           g \<leftarrow> handoff_EvaluateGC E c \<lparr>gc_SampleRunID = sample\<rparr>;
           bindR (case g of
                    Inl err \<Rightarrow> handoff_failed E runID ''run.handoff.gc_evaluate_failed''
                                 ''handoff_gc_evaluate_error'' err x
                  | Inr _ \<Rightarrow> do { inc ''jumi_gc_evaluate_requests''; ret (Inr x) }) (\<lambda>x. do {
             appendEvent E ((run_event runID ''run.completed'' now (eventLevelForRunStatus (oc_status x)))
               \<lparr>ev_StopCause := oc_stop x, ev_FailureReason := oc_reason x,
                ev_Message := RunStatus_string (oc_status x)\<rparr>);
             ret ok }) }) }) }))"

subsection \<open>Running a graph\<close>

record 'd dag_go =
  dg_InitDag :: "'d result"
  dg_CreateNode :: "string \<Rightarrow> 'd \<Rightarrow> 'd"
  dg_AddEdge :: "string \<Rightarrow> string \<Rightarrow> 'd \<Rightarrow> 'd result"
  dg_FinishDag :: "'d \<Rightarrow> 'd result"
  dg_SetNodeRunners :: "string list \<Rightarrow> 'd \<Rightarrow> string list \<times> 'd"
  dg_ConnectRunner :: "'d \<Rightarrow> bool \<times> 'd"
  dg_GetReady :: "ctx \<Rightarrow> 'd \<Rightarrow> bool \<times> 'd"
  dg_Start :: "'d \<Rightarrow> bool \<times> 'd"
  dg_StartNode :: string
  dg_Wait :: "(string \<Rightarrow> unit result option prog) \<Rightarrow> (bool \<Rightarrow> unit prog) \<Rightarrow> 'd \<Rightarrow> bool option prog"

definition zero_locals :: runner_locals where
  "zero_locals = \<lparr>rl_localityHints = [], rl_postSchedulingResolves = [],
     rl_localityFallbackStarted = False, rl_localityActualNode = ''''\<rparr>"

definition new_runner :: "string \<Rightarrow> Node \<Rightarrow> nodeRunner" where
  "new_runner runID node = \<lparr>rn_runID = runID, rn_node = node\<rparr>"

text \<open>The maps \<^verbatim>\<open>inDegree\<close> and \<^verbatim>\<open>runners\<close>, and the graph, are built together from the nodes.\<close>

fun create_graph_nodes ::
  "'d dag_go \<Rightarrow> string \<Rightarrow> Node list \<Rightarrow> 'd \<Rightarrow> (string, int) gomap \<Rightarrow> (string, nodeRunner) gomap
     \<Rightarrow> 'd \<times> (string, int) gomap \<times> (string, nodeRunner) gomap" where
  "create_graph_nodes D runID [] d inDegree runners = (d, inDegree, runners)"
| "create_graph_nodes D runID (node # nodes) d inDegree runners =
     create_graph_nodes D runID nodes (dg_CreateNode D (nd_NodeID node) d)
       (mput (nd_NodeID node) 0 inDegree)
       (mput (nd_NodeID node) (new_runner runID node) runners)"

fun add_graph_edges ::
  "'d dag_go \<Rightarrow> string list list \<Rightarrow> 'd \<Rightarrow> (string, int) gomap \<Rightarrow> ('d \<times> (string, int) gomap) result" where
  "add_graph_edges D [] d inDegree = Inr (d, inDegree)"
| "add_graph_edges D (edge # edges) d inDegree =
     (case edge of
        [from, to] \<Rightarrow>
          (case dg_AddEdge D from to d of
             Inl e \<Rightarrow> Inl e
           | Inr d \<Rightarrow> add_graph_edges D edges d
               (mput to ((case map_of inDegree to of None \<Rightarrow> 0 | Some n \<Rightarrow> n) + 1) inDegree))
      | _ \<Rightarrow> Inl (Errorf ''invalid edge shape''))"

fun add_start_edges :: "'d dag_go \<Rightarrow> string list \<Rightarrow> 'd \<Rightarrow> 'd result" where
  "add_start_edges D [] d = Inr d"
| "add_start_edges D (n # ns) d =
     (case dg_AddEdge D (dg_StartNode D) n d of Inl e \<Rightarrow> Inl e | Inr d \<Rightarrow> add_start_edges D ns d)"

text \<open>\<^verbatim>\<open>%v\<close> of a slice of strings.\<close>

definition slice_string :: "string list \<Rightarrow> string" where
  "slice_string xs = ''['' @ Join xs '' '' @ '']''"

definition build_graph ::
  "'d dag_go \<Rightarrow> (string list \<Rightarrow> string list) \<Rightarrow> ctx \<Rightarrow> string \<Rightarrow> Graph
     \<Rightarrow> ('d \<times> (string, nodeRunner) gomap) result" where
  "build_graph D mo c runID graph =
     (case dg_InitDag D of
        Inl e \<Rightarrow> Inl e
      | Inr d \<Rightarrow>
          (case create_graph_nodes D runID (gr_Nodes graph) d [] [] of
             (d, inDegree, runners) \<Rightarrow>
               (case add_graph_edges D (gr_Edges graph) d inDegree of
                  Inl e \<Rightarrow> Inl e
                | Inr (d, inDegree) \<Rightarrow>
                    (case add_start_edges D (mo (map fst (filter (\<lambda>(_, n). n = 0) inDegree))) d of
                       Inl e \<Rightarrow> Inl e
                     | Inr d \<Rightarrow>
                         (case dg_FinishDag D d of
                            Inl e \<Rightarrow> Inl e
                          | Inr d \<Rightarrow>
                              (case dg_SetNodeRunners D (map fst runners) d of
                                 (missing, d) \<Rightarrow>
                                   if missing \<noteq> []
                                   then Inl (Errorf (''failed to set dag-go runners for nodes: ''
                                               @ slice_string missing))
                                   else (case dg_ConnectRunner D d of
                                      (False, d) \<Rightarrow> Inl (Errorf ''failed to connect runners'')
                                    | (True, d) \<Rightarrow>
                                        (case dg_GetReady D c d of
                                           (False, d) \<Rightarrow>
                                             Inl (Errorf ''failed to initialize dag worker pool'')
                                         | (True, d) \<Rightarrow> Inr (d, runners)))))))))"

definition upd_watch :: "(watcher \<Rightarrow> watcher) \<Rightarrow> unit prog" where
  "upd_watch f = State_Monad.update (\<lambda>w. w\<lparr>w_watch := f (w_watch w)\<rparr>)"

definition get_watch :: "watcher prog" where
  "get_watch = do { w \<leftarrow> State_Monad.get; ret (w_watch w) }"

text \<open>Sending on a channel of capacity one with a default: a full channel keeps its value.\<close>

definition try_send :: "'a \<Rightarrow> 'a option \<Rightarrow> 'a option" where
  "try_send v ch = (case ch of None \<Rightarrow> Some v | Some _ \<Rightarrow> ch)"

fun watch_nodes ::
  "env \<Rightarrow> (Handle list \<Rightarrow> Handle list) \<Rightarrow> string \<Rightarrow> bool \<Rightarrow> NodeRecord list \<Rightarrow> unit prog" where
  "watch_nodes E mo runID failFast [] = ret ()"
| "watch_nodes E mo runID failFast (node # nodes) =
     (if nr_Status node = NodeStatusFailed then do {
        upd_watch (\<lambda>s. s\<lparr>wt_firstErr :=
          try_send (''node '' @ nr_NodeID node @ '' failed'') (wt_firstErr s)\<rparr>);
        if failFast then do {
          inc ''jumi_fast_fail_trigger'';
          upd_watch (\<lambda>s. s\<lparr>wt_fastFailRoot := try_send (nr_NodeID node) (wt_fastFailRoot s)\<rparr>);
          t \<leftarrow> time_Now E;
          appendEvent E ((run_event runID ''run.fast_fail.triggered'' t ''warn'')
            \<lparr>ev_NodeID := nr_NodeID node, ev_StopCause := ''failed'',
             ev_FailureReason := FirstNonEmpty [nr_TerminalFailureReason node, ''fast_fail'']\<rparr>);
          cancel_handles E mo runID;
          upd_watch (\<lambda>s. s\<lparr>wt_done := True\<rparr>) }
        else watch_nodes E mo runID failFast nodes }
      else watch_nodes E mo runID failFast nodes)"

text \<open>
  One round of the watcher's loop.  When the context has ended and a tick is ready as well, Go
  serves either; \<open>late\<close> says that the tick is served.
\<close>

definition watch_tick ::
  "env \<Rightarrow> (Handle list \<Rightarrow> Handle list) \<Rightarrow> string \<Rightarrow> bool \<Rightarrow> bool \<Rightarrow> unit prog" where
  "watch_tick E mo runID failFast late = do {
     s \<leftarrow> get_watch;
     if wt_done s then ret ()
     else do {
       ended \<leftarrow> ctx_Err E runID CtxRun;
       if ended \<noteq> None \<and> \<not> late then upd_watch (\<lambda>s. s\<lparr>wt_done := True\<rparr>)
       else do {
         nodes \<leftarrow> reg_op E (ListNodes runID);
         case nodes of
           Inl _ \<Rightarrow> ret ()
         | Inr nodes \<Rightarrow> watch_nodes E mo runID failFast nodes } } }"

definition skip_node :: "env \<Rightarrow> string \<Rightarrow> string \<Rightarrow> Node \<Rightarrow> unit prog" where
  "skip_node E runID fastFailRootNodeID node = do {
     let nodeID = nd_NodeID node;
     occurredAt \<leftarrow> time_Now E;
     skipped \<leftarrow> reg_update_node_out E runID nodeID
       (\<lambda>cur. if nr_Status cur = NodeStatusPending
              then cur\<lparr>nr_Status := NodeStatusSkipped, nr_TerminalFailureReason := ''dependency_failed'',
                       nr_TerminalStopCause := ''failed'',
                       nr_CausedByNodeID :=
                         (if fastFailRootNodeID \<noteq> '''' \<and> fastFailRootNodeID \<noteq> nodeID
                          then fastFailRootNodeID else nr_CausedByNodeID cur)\<rparr>
              else cur)
       (\<lambda>cur. nr_Status cur = NodeStatusPending) False;
     if skipped
     then appendEvent E ((run_event runID ''node.skipped'' occurredAt ''warn'')
            \<lparr>ev_NodeID := nodeID, ev_StopCause := ''failed'', ev_FailureReason := ''dependency_failed'',
             ev_Message := causedByMessage fastFailRootNodeID\<rparr>)
     else ret () }"

definition is_fail_fast :: "RunRecord \<Rightarrow> bool" where
  "is_fail_fast run \<longleftrightarrow> (let mode = fp_Mode (rm_FailurePolicy (es_Run (rr_Spec run)))
     in mode = '''' \<or> mode = ''fail-fast'')"

definition after_wait :: "env \<Rightarrow> string \<Rightarrow> Node list \<Rightarrow> bool \<Rightarrow> unit result prog" where
  "after_wait E runID nodes succeeded =
     (if succeeded then ret ok
      else do {
        unresolved \<leftarrow> isUnresolved runID;
        if unresolved then ret (Inl errRunUnresolved)
        else do {
          s \<leftarrow> get_watch;
          let runErr = (case wt_firstErr s of None \<Rightarrow> ''dag execution failed'' | Some e \<Rightarrow> e);
          let root = (case wt_fastFailRoot s of None \<Rightarrow> '''' | Some i \<Rightarrow> i);
          upd_watch (\<lambda>s. s\<lparr>wt_firstErr := None, wt_fastFailRoot := None\<rparr>);
          for_each (skip_node E runID root) nodes;
          ret (Inl (Errorf runErr)) } })"

definition runner_of ::
  "nat \<Rightarrow> env \<Rightarrow> (string, nodeRunner) gomap \<Rightarrow> string \<Rightarrow> unit result option prog" where
  "runner_of fuel E runners nodeID =
     (case map_of runners nodeID of None \<Rightarrow> ret (Some ok) | Some r \<Rightarrow> RunE fuel E r CtxRun)"

definition start_graph :: "env \<Rightarrow> string \<Rightarrow> Node list \<Rightarrow> unit prog" where
  "start_graph E runID nodes = do {
     now \<leftarrow> time_Now E;
     _ \<leftarrow> update_run E runID (\<lambda>cur. cur\<lparr>rr_Status := RunStatusRunning,
            rr_CurrentBottleneckLocation := ''running''\<rparr>);
     appendEvent E ((run_event runID ''run.running'' now ''info'')
       \<lparr>ev_Message := ''run execution started''\<rparr>);
     for_each (\<lambda>n. upd_locals (new_runner runID n) (\<lambda>_. zero_locals)) nodes;
     upd_watch (\<lambda>_. \<lparr>wt_firstErr = None, wt_fastFailRoot = None, wt_done = False\<rparr>) }"

definition runGraph ::
  "nat \<Rightarrow> 'd dag_go \<Rightarrow> (string list \<Rightarrow> string list) \<Rightarrow> (Handle list \<Rightarrow> Handle list) \<Rightarrow> env \<Rightarrow> RunRecord
     \<Rightarrow> unit result option prog" where
  "runGraph fuel D mo hmo E run =
     (let graph = ApplyDefaults (es_Graph (rr_Spec run)) (es_Defaults (rr_Spec run));
          runID = rr_RunID run in
      case build_graph D mo CtxRun runID graph of
        Inl e \<Rightarrow> ret (Some (Inl e))
      | Inr (d, runners) \<Rightarrow> do {
          start_graph E runID (gr_Nodes graph);
          case dg_Start D d of
            (False, _) \<Rightarrow> ret (Some (Inl (Errorf ''failed to start dag'')))
          | (True, d) \<Rightarrow> do {
              done \<leftarrow> dg_Wait D (runner_of fuel E runners)
                        (watch_tick E hmo runID (is_fail_fast run)) d;
              case done of
                None \<Rightarrow> ret None
              | Some succeeded \<Rightarrow> do {
                  res \<leftarrow> after_wait E runID (gr_Nodes graph) succeeded;
                  ret (Some res) } } })"

subsection \<open>Executing a run\<close>

definition finalize_or_fail :: "env \<Rightarrow> string \<Rightarrow> bool \<Rightarrow> string \<Rightarrow> unit prog" where
  "finalize_or_fail E runID succeeded reason = do {
     f \<leftarrow> finalizeRun E CtxBackground runID succeeded reason;
     case f of
       Inr _ \<Rightarrow> ret ()
     | Inl _ \<Rightarrow> do {
         _ \<leftarrow> update_run E runID (\<lambda>cur.
                if rr_Status cur = RunStatusRunning
                then cur\<lparr>rr_Status := RunStatusFailed, rr_TerminalStopCause := ''failed'',
                         rr_TerminalFailureReason := ''finalize_error''\<rparr>
                else cur);
         ret () } }"

definition leave_unresolved :: "env \<Rightarrow> string \<Rightarrow> unit prog" where
  "leave_unresolved E runID = do {
     _ \<leftarrow> update_run E runID (\<lambda>cur.
            if \<not> RunStatus_IsTerminal (rr_Status cur)
            then cur\<lparr>rr_CurrentBottleneckLocation := ''reconcile_unresolved''\<rparr> else cur);
     t \<leftarrow> time_Now E;
     appendEvent E ((run_event runID ''run.recovery.unresolved'' t ''warn'')
       \<lparr>ev_FailureReason := ''reconcile_unresolved'', ev_Message :=
          ''run left non-terminal: backend truth unresolved (recoverable on next reconcile)''\<rparr>) }"

definition after_graph :: "env \<Rightarrow> string \<Rightarrow> unit result \<Rightarrow> unit prog" where
  "after_graph E runID res =
     (case res of
        Inl err \<Rightarrow>
          if errors_Is err errRunUnresolved then leave_unresolved E runID
          else finalize_or_fail E runID False (Error err)
      | Inr _ \<Rightarrow> finalize_or_fail E runID True '''')"

definition executeRun ::
  "nat \<Rightarrow> 'd dag_go \<Rightarrow> (string list \<Rightarrow> string list) \<Rightarrow> (Handle list \<Rightarrow> Handle list) \<Rightarrow> env \<Rightarrow> string
     \<Rightarrow> unit option prog" where
  "executeRun fuel D mo hmo E runID = do {
     run \<leftarrow> reg_op E (GetRun runID);
     case run of
       Inl _ \<Rightarrow> ret (Some ())
     | Inr run \<Rightarrow> do {
         registerActiveRun runID;
         res \<leftarrow> runGraph fuel D mo hmo E run;
         case res of
           None \<Rightarrow> ret None
         | Some res \<Rightarrow> do {
             after_graph E runID res;
             cancel_active runID;
             unregisterActiveRun runID;
             ret (Some ()) } } }"

subsection \<open>Recovery\<close>

definition runHasNonTerminalNode :: "env \<Rightarrow> string \<Rightarrow> bool prog" where
  "runHasNonTerminalNode E runID = do {
     nodes \<leftarrow> reg_op E (ListNodes runID);
     ret (case nodes of
            Inl _ \<Rightarrow> False
          | Inr ns \<Rightarrow> list_ex (\<lambda>n. \<not> NodeStatus_IsTerminal (nr_Status n)) ns) }"

text \<open>
  The goroutines of \<^verbatim>\<open>recoverCanceledRun\<close> run in the order \<open>mo\<close> gives; what one of them does between
  two steps of another is part of \<open>en_interf\<close>.
\<close>

definition recoverCanceledRun ::
  "(Node list \<Rightarrow> Node list) \<Rightarrow> env \<Rightarrow> RunRecord \<Rightarrow> unit prog" where
  "recoverCanceledRun mo E run = do {
     let runID = rr_RunID run;
     registerActiveRun runID;
     for_each (\<lambda>n. do {
         upd_locals (new_runner runID n) (\<lambda>_. zero_locals);
         driveCancellation E (new_runner runID n) CtxRun })
       (mo (gr_Nodes (es_Graph (rr_Spec run))));
     pending \<leftarrow> runHasNonTerminalNode E runID;
     (if \<not> pending then do {
        t \<leftarrow> time_Now E;
        appendEvent E ((run_event runID ''run.recovery.cancel_completed'' t ''info'')
          \<lparr>ev_StopCause := ''canceled'', ev_Message :=
             ''all nodes driven to terminal truth after cancellation recovery''\<rparr>) }
      else ret ());
     cancel_active runID;
     unregisterActiveRun runID }"

definition recover_run :: "env \<Rightarrow> RunRecord \<Rightarrow> unit prog" where
  "recover_run E run =
     (if RunStatus_IsTerminal (rr_Status run) then do {
        pending \<leftarrow> runHasNonTerminalNode E (rr_RunID run);
        if pending then do {
          t \<leftarrow> time_Now E;
          appendEvent E ((run_event (rr_RunID run) ''run.recovery.cancel_resumed'' t ''warn'')
            \<lparr>ev_Message :=
               ''terminal run with non-terminal node re-driven to terminal truth by startup reconcile sweep''\<rparr>);
          log_call (LRecoverCanceledRun (rr_RunID run)) }
        else ret () }
      else do {
        t \<leftarrow> time_Now E;
        appendEvent E ((run_event (rr_RunID run) ''run.recovery.resumed'' t ''info'')
          \<lparr>ev_Message := ''run resumed by startup reconcile sweep''\<rparr>);
        log_call (LExecuteRun (rr_RunID run)) })"

definition Recover ::
  "(RunRecord list \<Rightarrow> RunRecord list) \<Rightarrow> env \<Rightarrow> unit result prog" where
  "Recover ord E =
     bindR (reg_op E (ListRuns ord)) (\<lambda>runs. do {
       for_each (recover_run E) runs;
       ret ok })"

end
