(* ===== verification/Exec_Logic.thy ===== *)
theory Exec_Logic
  imports Exec_Engine
begin

text \<open>
  Reasoning about the executor's programs.  The locale \<open>event_frame\<close> takes a preorder on worlds that
  the primitive steps respect, and shows once that every program that writes nothing but events
  respects it; \<open>exec_frame\<close> adds the node runner's writes, \<open>start_frame\<close> the start of a node, \<open>engine_frame\<close> the writes to run records and the graph
  library.  What a program may write is the relation \<open>node_write\<close>.
\<close>

named_theorems frame \<open>programs that respect the preorder\<close>

subsection \<open>What the executor writes\<close>

definition keeps_history :: "(NodeRecord \<Rightarrow> NodeRecord) \<Rightarrow> bool" where
  "keeps_history f \<longleftrightarrow> (\<forall>x. nr_RunID (f x) = nr_RunID x \<and> nr_NodeID (f x) = nr_NodeID x \<and>
     nr_RealizationAttemptCount (f x) = nr_RealizationAttemptCount x \<and>
     nr_AttemptCount (f x) = nr_AttemptCount x)"

inductive node_write :: "registry \<Rightarrow> registry \<Rightarrow> bool" where
  event: "node_write r (snd (AppendEvent e r))"
| update: "keeps_history f \<Longrightarrow> node_write r (snd (UpdateNode i n (\<lambda>x. Inr (f x)) r))"
| upsert: "node_write r (snd (UpsertAttempt a r))"
| allocate: "node_write r (snd (AllocateCurrentAttempt t i n r))"
| opens: "node_write r (snd (OpenSemanticAttempt i n a t r))"
| handle: "node_write r (snd (PersistBackendHandle i n a h r))"
| intent: "node_write r (snd (PersistCancellationIntent i n a t s r))"
| completed: "node_write r (snd (PersistProcessCompleted i n a t r))"
| same: "node_write r r"

lemma read_write [simp]:
  "node_write r (snd (GetRun i r))" "node_write r (snd (GetNode i n r))"
  "node_write r (snd (ListNodes i r))" "node_write r (snd (ListAttempts i n r))"
  "node_write r (snd (GetCurrentAttempt i n r))" "node_write r (snd (ListRuns ord r))"
  by (simp_all add: node_write.same)

definition is_start :: "log_entry \<Rightarrow> bool" where
  "is_start l \<longleftrightarrow> (case l of LStart _ _ _ \<Rightarrow> True | _ \<Rightarrow> False)"

lemma is_start_simps [simp]:
  "is_start (LStart n a r)" "\<not> is_start (LPrepare s)" "\<not> is_start (LObserve h)" "\<not> is_start (LWait h)"
  "\<not> is_start (LCancel h)" "\<not> is_start (LIdentity s)" "\<not> is_start (LResolve q)"
  "\<not> is_start (LRegister g)" "\<not> is_start (LNotify k)" "\<not> is_start (LFinalize s)"
  "\<not> is_start (LEvaluateGC s)" "\<not> is_start (LExecuteRun s)" "\<not> is_start (LRecoverCanceledRun s)"
  by (simp_all add: is_start_def)

context step_preorder begin

lemma let_rule: "state_io_rel R (f x) \<Longrightarrow> state_io_rel R (Let x f)"
  by simp

lemma bool_split: "state_io_rel R m \<Longrightarrow> state_io_rel R n \<Longrightarrow>
    state_io_rel R (case b of True \<Rightarrow> m | False \<Rightarrow> n)"
  by (cases b) simp_all

lemma update: "(\<And>s. R s (f s)) \<Longrightarrow> state_io_rel R (State_Monad.update f)"
  by (simp add: state_io_rel_def State_Monad.update_def)

end

subsection \<open>Programs that write events only\<close>

locale event_frame = step_preorder R for R :: "world \<Rightarrow> world \<Rightarrow> bool" +
  fixes E :: env
  assumes tick_step: "R w (w\<lparr>w_tick := Suc (w_tick w)\<rparr>)"
    and log_step: "\<not> is_start l \<Longrightarrow> R w (w\<lparr>w_log := w_log w @ [l]\<rparr>)"
    and metrics_step: "R w (w\<lparr>w_metrics := m\<rparr>)"
    and locals_step: "R w (w\<lparr>w_locals := ls\<rparr>)"
    and active_step: "R w (w\<lparr>w_active := ac\<rparr>)"
    and interf_step: "R w (w\<lparr>w_reg := en_interf E t (w_reg w)\<rparr>)"
    and event_step: "R w (w\<lparr>w_reg := snd (AppendEvent e (w_reg w))\<rparr>)"
begin

lemmas [frame] = return get bind if_split option_split sum_split prod_split for_each for_each_err
  let_rule bool_split

lemma bindR [frame]:
  "state_io_rel R m \<Longrightarrow> (\<And>x. state_io_rel R (f x)) \<Longrightarrow> state_io_rel R (bindR m f)"
  unfolding bindR_def by (intro frame)

lemma early_rules [frame]:
  "state_io_rel R m \<Longrightarrow> state_io_rel R (or_return m)"
  "state_io_rel R n \<Longrightarrow> state_io_rel R (return_early n)"
  "state_io_rel R b \<Longrightarrow> state_io_rel R (body b)"
  unfolding or_return_def return_early_def body_def by (intro frame; assumption)+

lemma next_tick [frame]: "state_io_rel R next_tick"
  by (simp add: state_io_rel_def next_tick_def tick_step)

lemma log_call [frame]: "\<not> is_start l \<Longrightarrow> state_io_rel R (log_call l)"
  unfolding log_call_def by (intro update log_step)

lemma time_Now [frame]: "state_io_rel R (time_Now E)"
  unfolding time_Now_def by (intro frame)

lemma inc [frame]: "state_io_rel R (inc k)"
  unfolding inc_def by (intro update metrics_step)

lemma upd_locals [frame]: "state_io_rel R (upd_locals r f)"
  unfolding upd_locals_def by (intro update locals_step)

lemma get_locals [frame]: "state_io_rel R (get_locals r)"
  unfolding get_locals_def by (intro frame)

lemma upd_active [frame]: "state_io_rel R (upd_active i f)"
  unfolding upd_active_def
  by (intro update) (auto split: option.split intro: active_step step_refl)

lemma reg_op_general:
  assumes "\<And>w r. R w (w\<lparr>w_reg := r\<rparr>) \<Longrightarrow> R w (w\<lparr>w_reg := snd (f r)\<rparr>)"
  shows "state_io_rel R (reg_op E f)"
proof (rule state_io_relI)
  fix a w w'
  assume a: "run_state (reg_op E f) w = (a, w')"
  let ?t = "w\<lparr>w_tick := Suc (w_tick w)\<rparr>"
  let ?r = "en_interf E (w_tick w) (w_reg w)"
  have t: "R ?t (?t\<lparr>w_reg := ?r\<rparr>)" using interf_step [of ?t "w_tick w"] by simp
  have "R ?t w'"
    using a t assms [OF t]
    by (auto simp: reg_op_def next_tick_def Let_def split: option.splits prod.splits)
  then show "R w w'" using tick_step step_trans by blast
qed

lemma reg_op_event [frame]: "state_io_rel R (reg_op E (AppendEvent e))"
proof (rule reg_op_general)
  fix w r assume "R w (w\<lparr>w_reg := r\<rparr>)"
  then show "R w (w\<lparr>w_reg := snd (AppendEvent e r)\<rparr>)"
    using event_step [of "w\<lparr>w_reg := r\<rparr>" e] step_trans by fastforce
qed

lemma appendEvent [frame]: "state_io_rel R (appendEvent E e)"
  unfolding appendEvent_def by (intro frame)

lemma ctx_Err [frame]: "state_io_rel R (ctx_Err E i c)"
  unfolding ctx_Err_def by (intro frame)

lemma external_calls [frame]:
  "state_io_rel R (adapter_PrepareNode E c run node)" "state_io_rel R (adapter_ObserveNode E c h)"
  "state_io_rel R (adapter_WaitNode E c h)" "state_io_rel R (adapter_CancelNode E c h)"
  "state_io_rel R (handoff_ResolveBinding E c q)" "state_io_rel R (handoff_RegisterArtifact E c g)"
  "state_io_rel R (handoff_NotifyNodeTerminal E c k)" "state_io_rel R (handoff_FinalizeSampleRun E c fs)"
  "state_io_rel R (handoff_EvaluateGC E c gc)"
  unfolding adapter_PrepareNode_def adapter_ObserveNode_def adapter_WaitNode_def
    adapter_CancelNode_def handoff_ResolveBinding_def handoff_RegisterArtifact_def
    handoff_NotifyNodeTerminal_def handoff_FinalizeSampleRun_def handoff_EvaluateGC_def
  by (intro frame; simp)+

lemma decision_split [frame]:
  "state_io_rel R a \<Longrightarrow> state_io_rel R b \<Longrightarrow> state_io_rel R d \<Longrightarrow> state_io_rel R e \<Longrightarrow> state_io_rel R g \<Longrightarrow>
   state_io_rel R (case x of ReconcileFresh \<Rightarrow> a | ReconcileTerminalRepair \<Rightarrow> b | ReconcileReattach \<Rightarrow> d
     | ReconcileResolveByIdentity \<Rightarrow> e | ReconcileResumePreFence \<Rightarrow> g)"
  by (cases x) simp_all

lemma outcome_split [frame]:
  "state_io_rel R a \<Longrightarrow> state_io_rel R b \<Longrightarrow> state_io_rel R d \<Longrightarrow> state_io_rel R e \<Longrightarrow>
   state_io_rel R (case x of ResolveUnknown \<Rightarrow> a | ResolveFound \<Rightarrow> b | ResolveAbsentNow \<Rightarrow> d
     | ResolveConflict \<Rightarrow> e)"
  by (cases x) simp_all

lemma action_split [frame]:
  "state_io_rel R a \<Longrightarrow> state_io_rel R b \<Longrightarrow> state_io_rel R d \<Longrightarrow> state_io_rel R e \<Longrightarrow>
   state_io_rel R (case x of resolveProceed \<Rightarrow> a | resolveRetry \<Rightarrow> b | resolveFail \<Rightarrow> d
     | resolveSkipOptional \<Rightarrow> e)"
  by (cases x) simp_all

lemma registry_reads [frame]:
  "state_io_rel R (reg_op E (GetRun i))" "state_io_rel R (reg_op E (GetNode i n))"
  "state_io_rel R (reg_op E (ListNodes i))" "state_io_rel R (reg_op E (ListAttempts i n))"
  "state_io_rel R (reg_op E (GetCurrentAttempt i n))" "state_io_rel R (reg_op E (ListRuns ord))"
  by (intro reg_op_general; simp)+

lemma markUnresolved [frame]: "state_io_rel R (markUnresolved i)"
  unfolding markUnresolved_def by (intro frame)

lemma isRunCanceled [frame]: "state_io_rel R (isRunCanceled E r)"
  unfolding isRunCanceled_def by (intro frame)

lemma effectiveCancellationReason [frame]: "state_io_rel R (effectiveCancellationReason E r why)"
  unfolding effectiveCancellationReason_def by (intro frame)

lemma sampleRunID [frame]: "state_io_rel R (sampleRunID E r)"
  unfolding sampleRunID_def by (intro frame)

lemma lookupNodeAttemptID [frame]: "state_io_rel R (lookupNodeAttemptID E r n)"
  unfolding lookupNodeAttemptID_def by (intro frame)

lemma notifyNodeTerminal [frame]: "state_io_rel R (notifyNodeTerminal E r c s a)"
  unfolding notifyNodeTerminal_def by (intro frame)

lemma recordLocalityFallbackSuccess [frame]: "state_io_rel R (recordLocalityFallbackSuccess E r a)"
  unfolding recordLocalityFallbackSuccess_def by (intro frame)

lemma recordLocalityFallbackFailure [frame]: "state_io_rel R (recordLocalityFallbackFailure E r a)"
  unfolding recordLocalityFallbackFailure_def by (intro frame)

lemma notify_failed_event [frame]: "state_io_rel R (notify_failed_event E r a s e)"
  unfolding notify_failed_event_def by (intro frame)

lemma openedOpportunityCount [frame]: "state_io_rel R (openedOpportunityCount E r)"
  unfolding openedOpportunityCount_def by (intro frame)

lemma realizationRetriesRemaining [frame]: "state_io_rel R (realizationRetriesRemaining E r)"
  unfolding realizationRetriesRemaining_def by (intro frame)

lemma collectOutputMetadata [frame]: "state_io_rel R (collectOutputMetadata E r c h n)"
  unfolding collectOutputMetadata_def by (intro frame)

lemma register_output [frame]: "state_io_rel R (register_output E r c s a m n)"
  unfolding register_output_def by (intro frame)

lemma registerNodeOutputs [frame]: "state_io_rel R (registerNodeOutputs E r c h a n)"
  unfolding registerNodeOutputs_def by (intro frame)

lemma registerHandle [frame]: "state_io_rel R (registerHandle r h)"
  unfolding registerHandle_def by (intro frame)

lemma unregisterHandle [frame]: "state_io_rel R (unregisterHandle r)"
  unfolding unregisterHandle_def by (intro frame)

lemma tryRestoreHandle [frame]: "state_io_rel R (tryRestoreHandle E r)"
  unfolding tryRestoreHandle_def by (intro frame)

lemma resolve_retry [frame]: "state_io_rel R (resolve_retry E r c q a b k)"
  by (induction k) (simp, intro frame, simp, intro frame)

lemma resolveBindingWithRetry [frame]: "state_io_rel R (resolveBindingWithRetry E r c q a b)"
  unfolding resolveBindingWithRetry_def by (intro frame)

lemma resolve_pending [frame]: "state_io_rel R (resolve_pending E r c q a b x d k)"
  by (induction k arbitrary: x d) (simp, intro frame, simp, intro frame)

lemma resolveBindingForExecution [frame]: "state_io_rel R (resolveBindingForExecution E r c q a b)"
  unfolding resolveBindingForExecution_def by (intro frame)

lemma shouldObserveScheduling [frame]: "state_io_rel R (shouldObserveScheduling r)"
  unfolding shouldObserveScheduling_def by (intro frame)

lemma recordLocalityHint [frame]: "state_io_rel R (recordLocalityHint E r b x a)"
  unfolding recordLocalityHint_def by (intro frame)

lemma recordPostSchedulingResolve [frame]: "state_io_rel R (recordPostSchedulingResolve r b q x)"
  unfolding recordPostSchedulingResolve_def by (intro frame)

lemma resolve_after_scheduling [frame]: "state_io_rel R (resolve_after_scheduling E r c a t x)"
  unfolding resolve_after_scheduling_def by (intro frame)

lemma resolvePostSchedulingBindings [frame]: "state_io_rel R (resolvePostSchedulingBindings E r c a t)"
  unfolding resolvePostSchedulingBindings_def by (intro frame)

lemma observe_hint [frame]: "state_io_rel R (observe_hint E r a p h)"
  unfolding observe_hint_def by (intro frame)

lemma observeLocality [frame]: "state_io_rel R (observeLocality E r k a)"
  unfolding observeLocality_def by (intro frame)

lemma hint_applied [frame]: "state_io_rel R (hint_applied E r a p h)"
  unfolding hint_applied_def by (intro frame)

lemma recordPlacementHintApplication [frame]: "state_io_rel R (recordPlacementHintApplication E r a hs p)"
  unfolding recordPlacementHintApplication_def by (intro frame)

lemma info_event [frame]: "state_io_rel R (info_event E r a ty m)"
  unfolding info_event_def by (intro frame)

end

subsection \<open>Programs of the node runner\<close>

locale exec_frame = event_frame +
  assumes write_step: "node_write (w_reg w) r \<Longrightarrow> R w (w\<lparr>w_reg := r\<rparr>)"
begin

lemma reg_op [frame]:
  assumes "\<And>r. node_write r (snd (f r))"
  shows "state_io_rel R (reg_op E f)"
proof (rule reg_op_general)
  fix w r assume "R w (w\<lparr>w_reg := r\<rparr>)"
  moreover have "R (w\<lparr>w_reg := r\<rparr>) (w\<lparr>w_reg := snd (f r)\<rparr>)"
    using write_step [of "w\<lparr>w_reg := r\<rparr>" "snd (f r)"] assms by simp
  ultimately show "R w (w\<lparr>w_reg := snd (f r)\<rparr>)" by (rule step_trans)
qed

lemma update_node [frame]: "keeps_history f \<Longrightarrow> state_io_rel R (update_node E r f)"
  unfolding update_node_def by (intro reg_op node_write.update)

lemma reg_update_node_out [frame]:
  assumes f: "keeps_history f"
  shows "state_io_rel R (reg_update_node_out E i n f g d)"
proof (rule state_io_relI)
  fix a w w'
  assume a: "run_state (reg_update_node_out E i n f g d) w = (a, w')"
  let ?t = "w\<lparr>w_tick := Suc (w_tick w)\<rparr>"
  let ?r = "en_interf E (w_tick w) (w_reg w)"
  have t: "R ?t (?t\<lparr>w_reg := ?r\<rparr>)" using interf_step [of ?t "w_tick w"] by simp
  have "R (?t\<lparr>w_reg := ?r\<rparr>) (?t\<lparr>w_reg := snd (UpdateNode i n (\<lambda>x. Inr (f x)) ?r)\<rparr>)"
    using write_step [of "?t\<lparr>w_reg := ?r\<rparr>"] node_write.update [OF f] by simp
  then have u: "R ?t (?t\<lparr>w_reg := snd (UpdateNode i n (\<lambda>x. Inr (f x)) ?r)\<rparr>)"
    using t step_trans by blast
  have "R ?t w'"
    using a t u
    by (auto simp: reg_update_node_out_def next_tick_def Let_def split: option.splits prod.splits)
  then show "R w w'" using tick_step step_trans by blast
qed

lemma registry_writes [frame]:
  "state_io_rel R (reg_op E (UpsertAttempt a))"
  "state_io_rel R (reg_op E (AllocateCurrentAttempt t i n))"
  "state_io_rel R (reg_op E (OpenSemanticAttempt i n b t))"
  "state_io_rel R (reg_op E (PersistBackendHandle i n b h))"
  "state_io_rel R (reg_op E (PersistCancellationIntent i n b t why))"
  "state_io_rel R (reg_op E (PersistProcessCompleted i n b t))"
  by (intro reg_op node_write.intros)+

lemma cancelNode [frame]: "state_io_rel R (cancelNode E r a why)"
  unfolding cancelNode_def by (intro frame; simp add: keeps_history_def)

lemma terminalizeFailed [frame]: "state_io_rel R (terminalizeFailed E r e a s why)"
  unfolding terminalizeFailed_def by (intro frame; simp add: keeps_history_def)

lemma terminalizeFailedNoRetry [frame]: "state_io_rel R (terminalizeFailedNoRetry E r e a s why)"
  unfolding terminalizeFailedNoRetry_def by (intro frame)

lemma realize_again [frame]: "state_io_rel R (realize_again E r a s why k)"
  unfolding realize_again_def by (intro frame; simp add: keeps_history_def)

lemma failNode [frame]: "state_io_rel R (failNode E r e a s why b)"
  unfolding failNode_def by (intro frame)

lemma reconcileUnresolved [frame]: "state_io_rel R (reconcileUnresolved E r a)"
  unfolding reconcileUnresolved_def by (intro frame; simp add: keeps_history_def)

lemma deferFinalizationAfterSuccess [frame]: "state_io_rel R (deferFinalizationAfterSuccess E r a why e)"
  unfolding deferFinalizationAfterSuccess_def by (intro frame; simp add: keeps_history_def)

lemma record_failure [frame]: "state_io_rel R (record_failure E r a t t' res)"
  unfolding record_failure_def by (intro frame)

lemma record_success [frame]: "state_io_rel R (record_success E r a t t' res)"
  unfolding record_success_def by (intro frame; simp add: keeps_history_def)

lemma waitAndFinalize [frame]: "state_io_rel R (waitAndFinalize E r c h a t n)"
  unfolding waitAndFinalize_def by (intro frame)

lemma persistHandle [frame]: "state_io_rel R (persistHandle E r h a)"
  unfolding persistHandle_def by (intro frame)

lemma runFromHandle [frame]: "state_io_rel R (runFromHandle E r c h a)"
  unfolding runFromHandle_def by (intro frame)

lemma repairTerminalProjection [frame]: "state_io_rel R (repairTerminalProjection E r n a)"
  unfolding repairTerminalProjection_def by (intro frame; simp add: keeps_history_def)

lemma attachResolvedHandle [frame]: "state_io_rel R (attachResolvedHandle E r c h a x)"
  unfolding attachResolvedHandle_def by (intro frame)

lemma reconcileByIdentity [frame]: "state_io_rel R (reconcileByIdentity E r c n x)"
  unfolding reconcileByIdentity_def by (intro frame; simp)

lemma reconcileBeforeAllocation [frame]: "state_io_rel R (reconcileBeforeAllocation E r c)"
  unfolding reconcileBeforeAllocation_def by (intro frame)

lemma markNodeCanceledNoAttempt [frame]: "state_io_rel R (markNodeCanceledNoAttempt E r)"
  unfolding markNodeCanceledNoAttempt_def by (intro frame; simp add: keeps_history_def)

lemma driveCancellation [frame]: "state_io_rel R (driveCancellation E r c)"
  unfolding driveCancellation_def by (intro frame)

lemma errored_attempt [frame]: "state_io_rel R (errored_attempt E r a t why)"
  unfolding errored_attempt_def by (intro frame)

lemma fail_attempt [frame]: "state_io_rel R (fail_attempt E r e a t why b)"
  unfolding fail_attempt_def by (intro frame)

lemma advance_node [frame]: "state_io_rel R (advance_node E r s b)"
  unfolding advance_node_def by (intro frame; simp add: keeps_history_def)

lemma begin_attempt [frame]: "state_io_rel R (begin_attempt E r d n)"
  unfolding begin_attempt_def by (intro frame)

lemma resolve_input [frame]: "state_io_rel R (resolve_input E r c run a t b n)"
  unfolding resolve_input_def by (intro frame)

lemma resolve_inputs [frame]: "state_io_rel R (resolve_inputs E r c run a t bs n)"
  by (induction bs arbitrary: n) (simp, intro frame, simp, intro frame)

lemma build_bindings [frame]: "state_io_rel R (build_bindings E r c run a t n)"
  unfolding build_bindings_def by (intro frame)

lemma place_and_prepare [frame]: "state_io_rel R (place_and_prepare E r c run a t n)"
  unfolding place_and_prepare_def by (intro frame)

lemma cross_fence [frame]: "state_io_rel R (cross_fence E r a t)"
  unfolding cross_fence_def by (intro frame)

lemma record_observation [frame]: "state_io_rel R (record_observation E r c a k)"
  unfolding record_observation_def by (intro frame; simp add: keeps_history_def)

lemma observe_scheduling [frame]: "state_io_rel R (observe_scheduling E r c a h)"
  unfolding observe_scheduling_def by (intro frame)

lemma observe_and_wait [frame]: "state_io_rel R (observe_and_wait E r c a n h d)"
  unfolding observe_and_wait_def by (intro frame)

end

subsection \<open>Starting a node\<close>

locale start_frame = exec_frame +
  assumes start_step: "R w (w\<lparr>w_log := w_log w @ [LStart n a (w_reg w)]\<rparr>)"
begin

lemma adapter_StartNode [frame]: "state_io_rel R (adapter_StartNode E c n a p)"
proof -
  have "R w (w\<lparr>w_tick := Suc (w_tick w), w_log := w_log w @ [LStart n a (w_reg w)]\<rparr>)" for w
    using start_step [of "w\<lparr>w_tick := Suc (w_tick w)\<rparr>" n a] tick_step [of w] step_trans by fastforce
  then show ?thesis
    by (simp add: state_io_rel_def adapter_StartNode_def next_tick_def log_call_def
        State_Monad.update_def)
qed

lemma start_and_observe [frame]: "state_io_rel R (start_and_observe E r c a n p)"
  unfolding start_and_observe_def by (intro frame)

lemma realize_and_start [frame]: "state_io_rel R (realize_and_start E r c run p)"
  unfolding realize_and_start_def by (intro frame)

lemma runAttemptBody [frame]: "state_io_rel R (runAttemptBody E r c)"
  unfolding runAttemptBody_def by (intro frame)

lemma RunE [frame]: "state_io_rel R (RunE k E r c)"
  by (induction k) (simp, intro frame, simp, intro frame)

end

subsection \<open>The engine\<close>

definition keeps_run :: "(RunRecord \<Rightarrow> RunRecord) \<Rightarrow> bool" where
  "keeps_run f \<longleftrightarrow> (\<forall>x. rr_RunID (f x) = rr_RunID x \<and> rr_Spec (f x) = rr_Spec x)"

text \<open>
  What the engine relies on of the graph library: waiting for a graph does nothing of its own but
  run the given runners and ticks, in some order and number, so it respects every preorder they do.
\<close>

definition dag_runs_only :: "'d dag_go \<Rightarrow> bool" where
  "dag_runs_only D \<longleftrightarrow> (\<forall>R run watch d. reflp R \<longrightarrow> transp R \<longrightarrow>
     (\<forall>n. state_io_rel R (run n)) \<longrightarrow> (\<forall>b. state_io_rel R (watch b)) \<longrightarrow>
     state_io_rel R (dg_Wait D run watch d))"

locale engine_frame = start_frame R E for R :: "world \<Rightarrow> world \<Rightarrow> bool" and E +
  fixes D :: "'d dag_go"
  assumes watch_step: "R w (w\<lparr>w_watch := x\<rparr>)"
    and registered_step: "R w (w\<lparr>w_registered := xs\<rparr>)"
    and run_step: "keeps_run f \<Longrightarrow> R w (w\<lparr>w_reg := snd (UpdateRun i (\<lambda>x. Inr (f x)) (w_reg w))\<rparr>)"
    and wait_step: "(\<And>n. state_io_rel R (runner n)) \<Longrightarrow> (\<And>b. state_io_rel R (watch b)) \<Longrightarrow>
      state_io_rel R (dg_Wait D runner watch d)"
begin

lemma update_run [frame]:
  assumes "keeps_run f" shows "state_io_rel R (update_run E i f)"
  unfolding update_run_def
proof (rule reg_op_general)
  fix w r assume "R w (w\<lparr>w_reg := r\<rparr>)"
  moreover have "R (w\<lparr>w_reg := r\<rparr>) (w\<lparr>w_reg := snd (UpdateRun i (\<lambda>x. Inr (f x)) r)\<rparr>)"
    using run_step [OF assms, of "w\<lparr>w_reg := r\<rparr>"] by simp
  ultimately show "R w (w\<lparr>w_reg := snd (UpdateRun i (\<lambda>x. Inr (f x)) r)\<rparr>)" by (rule step_trans)
qed

lemma upd_watch [frame]: "state_io_rel R (upd_watch f)"
  unfolding upd_watch_def by (intro update watch_step)

lemma registerActiveRun [frame]: "state_io_rel R (registerActiveRun i)"
proof -
  have "R w (w\<lparr>w_active := ac, w_registered := xs\<rparr>)" for w ac xs
    using registered_step [of "w\<lparr>w_active := ac\<rparr>" xs] active_step [of w ac] step_trans by blast
  then show ?thesis unfolding registerActiveRun_def by (intro update)
qed

lemma unregisterActiveRun [frame]: "state_io_rel R (unregisterActiveRun i)"
  unfolding unregisterActiveRun_def by (intro update registered_step)

lemma get_watch [frame]: "state_io_rel R (get_watch )"
  unfolding get_watch_def by (intro frame)

lemma isUnresolved [frame]: "state_io_rel R (isUnresolved i)"
  unfolding isUnresolved_def by (intro frame)

lemma getActiveRun [frame]: "state_io_rel R (getActiveRun i)"
  unfolding getActiveRun_def by (intro frame)

lemma cancel_active [frame]: "state_io_rel R (cancel_active i)"
  unfolding cancel_active_def by (intro frame)

lemma snapshotHandles [frame]: "state_io_rel R (snapshotHandles mo i)"
  unfolding snapshotHandles_def by (intro frame)

lemma Noop_Admit [frame]: "state_io_rel R (Noop_Admit E x)"
  unfolding Noop_Admit_def by (intro frame; simp add: keeps_run_def keeps_history_def)

lemma mark_node_canceled [frame]: "state_io_rel R (mark_node_canceled E i t n)"
  unfolding mark_node_canceled_def by (intro frame; simp add: keeps_run_def keeps_history_def)

lemma markRunCanceled [frame]: "state_io_rel R (markRunCanceled E i)"
  unfolding markRunCanceled_def by (intro frame; simp add: keeps_run_def keeps_history_def)

lemma Noop_Cancel [frame]: "state_io_rel R (Noop_Cancel E i why)"
  unfolding Noop_Cancel_def by (intro frame)

lemma Admit [frame]: "state_io_rel R (Admit E x)"
  unfolding Admit_def by (intro frame; simp add: keeps_run_def)

lemma cancel_node [frame]: "state_io_rel R (cancel_node E i why t n)"
  unfolding cancel_node_def by (intro frame; simp add: keeps_history_def cancel_node_record_def)

lemma cancel_handles [frame]: "state_io_rel R (cancel_handles E mo i)"
  unfolding cancel_handles_def by (intro frame)

lemma Cancel [frame]: "state_io_rel R (Cancel E mo i why)"
  unfolding Cancel_def by (intro frame; simp add: keeps_run_def cancel_run_record_def)

lemma handoff_failed [frame]: "state_io_rel R (handoff_failed E i ty why e x)"
  unfolding handoff_failed_def by (intro frame; simp add: keeps_run_def keeps_history_def)

lemma finalizeRun [frame]: "state_io_rel R (finalizeRun E c i b why)"
  unfolding finalizeRun_def by (intro frame; simp add: keeps_run_def keeps_history_def)

lemma watch_nodes [frame]: "state_io_rel R (watch_nodes E mo i b ns)"
  by (induction ns) (simp only: watch_nodes.simps, intro frame)+

lemma watch_tick [frame]: "state_io_rel R (watch_tick E mo i b late)"
  unfolding watch_tick_def by (intro frame)

lemma skip_node [frame]: "state_io_rel R (skip_node E i root n)"
  unfolding skip_node_def by (intro frame; simp add: keeps_run_def keeps_history_def)

lemma after_wait [frame]: "state_io_rel R (after_wait E i ns b)"
  unfolding after_wait_def by (intro frame)

lemma runner_of [frame]: "state_io_rel R (runner_of k E rs n)"
  unfolding runner_of_def by (intro frame)

lemma start_graph [frame]: "state_io_rel R (start_graph E i ns)"
  unfolding start_graph_def by (intro frame; simp add: keeps_run_def keeps_history_def)

lemma runGraph [frame]: "state_io_rel R (runGraph k D mo hmo E run)"
  unfolding runGraph_def by (intro frame wait_step)

lemma finalize_or_fail [frame]: "state_io_rel R (finalize_or_fail E i b why)"
  unfolding finalize_or_fail_def by (intro frame; simp add: keeps_run_def keeps_history_def)

lemma leave_unresolved [frame]: "state_io_rel R (leave_unresolved E i)"
  unfolding leave_unresolved_def by (intro frame; simp add: keeps_run_def keeps_history_def)

lemma after_graph [frame]: "state_io_rel R (after_graph E i res)"
  unfolding after_graph_def by (intro frame)

lemma executeRun [frame]: "state_io_rel R (executeRun k D mo hmo E i)"
  unfolding executeRun_def by (intro frame)

lemma runHasNonTerminalNode [frame]: "state_io_rel R (runHasNonTerminalNode E i)"
  unfolding runHasNonTerminalNode_def by (intro frame)

lemma recoverCanceledRun [frame]: "state_io_rel R (recoverCanceledRun mo E run)"
  unfolding recoverCanceledRun_def by (intro frame)

lemma recover_run [frame]: "state_io_rel R (recover_run E run)"
  unfolding recover_run_def by (intro frame; simp)

lemma Recover [frame]: "state_io_rel R (Recover ord E)"
  unfolding Recover_def by (intro frame)

end

subsection \<open>A concrete environment\<close>

text \<open>
  An environment with a backend that runs every node to success, a reachable handoff service, a
  store without faults and no other goroutines; and a graph library that runs the nodes one after
  the other.  They show that the hypotheses of the properties can hold.
\<close>

definition quiet :: "env \<Rightarrow> bool" where
  "quiet E \<longleftrightarrow> (\<forall>t. en_fault E t = None) \<and> (\<forall>t r. en_interf E t r = r)"

definition demo_adapter :: Adapter where
  "demo_adapter = \<lparr>ad_PrepareNode = (\<lambda>t c run node. Inr ''p''),
     ad_StartNode = (\<lambda>t c p. Inr ''h''), ad_ObserveNode = (\<lambda>t c h. Inr None),
     ad_WaitNode = (\<lambda>t c h. Inr \<lparr>er_Succeeded = True, er_TerminalStopCause = '''',
        er_TerminalFailureReason = '''', er_Kueue = None\<rparr>),
     ad_CancelNode = (\<lambda>t c h. ok),
     ad_HandlePersister = Some \<lparr>hp_MarshalHandle = (\<lambda>h. Inr (Some h)),
        hp_UnmarshalHandle = (\<lambda>s. Inr (Some s))\<rparr>,
     ad_AttemptResolver = None, ad_OutputMetadataProvider = None\<rparr>"

definition demo_env :: env where
  "demo_env = \<lparr>en_clock = int, en_ctxErr = (\<lambda>t. None), en_fault = (\<lambda>t. None),
     en_interf = (\<lambda>t r. r), en_adapter = demo_adapter,
     en_ResolveBinding = (\<lambda>t c q. Inr zero_ResolveBindingResponse), en_RegisterArtifact = (\<lambda>t c q. ok),
     en_NotifyNodeTerminal = (\<lambda>t c q. ok), en_FinalizeSampleRun = (\<lambda>t c q. ok),
     en_EvaluateGC = (\<lambda>t c q. ok)\<rparr>"

definition demo_graph_node :: Node where
  "demo_graph_node = zero_Node\<lparr>nd_NodeID := ''a''\<rparr>"

definition demo_run :: RunRecord where
  "demo_run = zero_RunRecord\<lparr>rr_RunID := ''r'',
     rr_Spec := zero_ExecutableRunSpec\<lparr>es_Graph := \<lparr>gr_Nodes = [demo_graph_node], gr_Edges = []\<rparr>\<rparr>\<rparr>"

definition demo_runner :: nodeRunner where
  "demo_runner = new_runner ''r'' demo_graph_node"

definition demo_store :: registry where
  "demo_store = snd (CreateRun demo_run [zero_NodeRecord\<lparr>nr_RunID := ''r'', nr_NodeID := ''a''\<rparr>]
     NewMemoryRegistry)"

definition demo_world :: world where
  "demo_world = \<lparr>w_reg = demo_store, w_tick = 0, w_metrics = [], w_active = [], w_registered = [],
     w_locals = (\<lambda>_. zero_locals),
     w_watch = \<lparr>wt_firstErr = None, wt_fastFailRoot = None, wt_done = False\<rparr>, w_log = []\<rparr>"

fun demo_wait ::
  "(string \<Rightarrow> unit result option prog) \<Rightarrow> (bool \<Rightarrow> unit prog) \<Rightarrow> string list \<Rightarrow> bool option prog" where
  "demo_wait runner watch [] = ret (Some True)"
| "demo_wait runner watch (n # ns) = do {
     x \<leftarrow> runner n;
     watch False;
     case x of
       None \<Rightarrow> ret None
     | Some res \<Rightarrow> (case res of Inl _ \<Rightarrow> ret (Some False) | Inr _ \<Rightarrow> demo_wait runner watch ns) }"

definition demo_dag :: "string list dag_go" where
  "demo_dag = \<lparr>dg_InitDag = Inr [], dg_CreateNode = (\<lambda>n d. d @ [n]), dg_AddEdge = (\<lambda>a b d. Inr d),
     dg_FinishDag = Inr, dg_SetNodeRunners = (\<lambda>ks d. ([], d)), dg_ConnectRunner = (\<lambda>d. (True, d)),
     dg_GetReady = (\<lambda>c d. (True, d)), dg_Start = (\<lambda>d. (True, d)), dg_StartNode = ''start'',
     dg_Wait = demo_wait\<rparr>"

named_theorems runs \<open>running the primitive steps\<close>

lemma reg_op_quiet [runs]:
  "quiet E \<Longrightarrow> run_state (reg_op E f) w =
     (fst (f (w_reg w)), w\<lparr>w_tick := Suc (w_tick w), w_reg := snd (f (w_reg w))\<rparr>)"
  by (simp add: reg_op_def quiet_def next_tick_def Let_def split: prod.split)

lemma reg_update_node_out_quiet [runs]:
  "quiet E \<Longrightarrow> run_state (reg_update_node_out E i n f out d) w =
     (case node_at (w_reg w) i n of None \<Rightarrow> d | Some x \<Rightarrow> out x,
      w\<lparr>w_tick := Suc (w_tick w), w_reg := snd (UpdateNode i n (\<lambda>x. Inr (f x)) (w_reg w))\<rparr>)"
  by (simp add: reg_update_node_out_def quiet_def next_tick_def Let_def)

lemma run_prims [runs]:
  "run_state (time_Now E) w = (en_clock E (w_tick w), w\<lparr>w_tick := Suc (w_tick w)\<rparr>)"
  "run_state next_tick w = (w_tick w, w\<lparr>w_tick := Suc (w_tick w)\<rparr>)"
  "run_state (log_call l) w = ((), w\<lparr>w_log := w_log w @ [l]\<rparr>)"
  "run_state (State_Monad.update g) w = ((), g w)"
  by (simp_all add: time_Now_def next_tick_def log_call_def State_Monad.update_def)

lemma run_appendEvent [runs]:
  "quiet E \<Longrightarrow> run_state (appendEvent E e) w =
     ((), w\<lparr>w_tick := Suc (w_tick w), w_reg := snd (AppendEvent e (w_reg w))\<rparr>)"
  by (simp add: appendEvent_def runs)

lemma run_update_node [runs]:
  "quiet E \<Longrightarrow> run_state (update_node E r f) w =
     (case node_at (w_reg w) (rn_runID r) (rn_nodeID r) of
        None \<Rightarrow> (Inl (node_err (w_reg w) (rn_runID r)), w\<lparr>w_tick := Suc (w_tick w)\<rparr>)
      | Some x \<Rightarrow> (ok, w\<lparr>w_tick := Suc (w_tick w),
          w_reg := put_node (rn_runID r) (rn_nodeID r) (f x) (w_reg w)\<rparr>))"
  by (simp add: update_node_def runs UpdateNode_eq split: option.split)

lemma append_event_frame [simp]:
  "run_at (snd (AppendEvent e r)) = run_at r" "node_at (snd (AppendEvent e r)) = node_at r"
  "node_map (snd (AppendEvent e r)) = node_map r" "attempt_map (snd (AppendEvent e r)) = attempt_map r"
  "attempt_at (snd (AppendEvent e r)) = attempt_at r" "reg_nodes (snd (AppendEvent e r)) = reg_nodes r"
  "reg_runs (snd (AppendEvent e r)) = reg_runs r"
  by (auto simp: AppendEvent_def fun_eq_iff run_at_def node_at_def node_map_def
      attempt_at_def attempt_map_def attempt_maps_def split: option.split)

lemma upsert_frame [simp]:
  "run_at (snd (UpsertAttempt a r)) = run_at r" "node_at (snd (UpsertAttempt a r)) = node_at r"
  "events_of (snd (UpsertAttempt a r)) = events_of r"
  by (auto simp: UpsertAttempt_eq)

lemma quiet_demo: "quiet demo_env"
  by (simp add: quiet_def demo_env_def)

lemma reachable_demo_store: "reachable demo_store"
  unfolding demo_store_def demo_run_def
  by (rule reachable.step [OF reachable.new reg_step.create]) (simp add: fresh_node_def zero_defs)

lemma dag_runs_only_demo: "dag_runs_only demo_dag"
  unfolding dag_runs_only_def
proof (intro allI impI)
  fix R :: "world \<Rightarrow> world \<Rightarrow> bool"
    and runner :: "string \<Rightarrow> unit result option prog" and watch :: "bool \<Rightarrow> unit prog" and d
  assume R: "reflp R" "transp R" and m: "\<forall>n. state_io_rel R (runner n)" "\<forall>b. state_io_rel R (watch b)"
  have p: "step_preorder R"
    using R by unfold_locales (auto intro: reflpD transpD)
  have "state_io_rel R (demo_wait runner watch d)"
    by (induction d)
      (auto intro!: step_preorder.return [OF p] step_preorder.bind [OF p] step_preorder.option_split [OF p]
        step_preorder.sum_split [OF p] simp: m)
  then show "state_io_rel R (dg_Wait demo_dag runner watch d)" by (simp add: demo_dag_def)
qed

lemma demo_world_reg [simp]: "w_reg demo_world = demo_store" "w_log demo_world = []"
  by (simp_all add: demo_world_def)

lemma demo_store_run: "run_at demo_store ''r'' = Some demo_run"
  by (simp add: demo_store_def CreateRun_def NewMemoryRegistry_def run_at_def demo_run_def zero_defs
      Let_def)

end
