(* ===== verification/Exec_History.thy ===== *)
theory Exec_History
  imports Exec_Logic "HOL-Library.Sublist"
begin

text \<open>
  The durable history.  Whatever the executor does, the events of a run are only appended to, no run,
  node or attempt disappears, and the counters of a node do not go back.  The frames of
  \<open>Exec_Logic\<close> are interpreted on this order, for every environment whose other goroutines respect it
  as well.
\<close>

subsection \<open>The order on registries\<close>

definition reg_le :: "registry \<Rightarrow> registry \<Rightarrow> bool" where
  "reg_le r r' \<longleftrightarrow>
     (\<forall>i x. run_at r i = Some x \<longrightarrow>
        (\<exists>y. run_at r' i = Some y \<and> rr_RunID y = rr_RunID x \<and> rr_Spec y = rr_Spec x)) \<and>
     (\<forall>i. prefix (events_of r i) (events_of r' i)) \<and>
     (\<forall>i n a. attempt_at r i n a \<noteq> None \<longrightarrow> attempt_at r' i n a \<noteq> None) \<and>
     (\<forall>i n x. node_at r i n = Some x \<longrightarrow>
        (\<exists>y. node_at r' i n = Some y \<and> nr_RunID y = nr_RunID x \<and> nr_NodeID y = nr_NodeID x \<and>
           nr_RealizationAttemptCount x \<le> nr_RealizationAttemptCount y \<and>
           nr_AttemptCount x \<le> nr_AttemptCount y))"

lemma reg_leD:
  assumes "reg_le r r'"
  shows "run_at r i = Some x \<Longrightarrow>
      \<exists>y. run_at r' i = Some y \<and> rr_RunID y = rr_RunID x \<and> rr_Spec y = rr_Spec x"
    and "prefix (events_of r i) (events_of r' i)"
    and "attempt_at r i n a \<noteq> None \<Longrightarrow> attempt_at r' i n a \<noteq> None"
    and "node_at r i n = Some z \<Longrightarrow>
      \<exists>y. node_at r' i n = Some y \<and> nr_RunID y = nr_RunID z \<and> nr_NodeID y = nr_NodeID z \<and>
         nr_RealizationAttemptCount z \<le> nr_RealizationAttemptCount y \<and>
         nr_AttemptCount z \<le> nr_AttemptCount y"
  using assms unfolding reg_le_def by blast+

lemma reg_le_refl: "reg_le r r"
  by (simp add: reg_le_def)

lemma reg_le_trans:
  assumes rs: "reg_le r s" and st: "reg_le s t"
  shows "reg_le r t"
  unfolding reg_le_def
proof (intro conjI allI impI)
  fix i x assume "run_at r i = Some x"
  then show "\<exists>y. run_at t i = Some y \<and> rr_RunID y = rr_RunID x \<and> rr_Spec y = rr_Spec x"
    using reg_leD(1) [OF rs] reg_leD(1) [OF st] by metis
next
  fix i show "prefix (events_of r i) (events_of t i)"
    using reg_leD(2) [OF rs] reg_leD(2) [OF st] by (rule prefix_order.trans)
next
  fix i n a assume "attempt_at r i n a \<noteq> None"
  then show "attempt_at t i n a \<noteq> None" using reg_leD(3) [OF rs] reg_leD(3) [OF st] by blast
next
  fix i n x assume "node_at r i n = Some x"
  then obtain y where y: "node_at s i n = Some y" "nr_RunID y = nr_RunID x" "nr_NodeID y = nr_NodeID x"
      "nr_RealizationAttemptCount x \<le> nr_RealizationAttemptCount y"
      "nr_AttemptCount x \<le> nr_AttemptCount y"
    using reg_leD(4) [OF rs] by blast
  then show "\<exists>y. node_at t i n = Some y \<and> nr_RunID y = nr_RunID x \<and> nr_NodeID y = nr_NodeID x \<and>
      nr_RealizationAttemptCount x \<le> nr_RealizationAttemptCount y \<and>
      nr_AttemptCount x \<le> nr_AttemptCount y"
    using reg_leD(4) [OF st y(1)] by force
qed

lemma reg_le_put_attempt: "reg_le r (put_attempt i n a x r)"
  by (simp add: reg_le_def)

lemma reg_le_put_node:
  assumes "node_at r i n = Some y" and "nr_RunID x = nr_RunID y" "nr_NodeID x = nr_NodeID y"
    and "nr_RealizationAttemptCount y \<le> nr_RealizationAttemptCount x"
    and "nr_AttemptCount y \<le> nr_AttemptCount x"
  shows "reg_le r (put_node i n x r)"
  using assms by (auto simp: reg_le_def)

lemma reg_le_mutate: "reg_le r (snd (lockedMutateAttempt i n a f r))"
  by (auto simp: lockedMutateAttempt_eq reg_le_refl reg_le_put_attempt split: option.split)

lemma reg_le_event: "reg_le r (snd (AppendEvent e r))"
proof (cases "run_at r (ev_RunID e)")
  case (Some x)
  then have "events_of (snd (AppendEvent e r)) i =
      (if i = ev_RunID e then events_of r i @ [e] else events_of r i)" for i
    by (simp add: AppendEvent_def events_of_def)
  then show ?thesis by (auto simp: reg_le_def)
qed (simp add: AppendEvent_def reg_le_refl)

lemma reg_le_allocate: "reg_le r (snd (AllocateCurrentAttempt t i n r))"
proof (cases "node_at r i n")
  case (Some x)
  then show ?thesis
    by (auto simp: AllocateCurrentAttempt_def lockedGetNode_eq Let_def
        intro!: reg_le_trans [OF reg_le_put_attempt reg_le_put_node] reg_le_refl split: if_splits)
qed (simp add: AllocateCurrentAttempt_def lockedGetNode_eq reg_le_refl)

lemma reg_le_open: "reg_le r (snd (OpenSemanticAttempt i n a t r))"
proof (cases "node_at r i n")
  case (Some x)
  then show ?thesis
    by (auto simp: OpenSemanticAttempt_def lockedGetNode_eq lockedMutateAttempt_eq
        intro!: reg_le_trans [OF reg_le_put_attempt reg_le_put_node] reg_le_refl split: option.split)
qed (simp add: OpenSemanticAttempt_def lockedGetNode_eq reg_le_refl)

lemma reg_le_new_node: "node_at r i n = None \<Longrightarrow> reg_le r (put_node i n x r)"
  by (auto simp: reg_le_def)

lemma reg_le_handle: "reg_le r (snd (PersistBackendHandle i n a h r))"
proof (cases "attempt_at r i n a")
  case (Some x)
  let ?r = "put_attempt i n a (x\<lparr>ar_BackendHandleJSON := h\<rparr>) r"
  have put: "reg_le ?r (put_node i n
      ((case node_at r i n of None \<Rightarrow> zero_NodeRecord | Some m \<Rightarrow> m)\<lparr>nr_CurrentAttemptHandleJSON := h\<rparr>) ?r)"
    by (cases "node_at r i n") (auto intro: reg_le_new_node reg_le_put_node)
  show ?thesis
    using reg_le_trans [OF reg_le_put_attempt put] reg_le_put_attempt
    by (simp add: PersistBackendHandle_def lockedMutateAttempt_eq Some Let_def)
qed (simp add: PersistBackendHandle_def lockedMutateAttempt_eq reg_le_refl)

lemma reg_le_write: "node_write r r' \<Longrightarrow> reg_le r r'"
proof (induction rule: node_write.induct)
  case (update f r i n)
  then show ?case
    by (auto simp: UpdateNode_eq keeps_history_def reg_le_refl intro!: reg_le_put_node
        split: option.split)
next
  case (upsert r a)
  then show ?case by (simp add: UpsertAttempt_eq reg_le_refl reg_le_put_attempt)
qed (simp_all add: reg_le_event reg_le_allocate reg_le_open reg_le_handle reg_le_mutate reg_le_refl
    PersistCancellationIntent_def PersistProcessCompleted_def)

lemma reg_le_update_run:
  assumes "keeps_run f" shows "reg_le r (snd (UpdateRun i (\<lambda>x. Inr (f x)) r))"
  using assms
  by (auto simp: UpdateRun_def reg_le_def keeps_run_def run_at_def node_at_def node_map_def
      attempt_at_def attempt_map_def attempt_maps_def events_of_def split: option.split)

subsection \<open>The frames on it\<close>

definition history_rel :: "env \<Rightarrow> 'd dag_go \<Rightarrow> world \<Rightarrow> world \<Rightarrow> bool" where
  "history_rel E D w w' \<longleftrightarrow> dag_runs_only D \<and> (\<forall>t r. reg_le r (en_interf E t r)) \<longrightarrow>
     reg_le (w_reg w) (w_reg w') \<and> prefix (w_log w) (w_log w')"

lemma history_rel_preorder: "reflp (history_rel E D)" "transp (history_rel E D)"
  unfolding history_rel_def reflp_def transp_def
  by (auto simp: reg_le_refl intro: reg_le_trans prefix_order.trans)

interpretation hist: engine_frame "history_rel E D" E D for E D
proof (unfold_locales, goal_cases)
  case (1 w)
  then show ?case using history_rel_preorder(1) by (rule reflpD)
next
  case (2 w w' w'')
  then show ?case by (rule transpD [OF history_rel_preorder(2)])
next
  case (14 f w i)
  then show ?case by (simp add: history_rel_def reg_le_update_run)
next
  case (15 runner watch d)
  show ?case
  proof (cases "dag_runs_only D")
    case True
    then show ?thesis
      using 15 history_rel_preorder unfolding dag_runs_only_def by blast
  next
    case False
    then show ?thesis by (simp add: state_io_rel_def history_rel_def)
  qed
qed (auto simp: history_rel_def reg_le_refl reg_le_write reg_le_event)

text \<open>The operations of the engine as steps of the service, and the sequences of them.\<close>

inductive engine_step :: "env \<Rightarrow> 'd dag_go \<Rightarrow> world \<Rightarrow> world \<Rightarrow> bool" for E D where
  admit: "run_state (Admit E run) w = (res, w') \<Longrightarrow> engine_step E D w w'"
| cancel: "run_state (Cancel E hmo i why) w = (res, w') \<Longrightarrow> engine_step E D w w'"
| execute: "run_state (executeRun fuel D mo hmo E i) w = (fin, w') \<Longrightarrow> engine_step E D w w'"
| recover: "run_state (Recover ord E) w = (res, w') \<Longrightarrow> engine_step E D w w'"
| recover_canceled: "run_state (recoverCanceledRun nmo E run) w = (u, w') \<Longrightarrow> engine_step E D w w'"

lemma engine_step_history: "engine_step E D w w' \<Longrightarrow> history_rel E D w w'"
  by (induction rule: engine_step.induct)
    (auto dest: state_io_relD [OF hist.Admit] state_io_relD [OF hist.Cancel]
      state_io_relD [OF hist.executeRun] state_io_relD [OF hist.Recover]
      state_io_relD [OF hist.recoverCanceledRun])

lemma engine_steps_history: "(engine_step E D)\<^sup>*\<^sup>* w w' \<Longrightarrow> history_rel E D w w'"
  by (induction rule: rtranclp_induct)
    (auto intro: reflpD [OF history_rel_preorder(1)] transpD [OF history_rel_preorder(2)]
      engine_step_history)

text \<open>
  C20: However the operations of the engine (admit, cancel, execute, recover, recover a canceled run)
  are sequenced, with any faults of the store, any answers of backend and handoff service, and any
  interference that itself respects the order, the history is append-only: a run keeps its id and
  its specification, its events are a prefix of the later events, attempts stay, and the counters
  of a node (realization cycles, execution opportunities) never decrease.
\<close>

theorem engine_history_append_only:
  assumes "dag_runs_only D" and "\<And>t r. reg_le r (en_interf E t r)"
    and "(engine_step E D)\<^sup>*\<^sup>* w w'"
  shows "prefix (events_of (w_reg w) i) (events_of (w_reg w') i) \<and>
    (run_at (w_reg w) i = Some x \<longrightarrow>
      (\<exists>y. run_at (w_reg w') i = Some y \<and> rr_RunID y = rr_RunID x \<and> rr_Spec y = rr_Spec x)) \<and>
    (attempt_at (w_reg w) i n a \<noteq> None \<longrightarrow> attempt_at (w_reg w') i n a \<noteq> None) \<and>
    (node_at (w_reg w) i n = Some z \<longrightarrow>
      (\<exists>y. node_at (w_reg w') i n = Some y \<and>
        nr_RealizationAttemptCount z \<le> nr_RealizationAttemptCount y \<and>
        nr_AttemptCount z \<le> nr_AttemptCount y))"
proof -
  have le: "reg_le (w_reg w) (w_reg w')"
    using engine_steps_history [OF assms(3)] assms(1,2) by (simp add: history_rel_def)
  show ?thesis
    using reg_leD(1) [OF le] reg_leD(2) [OF le] reg_leD(3) [OF le] reg_leD(4) [OF le] by blast
qed

theorem engine_history_append_only_witness:
  "\<exists>w'. engine_step demo_env demo_dag demo_world w' \<and>
     prefix (events_of demo_store ''r'') (events_of (w_reg w') ''r'') \<and>
     (\<exists>y. run_at (w_reg w') ''r'' = Some y \<and> rr_Spec y = rr_Spec demo_run)"
proof -
  obtain fin w' where
    "run_state (executeRun 3 demo_dag (\<lambda>x. x) (\<lambda>x. x) demo_env ''r'') demo_world = (fin, w')"
    by (cases "run_state (executeRun 3 demo_dag (\<lambda>x. x) (\<lambda>x. x) demo_env ''r'') demo_world")
  then have s: "engine_step demo_env demo_dag demo_world w'" by (rule engine_step.execute)
  have i: "\<And>t r. reg_le r (en_interf demo_env t r)" by (simp add: demo_env_def reg_le_refl)
  show ?thesis
    using engine_history_append_only [OF dag_runs_only_demo i
        r_into_rtranclp [of "engine_step demo_env demo_dag", OF s],
        where i = "''r''" and x = demo_run and n = "''a''" and a = "''''" and z = zero_NodeRecord]
      s demo_store_run
    by auto
qed

end
