(* ===== verification/Exec_Safety.thy ===== *)
theory Exec_Safety
  imports Exec_History
begin

text \<open>
  Safety of the node runner, in every environment: with any faults of the store, any answers of the
  backend and the handoff service, and any interference of other goroutines.  A node is started at
  most once per run of its runner, and only behind a durable submission fence; what was started is
  never retried.
\<close>

subsection \<open>Running programs\<close>

lemma run_bindE:
  assumes "run_state (State_Monad.bind m f) w = (b, w')"
  obtains x w1 where "run_state m w = (x, w1)" and "run_state (f x) w1 = (b, w')"
  using assms by (auto split: prod.splits)

lemma run_bindRE:
  assumes "run_state (bindR m f) w = (b, w')"
  obtains (stop) e where "run_state m w = (Inl e, w')" and "b = Inl e"
    | (cont) x w1 where "run_state m w = (Inr x, w1)" and "run_state (f x) w1 = (b, w')"
  using assms unfolding bindR_def by (auto split: prod.splits sum.splits)

lemma run_bodyE:
  assumes "run_state (body m) w = (b, w')"
  obtains x where "run_state m w = (x, w')" and "b = (case x of Inl res \<Rightarrow> res | Inr res \<Rightarrow> res)"
  using assms unfolding body_def by (auto split: prod.splits)

text \<open>What holds of the result and the final world of every run of a program.\<close>

definition post :: "('a \<Rightarrow> world \<Rightarrow> bool) \<Rightarrow> 'a prog \<Rightarrow> bool" where
  "post Q m \<longleftrightarrow> (\<forall>w x w'. run_state m w = (x, w') \<longrightarrow> Q x w')"

lemma postI: "(\<And>w x w'. run_state m w = (x, w') \<Longrightarrow> Q x w') \<Longrightarrow> post Q m"
  by (simp add: post_def)

lemma postD: "post Q m \<Longrightarrow> run_state m w = (x, w') \<Longrightarrow> Q x w'"
  by (simp add: post_def)

lemma post_weaken: "post Q m \<Longrightarrow> (\<And>x w. Q x w \<Longrightarrow> Q' x w) \<Longrightarrow> post Q' m"
  by (auto simp: post_def)

named_theorems post \<open>rules for the results of programs\<close>

lemma post_ret [post]: "(\<And>w. Q x w) \<Longrightarrow> post Q (ret x)"
  by (simp add: post_def)

lemma post_bind [post]: "(\<And>x. post Q (f x)) \<Longrightarrow> post Q (State_Monad.bind m f)"
  by (auto simp: post_def split: prod.splits)

lemma post_bind_value:
  "post (\<lambda>x _. P x) m \<Longrightarrow> (\<And>x. P x \<Longrightarrow> post Q (f x)) \<Longrightarrow> post Q (State_Monad.bind m f)"
  unfolding post_def by (auto split: prod.splits) blast

lemma post_trivial: "(\<And>x w. Q x w) \<Longrightarrow> post Q m"
  by (simp add: post_def)

lemma post_bindR [post]:
  "post (\<lambda>x w. case x of Inl e \<Rightarrow> Q (Inl e) w | Inr _ \<Rightarrow> True) m \<Longrightarrow> (\<And>x. post Q (f x)) \<Longrightarrow>
   post Q (bindR m f)"
  by (fastforce simp: post_def elim!: run_bindRE)

lemma post_or_return [post]:
  "post (\<lambda>x w. case x of Inl e \<Rightarrow> Q (Inl (Inl e)) w | Inr y \<Rightarrow> Q (Inr y) w) m \<Longrightarrow> post Q (or_return m)"
  by (auto simp: post_def or_return_def split: prod.splits sum.splits)

lemma post_return_early [post]: "post (\<lambda>x w. Q (Inl x) w) m \<Longrightarrow> post Q (return_early m)"
  by (auto simp: post_def return_early_def split: prod.splits)

lemma post_body [post]:
  "post (\<lambda>x w. Q (case x of Inl res \<Rightarrow> res | Inr res \<Rightarrow> res) w) m \<Longrightarrow> post Q (body m)"
  by (auto simp: post_def elim!: run_bodyE)

lemma post_if [post]: "(b \<Longrightarrow> post Q m) \<Longrightarrow> (\<not> b \<Longrightarrow> post Q n) \<Longrightarrow> post Q (if b then m else n)"
  by simp

lemma post_option [post]: "(x = None \<Longrightarrow> post Q m) \<Longrightarrow> (\<And>y. x = Some y \<Longrightarrow> post Q (n y)) \<Longrightarrow>
    post Q (case x of None \<Rightarrow> m | Some y \<Rightarrow> n y)"
  by (cases x) simp_all

lemma post_sum [post]: "(\<And>y. x = Inl y \<Longrightarrow> post Q (m y)) \<Longrightarrow> (\<And>y. x = Inr y \<Longrightarrow> post Q (n y)) \<Longrightarrow>
    post Q (case x of Inl y \<Rightarrow> m y | Inr y \<Rightarrow> n y)"
  by (cases x) simp_all

lemma post_prod [post]: "(\<And>y z. x = (y, z) \<Longrightarrow> post Q (m y z)) \<Longrightarrow> post Q (case x of (y, z) \<Rightarrow> m y z)"
  by (cases x) simp

lemma post_bool [post]: "(b \<Longrightarrow> post Q m) \<Longrightarrow> (\<not> b \<Longrightarrow> post Q n) \<Longrightarrow>
    post Q (case b of True \<Rightarrow> m | False \<Rightarrow> n)"
  by (cases b) simp_all

lemma post_let [post]: "post Q (f x) \<Longrightarrow> post Q (Let x f)"
  by simp

lemma post_decision [post]:
  "post Q a \<Longrightarrow> post Q b \<Longrightarrow> post Q d \<Longrightarrow> post Q e \<Longrightarrow> post Q g \<Longrightarrow>
   post Q (case x of ReconcileFresh \<Rightarrow> a | ReconcileTerminalRepair \<Rightarrow> b | ReconcileReattach \<Rightarrow> d
     | ReconcileResolveByIdentity \<Rightarrow> e | ReconcileResumePreFence \<Rightarrow> g)"
  by (cases x) simp_all

lemma post_outcome [post]:
  "post Q a \<Longrightarrow> post Q b \<Longrightarrow> post Q d \<Longrightarrow> post Q e \<Longrightarrow>
   post Q (case x of ResolveUnknown \<Rightarrow> a | ResolveFound \<Rightarrow> b | ResolveAbsentNow \<Rightarrow> d
     | ResolveConflict \<Rightarrow> e)"
  by (cases x) simp_all

lemma reg_op_Inr:
  assumes "run_state (reg_op E f) w = (Inr x, w')"
  shows "\<exists>r. f r = (Inr x, w_reg w')"
  using assms
  by (auto simp: reg_op_def next_tick_def Let_def split: option.splits prod.splits)

lemma reg_op_Inl:
  assumes "run_state (reg_op E f) w = (Inl e, w')"
  shows "(\<exists>t b. en_fault E t = Some (e, b)) \<or> (\<exists>r. f r = (Inl e, w_reg w'))"
  using assms
  by (auto simp: reg_op_def next_tick_def Let_def split: option.splits prod.splits)

subsection \<open>Starts in the log\<close>

definition no_start :: "world \<Rightarrow> world \<Rightarrow> bool" where
  "no_start w w' \<longleftrightarrow> (\<exists>new. w_log w' = w_log w @ new \<and> filter is_start new = [])"

text \<open>At most one start, and it satisfies \<open>P\<close>.\<close>

definition one_start :: "(log_entry \<Rightarrow> bool) \<Rightarrow> world \<Rightarrow> world \<Rightarrow> bool" where
  "one_start P w w' \<longleftrightarrow> (\<exists>new. w_log w' = w_log w @ new \<and>
     (filter is_start new = [] \<or> (\<exists>l. filter is_start new = [l] \<and> P l)))"

interpretation silent: exec_frame no_start E for E
proof (unfold_locales, goal_cases)
  case (2 s t u)
  then obtain a b where "w_log t = w_log s @ a" "filter is_start a = []"
      "w_log u = w_log t @ b" "filter is_start b = []"
    unfolding no_start_def by blast
  then show ?case unfolding no_start_def by (intro exI [of _ "a @ b"]) simp
qed (simp_all add: no_start_def)

lemma no_start_one: "no_start w w' \<Longrightarrow> one_start P w w'"
  unfolding no_start_def one_start_def by blast

lemma no_start_one_trans: "no_start w u \<Longrightarrow> one_start P u w' \<Longrightarrow> one_start P w w'"
  unfolding no_start_def one_start_def
  by (elim exE conjE) (rule exI [of _ "_ @ _"], auto)

lemma one_no_start_trans: "one_start P w u \<Longrightarrow> no_start u w' \<Longrightarrow> one_start P w w'"
  unfolding no_start_def one_start_def
  by (elim exE conjE) (rule exI [of _ "_ @ _"], auto)

text \<open>The durable fence of an attempt that is its node's current one.\<close>

definition fence_open :: "registry \<Rightarrow> string \<Rightarrow> string \<Rightarrow> string \<Rightarrow> bool" where
  "fence_open g i n a \<longleftrightarrow> (\<exists>x y. node_at g i n = Some x \<and> nr_CurrentAttemptID x = a \<and>
     attempt_at g i n a = Some y \<and> ar_SubmissionWindowOpenedAt y \<noteq> None)"

text \<open>The execution opportunities that were opened for a node.\<close>

definition opened_count :: "registry \<Rightarrow> string \<Rightarrow> string \<Rightarrow> nat" where
  "opened_count g i n = length (filter (\<lambda>a. ar_SubmissionWindowOpenedAt a \<noteq> None) (map snd (attempt_map g i n)))"

definition max_attempts :: "nodeRunner \<Rightarrow> int" where
  "max_attempts r = effectiveMaxAttempts (rt_MaxAttempts (nd_RetryPolicy (rn_node r)))"

definition fenced_start :: "env \<Rightarrow> nodeRunner \<Rightarrow> log_entry \<Rightarrow> bool" where
  "fenced_start E r l \<longleftrightarrow>
     (\<exists>a g. l = LStart (rn_nodeID r) a g \<and> fence_open g (rn_runID r) (rn_nodeID r) a \<and>
        (quiet E \<longrightarrow> int (opened_count g (rn_runID r) (rn_nodeID r)) \<le> max_attempts r))"

lemma open_sets_fence:
  assumes "OpenSemanticAttempt i n a t g = (Inr u, g')" shows "fence_open g' i n a"
  using assms
  by (auto simp: OpenSemanticAttempt_def lockedGetNode_eq lockedMutateAttempt_eq fence_open_def
      split: option.splits if_splits)

lemma open_fence_post:
  "post (\<lambda>x w. x = Inr u \<longrightarrow> fence_open (w_reg w) i n a)
     (do { x \<leftarrow> reg_op E (OpenSemanticAttempt i n a t);
           case x of Inl e \<Rightarrow> return_early (m e) | Inr v \<Rightarrow> ret (Inr ()) })"
proof (rule postI, rule impI, elim run_bindE)
  fix w w' y x w1
  assume x: "run_state (reg_op E (OpenSemanticAttempt i n a t)) w = (x, w1)"
    and y: "run_state (case x of Inl e \<Rightarrow> return_early (m e) | Inr v \<Rightarrow> ret (Inr ())) w1 = (y, w')"
    and "y = Inr u"
  then have "x = Inr ()" "w1 = w'"
    by (auto simp: return_early_def split: sum.splits prod.splits)
  then show "fence_open (w_reg w') i n a" using x by (auto dest!: reg_op_Inr intro: open_sets_fence)
qed

lemma cross_fence_opens:
  assumes "run_state (cross_fence E r a t) w = (Inr u, w')"
  shows "fence_open (w_reg w') (rn_runID r) (rn_nodeID r) a"
proof -
  have "post (\<lambda>x w. x = Inr u \<longrightarrow> fence_open (w_reg w) (rn_runID r) (rn_nodeID r) a) (cross_fence E r a t)"
    unfolding cross_fence_def Let_def
    by (rule post_bindR, rule post_trivial, simp split: sum.split, rule post_if, rule post_bind,
        rule post_return_early, rule post_trivial, simp, rule post_bind, rule open_fence_post)
  from postD [OF this assms] show ?thesis by simp
qed

lemma count_update:
  "length (filter (P \<circ> snd) (AList.update k v m)) \<le> Suc (length (filter (P \<circ> snd) m))"
  by (induction m) auto

lemma opened_count_open:
  "opened_count (snd (OpenSemanticAttempt i n a t g)) i n \<le> Suc (opened_count g i n)"
  by (auto simp: OpenSemanticAttempt_def lockedGetNode_eq lockedMutateAttempt_eq opened_count_def
      attempt_map_put_attempt filter_map count_update split: option.split)

lemma opened_count_list:
  assumes "ListAttempts i n g = (Inr xs, g')"
  shows "length (filter (\<lambda>a. ar_SubmissionWindowOpenedAt a \<noteq> None) xs) = opened_count g i n"
proof -
  have "mset xs = mset (map snd (attempt_map g i n))"
    using assms
    by (auto simp: ListAttempts_def attempt_map_def attempt_maps_def split: option.splits)
  then have "mset (filter (\<lambda>a. ar_SubmissionWindowOpenedAt a \<noteq> None) xs) =
      mset (filter (\<lambda>a. ar_SubmissionWindowOpenedAt a \<noteq> None) (map snd (attempt_map g i n)))"
    by (simp add: mset_filter)
  then show ?thesis unfolding opened_count_def by (metis size_mset)
qed

lemma cross_fence_budget:
  assumes q: "quiet E" and run: "run_state (cross_fence E r a t) w = (Inr u, w')"
  shows "int (opened_count (w_reg w') (rn_runID r) (rn_nodeID r)) \<le> max_attempts r"
proof -
  let ?i = "rn_runID r" and ?n = "rn_nodeID r"
  obtain xs g where xs: "ListAttempts ?i ?n (w_reg w) = (Inr xs, g)" and
      lt: "int (length (filter (\<lambda>a. ar_SubmissionWindowOpenedAt a \<noteq> None) xs)) < max_attempts r" and
      w': "\<exists>s. w_reg w' = snd (OpenSemanticAttempt ?i ?n a s g)"
    using run
    by (cases "ListAttempts ?i ?n (w_reg w)"; cases "fst (ListAttempts ?i ?n (w_reg w))")
      ((auto simp: cross_fence_def openedOpportunityCount_def bindR_def or_return_def Let_def
        return_early_def max_attempts_def time_Now_def next_tick_def reg_op_quiet [OF q]
        split: if_splits sum.splits prod.splits)[1], blast?)+
  have g: "g = w_reg w" using xs reads_pure(5) [of ?i ?n "w_reg w"] by simp
  obtain s where s: "w_reg w' = snd (OpenSemanticAttempt ?i ?n a s g)" using w' ..
  have "opened_count (w_reg w') ?i ?n \<le> Suc (opened_count (w_reg w) ?i ?n)"
    unfolding s g by (rule opened_count_open)
  then show ?thesis using lt opened_count_list [OF xs] by linarith
qed

lemma start_log:
  assumes "run_state (adapter_StartNode E c n a p) w = (res, w')"
  shows "w_log w' = w_log w @ [LStart n a (w_reg w)]" and "w_reg w' = w_reg w"
  using assms by (auto simp: adapter_StartNode_def next_tick_def log_call_def State_Monad.update_def)

lemma time_Now_frame:
  assumes "run_state (time_Now E) w = (t, w')"
  shows "w_log w' = w_log w" "w_reg w' = w_reg w"
  using assms by (auto simp: time_Now_def next_tick_def)

lemma start_and_observe_one_start:
  assumes run: "run_state (start_and_observe E r c a n p) w = (res, w')"
    and fence: "fence_open (w_reg w) (rn_runID r) (rn_nodeID r) a"
    and budget: "quiet E \<Longrightarrow> int (opened_count (w_reg w) (rn_runID r) (rn_nodeID r)) \<le> max_attempts r"
  shows "one_start (fenced_start E r) w w'"
proof -
  obtain t u where t: "run_state (time_Now E) w = (t, u)" by (cases "run_state (time_Now E) w")
  obtain h v where h: "run_state (adapter_StartNode E c (rn_nodeID r) a p) u = (h, v)"
    by (cases "run_state (adapter_StartNode E c (rn_nodeID r) a p) u")
  define rest where "rest = (do {
     releasedAt \<leftarrow> time_Now E;
     case h of
       Inl _ \<Rightarrow> reconcileUnresolved E r a
     | Inr h \<Rightarrow> do {
         inc ''jumi_jobs_created'';
         registerHandle r h;
         res \<leftarrow> observe_and_wait E r c a n h (releasedAt - t);
         unregisterHandle r;
         ret res } })"
  have "state_io_rel no_start rest" unfolding rest_def by (intro frame)
  moreover have "run_state rest v = (res, w')"
    using run t h by (simp add: start_and_observe_def rest_def)
  ultimately have v: "no_start v w'" by (rule state_io_relD)
  have "one_start (fenced_start E r) w v"
    using start_log(1) [OF h] time_Now_frame [OF t] fence budget
    by (auto simp: one_start_def fenced_start_def)
  then show ?thesis using v by (rule one_no_start_trans)
qed

subsection \<open>Results that ask for another realization\<close>

definition retried :: "unit result \<Rightarrow> bool" where
  "retried res \<longleftrightarrow> (case res of Inl e \<Rightarrow> errors_Is e errNodeRetry | Inr _ \<Rightarrow> False)"

text \<open>
  \<open>errNodeRetry\<close> is an unexported value of the executor package, so no failure of the store is it.
\<close>

definition honest_store :: "env \<Rightarrow> bool" where
  "honest_store E \<longleftrightarrow> (\<forall>t e b. en_fault E t = Some (e, b) \<longrightarrow> \<not> errors_Is e errNodeRetry)"

lemma retried_simps [simp]:
  "\<not> retried (Inr u)" "\<not> retried (Inl errReconcileUnresolved)" "\<not> retried (Inl (Errorf s))"
  "retried (Inl errNodeRetry)" "retried (Inl e) \<longleftrightarrow> errors_Is e errNodeRetry"
  "\<not> errors_Is errReconcileUnresolved errNodeRetry" "\<not> errors_Is (Errorf s) errNodeRetry"
  by (simp_all add: retried_def errors_Is_def)

abbreviation final :: "unit result prog \<Rightarrow> bool" where
  "final \<equiv> post (\<lambda>x _. \<not> retried x)"

lemma update_node_final: "honest_store E \<Longrightarrow> final (update_node E r f)"
  unfolding update_node_def
  by (rule postI) (auto simp: retried_def honest_store_def UpdateNode_eq node_err_def errors_Is_def
      split: sum.splits option.splits if_splits dest!: reg_op_Inl)

lemma update_node_stop:
  "honest_store E \<Longrightarrow> post (\<lambda>x w. case x of Inl e \<Rightarrow> \<not> retried (Inl e) | Inr _ \<Rightarrow> True) (update_node E r f)"
  by (rule post_weaken [OF update_node_final]) (auto split: sum.split)

lemma reconcileUnresolved_final: "final (reconcileUnresolved E r a)"
  unfolding reconcileUnresolved_def by (intro post) simp

lemma deferFinalization_final: "final (deferFinalizationAfterSuccess E r a why e)"
  unfolding deferFinalizationAfterSuccess_def by (intro post; simp)

lemma cancelNode_final: "honest_store E \<Longrightarrow> final (cancelNode E r a why)"
  unfolding cancelNode_def by (intro post update_node_stop; simp)

lemma terminalizeFailed_final:
  "\<not> errors_Is cause errNodeRetry \<Longrightarrow> final (terminalizeFailed E r cause a s why)"
  unfolding terminalizeFailed_def by (intro post; simp)

lemma waitAndFinalize_final: "honest_store E \<Longrightarrow> final (waitAndFinalize E r c h a t n)"
  unfolding waitAndFinalize_def record_failure_def record_success_def terminalizeFailedNoRetry_def
  by (intro post cancelNode_final reconcileUnresolved_final terminalizeFailed_final
      deferFinalization_final update_node_stop; simp add: errors_Is_def)

lemma observe_and_wait_final:
  assumes E: "honest_store E" shows "final (observe_and_wait E r c a n h d)"
proof -
  have tail: "post (\<lambda>x w. \<not> retried (case x of Inl res \<Rightarrow> res | Inr res \<Rightarrow> res))
      (do { res \<leftarrow> waitAndFinalize E r c h a t n; ret (Inr res) })" for t
    by (rule post_bind_value [OF waitAndFinalize_final [OF E]]) (intro post; simp)
  have stop: "post (\<lambda>x w. case x of Inl e \<Rightarrow> \<not> retried (case Inl e of Inl res \<Rightarrow> res | Inr res \<Rightarrow> res)
      | Inr _ \<Rightarrow> True) (advance_node E r st b)" for st b
    unfolding advance_node_def
    by (rule post_or_return, rule post_weaken [OF update_node_stop [OF E]]) (auto split: sum.splits)
  show ?thesis
    unfolding observe_and_wait_def
    by (intro post_bind post_body post_bindR stop tail)
qed

lemma start_and_observe_final:
  assumes E: "honest_store E" shows "final (start_and_observe E r c a n p)"
proof -
  have tail: "final (do { res \<leftarrow> observe_and_wait E r c a n h d; unregisterHandle r; ret res })" for h d
    by (rule post_bind_value [OF observe_and_wait_final [OF E]]) (intro post; simp)
  show ?thesis
    unfolding start_and_observe_def
    by (rule post_bind, rule post_bind, rule post_bind, rule post_sum, rule reconcileUnresolved_final,
        rule post_bind, rule post_bind, rule tail)
qed

subsection \<open>One attempt\<close>

lemma start_part:
  assumes "run_state (bindR (cross_fence E r a t) (\<lambda>_. do {
      res \<leftarrow> start_and_observe E r c a n p; ret (Inr res) })) w = (x, w')"
  shows "one_start (fenced_start E r) w w'"
    and "honest_store E \<Longrightarrow> retried (case x of Inl res \<Rightarrow> res | Inr res \<Rightarrow> res) \<Longrightarrow> no_start w w'"
proof -
  have silent: "no_start w u" if "run_state (cross_fence E r a t) w = (y, u)" for y u
    using silent.cross_fence that by (rule state_io_relD)
  from assms have "one_start (fenced_start E r) w w' \<and>
    (honest_store E \<longrightarrow> retried (case x of Inl res \<Rightarrow> res | Inr res \<Rightarrow> res) \<longrightarrow> no_start w w')"
  proof (cases rule: run_bindRE)
    case (stop e)
    then show ?thesis using silent no_start_one by blast
  next
    case (cont u w1)
    from cont(2) obtain res where s: "run_state (start_and_observe E r c a n p) w1 = (res, w')"
      and x: "x = Inr res" by (elim run_bindE) auto
    have "one_start (fenced_start E r) w1 w'"
      by (rule start_and_observe_one_start [OF s cross_fence_opens [OF cont(1)]
          cross_fence_budget [OF _ cont(1)]])
    then have "one_start (fenced_start E r) w w'"
      by (rule no_start_one_trans [OF silent [OF cont(1)]])
    moreover have "honest_store E \<Longrightarrow> \<not> retried res"
      using start_and_observe_final s by (rule postD)
    ultimately show ?thesis using x by simp
  qed
  then show "one_start (fenced_start E r) w w'"
    and "honest_store E \<Longrightarrow> retried (case x of Inl res \<Rightarrow> res | Inr res \<Rightarrow> res) \<Longrightarrow> no_start w w'"
    by blast+
qed

text \<open>
  A program in front of the start respects \<open>no_start\<close>, so it can be put before it.
\<close>

definition guarded :: "env \<Rightarrow> nodeRunner \<Rightarrow> unit result early prog \<Rightarrow> bool" where
  "guarded E r m \<longleftrightarrow> (\<forall>w x w'. run_state m w = (x, w') \<longrightarrow> one_start (fenced_start E r) w w' \<and>
     (honest_store E \<longrightarrow> retried (case x of Inl res \<Rightarrow> res | Inr res \<Rightarrow> res) \<longrightarrow> no_start w w'))"

lemma guarded_start:
  "guarded E r (bindR (cross_fence E r a t) (\<lambda>_. do {
      res \<leftarrow> start_and_observe E r c a n p; ret (Inr res) }))"
  using start_part unfolding guarded_def by blast

lemma guarded_bind:
  assumes m: "state_io_rel no_start m" and f: "\<And>x. guarded E r (f x)"
  shows "guarded E r (State_Monad.bind m f)"
  unfolding guarded_def
proof (intro allI impI, elim run_bindE)
  fix w x w' y u
  assume "run_state m w = (y, u)" and g: "run_state (f y) u = (x, w')"
  then have "no_start w u" using m by (auto dest: state_io_relD)
  then show "one_start (fenced_start E r) w w' \<and>
     (honest_store E \<longrightarrow> retried (case x of Inl res \<Rightarrow> res | Inr res \<Rightarrow> res) \<longrightarrow> no_start w w')"
    using f [of y] g silent.step_trans no_start_one_trans unfolding guarded_def by blast
qed

lemma guarded_bindR:
  assumes m: "state_io_rel no_start m" and f: "\<And>x. guarded E r (f x)"
  shows "guarded E r (bindR m f)"
  unfolding bindR_def
proof (rule guarded_bind [OF m])
  fix x
  show "guarded E r (case x of Inl e \<Rightarrow> ret (Inl e) | Inr x \<Rightarrow> f x)"
  proof (cases x)
    case (Inl e)
    then show ?thesis by (simp add: guarded_def no_start_one silent.step_refl)
  qed (simp add: f)
qed

lemma guarded_prod: "(\<And>y z. guarded E r (f y z)) \<Longrightarrow> guarded E r (case x of (y, z) \<Rightarrow> f y z)"
  by (cases x) simp

lemma guarded_body:
  assumes "run_state (body m) w = (res, w')" and "guarded E r m"
  shows "one_start (fenced_start E r) w w' \<and> (honest_store E \<longrightarrow> retried res \<longrightarrow> no_start w w')"
  using assms unfolding guarded_def by (auto elim!: run_bodyE)

lemma runAttemptBody_guarded:
  assumes "run_state (runAttemptBody E r c) w = (res, w')"
  shows "one_start (fenced_start E r) w w' \<and> (honest_store E \<longrightarrow> retried res \<longrightarrow> no_start w w')"
  by (rule guarded_body [OF assms [unfolded runAttemptBody_def realize_and_start_def]],
      intro guarded_bindR guarded_bind guarded_prod guarded_start frame)

subsection \<open>The loop around the attempts\<close>

lemma RunE_step:
  assumes "run_state (RunE (Suc fuel) E r c) w = (res, w')"
  obtains (last) x where "run_state (runAttemptBody E r c) w = (x, w')" and "\<not> retried x"
      and "res = Some x"
    | (again) x u where "run_state (runAttemptBody E r c) w = (x, u)" and "retried x"
      and "run_state (RunE fuel E r c) u = (res, w')"
proof -
  obtain x u where x: "run_state (runAttemptBody E r c) w = (x, u)"
    by (cases "run_state (runAttemptBody E r c) w")
  show thesis
  proof (cases "retried x")
    case True
    then show thesis using assms x again by (auto simp: retried_def split: sum.splits)
  next
    case False
    then show thesis using assms x last by (auto simp: retried_def split: sum.splits)
  qed
qed

lemma RunE_one_start:
  "honest_store E \<Longrightarrow> run_state (RunE fuel E r c) w = (res, w') \<Longrightarrow> one_start (fenced_start E r) w w'"
proof (induction fuel arbitrary: w)
  case 0
  then show ?case by (simp add: no_start_one silent.step_refl)
next
  case (Suc fuel)
  from Suc.prems(2) show ?case
  proof (cases rule: RunE_step)
    case (last x)
    then show ?thesis using runAttemptBody_guarded by blast
  next
    case (again x u)
    then have "no_start w u" using runAttemptBody_guarded [OF again(1)] Suc.prems(1) by blast
    then show ?thesis using Suc.IH [OF Suc.prems(1) again(3)] by (rule no_start_one_trans)
  qed
qed

text \<open>
  C21: One call of \<^verbatim>\<open>RunE\<close> starts at most one backend job for its node, whatever the number of
  realization cycles, the answers of the backend and of the handoff service, the faults of the
  store, and the interference of other goroutines.  At the moment of the start the registry holds
  the open submission fence of an attempt that is the node's current one, and (when no one
  interferes) at most \<^verbatim>\<open>MaxAttempts\<close> attempts of the node have theirs open.
\<close>

theorem RunE_starts_once_behind_the_fence:
  assumes "honest_store E" and "run_state (RunE fuel E r c) w = (res, w')"
  shows "\<exists>new. w_log w' = w_log w @ new \<and>
    (filter is_start new = [] \<or>
     (\<exists>a g. filter is_start new = [LStart (rn_nodeID r) a g] \<and>
        fence_open g (rn_runID r) (rn_nodeID r) a \<and>
        (quiet E \<longrightarrow> int (opened_count g (rn_runID r) (rn_nodeID r)) \<le> max_attempts r)))"
  using RunE_one_start [OF assms] unfolding one_start_def fenced_start_def by blast

lemma honest_demo: "honest_store demo_env"
  by (simp add: honest_store_def demo_env_def)

theorem RunE_starts_once_behind_the_fence_witness:
  "\<exists>w'. (\<exists>res. run_state (RunE 33 demo_env demo_runner CtxRun) demo_world = (res, w')) \<and>
     length (filter is_start (w_log w')) \<le> 1"
proof -
  obtain res w' where r: "run_state (RunE 33 demo_env demo_runner CtxRun) demo_world = (res, w')"
    by (cases "run_state (RunE 33 demo_env demo_runner CtxRun) demo_world")
  have "length (filter is_start (w_log w')) \<le> 1"
    using RunE_starts_once_behind_the_fence [OF honest_demo r] by auto
  with r show ?thesis by blast
qed

end
