(* ===== verification/Exec_Retry.thy ===== *)
theory Exec_Retry
  imports Exec_Safety
begin

text \<open>
  The loop of \<^verbatim>\<open>RunE\<close> ends.  With a store that works and no interference, an attempt that asks for
  another realization has detached the node from its attempt and has a realization cycle left, and
  the next attempt uses up a cycle; the ceiling of the cycles bounds the loop.
\<close>

subsection \<open>Errors of the collaborators\<close>

text \<open>No collaborator returns the package's private retry value.\<close>

definition honest :: "env \<Rightarrow> bool" where
  "honest E \<longleftrightarrow> honest_store E \<and>
     (\<forall>t c run n e. ad_PrepareNode (en_adapter E) t c run n = Inl e \<longrightarrow> \<not> errors_Is e errNodeRetry) \<and>
     (\<forall>t c q e. en_ResolveBinding E t c q = Inl e \<longrightarrow> \<not> errors_Is e errNodeRetry) \<and>
     (\<forall>t e. en_ctxErr E t = Some e \<longrightarrow> \<not> errors_Is e errNodeRetry)"

abbreviation no_retry :: "'a result prog \<Rightarrow> bool" where
  "no_retry \<equiv> post (\<lambda>x _. \<forall>e. x = Inl e \<longrightarrow> \<not> errors_Is e errNodeRetry)"

lemma honestD: "honest E \<Longrightarrow> honest_store E"
  by (simp add: honest_def)

lemma reg_op_no_retry:
  assumes "honest E" and "\<And>r e r'. f r = (Inl e, r') \<Longrightarrow> \<not> errors_Is e errNodeRetry"
  shows "no_retry (reg_op E f)"
proof (rule postI, intro allI impI)
  fix w x w' e
  assume "run_state (reg_op E f) w = (x, w')" and "x = Inl e"
  then show "\<not> errors_Is e errNodeRetry"
    using assms(2) honestD [OF assms(1)] unfolding honest_store_def by (blast dest: reg_op_Inl)
qed

lemma reads_no_retry:
  assumes "honest E"
  shows "no_retry (reg_op E (GetRun i))" "no_retry (reg_op E (GetNode i n))"
    "no_retry (reg_op E (GetCurrentAttempt i n))" "no_retry (reg_op E (ListAttempts i n))"
    "no_retry (reg_op E (AllocateCurrentAttempt t i n))" "no_retry (reg_op E (OpenSemanticAttempt i n a t))"
  by (rule reg_op_no_retry [OF assms];
      auto simp: errors_Is_def Registry.registry_reads registry_writes node_err_def attempt_err_def Let_def
        split: option.splits if_splits prod.splits sum.splits)+

lemma ctx_Err_no_retry: "honest E \<Longrightarrow> post (\<lambda>x _. \<forall>e. x = Some e \<longrightarrow> \<not> errors_Is e errNodeRetry) (ctx_Err E i c)"
  unfolding ctx_Err_def
  by (intro post; auto simp: honest_def errors_Is_def split: ctx.splits if_splits option.splits)

lemma resolve_retry_no_retry:
  assumes E: "honest E" shows "no_retry (resolve_retry E r c q a b k)"
proof (induction k)
  case (Suc k)
  have q: "no_retry (handoff_ResolveBinding E c q)"
    unfolding handoff_ResolveBinding_def using E by (intro post; auto simp: honest_def)
  have d: "no_retry (do { x \<leftarrow> ctx_Err E (rn_runID r) c;
      case x of Some e \<Rightarrow> ret (Inl e) | None \<Rightarrow> resolve_retry E r c q a b k })"
    by (rule post_bind_value [OF ctx_Err_no_retry [OF E]]) (intro post Suc.IH; simp)
  show ?case
    by (subst resolve_retry.simps, rule post_bind_value [OF q]) (intro post d; simp)
qed (simp, intro post, simp)

lemma post_action [post]:
  "post Q a \<Longrightarrow> post Q b \<Longrightarrow> post Q d \<Longrightarrow> post Q e \<Longrightarrow>
   post Q (case x of resolveProceed \<Rightarrow> a | resolveRetry \<Rightarrow> b | resolveFail \<Rightarrow> d
     | resolveSkipOptional \<Rightarrow> e)"
  by (cases x) simp_all

lemma plan_error_is_Errorf:
  assumes "check_plan_contract b x = Inl e" shows "\<exists>s. e = Errorf s"
  using assms by (auto simp: check_plan_contract_def contract_error_def Let_def
      split: if_splits option.splits)

lemma placement_error_is_Errorf:
  assumes "check_placement_contract b x = Inl e" shows "\<exists>s. e = Errorf s"
  using assms by (auto simp: check_placement_contract_def contract_error_def Let_def split: if_splits)

lemma contract_error_is_Errorf:
  assumes "validateResolvedBindingContract b x = Inl e" shows "\<exists>s. e = Errorf s"
  using assms plan_error_is_Errorf placement_error_is_Errorf
  unfolding validateResolvedBindingContract_def by (auto split: sum.splits)

lemma env_keys_error_is_Errorf: "validateResolvedBindingEnvKeys bs = Inl e \<Longrightarrow> \<exists>s. e = Errorf s"
proof -
  have "validate_env_keys bs seen = Inl e \<Longrightarrow> \<exists>s. e = Errorf s" for seen
    by (induction bs seen rule: validate_env_keys.induct) (auto simp: Let_def split: option.splits)
  then show "validateResolvedBindingEnvKeys bs = Inl e \<Longrightarrow> \<exists>s. e = Errorf s"
    by (simp add: validateResolvedBindingEnvKeys_def)
qed

lemma collect_required_error: "collect_required hs n p = Inl e \<Longrightarrow> \<exists>s. e = Errorf s"
  by (induction hs n p rule: collect_required.induct) (auto split: if_splits)

lemma placement_hints_error_is_Errorf:
  assumes "applyPlacementHints n hs = Inl e" shows "\<exists>s. e = Errorf s"
  using assms collect_required_error unfolding applyPlacementHints_def
  by (auto simp: Let_def split: if_splits sum.splits option.splits prod.splits)

lemma resolve_pending_no_retry:
  assumes E: "honest E" shows "no_retry (resolve_pending E r c q a b x d k)"
proof (induction k arbitrary: x d)
  case 0
  then show ?case by (simp, intro post, simp)
next
  case (Suc k)
  have more: "no_retry (do { y \<leftarrow> ctx_Err E (rn_runID r) c;
      case y of Some e \<Rightarrow> ret (Inl e) | None \<Rightarrow> resolve_pending E r c q a b x d k })" for x d
    by (rule post_bind_value [OF ctx_Err_no_retry [OF E]]) (intro post Suc.IH; simp)
  have stop: "post (\<lambda>y w. case y of Inl e \<Rightarrow> \<forall>e'. Inl e = Inl e' \<longrightarrow> \<not> errors_Is e' errNodeRetry
      | Inr _ \<Rightarrow> True) (resolveBindingWithRetry E r c q a n)" for n
    unfolding resolveBindingWithRetry_def
    by (rule post_weaken [OF resolve_retry_no_retry [OF E]]) (auto split: sum.split)
  show ?case
    by (subst resolve_pending.simps, rule post_bindR [OF stop])
      (intro post more; auto dest: contract_error_is_Errorf)
qed

lemma resolveBinding_no_retry:
  "honest E \<Longrightarrow> no_retry (resolveBindingForExecution E r c q a b)"
  unfolding resolveBindingForExecution_def by (rule resolve_pending_no_retry)

subsection \<open>An attempt that asks for another realization\<close>

text \<open>The node is detached from its attempt and has a realization cycle left.\<close>

definition detached :: "nodeRunner \<Rightarrow> world \<Rightarrow> bool" where
  "detached r w \<longleftrightarrow> (\<exists>x. node_at (w_reg w) (rn_runID r) (rn_nodeID r) = Some x \<and>
     nr_CurrentAttemptID x = '''' \<and> nr_CurrentAttemptHandleJSON x = '''' \<and>
     nr_Status x = NodeStatusPending \<and> nr_RealizationAttemptCount x < realizationAttemptCeiling)"

abbreviation ends :: "nodeRunner \<Rightarrow> unit result prog \<Rightarrow> bool" where
  "ends r \<equiv> post (\<lambda>x w. retried x \<longrightarrow> detached r w)"

abbreviation stops :: "nodeRunner \<Rightarrow> 'a early prog \<Rightarrow> bool" where
  "stops r \<equiv> post (\<lambda>x w. \<forall>res. x = Inl res \<longrightarrow> retried res \<longrightarrow> detached r w)"

lemma final_ends: "final m \<Longrightarrow> ends r m"
  by (erule post_weaken) auto

lemma no_retry_stops: "no_retry m \<Longrightarrow> stops r (or_return m)"
  by (rule post_or_return, erule post_weaken) (auto split: sum.splits)

lemma ends_stops: "ends r m \<Longrightarrow> stops r (return_early m)"
  by (rule post_return_early, erule post_weaken) auto

lemma stops_bindR: "stops r m \<Longrightarrow> (\<And>x. stops r (f x)) \<Longrightarrow> stops r (bindR m f)"
  by (rule post_bindR, erule post_weaken) (auto split: sum.splits)

lemma advance_node_stops: "honest E \<Longrightarrow> stops r (advance_node E r s b)"
  unfolding advance_node_def
  by (rule no_retry_stops, rule post_weaken [OF update_node_final [OF honestD]]) auto

lemma realize_again_detaches:
  assumes q: "quiet E"
    and w: "node_at (w_reg w) (rn_runID r) (rn_nodeID r) = Some x"
      "nr_RealizationAttemptCount x < realizationAttemptCeiling"
    and run: "run_state (realize_again E r a s why k) w = (res, w')"
  shows "detached r w'"
  using run w
  by (auto simp: realize_again_def runs q detached_def
      split: sum.splits option.splits if_splits prod.splits)

lemma retries_remaining:
  assumes "quiet E" and "run_state (realizationRetriesRemaining E r) w = (Some k, w')"
  shows "\<exists>x. node_at (w_reg w') (rn_runID r) (rn_nodeID r) = Some x \<and>
    nr_RealizationAttemptCount x < realizationAttemptCeiling"
  using assms
  by (auto simp: realizationRetriesRemaining_def runs GetNode_def node_at_def node_map_def Let_def
      split: option.splits if_splits)

lemma failNode_ends:
  assumes q: "quiet E" and E: "honest E" and cause: "\<not> errors_Is cause errNodeRetry"
  shows "ends r (failNode E r cause a s why b)"
proof -
  have again: "ends r (do { k \<leftarrow> realizationRetriesRemaining E r;
      case (b, k) of (True, Some k) \<Rightarrow> realize_again E r a s why k
      | _ \<Rightarrow> terminalizeFailed E r cause a s why })"
  proof (rule postI, rule impI, elim run_bindE)
    fix w x w' k u
    assume k: "run_state (realizationRetriesRemaining E r) w = (k, u)" and x: "retried x" and
      m: "run_state (case (b, k) of (True, Some k) \<Rightarrow> realize_again E r a s why k
            | _ \<Rightarrow> terminalizeFailed E r cause a s why) u = (x, w')"
    from m x postD [OF terminalizeFailed_final [OF cause]] obtain j where
      "k = Some j" "run_state (realize_again E r a s why j) u = (x, w')"
      by (auto split: bool.splits option.splits)
    then show "detached r w'"
      using retries_remaining [OF q] k realize_again_detaches [OF q] by blast
  qed
  show ?thesis
    unfolding failNode_def
    by (rule post_bind, rule post_bind, rule post_if,
        rule final_ends [OF cancelNode_final [OF honestD [OF E]]], rule again)
qed

lemma fail_attempt_ends:
  "quiet E \<Longrightarrow> honest E \<Longrightarrow> \<not> errors_Is cause errNodeRetry \<Longrightarrow> ends r (fail_attempt E r cause a t why b)"
  unfolding fail_attempt_def by (rule post_bind, rule failNode_ends)

lemma runFromHandle_final: "honest E \<Longrightarrow> final (runFromHandle E r c h a)"
  unfolding runFromHandle_def
  by (rule post_bind, rule post_bind, rule post_bind,
      rule post_bind_value [OF waitAndFinalize_final [OF honestD]], assumption) (intro post; simp)

lemma attachResolvedHandle_final: "honest E \<Longrightarrow> final (attachResolvedHandle E r c h a x)"
  unfolding attachResolvedHandle_def
  by (intro post runFromHandle_final reconcileUnresolved_final)

lemma repairTerminalProjection_final: "final (repairTerminalProjection E r n a)"
  unfolding repairTerminalProjection_def
  by (intro post) (auto simp: retried_def errors_Is_def split: if_splits)

lemma reconcileByIdentity_final: "honest E \<Longrightarrow> final (reconcileByIdentity E r c n x)"
  unfolding reconcileByIdentity_def Let_def
  by (intro post_option reconcileUnresolved_final post_bindR post_weaken [OF reads_no_retry(1)] post_bind
      post_prod post_outcome attachResolvedHandle_final) (auto split: sum.splits)

lemma reconcileBeforeAllocation_stops:
  assumes E: "honest E" shows "stops r (reconcileBeforeAllocation E r c)"
proof -
  have reattach: "stops r (do { h \<leftarrow> tryRestoreHandle E r;
      case h of Some (h, a) \<Rightarrow> return_early (runFromHandle E r c h a)
      | None \<Rightarrow> return_early (reconcileUnresolved E r b) })" for b
    by (intro post_bind post_option post_prod ends_stops final_ends runFromHandle_final [OF E]
        reconcileUnresolved_final)
  show ?thesis
    unfolding reconcileBeforeAllocation_def
    by (intro stops_bindR no_retry_stops reads_no_retry [OF E] post_decision ends_stops final_ends
        repairTerminalProjection_final reattach reconcileByIdentity_final [OF E] post_ret; simp)
qed

lemma begin_attempt_stops:
  assumes E: "honest E" shows "stops r (begin_attempt E r d n)"
  unfolding begin_attempt_def Let_def
  by (intro post_if post_bind stops_bindR advance_node_stops [OF E] no_retry_stops
      reads_no_retry [OF E] post_option post_ret; simp)

lemma resolve_input_stops:
  assumes q: "quiet E" and E: "honest E" shows "stops r (resolve_input E r c run a t b n)"
proof -
  have "stops r (do { res \<leftarrow> resolveBindingForExecution E r c q a b;
      case res of Inl err \<Rightarrow> return_early (fail_attempt E r err a t (resolveFailureReason err) False)
      | Inr x \<Rightarrow> m x })" if "\<And>x. stops r (m x)" for m q
    by (rule post_bind_value [OF resolveBinding_no_retry [OF E]])
      (auto intro!: post_sum ends_stops fail_attempt_ends [OF q E] that)
  then show ?thesis
    unfolding resolve_input_def Let_def
    by (rule post_bind [OF post_bind]) (intro post_bind post_ret; simp)
qed

lemma resolve_inputs_stops:
  assumes "quiet E" and "honest E" shows "stops r (resolve_inputs E r c run a t bs n)"
proof (induction bs arbitrary: n)
  case (Cons b bs)
  show ?case by (subst resolve_inputs.simps, rule stops_bindR [OF resolve_input_stops [OF assms] Cons.IH])
qed (simp, intro post, simp)

lemma build_bindings_stops:
  assumes q: "quiet E" and E: "honest E" shows "stops r (build_bindings E r c run a t n)"
  unfolding build_bindings_def Let_def
  by (intro post_if post_sum post_ret ends_stops fail_attempt_ends [OF q E] stops_bindR post_bind
      advance_node_stops [OF E] resolve_inputs_stops [OF q E]; auto dest: env_keys_error_is_Errorf)

lemma place_and_prepare_stops:
  assumes q: "quiet E" and E: "honest E" shows "stops r (place_and_prepare E r c run a t n)"
proof -
  have p: "no_retry (adapter_PrepareNode E c run n)" for n
    unfolding adapter_PrepareNode_def using E by (intro post; auto simp: honest_def)
  have prep: "stops r (do { p \<leftarrow> adapter_PrepareNode E c run n;
      case p of Inl err \<Rightarrow> return_early (fail_attempt E r err a t why True) | Inr x \<Rightarrow> m x })"
    if "\<And>x. stops r (m x)" for m :: "_ \<Rightarrow> (Node \<times> PreparedNode) early prog" and why n
    by (rule post_bind_value [OF p]) (auto intro!: post_sum ends_stops fail_attempt_ends [OF q E] that)
  show ?thesis
    unfolding place_and_prepare_def Let_def
    by (rule post_bind, rule post_sum, rule ends_stops, rule fail_attempt_ends [OF q E],
        force dest: placement_hints_error_is_Errorf, rule post_bind,
        rule stops_bindR [OF advance_node_stops [OF E]], rule post_bind, rule prep,
        rule stops_bindR [OF advance_node_stops [OF E]], rule post_bind, rule post_ret, simp)
qed

lemma cross_fence_stops:
  assumes q: "quiet E" and E: "honest E" shows "stops r (cross_fence E r a t)"
proof -
  have n: "no_retry (openedOpportunityCount E r)"
    unfolding openedOpportunityCount_def
    by (rule post_bindR, rule post_weaken [OF reads_no_retry(4) [OF E]]) (auto split: sum.splits intro!: post)
  have fence: "stops r (do { f \<leftarrow> reg_op E (OpenSemanticAttempt i n a s);
      case f of Inl err \<Rightarrow> return_early (fail_attempt E r err a t why True) | Inr _ \<Rightarrow> ret (Inr ()) })"
    for i n s why
    by (rule post_bind_value [OF reads_no_retry(6) [OF E]])
      (auto intro!: post_sum ends_stops fail_attempt_ends [OF q E] post_ret)
  show ?thesis
    unfolding cross_fence_def Let_def
    by (rule stops_bindR, rule no_retry_stops [OF n], rule post_if, rule post_bind, rule ends_stops,
        rule final_ends, rule terminalizeFailed_final, simp, rule post_bind, rule fence)
qed

lemma stops_prod: "(\<And>y z. stops r (f y z)) \<Longrightarrow> stops r (case x of (y, z) \<Rightarrow> f y z)"
  by (cases x) simp

lemma body_ends: "post (\<lambda>x w. retried (case x of Inl res \<Rightarrow> res | Inr res \<Rightarrow> res) \<longrightarrow> detached r w) m
    \<Longrightarrow> ends r (body m)"
  by (rule post_body)

lemma tail_bindR:
  assumes "stops r m"
    and "\<And>x. post (\<lambda>x w. retried (case x of Inl res \<Rightarrow> res | Inr res \<Rightarrow> res) \<longrightarrow> detached r w) (f x)"
  shows "post (\<lambda>x w. retried (case x of Inl res \<Rightarrow> res | Inr res \<Rightarrow> res) \<longrightarrow> detached r w) (bindR m f)"
  by (rule post_bindR, rule post_weaken [OF assms(1)]) (auto intro: assms(2) split: sum.splits)

lemma start_tail:
  "honest E \<Longrightarrow> post (\<lambda>x w. retried (case x of Inl res \<Rightarrow> res | Inr res \<Rightarrow> res) \<longrightarrow> detached r w)
     (do { res \<leftarrow> start_and_observe E r c a n p; ret (Inr res) })"
  by (rule post_bind_value [OF start_and_observe_final [OF honestD]], assumption) (intro post; simp)

lemma runAttemptBody_ends:
  assumes q: "quiet E" and E: "honest E" shows "ends r (runAttemptBody E r c)"
  unfolding runAttemptBody_def realize_and_start_def
  by (intro body_ends tail_bindR post_prod post_bind reconcileBeforeAllocation_stops [OF E]
      no_retry_stops reads_no_retry [OF E] begin_attempt_stops [OF E] build_bindings_stops [OF q E]
      place_and_prepare_stops [OF q E] cross_fence_stops [OF q E] start_tail [OF E])

subsection \<open>Every further attempt uses up a cycle\<close>

definition cycles :: "nodeRunner \<Rightarrow> world \<Rightarrow> int" where
  "cycles r w = (case node_at (w_reg w) (rn_runID r) (rn_nodeID r) of
     None \<Rightarrow> 0 | Some x \<Rightarrow> nr_RealizationAttemptCount x)"

lemma detached_fresh:
  assumes q: "quiet E" and d: "detached r w"
  shows "\<exists>x w'. run_state (reconcileBeforeAllocation E r c) w = (Inr (ReconcileFresh, x), w') \<and>
    w_reg w' = w_reg w"
proof -
  obtain x where x: "node_at (w_reg w) (rn_runID r) (rn_nodeID r) = Some x" "nr_CurrentAttemptID x = ''''"
      "nr_CurrentAttemptHandleJSON x = ''''" "nr_Status x = NodeStatusPending"
    using d unfolding detached_def by blast
  then have "GetNode (rn_runID r) (rn_nodeID r) (w_reg w) = (Inr x, w_reg w)"
      "GetCurrentAttempt (rn_runID r) (rn_nodeID r) (w_reg w) = (Inr None, w_reg w)"
      "ClassifyReconcile x None = ReconcileFresh"
    by (auto simp: GetNode_def node_at_def node_map_def GetCurrentAttempt_def lockedGetNode_eq
        ClassifyReconcile_def split: option.splits)
  then show ?thesis
    by (auto simp: reconcileBeforeAllocation_def bindR_def or_return_def runs q)
qed

lemma begin_fresh_counts:
  assumes q: "quiet E" and x: "node_at (w_reg w) (rn_runID r) (rn_nodeID r) = Some x"
    and run: "run_state (begin_attempt E r ReconcileFresh n) w = (Inr y, w')"
  shows "cycles r w' = cycles r w + 1"
  using run x
  by (auto simp: begin_attempt_def bindR_def or_return_def runs q AllocateCurrentAttempt_def
      lockedGetNode_eq Let_def cycles_def split: if_splits option.splits sum.splits prod.splits)

lemma history_cycles:
  assumes q: "quiet E" and m: "state_io_rel (history_rel E demo_dag) m"
    and run: "run_state m w = (x, w')"
    and n: "node_at (w_reg w) (rn_runID r) (rn_nodeID r) = Some y"
  shows "\<exists>z. node_at (w_reg w') (rn_runID r) (rn_nodeID r) = Some z \<and> cycles r w \<le> cycles r w'"
proof -
  have "reg_le (w_reg w) (w_reg w')"
    using state_io_relD [OF m run] q dag_runs_only_demo
    by (simp add: history_rel_def quiet_def reg_le_refl)
  from reg_leD(4) [OF this n] show ?thesis using n by (auto simp: cycles_def)
qed

lemma or_return_no_retry:
  assumes "no_retry m" shows "post (\<lambda>x _. \<forall>res. x = Inl res \<longrightarrow> \<not> retried res) (or_return m)"
  by (rule post_or_return, rule post_weaken [OF assms]) (auto split: sum.splits)

lemma bindR_no_retry:
  assumes "post (\<lambda>x _. \<forall>res. x = Inl res \<longrightarrow> \<not> retried res) m"
    and "\<And>y. post (\<lambda>x _. \<forall>res. x = Inl res \<longrightarrow> \<not> retried res) (f y)"
  shows "post (\<lambda>x _. \<forall>res. x = Inl res \<longrightarrow> \<not> retried res) (bindR m f)"
  by (rule post_bindR, rule post_weaken [OF assms(1)]) (auto intro: assms(2) split: sum.splits)

lemma begin_attempt_no_retry:
  assumes E: "honest E"
  shows "post (\<lambda>x _. \<forall>res. x = Inl res \<longrightarrow> \<not> retried res) (begin_attempt E r ReconcileFresh n)"
  unfolding begin_attempt_def
  by (rule post_if, simp, rule post_bind,
      rule bindR_no_retry [OF or_return_no_retry [OF reads_no_retry(5) [OF E]]]) (intro post; simp)

lemma GetRun_keeps:
  assumes "quiet E" and "run_state (or_return (reg_op E (GetRun i))) w = (x, w')"
  shows "w_reg w' = w_reg w"
  using assms by (auto simp: or_return_def runs)

lemma upd_locals_keeps: "run_state (upd_locals r f) w = (x, w') \<Longrightarrow> w_reg w' = w_reg w"
  by (auto simp: upd_locals_def runs)

lemma body_progress:
  assumes q: "quiet E" and E: "honest E" and d: "detached r w"
    and run: "run_state (runAttemptBody E r c) w = (res, w')" and res: "retried res"
  shows "cycles r w < cycles r w'"
proof -
  obtain x where x: "node_at (w_reg w) (rn_runID r) (rn_nodeID r) = Some x"
    using d unfolding detached_def by blast
  obtain n w1 where n: "run_state (reconcileBeforeAllocation E r c) w = (Inr (ReconcileFresh, n), w1)"
    and w1: "w_reg w1 = w_reg w" using detached_fresh [OF q d] by blast
  from run obtain y where y: "run_state (bindR (or_return (reg_op E (GetRun (rn_runID r)))) (\<lambda>run. do {
        upd_locals r (\<lambda>l. l\<lparr>rl_postSchedulingResolves := []\<rparr>);
        bindR (begin_attempt E r ReconcileFresh n) (realize_and_start E r c run) })) w1 = (y, w')"
    and ry: "res = (case y of Inl res \<Rightarrow> res | Inr res \<Rightarrow> res)"
    unfolding runAttemptBody_def by (elim run_bodyE run_bindRE) (auto simp: n)
  from y show ?thesis
  proof (cases rule: run_bindRE)
    case (stop e)
    then show ?thesis
      using postD [OF or_return_no_retry [OF reads_no_retry(1) [OF E]] stop(1)] res ry by simp
  next
    case (cont run u)
    from cont(2) obtain u1 where u1: "w_reg u1 = w_reg u"
      and b: "run_state (bindR (begin_attempt E r ReconcileFresh n) (realize_and_start E r c run)) u1 = (y, w')"
      by (elim run_bindE) (blast dest: upd_locals_keeps)
    have u: "w_reg u1 = w_reg w" using GetRun_keeps [OF q cont(1)] u1 w1 by simp
    from b show ?thesis
    proof (cases rule: run_bindRE)
      case (stop e)
      then show ?thesis using postD [OF begin_attempt_no_retry [OF E] stop(1)] res ry by simp
    next
      case (cont p u2)
      have c2: "cycles r u2 = cycles r w + 1"
        using begin_fresh_counts [OF q _ cont(1)] x u by (simp add: cycles_def)
      obtain z where "node_at (w_reg u2) (rn_runID r) (rn_nodeID r) = Some z"
        using history_cycles [OF q hist.begin_attempt cont(1)] x u by auto
      from history_cycles [OF q hist.realize_and_start cont(2) this] c2 show ?thesis by auto
    qed
  qed
qed

lemma missing_node_stops:
  assumes q: "quiet E" and E: "honest E" and "run_state (runAttemptBody E r c) w = (res, w')"
    and "retried res"
  shows "node_at (w_reg w) (rn_runID r) (rn_nodeID r) \<noteq> None"
proof
  assume "node_at (w_reg w) (rn_runID r) (rn_nodeID r) = None"
  then obtain e where "fst (GetNode (rn_runID r) (rn_nodeID r) (w_reg w)) = Inl e"
      and "\<not> errors_Is e errNodeRetry"
    by (auto simp: GetNode_def node_at_def node_map_def errors_Is_def split: option.splits)
  then have "res = Inl e"
    using assms(3)
    by (auto simp: runAttemptBody_def body_def bindR_def reconcileBeforeAllocation_def or_return_def
        runs q)
  with assms(4) \<open>\<not> errors_Is e errNodeRetry\<close> show False by simp
qed

subsection \<open>The loop ends\<close>

lemma RunE_from_detached:
  assumes q: "quiet E" and E: "honest E"
  shows "detached r w \<Longrightarrow> realizationAttemptCeiling \<le> cycles r w + int fuel \<Longrightarrow>
    \<exists>res. fst (run_state (RunE fuel E r c) w) = Some res"
proof (induction fuel arbitrary: w)
  case 0
  then show ?case by (auto simp: detached_def cycles_def)
next
  case (Suc fuel)
  obtain res w' where run: "run_state (RunE (Suc fuel) E r c) w = (res, w')"
    by (cases "run_state (RunE (Suc fuel) E r c) w")
  then show ?case
  proof (cases rule: RunE_step)
    case (last x)
    with run show ?thesis by simp
  next
    case (again x u)
    have "detached r u" using postD [OF runAttemptBody_ends [OF q E] again(1)] again(2) by simp
    moreover have "realizationAttemptCeiling \<le> cycles r u + int fuel"
      using body_progress [OF q E Suc.prems(1) again(1,2)] Suc.prems(2) by simp
    ultimately obtain y where "fst (run_state (RunE fuel E r c) u) = Some y" using Suc.IH by blast
    with again(3) run show ?thesis by auto
  qed
qed

text \<open>
  C22: The retry loop of \<^verbatim>\<open>RunE\<close> returns.  With a working store, no interference, and collaborators that
  do not return the package's own retry value, at most \<^verbatim>\<open>realizationAttemptCeiling + 1\<close> passes of
  \<^verbatim>\<open>runAttemptBody\<close> are made from any reachable registry, whatever the backend and the handoff
  service answer.
\<close>

theorem RunE_returns:
  assumes "quiet E" and "honest E" and "reachable (w_reg w)"
    and "realizationAttemptCeiling < int fuel"
  shows "\<exists>res. fst (run_state (RunE fuel E r c) w) = Some res"
proof -
  obtain k where k: "fuel = Suc k" "realizationAttemptCeiling \<le> int k"
    using assms(4) by (cases fuel) (auto simp: realizationAttemptCeiling_def)
  obtain res w' where run: "run_state (RunE (Suc k) E r c) w = (res, w')"
    by (cases "run_state (RunE (Suc k) E r c) w")
  then show ?thesis
  proof (cases rule: RunE_step)
    case (last x)
    with run k show ?thesis by simp
  next
    case (again x u)
    have d: "detached r u" using postD [OF runAttemptBody_ends [OF assms(1,2)] again(1)] again(2) by simp
    have "0 \<le> cycles r w"
      using reg_numberedD(1) [OF reg_invD(2) [OF reachable_inv [OF assms(3)]]]
      by (auto simp: cycles_def split: option.split)
    moreover have "cycles r w \<le> cycles r u \<or> node_at (w_reg w) (rn_runID r) (rn_nodeID r) = None"
      using history_cycles [OF assms(1) hist.runAttemptBody again(1)] by blast
    moreover have "node_at (w_reg w) (rn_runID r) (rn_nodeID r) \<noteq> None"
      using again(1,2) missing_node_stops [OF assms(1,2)] by blast
    ultimately have "realizationAttemptCeiling \<le> cycles r u + int k" using k(2) by auto
    then obtain y where "fst (run_state (RunE k E r c) u) = Some y"
      using RunE_from_detached [OF assms(1,2) d] by blast
    with again(3) run k show ?thesis by simp
  qed
qed

lemma honest_demo_env: "honest demo_env"
  by (simp add: honest_def honest_demo) (simp add: demo_env_def demo_adapter_def)

theorem RunE_returns_witness:
  "\<exists>res. fst (run_state (RunE 33 demo_env demo_runner CtxRun) demo_world) = Some res"
  by (rule RunE_returns [OF quiet_demo honest_demo_env])
    (simp_all add: reachable_demo_store realizationAttemptCeiling_def)

end
