(* ===== verification/Exec_Finish.thy ===== *)
theory Exec_Finish
  imports Exec_Retry
begin

text \<open>
  How an attempt ends, with a working store and no interference: what each outcome of the backend
  leaves in the registry.  A program that writes events only leaves the records as they are; this is
  one more interpretation of \<open>event_frame\<close>.
\<close>

subsection \<open>Programs that leave the records\<close>

definition records :: "world \<Rightarrow> (string, RunRecord) gomap \<times> (string, (string, NodeRecord) gomap) gomap
    \<times> (string, (string, (string, AttemptRecord) gomap) gomap) gomap" where
  "records w = (reg_runs (w_reg w), reg_nodes (w_reg w), reg_attempts (w_reg w))"

definition same_records :: "env \<Rightarrow> world \<Rightarrow> world \<Rightarrow> bool" where
  "same_records E w w' \<longleftrightarrow> quiet E \<longrightarrow> records w' = records w"

lemma append_event_attempts [simp]: "reg_attempts (snd (AppendEvent e r)) = reg_attempts r"
  by (simp add: AppendEvent_def split: option.split)

interpretation ev: event_frame "same_records E" E for E
  by unfold_locales (auto simp: same_records_def records_def quiet_def)

lemma records_views:
  assumes "records w' = records w"
  shows "run_at (w_reg w') = run_at (w_reg w)" "node_at (w_reg w') = node_at (w_reg w)"
    "attempt_at (w_reg w') = attempt_at (w_reg w)" "attempt_maps (w_reg w') = attempt_maps (w_reg w)"
    "attempt_map (w_reg w') = attempt_map (w_reg w)" "node_map (w_reg w') = node_map (w_reg w)"
  using assms
  by (auto simp: fun_eq_iff records_def run_at_def node_at_def node_map_def attempt_at_def attempt_map_def
      attempt_maps_def)

lemma keeps_records:
  assumes "quiet E" and "state_io_rel (same_records E) m" and "run_state m w = (x, w')"
  shows "records w' = records w"
  using state_io_relD [OF assms(2,3)] assms(1) by (simp add: same_records_def)

subsection \<open>Preconditions\<close>

definition hoare :: "(world \<Rightarrow> bool) \<Rightarrow> 'a prog \<Rightarrow> ('a \<Rightarrow> world \<Rightarrow> bool) \<Rightarrow> bool" where
  "hoare P m Q \<longleftrightarrow> (\<forall>w x w'. P w \<longrightarrow> run_state m w = (x, w') \<longrightarrow> Q x w')"

lemma hoareD: "hoare P m Q \<Longrightarrow> P w \<Longrightarrow> run_state m w = (x, w') \<Longrightarrow> Q x w'"
  by (simp add: hoare_def)

lemma h_bind: "hoare P m M \<Longrightarrow> (\<And>x. hoare (M x) (f x) Q) \<Longrightarrow> hoare P (State_Monad.bind m f) Q"
  unfolding hoare_def by (blast elim!: run_bindE)

lemma h_bindR:
  assumes "hoare P m (\<lambda>x w. \<exists>v. x = Inr v \<and> M v w)" and "\<And>v. hoare (M v) (f v) Q"
  shows "hoare P (bindR m f) Q"
  using assms unfolding hoare_def by (fastforce elim!: run_bindRE)

lemma h_ret: "(\<And>w. P w \<Longrightarrow> Q x w) \<Longrightarrow> hoare P (ret x) Q"
  by (simp add: hoare_def)

lemma h_weaken: "hoare P m Q \<Longrightarrow> (\<And>x w. Q x w \<Longrightarrow> Q' x w) \<Longrightarrow> hoare P m Q'"
  unfolding hoare_def by blast

lemma h_fact: "(p \<Longrightarrow> hoare P m Q) \<Longrightarrow> hoare (\<lambda>w. p \<and> P w) m Q"
  by (auto simp: hoare_def)

lemma h_ex: "(\<And>y. hoare (P y) m Q) \<Longrightarrow> hoare (\<lambda>w. \<exists>y. P y w) m Q"
  unfolding hoare_def by blast

lemma h_sum: "(\<And>y. x = Inl y \<Longrightarrow> hoare P (m y) Q) \<Longrightarrow> (\<And>y. x = Inr y \<Longrightarrow> hoare P (n y) Q) \<Longrightarrow>
    hoare P (case x of Inl y \<Rightarrow> m y | Inr y \<Rightarrow> n y) Q"
  by (cases x) simp_all

lemma h_if: "(b \<Longrightarrow> hoare P m Q) \<Longrightarrow> (\<not> b \<Longrightarrow> hoare P n Q) \<Longrightarrow> hoare P (if b then m else n) Q"
  by simp

text \<open>The records an attempt is about.\<close>

definition at :: "nodeRunner \<Rightarrow> string \<Rightarrow> RunRecord \<Rightarrow> NodeRecord \<Rightarrow> AttemptRecord \<Rightarrow> world \<Rightarrow> bool" where
  "at r a z x y w \<longleftrightarrow> run_at (w_reg w) (rn_runID r) = Some z \<and>
     node_at (w_reg w) (rn_runID r) (rn_nodeID r) = Some x \<and>
     attempt_at (w_reg w) (rn_runID r) (rn_nodeID r) a = Some y"

lemma h_ev:
  assumes "quiet E" and "state_io_rel (same_records E) m"
  shows "hoare (at r a z x y) m (\<lambda>_. at r a z x y)"
  unfolding hoare_def at_def using keeps_records [OF assms] records_views by metis

lemma h_update_node:
  "quiet E \<Longrightarrow> hoare (at r a z x y) (update_node E r f) (\<lambda>res w. \<exists>u. res = Inr u \<and> at r a z (f x) y w)"
  by (auto simp: hoare_def at_def runs)

lemma h_upsert:
  assumes q: "quiet E" and z: "ar_RunID v = rn_runID r" "ar_NodeID v = rn_nodeID r" "ar_AttemptID v = a"
  shows "hoare (at r a z x y) (reg_op E (UpsertAttempt v)) (\<lambda>res. at r a z x v)"
  unfolding hoare_def
proof (intro allI impI)
  fix w res w'
  assume w: "at r a z x y w" and run: "run_state (reg_op E (UpsertAttempt v)) w = (res, w')"
  have "map_of (attempt_maps (w_reg w) (rn_runID r)) (rn_nodeID r) \<noteq> None"
    using w by (auto simp: at_def attempt_at_def attempt_map_def split: option.splits)
  then show "at r a z x v w'" using run w z by (auto simp: runs q UpsertAttempt_eq at_def)
qed

lemma h_completed:
  "quiet E \<Longrightarrow> hoare (at r a z x y) (reg_op E (PersistProcessCompleted (rn_runID r) (rn_nodeID r) a t))
     (\<lambda>res w. res = ok \<and> at r a z x (y\<lparr>ar_ProcessCompletedAt := Some t\<rparr>) w)"
  by (auto simp: hoare_def at_def runs PersistProcessCompleted_def lockedMutateAttempt_eq)

lemma h_isRunCanceled:
  assumes q: "quiet E"
  shows "hoare (at r a z x y) (isRunCanceled E r) (\<lambda>b w. b = (rr_Status z = RunStatusCanceled) \<and> at r a z x y w)"
proof -
  have "b = (rr_Status z = RunStatusCanceled)"
    if "at r a z x y w" and "run_state (isRunCanceled E r) w = (b, w')" for w b w'
    using that by (auto simp: at_def isRunCanceled_def runs q GetRun_def)
  then show ?thesis using h_ev [OF q ev.isRunCanceled] unfolding hoare_def by blast
qed

subsection \<open>The ways to end\<close>

abbreviation marked :: "nodeRunner \<Rightarrow> string \<Rightarrow> RunRecord \<Rightarrow> NodeRecord \<Rightarrow> AttemptRecord \<Rightarrow> unit result \<Rightarrow> world \<Rightarrow> bool" where
  "marked r a z x y res w \<equiv> res = Inl errReconcileUnresolved \<and>
     (\<exists>b. at r a z (x\<lparr>nr_CurrentBottleneckLocation := b\<rparr>) y w)"

lemma h_unresolved:
  assumes q: "quiet E" shows "hoare (at r a z x y) (reconcileUnresolved E r b) (marked r a z x y)"
  unfolding reconcileUnresolved_def
  by (rule h_bind [OF h_ev [OF q ev.time_Now]], rule h_bind [OF h_ev [OF q ev.appendEvent]],
      rule h_bind [OF h_update_node [OF q]], rule h_ex, rule h_fact,
      rule h_bind [OF h_ev [OF q ev.markUnresolved]], rule h_ret, blast)

lemma h_defer:
  assumes q: "quiet E"
  shows "hoare (at r a z x y) (deferFinalizationAfterSuccess E r a why e)
    (\<lambda>res w. \<exists>t. marked r a z x (y\<lparr>ar_ProcessCompletedAt := Some t\<rparr>) res w)"
proof -
  have "hoare (at r a z x v) (do { t \<leftarrow> time_Now E; appendEvent E (ev t);
      u \<leftarrow> update_node E r (\<lambda>cur. cur\<lparr>nr_CurrentBottleneckLocation := b\<rparr>);
      markUnresolved (rn_runID r); ret (Inl errReconcileUnresolved) }) (marked r a z x v)" for ev v b
    by (rule h_bind [OF h_ev [OF q ev.time_Now]], rule h_bind [OF h_ev [OF q ev.appendEvent]],
        rule h_bind [OF h_update_node [OF q]], rule h_ex, rule h_fact,
        rule h_bind [OF h_ev [OF q ev.markUnresolved]], rule h_ret, blast)
  note tail = h_weaken [OF this]
  show ?thesis
    unfolding deferFinalizationAfterSuccess_def
    by (rule h_bind [OF h_ev [OF q ev.time_Now]], rule h_bind [OF h_completed [OF q]], rule h_fact,
        rule h_sum, simp, rule tail, blast)
qed

lemma h_terminalizeFailed:
  assumes q: "quiet E"
  shows "hoare (at r a z x y) (terminalizeFailed E r cause b s why) (\<lambda>res w. res = Inl cause \<and>
    (\<exists>x'. at r a z x' y w \<and> nr_Status x' = NodeStatusFailed \<and> nr_TerminalFailureReason x' = why \<and>
       nr_TerminalStopCause x' = s))"
  unfolding terminalizeFailed_def
  by (rule h_bind [OF h_ev [OF q ev.time_Now]], rule h_bind [OF h_ev [OF q ev.appendEvent]],
      rule h_bind [OF h_update_node [OF q]], rule h_ex, rule h_fact,
      rule h_bind [OF h_ev [OF q ev.notifyNodeTerminal]], rule h_sum,
      rule h_bind [OF h_ev [OF q ev.notify_failed_event]], rule h_ret, force, rule h_ret, force)

lemma h_cancelNode:
  assumes q: "quiet E"
  shows "hoare (at r a z x y) (cancelNode E r a why) (\<lambda>res w. res = ok \<and>
    (\<exists>x' y'. at r a z x' y' w \<and> nr_Status x' = NodeStatusCanceled \<and>
       ar_Status y' = AttemptStatusErrored \<and> ar_TerminalStopCause y' = ''canceled''))"
  unfolding cancelNode_def
  by (rule h_bind [OF h_ev [OF q ev.time_Now]], rule h_bind [OF h_ev [OF q ev.effectiveCancellationReason]],
      rule h_bind [OF h_upsert [OF q]], simp add: attempt_record_def, simp add: attempt_record_def,
      simp add: attempt_record_def, rule h_bind [OF h_ev [OF q ev.appendEvent]],
      rule h_bindR [OF h_update_node [OF q]], rule h_bind [OF h_ev [OF q ev.notifyNodeTerminal]],
      rule h_sum, rule h_bind [OF h_ev [OF q ev.notify_failed_event]], rule h_ret,
      force simp: attempt_record_def, rule h_ret, force simp: attempt_record_def)

subsection \<open>Outputs\<close>

definition registered_output :: "string \<Rightarrow> string \<Rightarrow> world \<Rightarrow> bool" where
  "registered_output a name w \<longleftrightarrow> (\<exists>q. LRegister q \<in> set (w_log w) \<and> ra_OutputName q = name \<and>
     ra_ProducerAttemptID q = a \<and> TrimSpace (ra_Digest q) \<noteq> '''')"

lemma log_kept: "state_io_rel no_start m \<Longrightarrow> run_state m w = (x, w') \<Longrightarrow> set (w_log w) \<subseteq> set (w_log w')"
  by (drule state_io_relD) (auto simp: no_start_def)

lemma registered_kept:
  "state_io_rel no_start m \<Longrightarrow> run_state m w = (x, w') \<Longrightarrow> registered_output a name w \<Longrightarrow>
     registered_output a name w'"
  by (drule (1) log_kept) (auto simp: registered_output_def)

lemma normalize_digest [simp]: "om_Digest (normalize_uris m) = om_Digest m"
  by (simp add: normalize_uris_def Let_def)

lemma request_registers:
  assumes "TrimSpace (om_Digest m) \<noteq> ''''"
  shows "post (\<lambda>x w. x = ok \<longrightarrow> registered_output a name w) (do {
      res \<leftarrow> handoff_RegisterArtifact E c (artifact_request r s a name m);
      case res of Inl e \<Rightarrow> ret (Inl (f e)) | Inr _ \<Rightarrow> do { inc k; ret ok } })"
proof (rule postI, rule impI)
  fix w x w'
  let ?q = "artifact_request r s a name m"
  assume "run_state (do { res \<leftarrow> handoff_RegisterArtifact E c ?q;
      case res of Inl e \<Rightarrow> ret (Inl (f e)) | Inr _ \<Rightarrow> do { inc k; ret ok } }) w = (x, w')" and "x = ok"
  then have "LRegister ?q \<in> set (w_log w')"
    by (auto simp: handoff_RegisterArtifact_def runs inc_def split: sum.splits)
  then show "registered_output a name w'"
    unfolding registered_output_def
    by (intro exI [of _ ?q]) (use assms in \<open>simp add: artifact_request_def\<close>)
qed

lemma register_output_registers:
  assumes run: "run_state (register_output E r c s a md name) w = (Inr u, w')" and n: "name \<noteq> ''''"
  shows "registered_output a name w'"
proof -
  have "post (\<lambda>x w. x = ok \<longrightarrow> registered_output a name w) (register_output E r c s a md name)"
    unfolding register_output_def
    by (rule post_if, use n in simp, rule post_option, rule post_ret, simp, rule post_if, rule post_ret,
        simp, rule post_let, rule post_if, rule post_ret, simp, rule request_registers, simp)
  from postD [OF this run] show ?thesis by simp
qed

lemma register_loop_registers:
  "run_state (for_each_err (register_output E r c s a md) names) w = (ok, w') \<Longrightarrow>
     name \<in> set names \<Longrightarrow> name \<noteq> '''' \<Longrightarrow> registered_output a name w'"
proof (induction names arbitrary: w)
  case (Cons n names)
  from Cons.prems(1) obtain u w1 where o: "run_state (register_output E r c s a md n) w = (Inr u, w1)"
    and rest: "run_state (for_each_err (register_output E r c s a md) names) w1 = (ok, w')"
    by (auto split: prod.splits sum.splits)
  show ?case
  proof (cases "name = n")
    case True
    then have "registered_output a name w1"
      using register_output_registers [OF o] Cons.prems(3) by simp
    then show ?thesis
      by (rule registered_kept [OF silent.for_each_err rest, rotated]) (rule silent.register_output)
  next
    case False
    then show ?thesis using Cons.IH [OF rest] Cons.prems(2,3) by simp
  qed
qed simp

lemma registerNodeOutputs_registers:
  assumes "run_state (registerNodeOutputs E r c h a n) w = (ok, w')"
    and "name \<in> set (nd_Outputs n)" and "name \<noteq> ''''"
  shows "registered_output a name w'"
  using assms register_loop_registers
  by (auto simp: registerNodeOutputs_def elim!: run_bindRE run_bindE split: if_splits)

subsection \<open>Waiting\<close>

definition notified :: "nodeRunner \<Rightarrow> string \<Rightarrow> string \<Rightarrow> world \<Rightarrow> bool" where
  "notified r a s w \<longleftrightarrow> (\<exists>k. LNotify k \<in> set (w_log w) \<and> nt_NodeID k = rn_nodeID r \<and>
     nt_AttemptID k = a \<and> nt_TerminalState k = s)"

lemma notify_notifies:
  assumes "run_state (notifyNodeTerminal E r c s a) w = (x, w')" shows "notified r a s w'"
proof -
  obtain i w1 where w': "w' = w1\<lparr>w_tick := Suc (w_tick w1), w_log := w_log w1 @
      [LNotify \<lparr>nt_SampleRunID = i, nt_NodeID = rn_nodeID r, nt_AttemptID = a, nt_TerminalState = s\<rparr>]\<rparr>"
    using assms
    by (auto simp: notifyNodeTerminal_def handoff_NotifyNodeTerminal_def runs
        simp del: FirstNonEmpty.simps split: prod.splits)
  show ?thesis
    unfolding notified_def w'
    by (rule exI [of _ "\<lparr>nt_SampleRunID = i, nt_NodeID = rn_nodeID r, nt_AttemptID = a,
          nt_TerminalState = s\<rparr>"]) simp
qed

text \<open>A fact about the log stays true while the log grows.\<close>

lemma h_keep:
  assumes "hoare P m Q" and m: "state_io_rel no_start m"
    and G: "\<And>w w'. set (w_log w) \<subseteq> set (w_log w') \<Longrightarrow> G w \<Longrightarrow> G w'"
  shows "hoare (\<lambda>w. P w \<and> G w) m (\<lambda>x w. Q x w \<and> G w)"
  using assms(1) G log_kept [OF m] unfolding hoare_def by blast

definition delivered :: "nodeRunner \<Rightarrow> string \<Rightarrow> Node \<Rightarrow> world \<Rightarrow> bool" where
  "delivered r a n w \<longleftrightarrow> (\<forall>name \<in> set (nd_Outputs n). name \<noteq> '''' \<longrightarrow> registered_output a name w)"

lemma delivered_mono: "set (w_log w) \<subseteq> set (w_log w') \<Longrightarrow> delivered r a n w \<Longrightarrow> delivered r a n w'"
  unfolding delivered_def registered_output_def by blast

lemma notified_mono: "set (w_log w) \<subseteq> set (w_log w') \<Longrightarrow> notified r a s w \<Longrightarrow> notified r a s w'"
  unfolding notified_def by blast

lemma h_record_success:
  assumes q: "quiet E"
  shows "hoare (at r a z x y) (record_success E r a t t' res) (\<lambda>out w. out = ok \<and>
    (\<exists>x' y'. at r a z x' y' w \<and> nr_Status x' = NodeStatusSucceeded \<and> ar_Status y' = AttemptStatusCompleted))"
  unfolding record_success_def Let_def
  by (rule h_bind [OF h_upsert [OF q]], simp add: attempt_record_def, simp add: attempt_record_def,
      simp add: attempt_record_def, rule h_bindR [OF h_update_node [OF q]],
      rule h_bind [OF h_ev [OF q ev.appendEvent]], rule h_ret, force simp: attempt_record_def)

lemma h_record_failure:
  assumes q: "quiet E" and z: "rr_Status z \<noteq> RunStatusCanceled"
  shows "hoare (at r a z x y) (record_failure E r a t t' res) (\<lambda>out w.
    out = Inl (Errorf (terminalFailureReasonFromResult res)) \<and>
    (\<exists>x' y'. at r a z x' y' w \<and> nr_Status x' = NodeStatusFailed \<and>
       nr_TerminalFailureReason x' = terminalFailureReasonFromResult res \<and>
       ar_Status y' = AttemptStatusErrored \<and>
       ar_TerminalFailureReason y' = terminalFailureReasonFromResult res))"
  unfolding record_failure_def terminalizeFailedNoRetry_def Let_def
  by (rule h_bind [OF h_ev [OF q ev.recordLocalityFallbackFailure]], rule h_bind [OF h_upsert [OF q]],
      simp add: attempt_record_def, simp add: attempt_record_def, simp add: attempt_record_def,
      rule h_bind [OF h_ev [OF q ev.recordLocalityFallbackFailure]],
      rule h_bind [OF h_isRunCanceled [OF q]], rule h_fact, rule h_if, use z in simp,
      rule h_weaken [OF h_terminalizeFailed [OF q]], force simp: attempt_record_def)

lemma h_outputs:
  assumes q: "quiet E"
  shows "hoare (at r a z x y) (registerNodeOutputs E r c h a n)
    (\<lambda>res w. (res = ok \<longrightarrow> delivered r a n w) \<and> at r a z x y w)"
proof -
  have "hoare (at r a z x y) (registerNodeOutputs E r c h a n) (\<lambda>_. at r a z x y)"
    by (rule h_ev [OF q ev.registerNodeOutputs])
  then show ?thesis
    by (auto simp: hoare_def delivered_def intro: registerNodeOutputs_registers)
qed

lemma h_notify:
  assumes q: "quiet E"
  shows "hoare (at r a z x y) (notifyNodeTerminal E r c s a) (\<lambda>res w. at r a z x y w \<and> notified r a s w)"
proof -
  have "hoare (at r a z x y) (notifyNodeTerminal E r c s a) (\<lambda>_. at r a z x y)"
    by (rule h_ev [OF q ev.notifyNodeTerminal])
  then show ?thesis by (auto simp: hoare_def intro: notify_notifies)
qed

definition success_recorded :: "nodeRunner \<Rightarrow> string \<Rightarrow> Node \<Rightarrow> RunRecord \<Rightarrow> unit result \<Rightarrow> world \<Rightarrow> bool" where
  "success_recorded r a n z res w \<longleftrightarrow> res = ok \<and> delivered r a n w \<and> notified r a ''Succeeded'' w \<and>
     (\<exists>x' y'. at r a z x' y' w \<and> nr_Status x' = NodeStatusSucceeded \<and> ar_Status y' = AttemptStatusCompleted)"

definition finalization_pending ::
  "nodeRunner \<Rightarrow> string \<Rightarrow> RunRecord \<Rightarrow> NodeRecord \<Rightarrow> AttemptRecord \<Rightarrow> unit result \<Rightarrow> world \<Rightarrow> bool" where
  "finalization_pending r a z x y res w \<longleftrightarrow>
     (\<exists>t. marked r a z x (y\<lparr>ar_ProcessCompletedAt := Some t\<rparr>) res w)"

lemma h_pending:
  "quiet E \<Longrightarrow> hoare (at r a z x y) (deferFinalizationAfterSuccess E r a why e) (finalization_pending r a z x y)"
  unfolding finalization_pending_def by (rule h_defer)

lemma h_strengthen: "hoare P m Q \<Longrightarrow> (\<And>w. P' w \<Longrightarrow> P w) \<Longrightarrow> hoare P' m Q"
  unfolding hoare_def by blast

lemma h_finish:
  assumes q: "quiet E"
  shows "hoare (\<lambda>w. at r a z x y w \<and> delivered r a n w) (do {
      k \<leftarrow> notifyNodeTerminal E r c ''Succeeded'' a;
      case k of Inl e \<Rightarrow> deferFinalizationAfterSuccess E r a why e
      | Inr _ \<Rightarrow> record_success E r a t t' res })
    (\<lambda>out w. success_recorded r a n z out w \<or> finalization_pending r a z x y out w)"
proof (rule h_bind [OF h_keep [OF h_notify [OF q] silent.notifyNodeTerminal]], erule (1) delivered_mono,
    rule h_sum)
  fix e
  show "hoare (\<lambda>w. (at r a z x y w \<and> notified r a ''Succeeded'' w) \<and> delivered r a n w)
      (deferFinalizationAfterSuccess E r a why e)
      (\<lambda>out w. success_recorded r a n z out w \<or> finalization_pending r a z x y out w)"
    by (rule h_strengthen [OF h_weaken [OF h_pending [OF q]]]) auto
next
  have "hoare (\<lambda>w. at r a z x y w \<and> (notified r a ''Succeeded'' w \<and> delivered r a n w))
      (record_success E r a t t' res)
      (\<lambda>out w. (out = ok \<and> (\<exists>x' y'. at r a z x' y' w \<and> nr_Status x' = NodeStatusSucceeded \<and>
         ar_Status y' = AttemptStatusCompleted)) \<and> (notified r a ''Succeeded'' w \<and> delivered r a n w))"
    by (rule h_keep [OF h_record_success [OF q] silent.record_success])
      (auto intro: notified_mono delivered_mono)
  then show "hoare (\<lambda>w. (at r a z x y w \<and> notified r a ''Succeeded'' w) \<and> delivered r a n w)
      (record_success E r a t t' res)
      (\<lambda>out w. success_recorded r a n z out w \<or> finalization_pending r a z x y out w)"
    by (rule h_strengthen [OF h_weaken]) (auto simp: success_recorded_def)
qed

lemma h_success:
  assumes q: "quiet E"
  shows "hoare (at r a z x y) (do {
      recordLocalityFallbackSuccess E r a;
      reg \<leftarrow> registerNodeOutputs E r c h a n;
      case reg of Inl e \<Rightarrow> deferFinalizationAfterSuccess E r a why e
      | Inr _ \<Rightarrow> do { k \<leftarrow> notifyNodeTerminal E r c ''Succeeded'' a;
          case k of Inl e \<Rightarrow> deferFinalizationAfterSuccess E r a why' e
          | Inr _ \<Rightarrow> record_success E r a t t' res } })
    (\<lambda>out w. success_recorded r a n z out w \<or> finalization_pending r a z x y out w)"
proof (rule h_bind [OF h_ev [OF q ev.recordLocalityFallbackSuccess]], rule h_bind [OF h_outputs [OF q]],
    rule h_sum)
  fix reg e
  show "hoare (\<lambda>w. (reg = ok \<longrightarrow> delivered r a n w) \<and> at r a z x y w)
      (deferFinalizationAfterSuccess E r a why e)
      (\<lambda>out w. success_recorded r a n z out w \<or> finalization_pending r a z x y out w)"
    by (rule h_strengthen [OF h_weaken [OF h_pending [OF q]]]) auto
next
  fix reg :: "unit result" and u
  assume "reg = Inr u"
  then show "hoare (\<lambda>w. (reg = ok \<longrightarrow> delivered r a n w) \<and> at r a z x y w) (do {
      k \<leftarrow> notifyNodeTerminal E r c ''Succeeded'' a;
      case k of Inl e \<Rightarrow> deferFinalizationAfterSuccess E r a why' e
      | Inr _ \<Rightarrow> record_success E r a t t' res })
      (\<lambda>out w. success_recorded r a n z out w \<or> finalization_pending r a z x y out w)"
    by (intro h_strengthen [OF h_finish [OF q]]) simp
qed

lemma h_lost:
  assumes q: "quiet E"
  shows "hoare (at r a z x y) (do {
      recordLocalityFallbackFailure E r a;
      canceled \<leftarrow> isRunCanceled E r;
      done \<leftarrow> (if canceled then ret (Some ContextCanceled) else ctx_Err E (rn_runID r) c);
      if done \<noteq> None then cancelNode E r a why else reconcileUnresolved E r a })
    (\<lambda>res w. marked r a z x y res w \<or> (res = ok \<and> (\<exists>x' y'. at r a z x' y' w \<and>
       nr_Status x' = NodeStatusCanceled \<and> ar_Status y' = AttemptStatusErrored \<and>
       ar_TerminalStopCause y' = ''canceled'')))"
  by (rule h_bind [OF h_ev [OF q ev.recordLocalityFallbackFailure]],
      rule h_bind [OF h_ev [OF q ev.isRunCanceled]], rule h_bind, rule h_ev [OF q], intro frame,
      rule h_if, rule h_weaken [OF h_cancelNode [OF q]], blast,
      rule h_weaken [OF h_unresolved [OF q]], blast)


lemma demo_at:
  "at demo_runner ''r-a-attempt-1'' demo_run
     (zero_NodeRecord\<lparr>nr_RunID := ''r'', nr_NodeID := ''a''\<rparr>) (zero_AttemptRecord\<lparr>ar_RunID := ''r'',
        ar_NodeID := ''a'', ar_AttemptID := ''r-a-attempt-1''\<rparr>)
     (demo_world\<lparr>w_reg := snd (UpsertAttempt (zero_AttemptRecord\<lparr>ar_RunID := ''r'',
        ar_NodeID := ''a'', ar_AttemptID := ''r-a-attempt-1''\<rparr>) demo_store)\<rparr>)"
  unfolding at_def
  by (simp add: demo_store_run demo_runner_def new_runner_def demo_graph_node_def)
    (simp add: UpsertAttempt_eq demo_store_def CreateRun_def NewMemoryRegistry_def demo_run_def run_at_def
      zero_defs Let_def create_node_def attempt_maps_def node_at_def node_map_def put_node_def)


end
