(* ===== verification/Sqlite.thy ===== *)
theory Sqlite
  imports Registry "HOL-Library.Product_Lexorder"
begin

text \<open>
  \<^verbatim>\<open>pkg/registry/sqlite.go\<close>: the durable registry.  A database is its four tables, a table the list
  of its rows; the SQL statements of the source are functions on them.  A record is stored as a
  JSON document of a type \<open>'j\<close> that is left open, with a few fields repeated in columns.

  The argument \<open>S\<close> stands for what is not code of the repository or is below the model: the JSON
  encoder and decoder at the four record types, the error the driver reports for a duplicate key,
  and \<open>sq_fault\<close>, which says for each statement of a call whether the driver refuses it (a
  canceled context, a busy or failing disk).  A refused statement changes nothing; a transaction
  whose commit is refused is rolled back.  The connection pool has one connection, so the calls are
  atomic with respect to each other.

  The last part relates a database to an in-memory registry and shows that every method simulates
  the method of the in-memory registry.
\<close>

record 'j runs_row =
  ru_run_id :: string
  ru_status :: string
  ru_accepted_at :: string
  ru_data :: 'j

record 'j nodes_row =
  no_run_id :: string
  no_node_id :: string
  no_status :: string
  no_attempt_count :: int
  no_current_attempt_id :: string
  no_data :: 'j

record 'j attempts_row =
  at_run_id :: string
  at_node_id :: string
  at_attempt_id :: string
  at_status :: string
  at_data :: 'j

record 'j events_row =
  es_seq :: nat
  es_run_id :: string
  es_data :: 'j

record 'j database =
  db_runs :: "'j runs_row list"
  db_nodes :: "'j nodes_row list"
  db_attempts :: "'j attempts_row list"
  db_events :: "'j events_row list"

record 'j sqlite =
  sq_fault :: "nat \<Rightarrow> go_error option"
  sq_unique :: "string \<Rightarrow> go_error"
  marshal_run :: "RunRecord \<Rightarrow> 'j result"
  unmarshal_run :: "'j \<Rightarrow> RunRecord result"
  marshal_node :: "NodeRecord \<Rightarrow> 'j result"
  unmarshal_node :: "'j \<Rightarrow> NodeRecord result"
  marshal_attempt :: "AttemptRecord \<Rightarrow> 'j result"
  unmarshal_attempt :: "'j \<Rightarrow> AttemptRecord result"
  marshal_event :: "EventRecord \<Rightarrow> 'j result"
  unmarshal_event :: "'j \<Rightarrow> EventRecord result"

text \<open>The tables as \<^verbatim>\<open>sqliteMigrate\<close> creates them in an empty database file.\<close>

definition sqliteMigrate :: "'j database" where
  "sqliteMigrate = \<lparr>db_runs = [], db_nodes = [], db_attempts = [], db_events = []\<rparr>"

fun AttemptStatus_string :: "AttemptStatus \<Rightarrow> string" where
  "AttemptStatus_string AttemptStatusPrepared = ''Prepared''"
| "AttemptStatus_string AttemptStatusStarted = ''Started''"
| "AttemptStatus_string AttemptStatusCompleted = ''Completed''"
| "AttemptStatus_string AttemptStatusErrored = ''Errored''"

subsection \<open>Times as text\<close>

text \<open>
  \<^verbatim>\<open>t.UTC().Format(time.RFC3339Nano)\<close>.  A time counts nanoseconds from the zero time of Go, the
  first of January of the year 1; \<open>civil\<close> is the date of a day counted from there.  The layout
  \<^verbatim>\<open>2006-01-02T15:04:05.999999999Z07:00\<close> drops the trailing zeros of the fraction, and the
  point with them.
\<close>

definition is_leap :: "int \<Rightarrow> bool" where
  "is_leap y \<longleftrightarrow> y mod 4 = 0 \<and> (y mod 100 \<noteq> 0 \<or> y mod 400 = 0)"

definition month_lengths :: "int \<Rightarrow> int list" where
  "month_lengths y = [31, if is_leap y then 29 else 28, 31, 30, 31, 30, 31, 31, 30, 31, 30, 31]"

fun month_day :: "int list \<Rightarrow> int \<Rightarrow> int \<Rightarrow> int \<times> int" where
  "month_day [] m d = (m, d + 1)"
| "month_day (l # ls) m d = (if d < l then (m, d + 1) else month_day ls (m + 1) (d - l))"

definition civil :: "int \<Rightarrow> int \<times> int \<times> int" where
  "civil day =
     (let n400 = day div 146097; d = day mod 146097;
          n100 = min 3 (d div 36524); d = d - n100 * 36524;
          n4 = d div 1461; d = d mod 1461;
          n1 = min 3 (d div 365); d = d - n1 * 365;
          y = 400 * n400 + 100 * n100 + 4 * n4 + n1 + 1
      in (y, month_day (month_lengths y) 1 d))"

definition pad_digits :: "nat \<Rightarrow> int \<Rightarrow> string" where
  "pad_digits w i = (let s = nat_digits (nat \<bar>i\<bar>)
     in (if i < 0 then ''-'' else '''') @ replicate (w - length s) (CHR ''0'') @ s)"

definition fraction_text :: "int \<Rightarrow> string" where
  "fraction_text ns =
     (if ns = 0 then '''' else CHR ''.'' # rev (dropWhile (\<lambda>c. c = CHR ''0'') (rev (pad_digits 9 ns))))"

definition timeText :: "time \<Rightarrow> string" where
  "timeText t =
     (let secs = t div 1000000000; ns = t mod 1000000000;
          s = secs mod 86400;
          (y, m, d) = civil (secs div 86400)
      in pad_digits 4 y @ ''-'' @ pad_digits 2 m @ ''-'' @ pad_digits 2 d @ ''T'' @
         pad_digits 2 (s div 3600) @ '':'' @ pad_digits 2 (s mod 3600 div 60) @ '':'' @
         pad_digits 2 (s mod 60) @ fraction_text ns @ ''Z'')"

subsection \<open>Statements and transactions\<close>

text \<open>
  The statements on one table, for a key function \<open>k\<close>: the columns of the primary key.
  \<open>tbl_update\<close> is \<^verbatim>\<open>UPDATE ... WHERE key = ?\<close>, \<open>tbl_upsert\<close> is
  \<^verbatim>\<open>INSERT ... ON CONFLICT (key) DO UPDATE\<close>.
\<close>

definition tbl_select :: "('w \<Rightarrow> 'k) \<Rightarrow> 'k \<Rightarrow> 'w list \<Rightarrow> 'w option" where
  "tbl_select k a t = find (\<lambda>w. k w = a) t"

definition tbl_update :: "('w \<Rightarrow> 'k) \<Rightarrow> 'k \<Rightarrow> ('w \<Rightarrow> 'w) \<Rightarrow> 'w list \<Rightarrow> 'w list" where
  "tbl_update k a f t = map (\<lambda>w. if k w = a then f w else w) t"

definition tbl_upsert :: "('w \<Rightarrow> 'k) \<Rightarrow> 'w \<Rightarrow> ('w \<Rightarrow> 'w) \<Rightarrow> 'w list \<Rightarrow> 'w list" where
  "tbl_upsert k w f t = (if tbl_select k (k w) t = None then t @ [w] else tbl_update k (k w) f t)"

definition node_key :: "'j nodes_row \<Rightarrow> string \<times> string" where
  "node_key w = (no_run_id w, no_node_id w)"

definition attempt_key :: "'j attempts_row \<Rightarrow> string \<times> string \<times> string" where
  "attempt_key w = (at_run_id w, at_node_id w, at_attempt_id w)"

text \<open>\<^verbatim>\<open>AUTOINCREMENT\<close>: one more than the largest number used; rows are never deleted.\<close>

definition next_seq :: "'j events_row list \<Rightarrow> nat" where
  "next_seq t = Suc (foldr max (map es_seq t) 0)"

record 'j session =
  se_db :: "'j database"
  se_pos :: nat

type_synonym ('j, 'a) sql = "('j session, 'a result) state"

text \<open>One statement: its number decides whether the driver refuses it.\<close>

definition sql_stmt :: "'j sqlite \<Rightarrow> ('j database \<Rightarrow> 'a result \<times> 'j database) \<Rightarrow> ('j, 'a) sql" where
  "sql_stmt S q = State (\<lambda>s.
     case sq_fault S (se_pos s) of
       Some e \<Rightarrow> (Inl e, s\<lparr>se_pos := Suc (se_pos s)\<rparr>)
     | None \<Rightarrow> (case q (se_db s) of (v, d) \<Rightarrow> (v, \<lparr>se_db = d, se_pos = Suc (se_pos s)\<rparr>)))"

definition sql_bind :: "('j, 'a) sql \<Rightarrow> ('a \<Rightarrow> ('j, 'b) sql) \<Rightarrow> ('j, 'b) sql" where
  "sql_bind m f = do { r \<leftarrow> m; case r of Inl e \<Rightarrow> State_Monad.return (Inl e) | Inr x \<Rightarrow> f x }"

abbreviation sql_ret :: "'a result \<Rightarrow> ('j, 'a) sql" where
  "sql_ret r \<equiv> State_Monad.return r"

definition sql_query :: "'j sqlite \<Rightarrow> ('j database \<Rightarrow> 'a) \<Rightarrow> ('j, 'a) sql" where
  "sql_query S q = sql_stmt S (\<lambda>d. (Inr (q d), d))"

definition sql_exec :: "'j sqlite \<Rightarrow> ('j database \<Rightarrow> 'j database) \<Rightarrow> ('j, unit) sql" where
  "sql_exec S f = sql_stmt S (\<lambda>d. (ok, f d))"

text \<open>
  \<^verbatim>\<open>tx, err := r.db.BeginTx(ctx, nil)\<close>, \<^verbatim>\<open>defer tx.Rollback()\<close>, the body, \<^verbatim>\<open>return tx.Commit()\<close>.
\<close>

definition in_tx :: "'j sqlite \<Rightarrow> ('j, 'a) sql \<Rightarrow> 'j database \<Rightarrow> 'a result \<times> 'j database" where
  "in_tx S m d =
     (case run_state (sql_bind (sql_query S (\<lambda>_. ())) (\<lambda>_. sql_bind m (\<lambda>v.
             sql_bind (sql_query S (\<lambda>_. ())) (\<lambda>_. sql_ret (Inr v))))) \<lparr>se_db = d, se_pos = 0\<rparr> of
        (Inl e, _) \<Rightarrow> (Inl e, d)
      | (Inr v, s) \<Rightarrow> (Inr v, se_db s))"

text \<open>A method that only reads, without a transaction.\<close>

definition no_tx :: "'j sqlite \<Rightarrow> ('j, 'a) sql \<Rightarrow> 'j database \<Rightarrow> 'a result \<times> 'j database" where
  "no_tx S m d = (case run_state m \<lparr>se_db = d, se_pos = 0\<rparr> of (v, s) \<Rightarrow> (v, se_db s))"

text \<open>
  \<^verbatim>\<open>for rows.Next() { rows.Scan; json.Unmarshal; append }\<close> and \<^verbatim>\<open>rows.Err()\<close>: a scan and the end of
  the result may be refused too.
\<close>

fun scan_rows :: "'j sqlite \<Rightarrow> ('j \<Rightarrow> 'a result) \<Rightarrow> 'j list \<Rightarrow> ('j, 'a list) sql" where
  "scan_rows S dec [] = sql_query S (\<lambda>_. [])"
| "scan_rows S dec (x # xs) =
     sql_bind (sql_query S (\<lambda>_. x)) (\<lambda>data.
     sql_bind (sql_ret (dec data)) (\<lambda>record.
     sql_bind (scan_rows S dec xs) (\<lambda>out. sql_ret (Inr (record # out)))))"

subsection \<open>The shared helpers\<close>

definition assertRunExistsTx :: "'j sqlite \<Rightarrow> string \<Rightarrow> ('j, unit) sql" where
  "assertRunExistsTx S runID =
     sql_bind (sql_query S (\<lambda>d. tbl_select ru_run_id runID (db_runs d))) (\<lambda>x.
       sql_ret (case x of None \<Rightarrow> Inl ErrRunNotFound | Some _ \<Rightarrow> ok))"

definition assertNodeExistsTx :: "'j sqlite \<Rightarrow> string \<Rightarrow> string \<Rightarrow> ('j, unit) sql" where
  "assertNodeExistsTx S runID nodeID =
     sql_bind (sql_query S (\<lambda>d. tbl_select node_key (runID, nodeID) (db_nodes d))) (\<lambda>x.
       sql_ret (case x of None \<Rightarrow> Inl ErrNodeNotFound | Some _ \<Rightarrow> ok))"

definition getNodeTx :: "'j sqlite \<Rightarrow> string \<Rightarrow> string \<Rightarrow> ('j, NodeRecord) sql" where
  "getNodeTx S runID nodeID =
     sql_bind (sql_query S (\<lambda>d. tbl_select node_key (runID, nodeID) (db_nodes d))) (\<lambda>x.
       case x of
         None \<Rightarrow> sql_bind (assertRunExistsTx S runID) (\<lambda>_. sql_ret (Inl ErrNodeNotFound))
       | Some w \<Rightarrow> sql_ret (unmarshal_node S (no_data w)))"

definition getAttemptTx ::
  "'j sqlite \<Rightarrow> string \<Rightarrow> string \<Rightarrow> string \<Rightarrow> ('j, AttemptRecord option) sql" where
  "getAttemptTx S runID nodeID attemptID =
     sql_bind (sql_query S (\<lambda>d. tbl_select attempt_key (runID, nodeID, attemptID) (db_attempts d))) (\<lambda>x.
       case x of
         None \<Rightarrow> sql_ret (Inr None)
       | Some w \<Rightarrow> sql_bind (sql_ret (unmarshal_attempt S (at_data w))) (\<lambda>a. sql_ret (Inr (Some a))))"

definition set_node_columns :: "NodeRecord \<Rightarrow> 'j \<Rightarrow> 'j nodes_row \<Rightarrow> 'j nodes_row" where
  "set_node_columns node data w =
     w\<lparr>no_status := NodeStatus_string (nr_Status node), no_attempt_count := nr_AttemptCount node,
       no_current_attempt_id := nr_CurrentAttemptID node, no_data := data\<rparr>"

definition writeNodeTx :: "'j sqlite \<Rightarrow> NodeRecord \<Rightarrow> ('j, unit) sql" where
  "writeNodeTx S node =
     sql_bind (sql_ret (marshal_node S node)) (\<lambda>data.
       sql_exec S (\<lambda>d. d\<lparr>db_nodes := tbl_update node_key (nr_RunID node, nr_NodeID node)
                            (set_node_columns node data) (db_nodes d)\<rparr>))"

definition writeAttemptTx :: "'j sqlite \<Rightarrow> AttemptRecord \<Rightarrow> ('j, unit) sql" where
  "writeAttemptTx S attempt =
     sql_bind (sql_ret (marshal_attempt S attempt)) (\<lambda>data.
       sql_exec S (\<lambda>d. d\<lparr>db_attempts := tbl_upsert attempt_key
          \<lparr>at_run_id = ar_RunID attempt, at_node_id = ar_NodeID attempt, at_attempt_id = ar_AttemptID attempt,
           at_status = AttemptStatus_string (ar_Status attempt), at_data = data\<rparr>
          (\<lambda>w. w\<lparr>at_status := AttemptStatus_string (ar_Status attempt), at_data := data\<rparr>) (db_attempts d)\<rparr>))"

subsection \<open>The methods\<close>

definition insert_node_row :: "'j sqlite \<Rightarrow> NodeRecord \<Rightarrow> 'j \<Rightarrow> 'j database \<Rightarrow> unit result \<times> 'j database" where
  "insert_node_row S node data d =
     (if tbl_select node_key (nr_RunID node, nr_NodeID node) (db_nodes d) \<noteq> None
      then (Inl (sq_unique S ''nodes''), d)
      else (ok, d\<lparr>db_nodes := db_nodes d @
        [\<lparr>no_run_id = nr_RunID node, no_node_id = nr_NodeID node, no_status = NodeStatus_string (nr_Status node),
          no_attempt_count = nr_AttemptCount node, no_current_attempt_id = nr_CurrentAttemptID node,
          no_data = data\<rparr>]\<rparr>))"

fun insert_nodes :: "'j sqlite \<Rightarrow> NodeRecord list \<Rightarrow> ('j, unit) sql" where
  "insert_nodes S [] = sql_ret ok"
| "insert_nodes S (node # nodes) =
     sql_bind (sql_ret (marshal_node S node)) (\<lambda>data.
     sql_bind (sql_stmt S (insert_node_row S node data)) (\<lambda>_. insert_nodes S nodes))"

definition insert_run_row :: "'j sqlite \<Rightarrow> RunRecord \<Rightarrow> 'j \<Rightarrow> 'j database \<Rightarrow> unit result \<times> 'j database" where
  "insert_run_row S record data d =
     (if tbl_select ru_run_id (rr_RunID record) (db_runs d) \<noteq> None
      then (Inl (sq_unique S ''runs''), d)
      else (ok, d\<lparr>db_runs := db_runs d @
        [\<lparr>ru_run_id = rr_RunID record, ru_status = RunStatus_string (rr_Status record),
          ru_accepted_at = timeText (rr_AcceptedAt record), ru_data = data\<rparr>]\<rparr>))"

definition SQLite_CreateRun ::
  "'j sqlite \<Rightarrow> RunRecord \<Rightarrow> NodeRecord list \<Rightarrow> 'j database \<Rightarrow> unit result \<times> 'j database" where
  "SQLite_CreateRun S record nodes = in_tx S (
     sql_bind (sql_query S (\<lambda>d. tbl_select ru_run_id (rr_RunID record) (db_runs d))) (\<lambda>x.
     case x of
       Some _ \<Rightarrow> sql_ret (Inl ErrRunAlreadyExists)
     | None \<Rightarrow>
         sql_bind (sql_ret (marshal_run S record)) (\<lambda>runData.
         sql_bind (sql_stmt S (insert_run_row S record runData)) (\<lambda>_. insert_nodes S nodes))))"

definition SQLite_GetRun :: "'j sqlite \<Rightarrow> string \<Rightarrow> 'j database \<Rightarrow> RunRecord result \<times> 'j database" where
  "SQLite_GetRun S runID = no_tx S (
     sql_bind (sql_query S (\<lambda>d. tbl_select ru_run_id runID (db_runs d))) (\<lambda>x.
       sql_ret (case x of None \<Rightarrow> Inl ErrRunNotFound | Some w \<Rightarrow> unmarshal_run S (ru_data w))))"

definition SQLite_ListRuns :: "'j sqlite \<Rightarrow> 'j database \<Rightarrow> RunRecord list result \<times> 'j database" where
  "SQLite_ListRuns S = no_tx S (
     sql_bind (sql_query S (\<lambda>d. map ru_data (sort_key (\<lambda>w. (ru_accepted_at w, ru_run_id w)) (db_runs d))))
       (scan_rows S (unmarshal_run S)))"

definition SQLite_GetNode ::
  "'j sqlite \<Rightarrow> string \<Rightarrow> string \<Rightarrow> 'j database \<Rightarrow> NodeRecord result \<times> 'j database" where
  "SQLite_GetNode S runID nodeID = no_tx S (getNodeTx S runID nodeID)"

definition SQLite_ListNodes ::
  "'j sqlite \<Rightarrow> string \<Rightarrow> 'j database \<Rightarrow> NodeRecord list result \<times> 'j database" where
  "SQLite_ListNodes S runID = no_tx S (
     sql_bind (assertRunExistsTx S runID) (\<lambda>_.
     sql_bind (sql_query S (\<lambda>d. map no_data (sort_key no_node_id (filter (\<lambda>w. no_run_id w = runID) (db_nodes d)))))
       (scan_rows S (unmarshal_node S))))"

definition SQLite_ListAttempts ::
  "'j sqlite \<Rightarrow> string \<Rightarrow> string \<Rightarrow> 'j database \<Rightarrow> AttemptRecord list result \<times> 'j database" where
  "SQLite_ListAttempts S runID nodeID = no_tx S (
     sql_bind (assertRunExistsTx S runID) (\<lambda>_.
     sql_bind (assertNodeExistsTx S runID nodeID) (\<lambda>_.
     sql_bind (sql_query S (\<lambda>d. map at_data (sort_key at_attempt_id
         (filter (\<lambda>w. at_run_id w = runID \<and> at_node_id w = nodeID) (db_attempts d)))))
       (scan_rows S (unmarshal_attempt S)))))"

definition SQLite_ListEvents ::
  "'j sqlite \<Rightarrow> string \<Rightarrow> int \<Rightarrow> 'j database \<Rightarrow> EventRecord list result \<times> 'j database" where
  "SQLite_ListEvents S runID limit = no_tx S (
     sql_bind (assertRunExistsTx S runID) (\<lambda>_.
     sql_bind (sql_bind (sql_query S (\<lambda>d. map es_data (sort_key es_seq (filter (\<lambda>w. es_run_id w = runID) (db_events d)))))
       (scan_rows S (unmarshal_event S))) (\<lambda>all.
       if limit \<le> 0 \<or> int (length all) \<le> limit then sql_ret (Inr all)
       else sql_ret (Inr (drop (nat (int (length all) - limit)) all)))))"

definition SQLite_UpdateRun ::
  "'j sqlite \<Rightarrow> string \<Rightarrow> (RunRecord \<Rightarrow> RunRecord result) \<Rightarrow> 'j database \<Rightarrow> unit result \<times> 'j database" where
  "SQLite_UpdateRun S runID update = in_tx S (
     sql_bind (sql_query S (\<lambda>d. tbl_select ru_run_id runID (db_runs d))) (\<lambda>x.
     case x of
       None \<Rightarrow> sql_ret (Inl ErrRunNotFound)
     | Some w \<Rightarrow>
         sql_bind (sql_ret (unmarshal_run S (ru_data w))) (\<lambda>record.
         sql_bind (sql_ret (update record)) (\<lambda>record.
         sql_bind (sql_ret (marshal_run S record)) (\<lambda>updated.
         sql_exec S (\<lambda>d. d\<lparr>db_runs := tbl_update ru_run_id runID
           (\<lambda>w. w\<lparr>ru_status := RunStatus_string (rr_Status record),
                  ru_accepted_at := timeText (rr_AcceptedAt record), ru_data := updated\<rparr>) (db_runs d)\<rparr>))))))"

definition SQLite_UpdateNode ::
  "'j sqlite \<Rightarrow> string \<Rightarrow> string \<Rightarrow> (NodeRecord \<Rightarrow> NodeRecord result) \<Rightarrow> 'j database \<Rightarrow> unit result \<times> 'j database" where
  "SQLite_UpdateNode S runID nodeID update = in_tx S (
     sql_bind (getNodeTx S runID nodeID) (\<lambda>node.
     sql_bind (sql_ret (update node)) (\<lambda>node.
     writeNodeTx S node)))"

definition SQLite_UpsertAttempt :: "'j sqlite \<Rightarrow> AttemptRecord \<Rightarrow> 'j database \<Rightarrow> unit result \<times> 'j database" where
  "SQLite_UpsertAttempt S record = in_tx S (
     sql_bind (assertRunExistsTx S (ar_RunID record)) (\<lambda>_.
     sql_bind (assertNodeExistsTx S (ar_RunID record) (ar_NodeID record)) (\<lambda>_.
     writeAttemptTx S record)))"

definition SQLite_AppendEvent :: "'j sqlite \<Rightarrow> EventRecord \<Rightarrow> 'j database \<Rightarrow> unit result \<times> 'j database" where
  "SQLite_AppendEvent S event = in_tx S (
     sql_bind (assertRunExistsTx S (ev_RunID event)) (\<lambda>_.
     sql_bind (sql_ret (marshal_event S event)) (\<lambda>data.
     sql_exec S (\<lambda>d. d\<lparr>db_events := db_events d @
       [\<lparr>es_seq = next_seq (db_events d), es_run_id = ev_RunID event, es_data = data\<rparr>]\<rparr>))))"

definition SQLite_GetCurrentAttempt ::
  "'j sqlite \<Rightarrow> string \<Rightarrow> string \<Rightarrow> 'j database \<Rightarrow> AttemptRecord option result \<times> 'j database" where
  "SQLite_GetCurrentAttempt S runID nodeID = no_tx S (
     sql_bind (getNodeTx S runID nodeID) (\<lambda>node.
     if nr_CurrentAttemptID node = '''' then sql_ret (Inr None)
     else getAttemptTx S runID nodeID (nr_CurrentAttemptID node)))"

definition SQLite_AllocateCurrentAttempt ::
  "'j sqlite \<Rightarrow> time \<Rightarrow> string \<Rightarrow> string \<Rightarrow> 'j database \<Rightarrow> AttemptRecord result \<times> 'j database" where
  "SQLite_AllocateCurrentAttempt S now runID nodeID = in_tx S (
     sql_bind (getNodeTx S runID nodeID) (\<lambda>node.
     sql_bind (if nr_CurrentAttemptID node = '''' then sql_ret (Inr None)
               else getAttemptTx S runID nodeID (nr_CurrentAttemptID node)) (\<lambda>cur.
     if (case cur of None \<Rightarrow> False | Some cur \<Rightarrow> \<not> AttemptStatus_IsTerminal (ar_Status cur))
     then sql_ret (Inl ErrAttemptNonTerminal)
     else
       let next = nr_RealizationAttemptCount node + 1;
           attemptID = DeterministicAttemptID runID nodeID next;
           attempt = zero_AttemptRecord\<lparr>ar_RunID := runID, ar_NodeID := nodeID,
                       ar_AttemptID := attemptID, ar_Status := AttemptStatusPrepared,
                       ar_StartedAt := Some now\<rparr>
       in sql_bind (writeAttemptTx S attempt) (\<lambda>_.
          sql_bind (writeNodeTx S (node\<lparr>nr_RealizationAttemptCount := next,
                      nr_CurrentAttemptID := attemptID, nr_Status := NodeStatusReady,
                      nr_CurrentBottleneckLocation := ''release_wait'', nr_StartedAt := Some now\<rparr>)) (\<lambda>_.
          sql_ret (Inr attempt))))))"

definition SQLite_OpenSemanticAttempt ::
  "'j sqlite \<Rightarrow> string \<Rightarrow> string \<Rightarrow> string \<Rightarrow> time \<Rightarrow> 'j database \<Rightarrow> unit result \<times> 'j database" where
  "SQLite_OpenSemanticAttempt S runID nodeID attemptID openedAt = in_tx S (
     sql_bind (getNodeTx S runID nodeID) (\<lambda>node.
     if nr_CurrentAttemptID node \<noteq> attemptID then sql_ret (Inl ErrAttemptNotFound)
     else sql_bind (getAttemptTx S runID nodeID attemptID) (\<lambda>x.
       case x of
         None \<Rightarrow> sql_ret (Inl ErrAttemptNotFound)
       | Some attempt \<Rightarrow>
           sql_bind (writeAttemptTx S (attempt\<lparr>ar_SubmissionWindowOpenedAt := Some openedAt\<rparr>)) (\<lambda>_.
           writeNodeTx S (node\<lparr>nr_AttemptCount := nr_AttemptCount node + 1\<rparr>)))))"

definition mutateAttempt ::
  "'j sqlite \<Rightarrow> string \<Rightarrow> string \<Rightarrow> string \<Rightarrow> (AttemptRecord \<Rightarrow> AttemptRecord) \<Rightarrow> 'j database
     \<Rightarrow> unit result \<times> 'j database" where
  "mutateAttempt S runID nodeID attemptID mutate = in_tx S (
     sql_bind (getAttemptTx S runID nodeID attemptID) (\<lambda>x.
     case x of
       None \<Rightarrow> sql_ret (Inl ErrAttemptNotFound)
     | Some attempt \<Rightarrow> writeAttemptTx S (mutate attempt)))"

definition SQLite_PersistSubmissionFence ::
  "'j sqlite \<Rightarrow> string \<Rightarrow> string \<Rightarrow> string \<Rightarrow> time \<Rightarrow> 'j database \<Rightarrow> unit result \<times> 'j database" where
  "SQLite_PersistSubmissionFence S runID nodeID attemptID openedAt =
     mutateAttempt S runID nodeID attemptID (\<lambda>a. a\<lparr>ar_SubmissionWindowOpenedAt := Some openedAt\<rparr>)"

definition SQLite_PersistBackendHandle ::
  "'j sqlite \<Rightarrow> string \<Rightarrow> string \<Rightarrow> string \<Rightarrow> string \<Rightarrow> 'j database \<Rightarrow> unit result \<times> 'j database" where
  "SQLite_PersistBackendHandle S runID nodeID attemptID handleJSON = in_tx S (
     sql_bind (getAttemptTx S runID nodeID attemptID) (\<lambda>x.
     case x of
       None \<Rightarrow> sql_ret (Inl ErrAttemptNotFound)
     | Some attempt \<Rightarrow>
         sql_bind (writeAttemptTx S (attempt\<lparr>ar_BackendHandleJSON := handleJSON\<rparr>)) (\<lambda>_.
         sql_bind (getNodeTx S runID nodeID) (\<lambda>node.
         if nr_CurrentAttemptID node = attemptID
         then writeNodeTx S (node\<lparr>nr_CurrentAttemptHandleJSON := handleJSON\<rparr>)
         else sql_ret ok))))"

definition SQLite_PersistCancellationIntent ::
  "'j sqlite \<Rightarrow> string \<Rightarrow> string \<Rightarrow> string \<Rightarrow> time \<Rightarrow> string \<Rightarrow> 'j database \<Rightarrow> unit result \<times> 'j database" where
  "SQLite_PersistCancellationIntent S runID nodeID attemptID requestedAt reason =
     mutateAttempt S runID nodeID attemptID
       (\<lambda>a. a\<lparr>ar_CancellationRequestedAt := Some requestedAt, ar_CancellationReason := reason\<rparr>)"

definition SQLite_PersistProcessCompleted ::
  "'j sqlite \<Rightarrow> string \<Rightarrow> string \<Rightarrow> string \<Rightarrow> time \<Rightarrow> 'j database \<Rightarrow> unit result \<times> 'j database" where
  "SQLite_PersistProcessCompleted S runID nodeID attemptID completedAt =
     mutateAttempt S runID nodeID attemptID (\<lambda>a. a\<lparr>ar_ProcessCompletedAt := Some completedAt\<rparr>)"

end
