(* ===== verification/Sqlite_Refinement.thy ===== *)
theory Sqlite_Refinement
  imports Sqlite
begin

text \<open>
  The durable registry refines the in-memory registry: \<open>refines S d r\<close> relates a database to the
  in-memory registry that holds the same records, and every method keeps the relation and returns a
  matching result, as long as no statement is refused and the records written survive a round trip
  through JSON (\<open>storable\<close>).
\<close>

named_theorems sql \<open>evaluation of SQL programs\<close>

subsection \<open>Tables\<close>

lemma tbl_select_Nil [simp]: "tbl_select k a [] = None"
  by (simp add: tbl_select_def)

lemma tbl_select_key: "tbl_select k a t = Some w \<Longrightarrow> k w = a"
  by (auto simp: tbl_select_def find_Some_iff)

lemma tbl_select_in: "tbl_select k a t = Some w \<Longrightarrow> w \<in> set t"
  by (auto simp: tbl_select_def find_Some_iff)

lemma tbl_select_None: "tbl_select k a t = None \<longleftrightarrow> a \<notin> k ` set t"
  by (auto simp: tbl_select_def find_None_iff)

lemma tbl_select_unique:
  "distinct (map k t) \<Longrightarrow> tbl_select k a t = Some w \<longleftrightarrow> w \<in> set t \<and> k w = a"
  unfolding tbl_select_def
  by (induction t) (auto simp: image_iff)

lemma tbl_select_append [simp]:
  "tbl_select k a (t @ [w]) =
     (case tbl_select k a t of Some v \<Rightarrow> Some v | None \<Rightarrow> if k w = a then Some w else None)"
  by (induction t) (simp_all add: tbl_select_def)

lemma tbl_select_update:
  assumes "\<And>w. k (f w) = k w"
  shows "tbl_select k b (tbl_update k a f t) =
    (if a = b then map_option f (tbl_select k b t) else tbl_select k b t)"
proof (cases "a = b")
  case True
  then show ?thesis using assms by (induction t) (simp_all add: tbl_select_def tbl_update_def)
next
  case False
  then show ?thesis using assms by (induction t) (auto simp: tbl_select_def tbl_update_def)
qed

lemma tbl_update_keys:
  assumes "\<And>w. k (f w) = k w" shows "map k (tbl_update k a f t) = map k t"
  using assms by (simp add: tbl_update_def)

lemma tbl_select_upsert:
  assumes "\<And>w. k (f w) = k w"
  shows "tbl_select k b (tbl_upsert k w f t) =
    (if k w = b then Some (case tbl_select k b t of None \<Rightarrow> w | Some v \<Rightarrow> f v)
     else tbl_select k b t)"
  by (auto simp: tbl_upsert_def tbl_select_update [of k f, OF assms] split: option.splits)

lemma tbl_upsert_keys:
  assumes "\<And>w. k (f w) = k w" and "distinct (map k t)"
  shows "distinct (map k (tbl_upsert k w f t))"
  using assms(2) by (auto simp: tbl_upsert_def tbl_update_keys [of k f, OF assms(1)] tbl_select_None)

text \<open>An \<^verbatim>\<open>INSERT\<close> of a row whose key is new.\<close>

lemma tbl_select_new:
  "tbl_select k (k w) t = None \<Longrightarrow>
     tbl_select k b (t @ [w]) = (if b = k w then Some w else tbl_select k b t)"
  by (auto split: option.splits)

lemma tbl_keys_new:
  "tbl_select k (k w) t = None \<Longrightarrow> distinct (map k t) \<Longrightarrow> distinct (map k (t @ [w]))"
  by (auto simp: tbl_select_None)

lemma set_node_columns_key [simp]: "node_key (set_node_columns x j w) = node_key w"
  by (simp add: node_key_def set_node_columns_def)

lemma next_seq_fresh: "w \<in> set t \<Longrightarrow> es_seq w < next_seq t"
  unfolding next_seq_def by (induction t) auto

subsection \<open>Running SQL programs\<close>

lemma run_sql_bind [sql]:
  "run_state (sql_bind m f) s =
     (case run_state m s of (Inl e, s') \<Rightarrow> (Inl e, s') | (Inr x, s') \<Rightarrow> run_state (f x) s')"
  by (simp add: sql_bind_def split: prod.splits sum.splits)

definition calm :: "'j sqlite \<Rightarrow> bool" where
  "calm S \<longleftrightarrow> sq_fault S = (\<lambda>_. None)"

lemma run_stmt [sql]:
  "calm S \<Longrightarrow> run_state (sql_stmt S q) s =
     (fst (q (se_db s)), \<lparr>se_db = snd (q (se_db s)), se_pos = Suc (se_pos s)\<rparr>)"
  by (simp add: sql_stmt_def calm_def split: prod.splits)

lemma run_query [sql]:
  "calm S \<Longrightarrow> run_state (sql_query S q) s = (Inr (q (se_db s)), \<lparr>se_db = se_db s, se_pos = Suc (se_pos s)\<rparr>)"
  by (simp add: sql_query_def sql)

lemma run_exec [sql]:
  "calm S \<Longrightarrow> run_state (sql_exec S f) s = (ok, \<lparr>se_db = f (se_db s), se_pos = Suc (se_pos s)\<rparr>)"
  by (simp add: sql_exec_def sql)

text \<open>A call that returns an error has changed nothing, whatever the driver refused.\<close>

lemma in_tx_atomic: "in_tx S m d = (Inl e, d') \<Longrightarrow> d' = d"
  by (auto simp: in_tx_def split: prod.splits sum.splits)

definition reads_only :: "('j, 'a) sql \<Rightarrow> bool" where
  "reads_only m \<longleftrightarrow> (\<forall>s. se_db (snd (run_state m s)) = se_db s)"

lemma reads_only_ret [intro]: "reads_only (sql_ret v)"
  by (simp add: reads_only_def)

lemma reads_only_query [intro]: "reads_only (sql_query S q)"
  by (simp add: reads_only_def sql_query_def sql_stmt_def split: option.splits)

lemma reads_only_bind [intro]:
  assumes "reads_only m" and "\<And>x. reads_only (f x)" shows "reads_only (sql_bind m f)"
proof -
  have "se_db (snd (run_state (sql_bind m f) s)) = se_db s" for s
    using assms(1) [unfolded reads_only_def, rule_format, of s] assms(2) [unfolded reads_only_def]
    by (auto simp: run_sql_bind split: prod.splits sum.splits)
  then show ?thesis by (simp add: reads_only_def)
qed

lemma reads_only_scan [intro]: "reads_only (scan_rows S dec xs)"
  by (induction xs) auto

lemma reads_only_option [intro]:
  "reads_only m \<Longrightarrow> (\<And>y. reads_only (f y)) \<Longrightarrow> reads_only (case x of None \<Rightarrow> m | Some y \<Rightarrow> f y)"
  by (cases x) simp_all

lemma reads_only_if [intro]: "reads_only m \<Longrightarrow> reads_only n \<Longrightarrow> reads_only (if b then m else n)"
  by simp

lemma reads_only_helpers [intro]:
  "reads_only (assertRunExistsTx S i)" "reads_only (assertNodeExistsTx S i n)"
  "reads_only (getNodeTx S i n)" "reads_only (getAttemptTx S i n a)"
proof -
  show r: "reads_only (assertRunExistsTx S i)" "reads_only (assertNodeExistsTx S i n)"
    by (auto simp: assertRunExistsTx_def assertNodeExistsTx_def)
  show "reads_only (getNodeTx S i n)" "reads_only (getAttemptTx S i n a)"
    unfolding getNodeTx_def getAttemptTx_def by (intro reads_only_bind reads_only_query reads_only_option
        reads_only_ret r)+
qed

lemma no_tx_reads: "reads_only m \<Longrightarrow> snd (no_tx S m d) = d"
  unfolding no_tx_def reads_only_def by (metis (no_types, lifting) case_prod_beta session.select_convs(1) snd_conv)

lemma run_scan [sql]:
  assumes "calm S"
  shows "list_all2 (\<lambda>x y. dec x = Inr y) xs ys \<Longrightarrow>
    run_state (scan_rows S dec xs) s = (Inr ys, \<lparr>se_db = se_db s, se_pos = se_pos s + length xs + 1\<rparr>)"
proof (induction xs arbitrary: ys s)
  case Nil
  with assms show ?case by (simp add: sql)
next
  case (Cons x xs)
  then obtain y zs where "ys = y # zs" "dec x = Inr y" "list_all2 (\<lambda>x y. dec x = Inr y) xs zs"
    by (auto simp: list_all2_Cons1)
  with assms Cons.IH show ?case by (simp add: sql)
qed

subsection \<open>The relation\<close>

definition run_ok :: "'j sqlite \<Rightarrow> 'j runs_row \<Rightarrow> RunRecord \<Rightarrow> bool" where
  "run_ok S w x \<longleftrightarrow> unmarshal_run S (ru_data w) = Inr x \<and> ru_accepted_at w = timeText (rr_AcceptedAt x)"

definition node_ok :: "'j sqlite \<Rightarrow> 'j nodes_row \<Rightarrow> NodeRecord \<Rightarrow> bool" where
  "node_ok S w x \<longleftrightarrow> unmarshal_node S (no_data w) = Inr x"

definition attempt_ok :: "'j sqlite \<Rightarrow> 'j attempts_row \<Rightarrow> AttemptRecord \<Rightarrow> bool" where
  "attempt_ok S w x \<longleftrightarrow> unmarshal_attempt S (at_data w) = Inr x"

definition event_ok :: "'j sqlite \<Rightarrow> 'j events_row \<Rightarrow> EventRecord \<Rightarrow> bool" where
  "event_ok S w x \<longleftrightarrow> unmarshal_event S (es_data w) = Inr x"

definition refines :: "'j sqlite \<Rightarrow> 'j database \<Rightarrow> registry \<Rightarrow> bool" where
  "refines S d r \<longleftrightarrow>
     distinct (map ru_run_id (db_runs d)) \<and> distinct (map node_key (db_nodes d)) \<and>
     distinct (map attempt_key (db_attempts d)) \<and> sorted_wrt (<) (map es_seq (db_events d)) \<and>
     (\<forall>i. rel_option (run_ok S) (tbl_select ru_run_id i (db_runs d)) (run_at r i)) \<and>
     (\<forall>i n. rel_option (node_ok S) (tbl_select node_key (i, n) (db_nodes d)) (node_at r i n)) \<and>
     (\<forall>i n a. rel_option (attempt_ok S) (tbl_select attempt_key (i, n, a) (db_attempts d))
        (attempt_at r i n a)) \<and>
     (\<forall>i. list_all2 (event_ok S) (filter (\<lambda>w. es_run_id w = i) (db_events d)) (events_of r i))"

lemma refinesD:
  assumes "refines S d r"
  shows "distinct (map ru_run_id (db_runs d))" "distinct (map node_key (db_nodes d))"
    "distinct (map attempt_key (db_attempts d))" "sorted_wrt (<) (map es_seq (db_events d))"
    "rel_option (run_ok S) (tbl_select ru_run_id i (db_runs d)) (run_at r i)"
    "rel_option (node_ok S) (tbl_select node_key (i, n) (db_nodes d)) (node_at r i n)"
    "rel_option (attempt_ok S) (tbl_select attempt_key (i, n, a) (db_attempts d)) (attempt_at r i n a)"
    "list_all2 (event_ok S) (filter (\<lambda>w. es_run_id w = i) (db_events d)) (events_of r i)"
  using assms by (simp_all add: refines_def)

text \<open>A record that JSON keeps, and a registry all of whose records are.\<close>

definition kept :: "('a \<Rightarrow> 'j result) \<Rightarrow> ('j \<Rightarrow> 'a result) \<Rightarrow> 'a \<Rightarrow> bool" where
  "kept m u x \<longleftrightarrow> (case m x of Inl e \<Rightarrow> False | Inr j \<Rightarrow> u j = Inr x)"

definition storable :: "'j sqlite \<Rightarrow> registry \<Rightarrow> bool" where
  "storable S r \<longleftrightarrow>
     (\<forall>i x. run_at r i = Some x \<longrightarrow> kept (marshal_run S) (unmarshal_run S) x) \<and>
     (\<forall>i n x. node_at r i n = Some x \<longrightarrow> kept (marshal_node S) (unmarshal_node S) x) \<and>
     (\<forall>i n a x. attempt_at r i n a = Some x \<longrightarrow> kept (marshal_attempt S) (unmarshal_attempt S) x) \<and>
     (\<forall>i. \<forall>x \<in> set (events_of r i). kept (marshal_event S) (unmarshal_event S) x)"

lemma kept_iff: "kept m u x \<longleftrightarrow> (\<exists>j. m x = Inr j \<and> u j = Inr x)"
  by (auto simp: kept_def split: sum.splits)

lemma storableE:
  assumes "storable S r"
  shows "run_at r i = Some x \<Longrightarrow> \<exists>j. marshal_run S x = Inr j \<and> unmarshal_run S j = Inr x"
    and "node_at r i n = Some y \<Longrightarrow> \<exists>j. marshal_node S y = Inr j \<and> unmarshal_node S j = Inr y"
    and "attempt_at r i n a = Some z \<Longrightarrow> \<exists>j. marshal_attempt S z = Inr j \<and> unmarshal_attempt S j = Inr z"
    and "e \<in> set (events_of r i) \<Longrightarrow> \<exists>j. marshal_event S e = Inr j \<and> unmarshal_event S j = Inr e"
  using assms by (simp_all add: storable_def kept_iff)

lemma refines_put_node:
  assumes R: "refines S d r" and y: "node_at r i n = Some y" and j: "unmarshal_node S j = Inr x"
  shows "refines S (d\<lparr>db_nodes := tbl_update node_key (i, n) (set_node_columns x j) (db_nodes d)\<rparr>)
    (put_node i n x r)"
proof -
  obtain w where w: "tbl_select node_key (i, n) (db_nodes d) = Some w"
    using refinesD(6) [OF R, of i n] y by (cases "tbl_select node_key (i, n) (db_nodes d)") simp_all
  have "node_ok S (set_node_columns x j w) x" using j by (simp add: node_ok_def set_node_columns_def)
  then show ?thesis
    using R w by (simp add: refines_def tbl_update_keys tbl_select_update)
qed

lemma refines_put_attempt:
  assumes R: "refines S d r" and j: "unmarshal_attempt S j = Inr x"
    and k: "attempt_key v = (i, n, a)" "at_data v = j" and f: "\<And>w. attempt_key (f w) = attempt_key w"
      "\<And>w. at_data (f w) = j"
  shows "refines S (d\<lparr>db_attempts := tbl_upsert attempt_key v f (db_attempts d)\<rparr>) (put_attempt i n a x r)"
proof -
  have "attempt_ok S v x" "attempt_ok S (f w) x" for w using j k f by (simp_all add: attempt_ok_def)
  then show ?thesis
    using R k(1) f(1)
    by (simp add: refines_def tbl_upsert_keys tbl_select_upsert split: option.splits)
qed

lemma refines_put_run:
  assumes R: "refines S d r" and y: "run_at r i = Some y"
    and f: "\<And>w. ru_run_id (f w) = ru_run_id w" "\<And>w. run_ok S (f w) x"
  shows "refines S (d\<lparr>db_runs := tbl_update ru_run_id i f (db_runs d)\<rparr>) (r\<lparr>reg_runs := mput i x (reg_runs r)\<rparr>)"
proof -
  let ?r = "r\<lparr>reg_runs := mput i x (reg_runs r)\<rparr>"
  obtain w where w: "tbl_select ru_run_id i (db_runs d) = Some w"
    using refinesD(5) [OF R, of i] y by (cases "tbl_select ru_run_id i (db_runs d)") simp_all
  have views: "run_at ?r = (run_at r)(i \<mapsto> x)" "node_at ?r = node_at r" "attempt_at ?r = attempt_at r"
    "events_of ?r = events_of r"
    by (simp_all add: fun_eq_iff run_at_def node_map_def node_at_def attempt_maps_def attempt_map_def
        attempt_at_def events_of_def)
  show ?thesis
    using R w f by (simp add: refines_def views tbl_update_keys tbl_select_update)
qed

lemma refines_append_event:
  assumes R: "refines S d r" and j: "unmarshal_event S j = Inr e" and i: "ev_RunID e = i"
  shows "refines S
      (d\<lparr>db_events := db_events d @ [\<lparr>es_seq = next_seq (db_events d), es_run_id = i, es_data = j\<rparr>]\<rparr>)
      (r\<lparr>reg_events := mput i (events_of r i @ [e]) (reg_events r)\<rparr>)"
proof -
  let ?r = "r\<lparr>reg_events := mput i (events_of r i @ [e]) (reg_events r)\<rparr>"
  have views: "run_at ?r = run_at r" "node_at ?r = node_at r" "attempt_at ?r = attempt_at r"
    "events_of ?r = (events_of r)(i := events_of r i @ [e])"
    by (simp_all add: fun_eq_iff run_at_def node_map_def node_at_def attempt_maps_def attempt_map_def
        attempt_at_def events_of_def)
  show ?thesis
    using R j by (simp add: refines_def views sorted_wrt_append next_seq_fresh event_ok_def
        list_all2_appendI)
qed

subsection \<open>The methods simulate the in-memory registry\<close>

text \<open>
  The two registries name a missing run, node or attempt differently in a few methods, so error
  results match when both say that something is missing.
\<close>

definition missing :: "go_error \<Rightarrow> bool" where
  "missing e \<longleftrightarrow> e \<in> {ErrRunNotFound, ErrNodeNotFound, ErrAttemptNotFound} \<or>
     (\<exists>m. e = Errorf (''node not found: '' @ m))"

definition matches :: "'a result \<Rightarrow> 'a result \<Rightarrow> bool" where
  "matches v v' = rel_sum (\<lambda>e e'. e = e' \<or> missing e \<and> missing e') (=) v v'"

definition simulates :: "'j sqlite \<Rightarrow> 'a result \<times> 'j database \<Rightarrow> 'a result \<times> registry \<Rightarrow> bool" where
  "simulates S p q \<longleftrightarrow> matches (fst p) (fst q) \<and> refines S (snd p) (snd q)"

lemma matches_simps [simp]:
  "matches v v" "matches (Inl e) (Inl e') \<longleftrightarrow> e = e' \<or> missing e \<and> missing e'"
  "matches (Inr x) (Inr y) \<longleftrightarrow> x = y" "\<not> matches (Inl e) (Inr x)" "\<not> matches (Inr x) (Inl e)"
  by (cases v) (simp_all add: matches_def)

lemma missing_simps [simp]:
  "missing ErrRunNotFound" "missing ErrNodeNotFound" "missing ErrAttemptNotFound"
  "missing (node_err r i)" "missing (attempt_err r i n)"
  by (simp_all add: missing_def node_err_def attempt_err_def)

text \<open>What the row of a key decodes to.\<close>

lemma row_run:
  assumes "refines S d r"
  obtains (none) "tbl_select ru_run_id i (db_runs d) = None" "run_at r i = None"
  | (some) w x where "tbl_select ru_run_id i (db_runs d) = Some w" "run_at r i = Some x"
      "unmarshal_run S (ru_data w) = Inr x"
  using refinesD(5) [OF assms, of i] by (cases rule: option.rel_cases) (auto simp: run_ok_def)

lemma row_node:
  assumes "refines S d r"
  obtains (none) "tbl_select node_key (i, n) (db_nodes d) = None" "node_at r i n = None"
  | (some) w x where "tbl_select node_key (i, n) (db_nodes d) = Some w" "node_at r i n = Some x"
      "unmarshal_node S (no_data w) = Inr x"
  using refinesD(6) [OF assms, of i n] by (cases rule: option.rel_cases) (auto simp: node_ok_def)

lemma row_attempt:
  assumes "refines S d r"
  obtains (none) "tbl_select attempt_key (i, n, a) (db_attempts d) = None" "attempt_at r i n a = None"
  | (some) w x where "tbl_select attempt_key (i, n, a) (db_attempts d) = Some w"
      "attempt_at r i n a = Some x" "unmarshal_attempt S (at_data w) = Inr x"
  using refinesD(7) [OF assms, of i n a] by (cases rule: option.rel_cases) (auto simp: attempt_ok_def)

lemmas sql_defs = in_tx_def no_tx_def assertRunExistsTx_def assertNodeExistsTx_def getNodeTx_def
  getAttemptTx_def writeNodeTx_def writeAttemptTx_def

lemma node_err_run: "reg_inv r \<Longrightarrow> node_err r i = (if run_at r i = None then ErrRunNotFound else ErrNodeNotFound)"
  unfolding node_err_def using reg_wfD(4) [OF reg_invD(1)] by (metis domIff)

lemma sim_update_node:
  assumes c: "calm S" and R: "refines S d r" and inv: "reg_inv r" and f: "keeps_identity f"
    and st: "storable S (snd (UpdateNode i n f r))"
  shows "simulates S (SQLite_UpdateNode S i n f d) (UpdateNode i n f r)"
proof (cases rule: row_node [OF R, of i n])
  case 1
  then show ?thesis
    using R by (cases rule: row_run [OF R, of i])
      (simp_all add: SQLite_UpdateNode_def sql_defs sql c UpdateNode_eq node_err_run [OF inv] simulates_def)
next
  case (2 w x)
  show ?thesis
  proof (cases "f x")
    case (Inl e)
    with 2 R show ?thesis by (simp add: SQLite_UpdateNode_def sql_defs sql c UpdateNode_eq simulates_def)
  next
    case (Inr y)
    have "nr_RunID y = i \<and> nr_NodeID y = n"
      using f Inr reg_invD(3) [OF inv 2(2)] by (auto simp: keeps_identity_def)
    moreover obtain j where "marshal_node S y = Inr j" "unmarshal_node S j = Inr y"
      using storableE(2) [OF st, of i n y] 2 Inr by (auto simp: UpdateNode_eq)
    ultimately show ?thesis
      using 2 Inr refines_put_node [OF R 2(2)]
      by (simp add: SQLite_UpdateNode_def sql_defs sql c UpdateNode_eq simulates_def)
  qed
qed

lemma sim_update_run:
  assumes c: "calm S" and R: "refines S d r" and st: "storable S (snd (UpdateRun i f r))"
  shows "simulates S (SQLite_UpdateRun S i f d) (UpdateRun i f r)"
proof (cases rule: row_run [OF R, of i])
  case 1
  with R show ?thesis by (simp add: SQLite_UpdateRun_def in_tx_def sql c UpdateRun_def simulates_def)
next
  case (2 w x)
  show ?thesis
  proof (cases "f x")
    case (Inl e)
    with 2 R show ?thesis by (simp add: SQLite_UpdateRun_def in_tx_def sql c UpdateRun_def simulates_def)
  next
    case (Inr y)
    obtain j where "marshal_run S y = Inr j" "unmarshal_run S j = Inr y"
      using storableE(1) [OF st, of i y] 2 Inr by (auto simp: UpdateRun_def run_at_def)
    then show ?thesis
      using 2 Inr refines_put_run [OF R 2(2)]
      by (simp add: SQLite_UpdateRun_def in_tx_def sql c UpdateRun_def simulates_def run_ok_def)
  qed
qed

lemma attempt_maps_node: "reg_inv r \<Longrightarrow> map_of (attempt_maps r i) n = None \<longleftrightarrow> node_at r i n = None"
  using reg_wfD(7) [OF reg_invD(1)] by (metis domIff)

lemma attempt_err_run:
  assumes "reg_inv r"
  shows "attempt_err r i n = (if run_at r i = None then ErrRunNotFound
     else if node_at r i n = None then ErrNodeNotFound else ErrAttemptNotFound)"
proof -
  have "map_of (reg_attempts r) i = None \<longleftrightarrow> run_at r i = None"
    using reg_wfD(5) [OF reg_invD(1) [OF assms]] by (metis domIff)
  then show ?thesis by (simp add: attempt_err_def attempt_maps_node [OF assms])
qed

lemma no_node_without_run: "reg_inv r \<Longrightarrow> run_at r i = None \<Longrightarrow> node_at r i n = None"
  using node_run_exists [OF reg_invD(1), of r i n] by (cases "node_at r i n") auto

lemma run_writeAttempt:
  assumes c: "calm S" and R: "refines S (se_db s) r" and ids: "ar_RunID x = i" "ar_NodeID x = n" "ar_AttemptID x = a"
    and k: "kept (marshal_attempt S) (unmarshal_attempt S) x"
  shows "\<exists>d'. run_state (writeAttemptTx S x) s = (ok, \<lparr>se_db = d', se_pos = Suc (se_pos s)\<rparr>) \<and>
    refines S d' (put_attempt i n a x r) \<and> db_nodes d' = db_nodes (se_db s) \<and> db_runs d' = db_runs (se_db s)"
proof -
  obtain j where j: "marshal_attempt S x = Inr j" "unmarshal_attempt S j = Inr x"
    using k by (auto simp: kept_iff)
  have "refines S (se_db s\<lparr>db_attempts := tbl_upsert attempt_key
      \<lparr>at_run_id = i, at_node_id = n, at_attempt_id = a, at_status = st, at_data = j\<rparr>
      (\<lambda>w. w\<lparr>at_status := st, at_data := j\<rparr>) (db_attempts (se_db s))\<rparr>) (put_attempt i n a x r)" for st
    by (rule refines_put_attempt [OF R j(2)]) (simp_all add: attempt_key_def)
  then show ?thesis using j ids c by (simp add: writeAttemptTx_def sql)
qed

lemma run_writeNode:
  assumes c: "calm S" and R: "refines S (se_db s) r" and y: "node_at r i n = Some y"
    and ids: "nr_RunID x = i" "nr_NodeID x = n" and k: "kept (marshal_node S) (unmarshal_node S) x"
  shows "\<exists>d'. run_state (writeNodeTx S x) s = (ok, \<lparr>se_db = d', se_pos = Suc (se_pos s)\<rparr>) \<and>
    refines S d' (put_node i n x r)"
proof -
  obtain j where j: "marshal_node S x = Inr j" "unmarshal_node S j = Inr x"
    using k by (auto simp: kept_iff)
  show ?thesis using j ids c refines_put_node [OF R y j(2)] by (simp add: writeNodeTx_def sql)
qed

lemma storable_kept:
  assumes "storable S r"
  shows "node_at r i n = Some y \<Longrightarrow> kept (marshal_node S) (unmarshal_node S) y"
    and "attempt_at r i n a = Some z \<Longrightarrow> kept (marshal_attempt S) (unmarshal_attempt S) z"
  using assms by (simp_all add: storable_def)

lemma sim_upsert:
  assumes c: "calm S" and R: "refines S d r" and inv: "reg_inv r"
    and st: "storable S (snd (UpsertAttempt x r))"
  shows "simulates S (SQLite_UpsertAttempt S x d) (UpsertAttempt x r)"
proof (cases rule: row_node [OF R, of "ar_RunID x" "ar_NodeID x"])
  case 1
  then show ?thesis
    using R by (cases rule: row_run [OF R, of "ar_RunID x"])
      (simp_all add: SQLite_UpsertAttempt_def in_tx_def assertRunExistsTx_def assertNodeExistsTx_def sql c
        UpsertAttempt_eq attempt_maps_node [OF inv] attempt_err_run [OF inv] simulates_def)
next
  case (2 w y)
  obtain v where v: "tbl_select ru_run_id (ar_RunID x) (db_runs d) = Some v"
    using no_node_without_run [OF inv] 2(2) by (cases rule: row_run [OF R, of "ar_RunID x"]) auto
  have u: "UpsertAttempt x r = (ok, put_attempt (ar_RunID x) (ar_NodeID x) (ar_AttemptID x) x r)"
    using 2 by (simp add: UpsertAttempt_eq attempt_maps_node [OF inv])
  have "kept (marshal_attempt S) (unmarshal_attempt S) x"
    by (rule storable_kept(2) [OF st, of "ar_RunID x" "ar_NodeID x" "ar_AttemptID x"]) (simp add: u)
  from run_writeAttempt [OF c _ refl refl refl this, of "\<lparr>se_db = d, se_pos = 3\<rparr>" r] R 2 v c
  show ?thesis
    by (auto simp: SQLite_UpsertAttempt_def in_tx_def assertRunExistsTx_def assertNodeExistsTx_def sql
        u simulates_def numeral_eq_Suc)
qed

lemma sim_append_event:
  assumes c: "calm S" and R: "refines S d r" and st: "storable S (snd (AppendEvent e r))"
  shows "simulates S (SQLite_AppendEvent S e d) (AppendEvent e r)"
proof (cases rule: row_run [OF R, of "ev_RunID e"])
  case 1
  with R show ?thesis
    by (simp add: SQLite_AppendEvent_def in_tx_def assertRunExistsTx_def sql c AppendEvent_def simulates_def)
next
  case (2 w x)
  obtain j where "marshal_event S e = Inr j" "unmarshal_event S j = Inr e"
    using storableE(4) [OF st, of e "ev_RunID e"] 2 by (auto simp: AppendEvent_def events_of_def)
  then show ?thesis
    using 2 refines_append_event [OF R _ refl]
    by (simp add: SQLite_AppendEvent_def in_tx_def assertRunExistsTx_def sql c AppendEvent_def simulates_def)
qed

lemma sim_mutate:
  assumes c: "calm S" and R: "refines S d r" and inv: "reg_inv r"
    and f: "\<And>x. ar_RunID (f x) = ar_RunID x \<and> ar_NodeID (f x) = ar_NodeID x \<and> ar_AttemptID (f x) = ar_AttemptID x"
    and st: "storable S (snd (lockedMutateAttempt i n a f r))"
  shows "simulates S (mutateAttempt S i n a f d) (lockedMutateAttempt i n a f r)"
proof (cases rule: row_attempt [OF R, of i n a])
  case 1
  with R show ?thesis
    by (simp add: mutateAttempt_def in_tx_def getAttemptTx_def sql c lockedMutateAttempt_eq simulates_def)
next
  case (2 w x)
  have u: "lockedMutateAttempt i n a f r = (ok, put_attempt i n a (f x) r)"
    using 2 by (simp add: lockedMutateAttempt_eq)
  have "kept (marshal_attempt S) (unmarshal_attempt S) (f x)"
    by (rule storable_kept(2) [OF st, of i n a]) (simp add: u)
  from run_writeAttempt [OF c _ _ _ _ this, of "\<lparr>se_db = d, se_pos = 2\<rparr>" r i n a] R 2 c f reg_invD(4) [OF inv 2(2)]
  show ?thesis
    by (auto simp: mutateAttempt_def in_tx_def getAttemptTx_def sql u simulates_def numeral_eq_Suc)
qed

lemma sim_handle:
  assumes c: "calm S" and R: "refines S d r" and inv: "reg_inv r"
    and st: "storable S (snd (PersistBackendHandle i n a h r))"
  shows "simulates S (SQLite_PersistBackendHandle S i n a h d) (PersistBackendHandle i n a h r)"
proof (cases rule: row_attempt [OF R, of i n a])
  case 1
  with R show ?thesis
    by (simp add: SQLite_PersistBackendHandle_def in_tx_def getAttemptTx_def sql c PersistBackendHandle_def
        lockedMutateAttempt_eq simulates_def)
next
  case (2 w x)
  obtain y where y: "node_at r i n = Some y" using reg_invD(5) [OF inv 2(2)] by blast
  then obtain v where v: "tbl_select node_key (i, n) (db_nodes d) = Some v" "unmarshal_node S (no_data v) = Inr y"
    by (cases rule: row_node [OF R, of i n]) auto
  have m: "map_of (reg_nodes r) i \<noteq> None"
    using node_maps_present(1) [OF reg_invD(1) [OF inv] y] by (simp add: domIff)
  let ?x = "x\<lparr>ar_BackendHandleJSON := h\<rparr>" and ?y = "y\<lparr>nr_CurrentAttemptHandleJSON := h\<rparr>"
  have u: "PersistBackendHandle i n a h r = (ok, if nr_CurrentAttemptID y = a
      then put_node i n ?y (put_attempt i n a ?x r) else put_attempt i n a ?x r)"
    using 2 y m by (auto simp: PersistBackendHandle_def lockedMutateAttempt_eq)
  have k: "kept (marshal_attempt S) (unmarshal_attempt S) ?x"
    by (rule storable_kept(2) [OF st, of i n a]) (simp add: u)
  have k': "nr_CurrentAttemptID y = a \<Longrightarrow> kept (marshal_node S) (unmarshal_node S) ?y"
    by (rule storable_kept(1) [OF st, of i n]) (simp add: u)
  obtain d1 where d1: "run_state (writeAttemptTx S ?x) \<lparr>se_db = d, se_pos = 2\<rparr> = (ok, \<lparr>se_db = d1, se_pos = 3\<rparr>)"
    "refines S d1 (put_attempt i n a ?x r)" "db_nodes d1 = db_nodes d"
    using run_writeAttempt [OF c _ _ _ _ k, of "\<lparr>se_db = d, se_pos = 2\<rparr>" r i n a] R reg_invD(4) [OF inv 2(2)] by auto
  show ?thesis
  proof (cases "nr_CurrentAttemptID y = a")
    case True
    from run_writeNode [OF c _ _ _ _ k' [OF True], of "\<lparr>se_db = d1, se_pos = 4\<rparr>" "put_attempt i n a ?x r" i n y]
    obtain d2 where "run_state (writeNodeTx S ?y) \<lparr>se_db = d1, se_pos = 4\<rparr> = (ok, \<lparr>se_db = d2, se_pos = 5\<rparr>)"
      "refines S d2 (put_node i n ?y (put_attempt i n a ?x r))"
      using d1(2) y reg_invD(3) [OF inv y] by auto
    with 2 d1 v c True show ?thesis
      by (simp add: SQLite_PersistBackendHandle_def in_tx_def getAttemptTx_def getNodeTx_def sql u simulates_def
          numeral_eq_Suc)
  next
    case False
    with 2 d1 v c show ?thesis
      by (simp add: SQLite_PersistBackendHandle_def in_tx_def getAttemptTx_def getNodeTx_def sql u simulates_def
          numeral_eq_Suc)
  qed
qed

lemma sim_open:
  assumes c: "calm S" and R: "refines S d r" and inv: "reg_inv r"
    and st: "storable S (snd (OpenSemanticAttempt i n a t r))"
  shows "simulates S (SQLite_OpenSemanticAttempt S i n a t d) (OpenSemanticAttempt i n a t r)"
proof (cases rule: row_node [OF R, of i n])
  case 1
  then show ?thesis
    using R by (cases rule: row_run [OF R, of i])
      (simp_all add: SQLite_OpenSemanticAttempt_def sql_defs sql c OpenSemanticAttempt_def lockedGetNode_eq
        node_err_run [OF inv] simulates_def)
next
  case node: (2 w y)
  show ?thesis
  proof (cases "nr_CurrentAttemptID y = a \<and> attempt_at r i n a \<noteq> None")
    case False
    then show ?thesis
      using R node by (cases rule: row_attempt [OF R, of i n a])
        (auto simp: SQLite_OpenSemanticAttempt_def in_tx_def getNodeTx_def getAttemptTx_def sql c
          OpenSemanticAttempt_def lockedGetNode_eq lockedMutateAttempt_eq simulates_def)
  next
    case True
    then obtain v x where x: "tbl_select attempt_key (i, n, a) (db_attempts d) = Some v"
      "attempt_at r i n a = Some x" "unmarshal_attempt S (at_data v) = Inr x"
      by (cases rule: row_attempt [OF R, of i n a]) auto
    let ?x = "x\<lparr>ar_SubmissionWindowOpenedAt := Some t\<rparr>" and ?y = "y\<lparr>nr_AttemptCount := nr_AttemptCount y + 1\<rparr>"
    have u: "OpenSemanticAttempt i n a t r = (ok, put_node i n ?y (put_attempt i n a ?x r))"
      using True node x by (simp add: OpenSemanticAttempt_def lockedGetNode_eq lockedMutateAttempt_eq)
    have k: "kept (marshal_attempt S) (unmarshal_attempt S) ?x"
      by (rule storable_kept(2) [OF st, of i n a]) (simp add: u)
    have k': "kept (marshal_node S) (unmarshal_node S) ?y"
      by (rule storable_kept(1) [OF st, of i n]) (simp add: u)
    obtain d1 where d1: "run_state (writeAttemptTx S ?x) \<lparr>se_db = d, se_pos = 3\<rparr> = (ok, \<lparr>se_db = d1, se_pos = 4\<rparr>)"
      "refines S d1 (put_attempt i n a ?x r)"
      using run_writeAttempt [OF c _ _ _ _ k, of "\<lparr>se_db = d, se_pos = 3\<rparr>" r i n a] R reg_invD(4) [OF inv x(2)] by auto
    obtain d2 where "run_state (writeNodeTx S ?y) \<lparr>se_db = d1, se_pos = 4\<rparr> = (ok, \<lparr>se_db = d2, se_pos = 5\<rparr>)"
      "refines S d2 (put_node i n ?y (put_attempt i n a ?x r))"
      using run_writeNode [OF c _ _ _ _ k', of "\<lparr>se_db = d1, se_pos = 4\<rparr>" "put_attempt i n a ?x r" i n y]
        d1(2) node(2) reg_invD(3) [OF inv node(2)] by auto
    with d1 node x c True show ?thesis
      by (simp add: SQLite_OpenSemanticAttempt_def in_tx_def getAttemptTx_def getNodeTx_def sql u simulates_def
          numeral_eq_Suc)
  qed
qed

text \<open>What \<^verbatim>\<open>AllocateCurrentAttempt\<close> reads before it decides.\<close>

lemma run_current:
  assumes c: "calm S" and R: "refines S d r"
  shows "\<exists>p. run_state (if nr_CurrentAttemptID y = '''' then sql_ret (Inr None)
      else getAttemptTx S i n (nr_CurrentAttemptID y)) \<lparr>se_db = d, se_pos = 2\<rparr> =
    (Inr (if nr_CurrentAttemptID y = '''' then None else attempt_at r i n (nr_CurrentAttemptID y)),
     \<lparr>se_db = d, se_pos = p\<rparr>)"
  by (cases rule: row_attempt [OF R, of i n "nr_CurrentAttemptID y"]) (simp_all add: getAttemptTx_def sql c)

lemma sim_allocate:
  assumes c: "calm S" and R: "refines S d r" and inv: "reg_inv r"
    and st: "storable S (snd (AllocateCurrentAttempt t i n r))"
  shows "simulates S (SQLite_AllocateCurrentAttempt S t i n d) (AllocateCurrentAttempt t i n r)"
proof (cases rule: row_node [OF R, of i n])
  case 1
  then show ?thesis
    using R by (cases rule: row_run [OF R, of i])
      (simp_all add: SQLite_AllocateCurrentAttempt_def sql_defs sql c AllocateCurrentAttempt_def lockedGetNode_eq
        node_err_run [OF inv] simulates_def)
next
  case (2 w y)
  let ?cur = "if nr_CurrentAttemptID y = '''' then None else attempt_at r i n (nr_CurrentAttemptID y)"
  let ?busy = "case ?cur of None \<Rightarrow> False | Some x \<Rightarrow> \<not> AttemptStatus_IsTerminal (ar_Status x)"
  obtain p where p: "run_state (if nr_CurrentAttemptID y = '''' then sql_ret (Inr None)
      else getAttemptTx S i n (nr_CurrentAttemptID y)) \<lparr>se_db = d, se_pos = 2\<rparr> = (Inr ?cur, \<lparr>se_db = d, se_pos = p\<rparr>)"
    using run_current [OF c R] by blast
  show ?thesis
  proof (cases ?busy)
    case True
    then have "AllocateCurrentAttempt t i n r = (Inl ErrAttemptNonTerminal, r)"
      using 2 by (auto simp: AllocateCurrentAttempt_def lockedGetNode_eq split: if_splits)
    with True 2 R c p show ?thesis
      by (simp add: SQLite_AllocateCurrentAttempt_def in_tx_def getNodeTx_def sql simulates_def numeral_eq_Suc)
  next
    case False
    let ?k = "nr_RealizationAttemptCount y + 1"
    let ?a = "DeterministicAttemptID i n ?k"
    let ?x = "zero_AttemptRecord\<lparr>ar_RunID := i, ar_NodeID := n, ar_AttemptID := ?a,
      ar_Status := AttemptStatusPrepared, ar_StartedAt := Some t\<rparr>"
    let ?y = "y\<lparr>nr_RealizationAttemptCount := ?k, nr_CurrentAttemptID := ?a, nr_Status := NodeStatusReady,
      nr_CurrentBottleneckLocation := ''release_wait'', nr_StartedAt := Some t\<rparr>"
    have u: "AllocateCurrentAttempt t i n r = (Inr ?x, put_node i n ?y (put_attempt i n ?a ?x r))"
      using False 2 attempt_maps_node [OF inv, of i n]
      by (auto simp: AllocateCurrentAttempt_def lockedGetNode_eq Let_def split: if_splits)
    have k: "kept (marshal_attempt S) (unmarshal_attempt S) ?x"
      by (rule storable_kept(2) [OF st, of i n ?a]) (simp add: u)
    have k': "kept (marshal_node S) (unmarshal_node S) ?y"
      by (rule storable_kept(1) [OF st, of i n]) (simp add: u)
    obtain d1 where d1: "run_state (writeAttemptTx S ?x) \<lparr>se_db = d, se_pos = p\<rparr> = (ok, \<lparr>se_db = d1, se_pos = Suc p\<rparr>)"
      "refines S d1 (put_attempt i n ?a ?x r)"
      using run_writeAttempt [OF c _ _ _ _ k, of "\<lparr>se_db = d, se_pos = p\<rparr>" r i n ?a] R by auto
    obtain d2 where "run_state (writeNodeTx S ?y) \<lparr>se_db = d1, se_pos = Suc p\<rparr> = (ok, \<lparr>se_db = d2, se_pos = Suc (Suc p)\<rparr>)"
      "refines S d2 (put_node i n ?y (put_attempt i n ?a ?x r))"
      using run_writeNode [OF c _ _ _ _ k', of "\<lparr>se_db = d1, se_pos = Suc p\<rparr>" "put_attempt i n ?a ?x r" i n y]
        d1(2) 2(2) reg_invD(3) [OF inv 2(2)] by auto
    with d1 2 c p False show ?thesis
      by (simp add: SQLite_AllocateCurrentAttempt_def in_tx_def getNodeTx_def sql u simulates_def Let_def numeral_eq_Suc)
  qed
qed

lemma refines_enter_run:
  assumes R: "refines S d r" and inv: "reg_inv r" and none: "run_at r (rr_RunID x) = None"
    and w: "ru_run_id w = rr_RunID x" "run_ok S w x"
  shows "refines S (d\<lparr>db_runs := db_runs d @ [w]\<rparr>) (enter_run x r)"
proof -
  let ?i = "rr_RunID x"
  have n: "node_at r ?i n = None" for n by (rule no_node_without_run [OF inv none])
  then have a: "attempt_at r ?i n a = None" for n a
    using reg_invD(5) [OF inv, of ?i n a] by (cases "attempt_at r ?i n a") auto
  have "map_of (reg_events r) ?i = None"
    using reg_wfD(6) [OF reg_invD(1) [OF inv]] none by (metis domIff)
  then have e: "events_of r ?i = []" by (simp add: events_of_def)
  have t: "tbl_select ru_run_id ?i (db_runs d) = None"
    using none by (cases rule: row_run [OF R, of ?i]) auto
  have views: "node_at (enter_run x r) = node_at r"
    "attempt_at (enter_run x r) = attempt_at r" "events_of (enter_run x r) = events_of r"
    using n a e by (auto simp: fun_eq_iff enter_run_views)
  show ?thesis
    using R w tbl_select_new [of ru_run_id w "db_runs d"] tbl_keys_new [of ru_run_id w "db_runs d"] t
    unfolding refines_def views by (simp add: enter_run_views del: tbl_select_append)
qed

lemma refines_create_node:
  assumes R: "refines S d r" and inv: "reg_inv r" and none: "node_at r i (nr_NodeID x) = None"
    and w: "node_key w = (i, nr_NodeID x)" "node_ok S w x"
  shows "refines S (d\<lparr>db_nodes := db_nodes d @ [w]\<rparr>) (create_node i x r)"
proof -
  have a: "attempt_at r i (nr_NodeID x) b = None" for b
    using none reg_invD(5) [OF inv, of i "nr_NodeID x" b] by (cases "attempt_at r i (nr_NodeID x) b") auto
  have views: "run_at (create_node i x r) = run_at r" "events_of (create_node i x r) = events_of r"
    "attempt_at (create_node i x r) = attempt_at r"
    using a by (auto simp: fun_eq_iff)
  have t: "tbl_select node_key (i, nr_NodeID x) (db_nodes d) = None"
    using none by (cases rule: row_node [OF R, of i "nr_NodeID x"]) auto
  show ?thesis
    using R w tbl_select_new [of node_key w "db_nodes d"] tbl_keys_new [of node_key w "db_nodes d"] t
    unfolding refines_def views by (simp del: tbl_select_append)
qed

lemma run_insert_nodes:
  assumes c: "calm S"
  shows "refines S d r \<Longrightarrow> reg_inv r \<Longrightarrow> run_at r i \<noteq> None \<Longrightarrow>
    list_all (\<lambda>x. nr_RunID x = i \<and> fresh_node x \<and> kept (marshal_node S) (unmarshal_node S) x) ns \<Longrightarrow>
    distinct (map nr_NodeID ns) \<Longrightarrow> (\<forall>x \<in> set ns. node_at r i (nr_NodeID x) = None) \<Longrightarrow>
    \<exists>d' p'. run_state (insert_nodes S ns) \<lparr>se_db = d, se_pos = p\<rparr> = (ok, \<lparr>se_db = d', se_pos = p'\<rparr>) \<and>
      refines S d' (create_nodes i ns r)"
proof (induction ns arbitrary: d r p)
  case (Cons x ns)
  obtain j where j: "marshal_node S x = Inr j" "unmarshal_node S j = Inr x"
    using Cons.prems(4) by (auto simp: kept_iff)
  have ids: "nr_RunID x = i" "fresh_node x" "node_at r i (nr_NodeID x) = None" using Cons.prems by auto
  have t: "tbl_select node_key (i, nr_NodeID x) (db_nodes d) = None"
    using ids(3) by (cases rule: row_node [OF Cons.prems(1), of i "nr_NodeID x"]) auto
  let ?w = "\<lparr>no_run_id = i, no_node_id = nr_NodeID x, no_status = NodeStatus_string (nr_Status x),
    no_attempt_count = nr_AttemptCount x, no_current_attempt_id = nr_CurrentAttemptID x, no_data = j\<rparr>"
  have R: "refines S (d\<lparr>db_nodes := db_nodes d @ [?w]\<rparr>) (create_node i x r)"
    by (rule refines_create_node [OF Cons.prems(1,2) ids(3)]) (simp_all add: node_key_def node_ok_def j)
  have I: "reg_inv (create_node i x r)"
    by (rule reg_inv_create_node [OF Cons.prems(2) _ ids(1,2)]) (use Cons.prems(3) in auto)
  have "\<exists>d' p'. run_state (insert_nodes S ns) \<lparr>se_db = d\<lparr>db_nodes := db_nodes d @ [?w]\<rparr>, se_pos = Suc p\<rparr> =
      (ok, \<lparr>se_db = d', se_pos = p'\<rparr>) \<and> refines S d' (create_nodes i ns (create_node i x r))"
    by (rule Cons.IH [OF R I]) (use Cons.prems in \<open>auto simp: image_iff\<close>)
  then show ?case using c j ids t by (simp add: sql insert_node_row_def)
qed simp

lemma create_nodes_other: "nr_NodeID x \<notin> set (map nr_NodeID ns) \<Longrightarrow>
    node_at (create_nodes i ns r) i (nr_NodeID x) = node_at r i (nr_NodeID x)"
  by (induction ns arbitrary: r) auto

lemma created_nodes:
  "distinct (map nr_NodeID ns) \<Longrightarrow> x \<in> set ns \<Longrightarrow> node_at (create_nodes i ns r) i (nr_NodeID x) = Some x"
  by (induction ns arbitrary: r) (auto simp: create_nodes_other)

text \<open>
  Creating a run: the clients enter the nodes of a validated graph, whose ids are distinct.
\<close>

lemma sim_create:
  assumes c: "calm S" and R: "refines S d r" and inv: "reg_inv r"
    and ns: "list_all (\<lambda>n. nr_RunID n = rr_RunID x \<and> fresh_node n) ns" "distinct (map nr_NodeID ns)"
    and st: "storable S (snd (CreateRun x ns r))"
  shows "simulates S (SQLite_CreateRun S x ns d) (CreateRun x ns r)"
proof (cases rule: row_run [OF R, of "rr_RunID x"])
  case 1
  have st': "storable S (create_nodes (rr_RunID x) ns (enter_run x r))" using st 1(2) by (simp add: CreateRun_eq)
  have "run_at (create_nodes (rr_RunID x) ns (enter_run x r)) (rr_RunID x) = Some x"
    by (simp add: run_at_def enter_run_def)
  then have k: "kept (marshal_run S) (unmarshal_run S) x" "list_all (kept (marshal_node S) (unmarshal_node S)) ns"
    using st' storable_kept(1) [OF st' created_nodes [OF ns(2)]] by (auto simp: storable_def list_all_iff)
  obtain j where j: "marshal_run S x = Inr j" "unmarshal_run S j = Inr x" using k(1) by (auto simp: kept_iff)
  let ?w = "\<lparr>ru_run_id = rr_RunID x, ru_status = RunStatus_string (rr_Status x),
    ru_accepted_at = timeText (rr_AcceptedAt x), ru_data = j\<rparr>"
  have R1: "refines S (d\<lparr>db_runs := db_runs d @ [?w]\<rparr>) (enter_run x r)"
    by (rule refines_enter_run [OF R inv 1(2)]) (simp_all add: run_ok_def j)
  obtain d' p' where "run_state (insert_nodes S ns) \<lparr>se_db = d\<lparr>db_runs := db_runs d @ [?w]\<rparr>, se_pos = 3\<rparr> =
      (ok, \<lparr>se_db = d', se_pos = p'\<rparr>)" "refines S d' (create_nodes (rr_RunID x) ns (enter_run x r))"
    using run_insert_nodes [OF c R1 reg_inv_enter_run [OF inv], of "rr_RunID x" ns 3] ns k(2)
    by (auto simp: enter_run_views list_all_iff)
  with 1 j c show ?thesis
    by (simp add: SQLite_CreateRun_def in_tx_def sql insert_run_row_def CreateRun_eq simulates_def numeral_eq_Suc)
next
  case (2 w y)
  with R c show ?thesis by (simp add: SQLite_CreateRun_def in_tx_def sql CreateRun_eq simulates_def)
qed

end
