(* ===== verification/Sqlite_Contract.thy ===== *)
theory Sqlite_Contract
  imports Sqlite_Refinement
begin

text \<open>
  What the clients of the durable registry rely on: the read methods, sequences of calls, calls
  whose statements the driver refuses, the order of \<^verbatim>\<open>ListRuns\<close>, and the contract \<open>attempt_store\<close>.
\<close>

subsection \<open>Reading\<close>

lemma insort_key_map:
  "\<forall>y \<in> insert x (set ys). f (g y) = h y \<Longrightarrow> insort_key f (g x) (map g ys) = map g (insort_key h x ys)"
  by (induction ys) auto

lemma sort_key_map: "\<forall>x \<in> set xs. f (g x) = h x \<Longrightarrow> sort_key f (map g xs) = map g (sort_key h xs)"
  by (induction xs) (simp_all add: insort_key_map)

text \<open>
  The rows of a query that is ordered by a key column decode to the records ordered by their key.
\<close>

lemma sorted_rows:
  assumes dec: "\<And>w. w \<in> set fs \<Longrightarrow> dec (data w) = Inr (g w) \<and> f (g w) = h w"
    and dist: "distinct (map h fs)" and same: "set (map g fs) = set ys" and dist': "distinct (map f ys)"
  shows "list_all2 (\<lambda>x y. dec x = Inr y) (map data (sort_key h fs)) (sort_key f ys)"
proof -
  have "map f (map g fs) = map h fs" using dec by simp
  then have d: "distinct (map f (map g fs))" using dist by metis
  then have "distinct (map g fs)" "distinct ys" using dist' distinct_map by blast+
  then have "mset (map g fs) = mset ys" using same set_eq_iff_mset_eq_distinct by blast
  from sort_key_unique [OF d this] have "sort_key f ys = map g (sort_key h fs)"
    using sort_key_map [of fs f g h] dec by simp
  moreover have "list_all2 (\<lambda>x y. dec (data x) = Inr (g y)) (sort_key h fs) (sort_key h fs)"
    using dec by (intro list.rel_refl_strong) simp
  ultimately show ?thesis by (simp add: list.rel_map)
qed

text \<open>The same for a table and the Go map that holds the same records.\<close>

lemma rows_agree:
  assumes m: "mwf m" and ids: "\<And>a x. map_of m a = Some x \<Longrightarrow> f x = a" and dist: "distinct (map h fs)"
    and rel: "\<And>a. rel_option (\<lambda>w x. dec (data w) = Inr x) (tbl_select h a fs) (map_of m a)"
  shows "list_all2 (\<lambda>x y. dec x = Inr y) (map data (sort_key h fs)) (sort_key f (map snd m))"
proof (rule sorted_rows [where g = "\<lambda>w. projr (dec (data w))"])
  have row: "\<exists>x. dec (data w) = Inr x \<and> map_of m (h w) = Some x" if "w \<in> set fs" for w
    using rel [of "h w"] that tbl_select_unique [OF dist, of "h w" w]
    by (cases "map_of m (h w)") auto
  show "dec (data w) = Inr (projr (dec (data w))) \<and> f (projr (dec (data w))) = h w" if "w \<in> set fs" for w
    using row [OF that] ids by auto
  show "distinct (map h fs)" by (rule dist)
  have "map f (map snd m) = map fst m" using m ids by (auto simp: mwf_def)
  then show "distinct (map f (map snd m))" using m unfolding mwf_def by metis
  have rows: "\<exists>w \<in> set fs. dec (data w) = Inr x" if "map_of m a = Some x" for a x
    using rel [of a] that tbl_select_in [of h a fs] by (cases "tbl_select h a fs") auto
  show "set (map (\<lambda>w. projr (dec (data w))) fs) = set (map snd m)"
  proof (intro subset_antisym subsetI)
    fix x assume "x \<in> set (map (\<lambda>w. projr (dec (data w))) fs)"
    then obtain w where "w \<in> set fs" "x = projr (dec (data w))" by auto
    then have "\<exists>k. map_of m k = Some x" using row [of w] by auto
    then show "x \<in> set (map snd m)" using mwf_values [OF m, of x] by blast
  next
    fix x assume "x \<in> set (map snd m)"
    then obtain a where "map_of m a = Some x" using mwf_values [OF m, of x] by auto
    from rows [OF this] obtain w where "w \<in> set fs" "dec (data w) = Inr x" by blast
    then show "x \<in> set (map (\<lambda>w. projr (dec (data w))) fs)" by force
  qed
qed

lemma tbl_select_filter:
  "(\<And>w. P w \<and> h w = a \<longleftrightarrow> k w = b) \<Longrightarrow> tbl_select h a (filter P t) = tbl_select k b t"
  unfolding tbl_select_def by (induction t) auto

lemma distinct_part:
  "distinct (map k t) \<Longrightarrow> (\<And>v w. P v \<Longrightarrow> P w \<Longrightarrow> h v = h w \<Longrightarrow> k v = k w) \<Longrightarrow>
     distinct (map h (filter P t))"
  unfolding distinct_map inj_on_def set_filter mem_Collect_eq by (intro conjI distinct_filter) blast+

lemma node_rows:
  assumes R: "refines S d r" and inv: "reg_inv r"
  shows "list_all2 (\<lambda>x y. unmarshal_node S x = Inr y)
    (map no_data (sort_key no_node_id (filter (\<lambda>w. no_run_id w = i) (db_nodes d))))
    (sort_key nr_NodeID (map snd (node_map r i)))"
proof (rule rows_agree)
  note wf = reg_invD(1) [OF inv]
  show "mwf (node_map r i)" by (rule reg_wfD(2) [OF wf])
  show "nr_NodeID x = a" if "map_of (node_map r i) a = Some x" for a x
    using reg_wfD(9) [OF wf, of i a x] that by (simp add: node_at_def)
  show "distinct (map no_node_id (filter (\<lambda>w. no_run_id w = i) (db_nodes d)))"
    by (rule distinct_part [OF refinesD(2) [OF R]]) (simp add: node_key_def)
  show "rel_option (\<lambda>w x. unmarshal_node S (no_data w) = Inr x)
      (tbl_select no_node_id a (filter (\<lambda>w. no_run_id w = i) (db_nodes d))) (map_of (node_map r i) a)" for a
    using refinesD(6) [OF R, of i a] tbl_select_filter [of "\<lambda>w. no_run_id w = i" no_node_id a node_key "(i, a)" "db_nodes d"]
    by (simp add: node_at_def node_ok_def [abs_def] node_key_def)
qed

lemma attempt_rows:
  assumes R: "refines S d r" and inv: "reg_inv r"
  shows "list_all2 (\<lambda>x y. unmarshal_attempt S x = Inr y)
    (map at_data (sort_key at_attempt_id (filter (\<lambda>w. at_run_id w = i \<and> at_node_id w = n) (db_attempts d))))
    (sort_key ar_AttemptID (map snd (attempt_map r i n)))"
proof (rule rows_agree)
  note wf = reg_invD(1) [OF inv]
  let ?P = "\<lambda>w. at_run_id w = i \<and> at_node_id w = n"
  show "mwf (attempt_map r i n)" by (rule reg_wfD(3) [OF wf])
  show "ar_AttemptID x = a" if "map_of (attempt_map r i n) a = Some x" for a x
    using reg_wfD(10) [OF wf, of i n a x] that by (simp add: attempt_at_def)
  show "distinct (map at_attempt_id (filter ?P (db_attempts d)))"
    by (rule distinct_part [OF refinesD(3) [OF R]]) (simp add: attempt_key_def)
  show "rel_option (\<lambda>w x. unmarshal_attempt S (at_data w) = Inr x)
      (tbl_select at_attempt_id a (filter ?P (db_attempts d))) (map_of (attempt_map r i n) a)" for a
    using refinesD(7) [OF R, of i n a] tbl_select_filter [of ?P at_attempt_id a attempt_key "(i, n, a)" "db_attempts d"]
    by (simp add: attempt_at_def attempt_ok_def [abs_def] attempt_key_def)
qed

lemma event_rows:
  assumes R: "refines S d r"
  shows "list_all2 (\<lambda>x y. unmarshal_event S x = Inr y)
    (map es_data (sort_key es_seq (filter (\<lambda>w. es_run_id w = i) (db_events d)))) (events_of r i)"
proof -
  have "sorted (map es_seq (db_events d))" by (rule strict_sorted_imp_sorted [OF refinesD(4) [OF R]])
  then have "sort_key es_seq (filter (\<lambda>w. es_run_id w = i) (db_events d)) = filter (\<lambda>w. es_run_id w = i) (db_events d)"
    by (intro sort_key_id_if_sorted sorted_filter)
  then show ?thesis using refinesD(8) [OF R, of i] by (simp add: list.rel_map event_ok_def [abs_def])
qed

lemma run_rows:
  assumes R: "refines S d r" and inv: "reg_inv r"
  shows "\<exists>xs. list_all2 (\<lambda>x y. unmarshal_run S x = Inr y)
      (map ru_data (sort_key (\<lambda>w. (ru_accepted_at w, ru_run_id w)) (db_runs d))) xs \<and>
    mset xs = mset (map snd (reg_runs r)) \<and> sorted (map (\<lambda>x. (timeText (rr_AcceptedAt x), rr_RunID x)) xs)"
proof -
  let ?k = "\<lambda>w. (ru_accepted_at w, ru_run_id w)"
  note wf = reg_invD(1) [OF inv]
  have m: "mwf (reg_runs r)" by (rule reg_wfD(1) [OF wf])
  have row: "\<exists>x. unmarshal_run S (ru_data w) = Inr x \<and> run_at r (ru_run_id w) = Some x \<and>
      ru_accepted_at w = timeText (rr_AcceptedAt x) \<and> rr_RunID x = ru_run_id w"
    if "w \<in> set (db_runs d)" for w
  proof -
    have "tbl_select ru_run_id (ru_run_id w) (db_runs d) = Some w"
      using that by (simp add: tbl_select_unique refinesD(1) [OF R])
    then show ?thesis
      using refinesD(5) [OF R, of "ru_run_id w"] reg_wfD(8) [OF wf, of "ru_run_id w"]
      by (cases "run_at r (ru_run_id w)") (auto simp: run_ok_def)
  qed
  obtain g where g: "\<And>w. w \<in> set (db_runs d) \<Longrightarrow> unmarshal_run S (ru_data w) = Inr (g w) \<and>
      run_at r (ru_run_id w) = Some (g w) \<and>
      timeText (rr_AcceptedAt (g w)) = ru_accepted_at w \<and> rr_RunID (g w) = ru_run_id w"
    using row by metis
  have dec: "list_all2 (\<lambda>x y. unmarshal_run S (ru_data x) = Inr (g y)) (sort_key ?k (db_runs d)) (sort_key ?k (db_runs d))"
    by (intro list.rel_refl_strong) (simp add: g)
  have "map rr_RunID (map g (db_runs d)) = map ru_run_id (db_runs d)" by (simp add: g)
  then have "distinct (map g (db_runs d))" using refinesD(1) [OF R] by (metis distinct_map)
  moreover have "map rr_RunID (map snd (reg_runs r)) = map fst (reg_runs r)"
    using m reg_wfD(8) [OF wf] by (auto simp: mwf_def run_at_def)
  then have "distinct (map snd (reg_runs r))" using m unfolding mwf_def by (metis distinct_map)
  moreover have "x \<in> g ` set (db_runs d) \<longleftrightarrow> (\<exists>i. run_at r i = Some x)" for x
  proof
    assume "x \<in> g ` set (db_runs d)" then show "\<exists>i. run_at r i = Some x" using g by blast
  next
    assume "\<exists>i. run_at r i = Some x"
    then obtain i where "run_at r i = Some x" by blast
    then obtain w where "tbl_select ru_run_id i (db_runs d) = Some w" "unmarshal_run S (ru_data w) = Inr x"
      by (cases rule: row_run [OF R, of i]) auto
    then show "x \<in> g ` set (db_runs d)" using tbl_select_in [of ru_run_id i "db_runs d" w] g [of w] by auto
  qed
  then have "set (map g (db_runs d)) = set (map snd (reg_runs r))"
    using mwf_values [OF m] by (auto simp: run_at_def set_eq_iff)
  ultimately have "mset (map g (db_runs d)) = mset (map snd (reg_runs r))"
    using set_eq_iff_mset_eq_distinct by blast
  moreover have "mset (map g (sort_key ?k (db_runs d))) = mset (map g (db_runs d))" by simp
  moreover have "map (\<lambda>x. (timeText (rr_AcceptedAt x), rr_RunID x)) (map g (sort_key ?k (db_runs d))) =
      map ?k (sort_key ?k (db_runs d))" by (simp add: g)
  then have "sorted (map (\<lambda>x. (timeText (rr_AcceptedAt x), rr_RunID x)) (map g (sort_key ?k (db_runs d))))"
    by (simp only: sorted_sort_key)
  ultimately show ?thesis using dec by (intro exI [of _ "map g (sort_key ?k (db_runs d))"]) (simp add: list.rel_map)
qed

lemma list_run_exists:
  assumes "reg_inv r"
  shows "map_of (reg_nodes r) i = None \<longleftrightarrow> run_at r i = None" "map_of (reg_attempts r) i = None \<longleftrightarrow> run_at r i = None"
    "map_of (reg_events r) i = None \<longleftrightarrow> run_at r i = None"
  using reg_wfD(4-6) [OF reg_invD(1) [OF assms]] by (metis domIff)+

text \<open>Every read returns what the in-memory registry returns.\<close>

definition reads_agree :: "'j sqlite \<Rightarrow> 'j database \<Rightarrow> registry \<Rightarrow> bool" where
  "reads_agree S d r \<longleftrightarrow>
     (\<forall>i. matches (fst (SQLite_GetRun S i d)) (fst (GetRun i r)) \<and>
          matches (fst (SQLite_ListNodes S i d)) (fst (ListNodes i r)) \<and>
          (\<forall>l. matches (fst (SQLite_ListEvents S i l d)) (fst (ListEvents i l r)))) \<and>
     (\<forall>i n. matches (fst (SQLite_GetNode S i n d)) (fst (GetNode i n r)) \<and>
            matches (fst (SQLite_ListAttempts S i n d)) (fst (ListAttempts i n r)) \<and>
            matches (fst (SQLite_GetCurrentAttempt S i n d)) (fst (GetCurrentAttempt i n r))) \<and>
     (\<exists>xs. fst (SQLite_ListRuns S d) = Inr xs \<and> mset xs = mset (map snd (reg_runs r)))"

lemma read_run:
  assumes "calm S" and R: "refines S d r"
  shows "matches (fst (SQLite_GetRun S i d)) (fst (GetRun i r))"
  using assms by (cases rule: row_run [OF R, of i]) (simp_all add: SQLite_GetRun_def no_tx_def sql GetRun_def)

lemma read_nodes:
  assumes c: "calm S" and R: "refines S d r" and inv: "reg_inv r"
  shows "matches (fst (SQLite_ListNodes S i d)) (fst (ListNodes i r))"
proof (cases "map_of (reg_nodes r) i")
  case None
  then have "run_at r i = None" by (simp add: list_run_exists [OF inv])
  with c None show ?thesis
    by (cases rule: row_run [OF R, of i]) (simp_all add: SQLite_ListNodes_def ListNodes_def no_tx_def assertRunExistsTx_def sql)
next
  case (Some m)
  then obtain w where "tbl_select ru_run_id i (db_runs d) = Some w"
    using list_run_exists(1) [OF inv, of i] by (cases rule: row_run [OF R, of i]) auto
  moreover have "node_map r i = m" by (simp add: node_map_def Some)
  ultimately show ?thesis
    using c Some node_rows [OF R inv, of i]
    by (simp add: SQLite_ListNodes_def ListNodes_def no_tx_def assertRunExistsTx_def sql)
qed

lemma read_events:
  assumes c: "calm S" and R: "refines S d r" and inv: "reg_inv r"
  shows "matches (fst (SQLite_ListEvents S i l d)) (fst (ListEvents i l r))"
proof (cases "map_of (reg_events r) i")
  case None
  then have "run_at r i = None" by (simp add: list_run_exists(3) [OF inv, symmetric])
  with c None show ?thesis
    by (cases rule: row_run [OF R, of i]) (simp_all add: SQLite_ListEvents_def ListEvents_def no_tx_def assertRunExistsTx_def sql)
next
  case (Some es)
  then obtain w where "tbl_select ru_run_id i (db_runs d) = Some w"
    using list_run_exists(3) [OF inv, of i] by (cases rule: row_run [OF R, of i]) auto
  moreover have "events_of r i = es" by (simp add: events_of_def Some)
  ultimately show ?thesis
    using c Some event_rows [OF R, of i]
    by (simp add: SQLite_ListEvents_def ListEvents_def no_tx_def assertRunExistsTx_def sql Let_def)
qed

lemma read_node:
  assumes c: "calm S" and R: "refines S d r" and inv: "reg_inv r"
  shows "matches (fst (SQLite_GetNode S i n d)) (fst (GetNode i n r))"
proof -
  have g: "GetNode i n r = (case node_at r i n of Some x \<Rightarrow> (Inr x, r) | None \<Rightarrow>
      (if run_at r i = None then Inl ErrRunNotFound else Inl (Errorf (''node not found: '' @ i @ ''/'' @ n)), r))"
    using list_run_exists(1) [OF inv, of i]
    by (auto simp: GetNode_def node_at_def node_map_def split: option.splits)
  have m: "missing (Errorf (''node not found: '' @ i @ ''/'' @ n))" unfolding missing_def by blast
  show ?thesis
  proof (cases rule: row_node [OF R, of i n])
    case 1
    then show ?thesis
      using c m by (cases rule: row_run [OF R, of i])
        (simp_all add: SQLite_GetNode_def no_tx_def getNodeTx_def assertRunExistsTx_def sql g)
  next
    case 2
    with c show ?thesis by (simp add: SQLite_GetNode_def no_tx_def getNodeTx_def sql g)
  qed
qed

lemma read_attempts:
  assumes c: "calm S" and R: "refines S d r" and inv: "reg_inv r"
  shows "matches (fst (SQLite_ListAttempts S i n d)) (fst (ListAttempts i n r))"
proof (cases rule: row_node [OF R, of i n])
  case 1
  then have "map_of (attempt_maps r i) n = None" by (simp add: attempt_maps_node [OF inv])
  with 1 c list_run_exists(2) [OF inv, of i] show ?thesis
    by (cases rule: row_run [OF R, of i])
      (auto simp: SQLite_ListAttempts_def ListAttempts_def no_tx_def assertRunExistsTx_def
        assertNodeExistsTx_def sql attempt_maps_def split: option.splits)
next
  case (2 w x)
  then obtain v where v: "tbl_select ru_run_id i (db_runs d) = Some v"
    using no_node_without_run [OF inv, of i n] by (cases rule: row_run [OF R, of i]) auto
  obtain m where "map_of (attempt_maps r i) n = Some m" using attempt_maps_node [OF inv, of i n] 2 by auto
  moreover from this have "attempt_map r i n = m" by (simp add: attempt_map_def)
  moreover from calculation obtain ms where "map_of (reg_attempts r) i = Some ms" "attempt_maps r i = ms"
    by (cases "map_of (reg_attempts r) i") (auto simp: attempt_maps_def)
  ultimately show ?thesis
    using c 2 v attempt_rows [OF R inv, of i n]
    by (simp add: SQLite_ListAttempts_def ListAttempts_def no_tx_def assertRunExistsTx_def
        assertNodeExistsTx_def sql)
qed

lemma read_current:
  assumes c: "calm S" and R: "refines S d r" and inv: "reg_inv r"
  shows "matches (fst (SQLite_GetCurrentAttempt S i n d)) (fst (GetCurrentAttempt i n r))"
proof (cases rule: row_node [OF R, of i n])
  case 1
  then show ?thesis
    using c by (cases rule: row_run [OF R, of i])
      (simp_all add: SQLite_GetCurrentAttempt_def sql_defs sql GetCurrentAttempt_def lockedGetNode_eq node_err_run [OF inv])
next
  case (2 w x)
  then show ?thesis
    using c by (cases rule: row_attempt [OF R, of i n "nr_CurrentAttemptID x"])
      (simp_all add: SQLite_GetCurrentAttempt_def sql_defs sql GetCurrentAttempt_def lockedGetNode_eq)
qed

lemma read_all:
  assumes c: "calm S" and R: "refines S d r" and inv: "reg_inv r" shows "reads_agree S d r"
proof -
  obtain xs where "list_all2 (\<lambda>x y. unmarshal_run S x = Inr y)
      (map ru_data (sort_key (\<lambda>w. (ru_accepted_at w, ru_run_id w)) (db_runs d))) xs"
    "mset xs = mset (map snd (reg_runs r))" using run_rows [OF R inv] by blast
  then have "\<exists>xs. fst (SQLite_ListRuns S d) = Inr xs \<and> mset xs = mset (map snd (reg_runs r))"
    using c by (auto simp: SQLite_ListRuns_def no_tx_def sql)
  then show ?thesis
    unfolding reads_agree_def
    using read_run [OF c R] read_nodes [OF assms] read_events [OF assms] read_node [OF assms]
      read_attempts [OF assms] read_current [OF assms] by blast
qed

subsection \<open>Sequences of calls\<close>

datatype reg_call =
    CallCreateRun RunRecord "NodeRecord list"
  | CallUpdateRun string "RunRecord \<Rightarrow> RunRecord result"
  | CallUpdateNode string string "NodeRecord \<Rightarrow> NodeRecord result"
  | CallUpsertAttempt AttemptRecord
  | CallAppendEvent EventRecord
  | CallAllocate time string string
  | CallOpen string string string time
  | CallFence string string string time
  | CallHandle string string string string
  | CallIntent string string string time string
  | CallCompleted string string string time

definition no_value :: "unit result \<times> 's \<Rightarrow> AttemptRecord option result \<times> 's" where
  "no_value p = (map_sum id (\<lambda>_. None) (fst p), snd p)"

fun mem_call :: "reg_call \<Rightarrow> registry \<Rightarrow> AttemptRecord option result \<times> registry" where
  "mem_call (CallCreateRun x ns) r = no_value (CreateRun x ns r)"
| "mem_call (CallUpdateRun i f) r = no_value (UpdateRun i f r)"
| "mem_call (CallUpdateNode i n f) r = no_value (UpdateNode i n f r)"
| "mem_call (CallUpsertAttempt a) r = no_value (UpsertAttempt a r)"
| "mem_call (CallAppendEvent e) r = no_value (AppendEvent e r)"
| "mem_call (CallAllocate t i n) r = (map_sum id Some (fst (AllocateCurrentAttempt t i n r)), snd (AllocateCurrentAttempt t i n r))"
| "mem_call (CallOpen i n a t) r = no_value (OpenSemanticAttempt i n a t r)"
| "mem_call (CallFence i n a t) r = no_value (PersistSubmissionFence i n a t r)"
| "mem_call (CallHandle i n a h) r = no_value (PersistBackendHandle i n a h r)"
| "mem_call (CallIntent i n a t why) r = no_value (PersistCancellationIntent i n a t why r)"
| "mem_call (CallCompleted i n a t) r = no_value (PersistProcessCompleted i n a t r)"

fun sql_call :: "'j sqlite \<Rightarrow> reg_call \<Rightarrow> 'j database \<Rightarrow> AttemptRecord option result \<times> 'j database" where
  "sql_call S (CallCreateRun x ns) d = no_value (SQLite_CreateRun S x ns d)"
| "sql_call S (CallUpdateRun i f) d = no_value (SQLite_UpdateRun S i f d)"
| "sql_call S (CallUpdateNode i n f) d = no_value (SQLite_UpdateNode S i n f d)"
| "sql_call S (CallUpsertAttempt a) d = no_value (SQLite_UpsertAttempt S a d)"
| "sql_call S (CallAppendEvent e) d = no_value (SQLite_AppendEvent S e d)"
| "sql_call S (CallAllocate t i n) d =
     (map_sum id Some (fst (SQLite_AllocateCurrentAttempt S t i n d)), snd (SQLite_AllocateCurrentAttempt S t i n d))"
| "sql_call S (CallOpen i n a t) d = no_value (SQLite_OpenSemanticAttempt S i n a t d)"
| "sql_call S (CallFence i n a t) d = no_value (SQLite_PersistSubmissionFence S i n a t d)"
| "sql_call S (CallHandle i n a h) d = no_value (SQLite_PersistBackendHandle S i n a h d)"
| "sql_call S (CallIntent i n a t why) d = no_value (SQLite_PersistCancellationIntent S i n a t why d)"
| "sql_call S (CallCompleted i n a t) d = no_value (SQLite_PersistProcessCompleted S i n a t d)"

text \<open>The calls the clients make: the conditions under which a call is a step of the registry.\<close>

fun client_call :: "reg_call \<Rightarrow> registry \<Rightarrow> bool" where
  "client_call (CallCreateRun x ns) r \<longleftrightarrow>
     list_all (\<lambda>n. nr_RunID n = rr_RunID x \<and> fresh_node n) ns \<and> distinct (map nr_NodeID ns)"
| "client_call (CallUpdateRun i f) r \<longleftrightarrow> keeps_run_id f"
| "client_call (CallUpdateNode i n f) r \<longleftrightarrow> keeps_identity f"
| "client_call (CallUpsertAttempt a) r \<longleftrightarrow> attempt_at r (ar_RunID a) (ar_NodeID a) (ar_AttemptID a) \<noteq> None"
| "client_call _ r \<longleftrightarrow> True"

lemma client_step: "client_call c r \<Longrightarrow> reg_step r (snd (mem_call c r))"
  by (cases c) (auto simp: no_value_def intro: reg_step.intros)

lemma no_value_snd [simp]: "snd (no_value p) = snd p"
  by (simp add: no_value_def)

lemma simulates_no_value: "simulates S p q \<Longrightarrow> simulates S (no_value p) (no_value q)"
  by (cases "fst p"; cases "fst q") (simp_all add: simulates_def no_value_def)

lemma simulates_some:
  "simulates S p q \<Longrightarrow> simulates S (map_sum id Some (fst p), snd p) (map_sum id Some (fst q), snd q)"
  by (cases "fst p"; cases "fst q") (simp_all add: simulates_def)

lemma sim_call:
  assumes c: "calm S" and R: "refines S d r" and inv: "reg_inv r" and k: "client_call k r"
    and st: "storable S (snd (mem_call k r))"
  shows "simulates S (sql_call S k d) (mem_call k r)"
  using k st
  by (cases k)
    (simp_all add: simulates_no_value simulates_some sim_create [OF c R inv] sim_update_run [OF c R]
      sim_update_node [OF c R inv] sim_upsert [OF c R inv] sim_append_event [OF c R] sim_allocate [OF c R inv]
      sim_open [OF c R inv] sim_handle [OF c R inv] sim_mutate [OF c R inv] SQLite_PersistSubmissionFence_def
      PersistSubmissionFence_def SQLite_PersistCancellationIntent_def PersistCancellationIntent_def
      SQLite_PersistProcessCompleted_def PersistProcessCompleted_def)

fun calls :: "(reg_call \<Rightarrow> 's \<Rightarrow> 'v \<times> 's) \<Rightarrow> reg_call list \<Rightarrow> 's \<Rightarrow> 'v list \<times> 's" where
  "calls step [] s = ([], s)"
| "calls step (k # ks) s =
     (let (v, s) = step k s; (vs, s) = calls step ks s in (v # vs, s))"

fun client_calls :: "'j sqlite \<Rightarrow> reg_call list \<Rightarrow> registry \<Rightarrow> bool" where
  "client_calls S [] r \<longleftrightarrow> True"
| "client_calls S (k # ks) r \<longleftrightarrow>
     client_call k r \<and> storable S (snd (mem_call k r)) \<and> client_calls S ks (snd (mem_call k r))"

lemma sim_calls:
  assumes c: "calm S"
  shows "refines S d r \<Longrightarrow> reg_inv r \<Longrightarrow> client_calls S ks r \<Longrightarrow>
    list_all2 matches (fst (calls (sql_call S) ks d)) (fst (calls mem_call ks r)) \<and>
    refines S (snd (calls (sql_call S) ks d)) (snd (calls mem_call ks r)) \<and>
    reg_inv (snd (calls mem_call ks r))"
proof (induction ks arbitrary: d r)
  case (Cons k ks)
  obtain v d' where v: "sql_call S k d = (v, d')" by (cases "sql_call S k d")
  obtain v' r' where v': "mem_call k r = (v', r')" by (cases "mem_call k r")
  have p: "client_call k r" "storable S r'" "client_calls S ks r'" using Cons.prems(3) v' by simp_all
  have "simulates S (v, d') (v', r')" using sim_call [OF c Cons.prems(1,2) p(1)] p(2) by (simp add: v v')
  then have m: "matches v v'" "refines S d' r'" by (simp_all add: simulates_def)
  have "reg_inv r'" using reg_inv_step [OF client_step [OF p(1)] Cons.prems(2)] by (simp add: v')
  from Cons.IH [OF m(2) this p(3)] m(1) show ?case by (simp add: v v' case_prod_beta)
qed simp

lemma refines_empty: "refines S sqliteMigrate NewMemoryRegistry"
  by (simp add: refines_def sqliteMigrate_def NewMemoryRegistry_def run_at_def node_at_def node_map_def
      attempt_at_def attempt_map_def attempt_maps_def events_of_def)


text \<open>A codec that keeps every record: the document is the record.\<close>

datatype document = DocRun RunRecord | DocNode NodeRecord | DocAttempt AttemptRecord | DocEvent EventRecord

definition demo_sqlite :: "document sqlite" where
  "demo_sqlite = \<lparr>sq_fault = (\<lambda>_. None), sq_unique = (\<lambda>t. Errorf (''UNIQUE constraint failed: '' @ t)),
     marshal_run = (\<lambda>x. Inr (DocRun x)),
     unmarshal_run = (\<lambda>j. case j of DocRun x \<Rightarrow> Inr x | _ \<Rightarrow> Inl (Errorf ''json'')),
     marshal_node = (\<lambda>x. Inr (DocNode x)),
     unmarshal_node = (\<lambda>j. case j of DocNode x \<Rightarrow> Inr x | _ \<Rightarrow> Inl (Errorf ''json'')),
     marshal_attempt = (\<lambda>x. Inr (DocAttempt x)),
     unmarshal_attempt = (\<lambda>j. case j of DocAttempt x \<Rightarrow> Inr x | _ \<Rightarrow> Inl (Errorf ''json'')),
     marshal_event = (\<lambda>x. Inr (DocEvent x)),
     unmarshal_event = (\<lambda>j. case j of DocEvent x \<Rightarrow> Inr x | _ \<Rightarrow> Inl (Errorf ''json''))\<rparr>"

lemma calm_demo: "calm demo_sqlite"
  by (simp add: calm_def demo_sqlite_def)

lemma storable_demo: "storable demo_sqlite r"
  by (simp add: storable_def kept_def demo_sqlite_def)

lemma demo_codec:
  "marshal_run demo_sqlite x = Inr (DocRun x)" "unmarshal_run demo_sqlite (DocRun x) = Inr x"
  by (simp_all add: demo_sqlite_def)

definition demo_calls :: "reg_call list" where
  "demo_calls = [CallCreateRun (zero_RunRecord\<lparr>rr_RunID := ''r''\<rparr>)
       [zero_NodeRecord\<lparr>nr_RunID := ''r'', nr_NodeID := ''a''\<rparr>],
     CallAllocate 5 ''r'' ''a'', CallOpen ''r'' ''a'' ''r-a-attempt-1'' 7]"


subsection \<open>Refused statements\<close>

text \<open>
  \<open>or_fails m m'\<close>: on every state \<open>m\<close> does what \<open>m'\<close> does, or returns an error.  A program whose
  statements may be refused is related to the one where none is.
\<close>

definition or_fails :: "('j, 'a) sql \<Rightarrow> ('j, 'a) sql \<Rightarrow> bool" where
  "or_fails m m' \<longleftrightarrow> (\<forall>s. run_state m s = run_state m' s \<or> (\<exists>e t. run_state m s = (Inl e, t)))"

lemma or_failsE:
  assumes "or_fails m m'"
  obtains "run_state m s = run_state m' s" | e t where "run_state m s = (Inl e, t)"
  using assms unfolding or_fails_def by blast

lemma or_fails_refl [intro]: "or_fails m m"
  by (simp add: or_fails_def)

lemma or_fails_bind [intro]:
  assumes m: "or_fails m m'" and f: "\<And>x. or_fails (f x) (f' x)"
  shows "or_fails (sql_bind m f) (sql_bind m' f')"
  unfolding or_fails_def
proof
  fix s
  show "run_state (sql_bind m f) s = run_state (sql_bind m' f') s \<or> (\<exists>e t. run_state (sql_bind m f) s = (Inl e, t))"
  proof (cases rule: or_failsE [OF m, of s])
    case 1
    show ?thesis
    proof (cases "run_state m' s")
      case (Pair v t)
      then show ?thesis
        using 1 f [unfolded or_fails_def] by (cases v) (auto simp: run_sql_bind)
    qed
  next
    case 2
    then show ?thesis by (simp add: run_sql_bind)
  qed
qed

definition unfailing :: "'j sqlite \<Rightarrow> 'j sqlite" where
  "unfailing S = S\<lparr>sq_fault := (\<lambda>_. None)\<rparr>"

lemma calm_unfailing: "calm (unfailing S)"
  by (simp add: calm_def unfailing_def)

lemma unfailing_codec [simp]:
  "sq_unique (unfailing S) = sq_unique S"
  "marshal_run (unfailing S) = marshal_run S" "unmarshal_run (unfailing S) = unmarshal_run S"
  "marshal_node (unfailing S) = marshal_node S" "unmarshal_node (unfailing S) = unmarshal_node S"
  "marshal_attempt (unfailing S) = marshal_attempt S" "unmarshal_attempt (unfailing S) = unmarshal_attempt S"
  "marshal_event (unfailing S) = marshal_event S" "unmarshal_event (unfailing S) = unmarshal_event S"
  by (simp_all add: unfailing_def)

lemma refines_unfailing [simp]: "refines (unfailing S) = refines S" "storable (unfailing S) = storable S"
  by (simp_all add: fun_eq_iff refines_def storable_def run_ok_def [abs_def] node_ok_def [abs_def]
      attempt_ok_def [abs_def] event_ok_def [abs_def])

lemma or_fails_stmt [intro]: "or_fails (sql_stmt S q) (sql_stmt (unfailing S) q)"
  by (auto simp: or_fails_def sql_stmt_def unfailing_def split: option.splits)

lemma or_fails_query [intro]: "or_fails (sql_query S q) (sql_query (unfailing S) q)"
  unfolding sql_query_def by (rule or_fails_stmt)

lemma or_fails_exec [intro]: "or_fails (sql_exec S q) (sql_exec (unfailing S) q)"
  unfolding sql_exec_def by (rule or_fails_stmt)

lemma or_fails_option [intro]:
  "or_fails m m' \<Longrightarrow> (\<And>y. or_fails (f y) (f' y)) \<Longrightarrow>
     or_fails (case x of None \<Rightarrow> m | Some y \<Rightarrow> f y) (case x of None \<Rightarrow> m' | Some y \<Rightarrow> f' y)"
  by (cases x) simp_all

lemma or_fails_if [intro]:
  "or_fails m m' \<Longrightarrow> or_fails n n' \<Longrightarrow> or_fails (if b then m else n) (if b then m' else n')"
  by simp

lemma or_fails_helpers [intro]:
  "or_fails (assertRunExistsTx S i) (assertRunExistsTx (unfailing S) i)"
  "or_fails (assertNodeExistsTx S i n) (assertNodeExistsTx (unfailing S) i n)"
  "or_fails (writeNodeTx S x) (writeNodeTx (unfailing S) x)"
  "or_fails (writeAttemptTx S y) (writeAttemptTx (unfailing S) y)"
  "or_fails (getAttemptTx S i n a) (getAttemptTx (unfailing S) i n a)"
  unfolding assertRunExistsTx_def assertNodeExistsTx_def writeNodeTx_def writeAttemptTx_def getAttemptTx_def
    unfailing_codec by (intro or_fails_bind or_fails_query or_fails_exec or_fails_option or_fails_refl)+

lemma or_fails_getNode [intro]: "or_fails (getNodeTx S i n) (getNodeTx (unfailing S) i n)"
  unfolding getNodeTx_def unfailing_codec
  by (intro or_fails_bind or_fails_query or_fails_option or_fails_helpers or_fails_refl)

lemma or_fails_insert [intro]: "or_fails (insert_nodes S ns) (insert_nodes (unfailing S) ns)"
proof (induction ns)
  case (Cons n ns)
  have "insert_node_row (unfailing S) = insert_node_row S" by (simp add: fun_eq_iff insert_node_row_def)
  then show ?case unfolding insert_nodes.simps unfailing_codec
    using Cons by (auto intro!: or_fails_bind)
qed auto

lemma or_fails_tx:
  assumes "or_fails m m'"
  shows "in_tx S m d = in_tx (unfailing S) m' d \<or> (\<exists>e. in_tx S m d = (Inl e, d))"
proof -
  let ?p = "\<lambda>S m. sql_bind (sql_query S (\<lambda>_. ())) (\<lambda>_. sql_bind m (\<lambda>v.
             sql_bind (sql_query S (\<lambda>_. ())) (\<lambda>_. sql_ret (Inr v))))"
  have "or_fails (?p S m) (?p (unfailing S) m')"
    using assms by (intro or_fails_bind or_fails_query or_fails_refl)
  then show ?thesis
    unfolding in_tx_def by (cases rule: or_failsE [where s = "\<lparr>se_db = d, se_pos = 0\<rparr>"]) auto
qed

lemma tx_refused:
  assumes "or_fails m m'"
  shows "no_value (in_tx S m d) = no_value (in_tx (unfailing S) m' d) \<or> (\<exists>e. no_value (in_tx S m d) = (Inl e, d))"
  using or_fails_tx [OF assms, of S d] by (auto simp: no_value_def)

lemmas or_fails_intros = or_fails_bind or_fails_query or_fails_stmt or_fails_exec or_fails_option or_fails_if
  or_fails_helpers or_fails_getNode or_fails_insert or_fails_refl

lemma call_refused:
  "sql_call S k d = sql_call (unfailing S) k d \<or> (\<exists>e. sql_call S k d = (Inl e, d))"
proof (cases k)
  case (CallCreateRun x ns)
  have "insert_run_row (unfailing S) = insert_run_row S" by (simp add: fun_eq_iff insert_run_row_def)
  then show ?thesis unfolding CallCreateRun sql_call.simps SQLite_CreateRun_def unfailing_codec
    by (intro tx_refused or_fails_intros) (simp add: or_fails_intros)
next
  case (CallAllocate t i n)
  have al: "in_tx S m d = in_tx (unfailing S) m' d \<or> (\<exists>e. in_tx S m d = (Inl e, d)) \<Longrightarrow>
    (map_sum id Some (fst (in_tx S m d)), snd (in_tx S m d)) =
      (map_sum id Some (fst (in_tx (unfailing S) m' d)), snd (in_tx (unfailing S) m' d)) \<or>
    (\<exists>e. (map_sum id Some (fst (in_tx S m d)), snd (in_tx S m d)) = (Inl e, d))" for m m' :: "('a, AttemptRecord) sql"
    by auto
  show ?thesis unfolding CallAllocate sql_call.simps SQLite_AllocateCurrentAttempt_def Let_def
    by (rule al, rule or_fails_tx) (intro or_fails_intros)
qed (simp_all only: sql_call.simps SQLite_UpdateRun_def SQLite_UpdateNode_def SQLite_UpsertAttempt_def
        SQLite_AppendEvent_def SQLite_OpenSemanticAttempt_def mutateAttempt_def unfailing_codec
        SQLite_PersistSubmissionFence_def SQLite_PersistBackendHandle_def SQLite_PersistCancellationIntent_def
        SQLite_PersistProcessCompleted_def tx_refused or_fails_intros)

text \<open>
  C25: the durable registry stays consistent under failures.  Whatever statements the driver
  refuses during a call, on a database that holds the records of a reachable registry the call
  either does exactly what the in-memory registry does, or returns an error and leaves every table
  as it was; in both cases the database again holds the records of a reachable registry.
\<close>

theorem SQLite_consistent_under_failures:
  assumes "reachable r" and "refines S d r" and "client_call k r" and "storable S (snd (mem_call k r))"
    and "sql_call S k d = (v, d')"
  shows "((\<exists>e. v = Inl e \<and> d' = d) \<or> matches v (fst (mem_call k r)) \<and> refines S d' (snd (mem_call k r))) \<and>
    (\<exists>r'. reachable r' \<and> refines S d' r')"
proof -
  have "simulates (unfailing S) (sql_call (unfailing S) k d) (mem_call k r)"
    by (rule sim_call [OF calm_unfailing _ reachable_inv [OF assms(1)] assms(3)]) (simp_all add: assms)
  then have "(\<exists>e. v = Inl e \<and> d' = d) \<or> matches v (fst (mem_call k r)) \<and> refines S d' (snd (mem_call k r))"
    using call_refused [of S k d] unfolding assms(5) simulates_def refines_unfailing by (metis fst_conv snd_conv)
  then show ?thesis
    using assms(1,2) reachable.step [OF assms(1) client_step [OF assms(3)]] by blast
qed

theorem SQLite_consistent_under_failures_witness:
  "\<exists>r'. reachable r' \<and> refines demo_sqlite
     (snd (sql_call (demo_sqlite\<lparr>sq_fault := (\<lambda>p. if p = 3 then Some ContextCanceled else None)\<rparr>)
       (CallCreateRun (zero_RunRecord\<lparr>rr_RunID := ''r''\<rparr>)
          [zero_NodeRecord\<lparr>nr_RunID := ''r'', nr_NodeID := ''a''\<rparr>]) sqliteMigrate)) r'"
proof -
  let ?S = "demo_sqlite\<lparr>sq_fault := (\<lambda>p. if p = 3 then Some ContextCanceled else None)\<rparr>"
  let ?k = "CallCreateRun (zero_RunRecord\<lparr>rr_RunID := ''r''\<rparr>)
        [zero_NodeRecord\<lparr>nr_RunID := ''r'', nr_NodeID := ''a''\<rparr>]"
  have "unfailing ?S = demo_sqlite" by (simp add: unfailing_def demo_sqlite_def)
  then have S: "refines demo_sqlite = refines ?S" "storable demo_sqlite = storable ?S"
    using refines_unfailing [of ?S] by simp_all
  have k: "client_call ?k NewMemoryRegistry" by (simp add: fresh_node_def zero_defs)
  have st: "storable ?S (snd (mem_call ?k NewMemoryRegistry))"
    unfolding S(2) [symmetric] by (rule storable_demo)
  obtain v d' where c: "sql_call ?S ?k sqliteMigrate = (v, d')" by fastforce
  from SQLite_consistent_under_failures [OF reachable.new refines_empty k st c]
  show ?thesis unfolding S(1) c snd_conv by (rule conjunct2)
qed

text \<open>Two times half a second apart, as text.\<close>

lemma digit_samples:
  "nat_digits 0 = ''0''" "nat_digits (Suc 0) = ''1''" "nat_digits 500000000 = ''500000000''"
  by (simp_all add: nat_digits_small nat_digits_large char_of_def bit_0)

lemma pad_samples: "pad_digits 4 1 = ''0001''" "pad_digits 2 1 = ''01''" "pad_digits 2 0 = ''00''"
  by (simp_all add: pad_digits_def digit_samples numeral_nat)

lemma fraction_samples: "fraction_text 500000000 = ''.5''" "fraction_text 0 = ''''"
proof -
  have "pad_digits 9 500000000 = ''500000000''"
    unfolding pad_digits_def Let_def by (simp add: digit_samples)
  then show "fraction_text 500000000 = ''.5''" by (simp add: fraction_text_def)
qed (simp add: fraction_text_def)

lemma time_samples: "timeText 0 = ''0001-01-01T00:00:00Z''" "timeText 500000000 = ''0001-01-01T00:00:00.5Z''"
proof -
  have "civil 0 = (1, 1, 1)" by code_simp
  then show "timeText 0 = ''0001-01-01T00:00:00Z''" "timeText 500000000 = ''0001-01-01T00:00:00.5Z''"
    by (simp_all add: timeText_def pad_samples fraction_samples)
qed

text \<open>
  The order of \<^verbatim>\<open>ListRuns\<close> is the order of the text of the acceptance time, and that is not the
  order of time: a run accepted on the full second is listed after one accepted half a second
  later, while the in-memory registry lists the oldest run first.
\<close>

theorem SQLite_ListRuns_not_chronological:
  "\<exists>x y. rr_AcceptedAt x < rr_AcceptedAt y \<and>
     fst (SQLite_ListRuns demo_sqlite (snd (calls (sql_call demo_sqlite)
       [CallCreateRun x [], CallCreateRun y []] sqliteMigrate))) = Inr [y, x] \<and>
     fst (ListRuns (\<lambda>xs. xs) (snd (calls mem_call
       [CallCreateRun x [], CallCreateRun y []] NewMemoryRegistry))) = Inr [x, y]"
proof (intro exI conjI)
  let ?x = "zero_RunRecord\<lparr>rr_RunID := ''x''\<rparr>"
  let ?y = "zero_RunRecord\<lparr>rr_RunID := ''y'', rr_AcceptedAt := 500000000\<rparr>"
  have t: "rr_AcceptedAt zero_RunRecord = 0" by (simp add: zero_defs)
  show "rr_AcceptedAt ?x < rr_AcceptedAt ?y" by (simp add: t)
  show "fst (SQLite_ListRuns demo_sqlite (snd (calls (sql_call demo_sqlite)
       [CallCreateRun ?x [], CallCreateRun ?y []] sqliteMigrate))) = Inr [?y, ?x]"
    by (simp add: no_value_def SQLite_CreateRun_def in_tx_def no_tx_def sql calm_demo insert_run_row_def
        SQLite_ListRuns_def sqliteMigrate_def demo_codec t time_samples tbl_select_def)
  show "fst (ListRuns (\<lambda>xs. xs) (snd (calls mem_call
       [CallCreateRun ?x [], CallCreateRun ?y []] NewMemoryRegistry))) = Inr [?x, ?y]"
    by (simp add: no_value_def CreateRun_eq enter_run_def NewMemoryRegistry_def run_at_def ListRuns_def t)
qed

subsection \<open>The contract of a registry, again\<close>

text \<open>
  The durable registry keeps the contract \<open>attempt_store\<close> too: its laws follow from those of the
  in-memory registry through the simulation.
\<close>

definition sq_node :: "'j sqlite \<Rightarrow> 'j database \<Rightarrow> string \<Rightarrow> string \<Rightarrow> NodeRecord option" where
  "sq_node S d i n = (case tbl_select node_key (i, n) (db_nodes d) of
     None \<Rightarrow> None | Some w \<Rightarrow> (case unmarshal_node S (no_data w) of Inl e \<Rightarrow> None | Inr x \<Rightarrow> Some x))"

definition sq_attempt :: "'j sqlite \<Rightarrow> 'j database \<Rightarrow> string \<Rightarrow> string \<Rightarrow> string \<Rightarrow> AttemptRecord option" where
  "sq_attempt S d i n a = (case tbl_select attempt_key (i, n, a) (db_attempts d) of
     None \<Rightarrow> None | Some w \<Rightarrow> (case unmarshal_attempt S (at_data w) of Inl e \<Rightarrow> None | Inr x \<Rightarrow> Some x))"

definition sq_inv :: "'j sqlite \<Rightarrow> 'j database \<Rightarrow> bool" where
  "sq_inv S d \<longleftrightarrow> (\<exists>r. reg_inv r \<and> refines S d r)"

lemma sq_views:
  assumes R: "refines S d r" shows "sq_node S d = node_at r" "sq_attempt S d = attempt_at r"
proof -
  have "sq_node S d i n = node_at r i n" for i n
    by (cases rule: row_node [OF R, of i n]) (simp_all add: sq_node_def)
  moreover have "sq_attempt S d i n a = attempt_at r i n a" for i n a
    by (cases rule: row_attempt [OF R, of i n a]) (simp_all add: sq_attempt_def)
  ultimately show "sq_node S d = node_at r" "sq_attempt S d = attempt_at r" by (simp_all add: fun_eq_iff)
qed

locale json_registry =
  fixes S :: "'j sqlite"
  assumes never_refused: "calm S" and json_keeps: "storable S r"
begin

lemma allocate_sim:
  assumes "reg_inv r" and "refines S d r"
  shows "simulates S (SQLite_AllocateCurrentAttempt S t i n d) (AllocateCurrentAttempt t i n r)"
  by (rule sim_allocate [OF never_refused assms(2,1) json_keeps])

lemma open_sim:
  assumes "reg_inv r" and "refines S d r"
  shows "simulates S (SQLite_OpenSemanticAttempt S i n a t d) (OpenSemanticAttempt i n a t r)"
  by (rule sim_open [OF never_refused assms(2,1) json_keeps])

lemma upsert_sim:
  assumes "reg_inv r" and "refines S d r"
  shows "simulates S (SQLite_UpsertAttempt S z d) (UpsertAttempt z r)"
  by (rule sim_upsert [OF never_refused assms(2,1) json_keeps])

lemma sim_ok:
  assumes "simulates S p q" and "q = (Inr v, r')"
  shows "\<exists>d'. p = (Inr v, d') \<and> refines S d' r'"
  using assms by (cases p; cases "fst p") (auto simp: simulates_def)

lemma inv_kept:
  assumes "simulates S p q" and "reg_inv (snd q)" shows "sq_inv S (snd p)"
  using assms by (auto simp: simulates_def sq_inv_def)

lemma allocate_error:
  assumes "simulates S (SQLite_AllocateCurrentAttempt S t i n d) (Inl ErrAttemptNonTerminal, r)"
  shows "SQLite_AllocateCurrentAttempt S t i n d = (Inl ErrAttemptNonTerminal, d)"
proof -
  obtain v d' where v: "SQLite_AllocateCurrentAttempt S t i n d = (v, d')" by fastforce
  then have "v = Inl ErrAttemptNonTerminal" using assms
    by (cases v) (auto simp: simulates_def missing_def)
  with v show ?thesis using in_tx_atomic unfolding SQLite_AllocateCurrentAttempt_def by blast
qed

end

sublocale json_registry \<subseteq> sq: attempt_store "sq_inv S" "sq_node S" "sq_attempt S"
  "SQLite_AllocateCurrentAttempt S" "SQLite_OpenSemanticAttempt S" "SQLite_GetCurrentAttempt S"
  "SQLite_UpsertAttempt S"
proof (unfold_locales, goal_cases)
  case (1 s i n x)
  then show ?case unfolding sq_inv_def using mem.current_exists by (metis sq_views)
next
  case (2 s now i n)
  then show ?case unfolding sq_inv_def [of S s] using inv_kept [OF allocate_sim] mem.allocate_inv by blast
next
  case (3 s i n x now)
  then obtain r where r: "reg_inv r" "refines S s r" by (auto simp: sq_inv_def)
  then have "AllocateCurrentAttempt now i n r = (Inl ErrAttemptNonTerminal, r)"
    using 3(2,3) mem.allocate_blocked by (simp add: sq_views [OF r(2)])
  then show ?case using allocate_error allocate_sim [OF r] by metis
next
  case (4 s i n x now)
  then obtain r where r: "reg_inv r" "refines S s r" by (auto simp: sq_inv_def)
  with 4(2,3) obtain a r' where a: "AllocateCurrentAttempt now i n r = (Inr a, r')"
    "ar_RunID a = i" "ar_NodeID a = n"
    "ar_AttemptID a = DeterministicAttemptID i n (nr_RealizationAttemptCount x + 1)"
    "ar_Status a = AttemptStatusPrepared" "ar_SubmissionWindowOpenedAt a = None"
    "attempt_at r' i n (ar_AttemptID a) = Some a"
    "\<exists>x'. node_at r' i n = Some x' \<and> nr_CurrentAttemptID x' = ar_AttemptID a \<and>
       nr_RealizationAttemptCount x' = nr_RealizationAttemptCount x + 1 \<and> nr_AttemptCount x' = nr_AttemptCount x"
    using mem.allocate_ok [OF r(1), of i n x now] by (auto simp: sq_views [OF r(2)])
  obtain d' where d': "SQLite_AllocateCurrentAttempt S now i n s = (Inr a, d')" "refines S d' r'"
    using sim_ok [OF allocate_sim [OF r] a(1)] by blast
  show ?case using a(2-) d'(1) sq_views [OF d'(2)] by auto
next
  case (5 s i n a t)
  then show ?case unfolding sq_inv_def [of S s] using inv_kept [OF open_sim] mem.open_inv by blast
next
  case (6 s i n x a y t)
  then obtain r where r: "reg_inv r" "refines S s r" by (auto simp: sq_inv_def)
  with 6(2-4) obtain r' where a: "OpenSemanticAttempt i n a t r = (ok, r')"
    "attempt_at r' i n a = Some (y\<lparr>ar_SubmissionWindowOpenedAt := Some t\<rparr>)"
    "node_at r' i n = Some (x\<lparr>nr_AttemptCount := nr_AttemptCount x + 1\<rparr>)"
    using mem.open_ok [OF r(1), of i n x a y t] by (auto simp: sq_views [OF r(2)])
  obtain d' where d': "SQLite_OpenSemanticAttempt S i n a t s = (ok, d')" "refines S d' r'"
    using sim_ok [OF open_sim [OF r] a(1)] by blast
  show ?case using a(2-) d'(1) sq_views [OF d'(2)] by auto
next
  case (7 s i n x a t)
  then obtain r where r: "reg_inv r" "refines S s r" by (auto simp: sq_inv_def)
  then show ?case
    using 7(2,3) never_refused by (cases rule: row_node [OF r(2), of i n])
      (simp_all add: sq_views SQLite_OpenSemanticAttempt_def in_tx_def getNodeTx_def sql)
next
  case (8 s i n x)
  then obtain r where r: "reg_inv r" "refines S s r" by (auto simp: sq_inv_def)
  then show ?case
    using 8(2) never_refused by (cases rule: row_node [OF r(2), of i n];
        cases rule: row_attempt [OF r(2), of i n "nr_CurrentAttemptID x"])
      (simp_all add: sq_views SQLite_GetCurrentAttempt_def no_tx_def getNodeTx_def getAttemptTx_def sql)
next
  case (9 s i n z y)
  then obtain r where r: "reg_inv r" "refines S s r" by (auto simp: sq_inv_def)
  with 9(2-4) obtain r' where a: "UpsertAttempt z r = (ok, r')" "reg_inv r'"
    "node_at r' i n = node_at r i n" "attempt_at r' i n (ar_AttemptID z) = Some z"
    using mem.upsert_ok [OF r(1), of i n z y] by (auto simp: sq_views [OF r(2)])
  obtain d' where d': "SQLite_UpsertAttempt S z s = (ok, d')" "refines S d' r'"
    using sim_ok [OF upsert_sim [OF r] a(1)] by blast
  show ?case using a(2-) d' sq_views [OF d'(2)] sq_views [OF r(2)] by (auto simp: sq_inv_def)
qed

context json_registry
begin

lemmas durable_fence = sq.fence_protocol
lemmas durable_retry = sq.terminal_unblocks

end

interpretation demo_json: json_registry demo_sqlite
  by unfold_locales (rule calm_demo storable_demo)+



end
