(* ===== verification/Node_Contract.thy ===== *)
theory Node_Contract
  imports Backend Exec_Bindings
begin

text \<open>
  The first part of \<^verbatim>\<open>pkg/backend/spawner_k8s.go\<close>: the contract a node is started with.  The
  executor has put the resolved inputs into the environment of the node; here they are read back
  into the JSON file the node's runtime reads, and the defaults of the output contract are added.

  The encoding of the contract as JSON (\<open>js\<close>) and the process environment (\<open>getenv\<close>) are
  arguments.  A Go map is read in an unspecified order: \<open>buildNodeContractInputs\<close> reads the list it
  is given, and the order is shown not to matter.
\<close>

subsection \<open>\<^verbatim>\<open>strconv.ParseInt(s, 10, 64)\<close>\<close>

definition digit_value :: "char \<Rightarrow> int" where
  "digit_value c = int (of_char c) - 48"

definition digits_value :: "string \<Rightarrow> int" where
  "digits_value s = foldl (\<lambda>n c. 10 * n + digit_value c) 0 s"

definition ParseInt64 :: "string \<Rightarrow> int option" where
  "ParseInt64 s =
     (let (neg, ds) = (case s of
            [] \<Rightarrow> (False, [])
          | c # cs \<Rightarrow> if c = CHR ''-'' then (True, cs) else if c = CHR ''+'' then (False, cs) else (False, s));
          n = (if neg then - digits_value ds else digits_value ds)
      in if ds = [] \<or> \<not> list_all is_digit ds then None
         else if - (2 ^ 63) \<le> n \<and> n < 2 ^ 63 then Some n else None)"

subsection \<open>The records\<close>

record nodeContractPaths =
  cp_InputRoot :: string
  cp_WorkRoot :: string
  cp_OutputRoot :: string
  cp_ManifestPath :: string

record nodeContractOutput =
  co_Name :: string
  co_Path :: string
  co_Required :: bool
  co_Type :: string

record nodeContractInput =
  ci_Name :: string
  ci_URI :: string
  ci_ExpectedDigest :: string
  ci_ExpectedSizeBytes :: int
  ci_MaterializationMode :: string
  ci_NodeLocalPath :: string
  ci_LocalPath :: string

record partialNodeContractInput =
  pc_uri :: string
  pc_expectedDigest :: string
  pc_expectedSizeBytes :: string
  pc_materializationMode :: string
  pc_nodeLocalPath :: string
  pc_localPath :: string

record nodeContractRuntime =
  cr_InspectOnSuccessOnly :: bool
  cr_FailOnMissingRequiredOutput :: bool
  cr_AllowDirectoryOutput :: bool

record nodeContractFile =
  nc_SchemaVersion :: string
  nc_RunID :: string
  nc_SampleRunID :: string
  nc_NodeID :: string
  nc_AttemptID :: string
  nc_Paths :: nodeContractPaths
  nc_Inputs :: "nodeContractInput list"
  nc_Outputs :: "nodeContractOutput list"
  nc_Runtime :: nodeContractRuntime

definition zero_partial :: partialNodeContractInput where
  "zero_partial = \<lparr>pc_uri = '''', pc_expectedDigest = '''', pc_expectedSizeBytes = '''',
     pc_materializationMode = '''', pc_nodeLocalPath = '''', pc_localPath = ''''\<rparr>"

definition outputManifestModeMetadataKey :: string where
  "outputManifestModeMetadataKey = ''jumi.outputManifestMode''"

definition outputManifestModeRuntimeHelper :: string where
  "outputManifestModeRuntimeHelper = ''runtime-helper''"

definition ArtifactHelperPath :: string where
  "ArtifactHelperPath = ''/usr/local/bin/nan''"

definition ArtifactHelperPathEnv :: string where
  "ArtifactHelperPathEnv = ''JUMI_ARTIFACT_HELPER_PATH''"

definition nodeContractSchemaVersion :: string where
  "nodeContractSchemaVersion = ''nan.nodeContract.v1''"

definition defaultNodeContractPath :: string where
  "defaultNodeContractPath = ''/jumi/node-contract.json''"

definition contractInputEnvSuffixes :: "string list" where
  "contractInputEnvSuffixes = [''_URI'', ''_EXPECTED_DIGEST'', ''_EXPECTED_SIZE_BYTES'',
     ''_MATERIALIZATION_MODE'', ''_NODE_LOCAL_PATH'', ''_LOCAL_PATH'']"

subsection \<open>The inputs of the contract\<close>

fun contractFirstNonEmpty :: "string list \<Rightarrow> string" where
  "contractFirstNonEmpty [] = ''''"
| "contractFirstNonEmpty (v # vs) = (if TrimSpace v \<noteq> '''' then v else contractFirstNonEmpty vs)"

definition ensureNodeContractInput ::
  "(string, partialNodeContractInput) gomap \<Rightarrow> string \<Rightarrow> partialNodeContractInput" where
  "ensureNodeContractInput byBase base =
     (case map_of byBase base of None \<Rightarrow> zero_partial | Some p \<Rightarrow> p)"

text \<open>The \<^verbatim>\<open>switch\<close> of the loop: the first suffix that fits decides which field the variable sets.\<close>

definition contract_base :: "string \<Rightarrow> string \<Rightarrow> string" where
  "contract_base key suffix = TrimSuffix (TrimPrefix key ''JUMI_INPUT_'') suffix"

definition contract_variable ::
  "string \<Rightarrow> string \<Rightarrow> (string, partialNodeContractInput) gomap \<Rightarrow> (string, partialNodeContractInput) gomap" where
  "contract_variable key v byBase =
     (let set_field = (\<lambda>suffix upd. let base = contract_base key suffix
            in mput base (upd (ensureNodeContractInput byBase base)) byBase)
      in if \<not> HasPrefix key ''JUMI_INPUT_'' then byBase
         else if HasSuffix key ''_URI'' then set_field ''_URI'' (pc_uri_update (\<lambda>_. v))
         else if HasSuffix key ''_EXPECTED_DIGEST''
           then set_field ''_EXPECTED_DIGEST'' (pc_expectedDigest_update (\<lambda>_. v))
         else if HasSuffix key ''_EXPECTED_SIZE_BYTES''
           then set_field ''_EXPECTED_SIZE_BYTES'' (pc_expectedSizeBytes_update (\<lambda>_. v))
         else if HasSuffix key ''_MATERIALIZATION_MODE''
           then set_field ''_MATERIALIZATION_MODE'' (pc_materializationMode_update (\<lambda>_. v))
         else if HasSuffix key ''_NODE_LOCAL_PATH''
           then set_field ''_NODE_LOCAL_PATH'' (pc_nodeLocalPath_update (\<lambda>_. v))
         else if HasSuffix key ''_LOCAL_PATH''
           then set_field ''_LOCAL_PATH'' (pc_localPath_update (\<lambda>_. v))
         else byBase)"

fun contract_variables ::
  "(string, string) gomap \<Rightarrow> (string, partialNodeContractInput) gomap \<Rightarrow> (string, partialNodeContractInput) gomap" where
  "contract_variables [] byBase = byBase"
| "contract_variables ((key, v) # env) byBase = contract_variables env (contract_variable key v byBase)"

definition contract_input :: "string \<Rightarrow> partialNodeContractInput \<Rightarrow> nodeContractInput option" where
  "contract_input base p =
     (let mode = TrimSpace (pc_materializationMode p);
          sizeText = TrimSpace (pc_expectedSizeBytes p)
      in if mode = '''' \<or> mode = ''none'' then None
         else Some \<lparr>ci_Name = ToLower base, ci_URI = TrimSpace (pc_uri p),
           ci_ExpectedDigest = TrimSpace (pc_expectedDigest p),
           ci_ExpectedSizeBytes = (if sizeText = '''' then 0 else
              case ParseInt64 sizeText of None \<Rightarrow> 0 | Some sz \<Rightarrow> if sz \<ge> 0 then sz else 0),
           ci_MaterializationMode = mode, ci_NodeLocalPath = TrimSpace (pc_nodeLocalPath p),
           ci_LocalPath = TrimSpace (pc_localPath p)\<rparr>)"

definition buildNodeContractInputs :: "(string, string) gomap \<Rightarrow> nodeContractInput list" where
  "buildNodeContractInputs env =
     (let byBase = contract_variables env [];
          names = sort (map fst byBase)
      in List.map_filter (\<lambda>base. contract_input base (ensureNodeContractInput byBase base)) names)"

subsection \<open>The contract\<close>

definition buildNodeContract :: "RunRecord \<Rightarrow> Node \<Rightarrow> string list \<Rightarrow> nodeContractFile" where
  "buildNodeContract run node outputs =
     \<lparr>nc_SchemaVersion = nodeContractSchemaVersion, nc_RunID = rr_RunID run,
      nc_SampleRunID = rm_SampleRunID (es_Run (rr_Spec run)), nc_NodeID = nd_NodeID node,
      nc_AttemptID = TrimSpace (mread (nd_Env node) ''JUMI_ATTEMPT_ID''),
      nc_Paths = \<lparr>cp_InputRoot = ''/work/inputs'', cp_WorkRoot = ''/work'',
        cp_OutputRoot = TrimSpace (contractFirstNonEmpty [mread (nd_Env node) ''JUMI_OUTPUT_ROOT'', ''/out'']),
        cp_ManifestPath = TrimSpace (contractFirstNonEmpty
          [mread (nd_Env node) ''JUMI_OUTPUT_MANIFEST_PATH'', DefaultArtifactsManifestPath])\<rparr>,
      nc_Inputs = buildNodeContractInputs (nd_Env node),
      nc_Outputs = map (\<lambda>output. \<lparr>co_Name = output, co_Path = output, co_Required = True, co_Type = ''file''\<rparr>)
        (filter (\<lambda>output. TrimSpace output \<noteq> '''') outputs),
      nc_Runtime = \<lparr>cr_InspectOnSuccessOnly = True, cr_FailOnMissingRequiredOutput = True,
        cr_AllowDirectoryOutput = False\<rparr>\<rparr>"

definition manifestExportMode :: "Node \<Rightarrow> string" where
  "manifestExportMode node =
     (if nd_Outputs node = [] then ''''
      else if mread (nd_Metadata node) outputManifestModeMetadataKey = outputManifestModeRuntimeHelper
      then outputManifestModeRuntimeHelper else '''')"

definition setEnvDefault :: "string \<Rightarrow> string \<Rightarrow> (string, string) gomap \<Rightarrow> (string, string) gomap" where
  "setEnvDefault key v env = (if map_of env key \<noteq> None then env else mput key v env)"

definition stripContractInputEnv :: "(string, string) gomap \<Rightarrow> (string, string) gomap" where
  "stripContractInputEnv env =
     filter (\<lambda>(key, v). \<not> (HasPrefix key ''JUMI_INPUT_'' \<and>
       list_ex (\<lambda>suffix. HasSuffix key suffix) contractInputEnvSuffixes)) env"

definition injectOutputContractEnv ::
  "(nodeContractFile \<Rightarrow> string result) \<Rightarrow> RunRecord \<Rightarrow> Node \<Rightarrow> (string, string) gomap \<Rightarrow> (string, string) gomap" where
  "injectOutputContractEnv js run node env =
     (let outputs = sort (filter (\<lambda>output. output \<noteq> '''') (nd_Outputs node)) in
      if outputs = [] then env
      else
        let env = setEnvDefault ''JUMI_OUTPUT_MANIFEST_ENABLED'' ''true'' env;
            env = setEnvDefault ''JUMI_OUTPUT_ROOT'' ''/out'' env;
            env = setEnvDefault ''JUMI_OUTPUT_MANIFEST_PATH'' DefaultArtifactsManifestPath env;
            env = setEnvDefault ''JUMI_OUTPUT_NAMES'' (Join outputs '','') env;
            env = setEnvDefault ''JUMI_RUN_ID'' (rr_RunID run) env;
            env = setEnvDefault ''JUMI_NODE_ID'' (nd_NodeID node) env;
            sampleRunID = rm_SampleRunID (es_Run (rr_Spec run));
            env = (if sampleRunID \<noteq> '''' then setEnvDefault ''JUMI_SAMPLE_RUN_ID'' sampleRunID env else env)
        in case js (buildNodeContract run node outputs) of
             Inl _ \<Rightarrow> env
           | Inr contractJSON \<Rightarrow>
               (let env = setEnvDefault ''JUMI_NODE_CONTRACT_PATH'' defaultNodeContractPath env;
                    env = setEnvDefault ''JUMI_NODE_CONTRACT_JSON'' contractJSON env
                in if manifestExportMode node = outputManifestModeRuntimeHelper
                   then stripContractInputEnv env else env))"

subsection \<open>The command\<close>

definition artifactHelperCommandPath :: "(string \<Rightarrow> string) \<Rightarrow> string" where
  "artifactHelperCommandPath getenv =
     (let configured = TrimSpace (getenv ArtifactHelperPathEnv)
      in if configured \<noteq> '''' then configured else ArtifactHelperPath)"

text \<open>The script of the wrapper, line by line; \<open>dq\<close> is the double quote, \<open>sq\<close> the single one.\<close>

abbreviation dq :: string where
  "dq \<equiv> [CHR 0x22]"

abbreviation sq :: string where
  "sq \<equiv> [CHR 0x27]"

definition contract_script :: "string \<Rightarrow> string" where
  "contract_script helper = concat (map (\<lambda>line. line @ [CHR 0x0A])
     [[],
      ''contract_path='' @ dq @ ''${JUMI_NODE_CONTRACT_PATH:-'' @ defaultNodeContractPath @ ''}'' @ dq,
      ''contract_dir='' @ dq @ ''${contract_path%/*}'' @ dq,
      ''if [ '' @ dq @ ''$contract_dir'' @ dq @ '' = '' @ dq @ ''$contract_path'' @ dq @ '' ]; then'',
      ''  contract_dir='' @ dq @ ''.'' @ dq,
      ''fi'',
      ''mkdir -p '' @ dq @ ''${contract_path%/*}'' @ dq,
      ''printf '' @ sq @ ''%s'' @ sq @ '' '' @ dq @ ''${JUMI_NODE_CONTRACT_JSON:?missing JUMI_NODE_CONTRACT_JSON}''
        @ dq @ '' > '' @ dq @ ''$contract_path'' @ dq,
      ''exec '' @ dq @ helper @ dq @ '' run --contract '' @ dq @ ''$contract_path'' @ dq @ '' -- '' @ dq @ ''$@'' @ dq])"

definition wrapCommandForManifestExport :: "(string \<Rightarrow> string) \<Rightarrow> string list \<Rightarrow> Node \<Rightarrow> string list" where
  "wrapCommandForManifestExport getenv command node =
     (if manifestExportMode node = '''' \<or> command = [] then command
      else [''/bin/sh'', ''-ceu'', contract_script (artifactHelperCommandPath getenv), ''jumi-node-contract''] @ command)"

end
