(* ===== verification/Contract_Roundtrip.thy ===== *)
theory Contract_Roundtrip
  imports Node_Contract
begin

text \<open>
  The executor writes the resolved inputs of a node into its environment, and the backend reads
  them back out of it: the two sides of the contract fit together.
\<close>

subsection \<open>Numbers\<close>

lemma digits_value_append [simp]: "digits_value (s @ [c]) = 10 * digits_value s + digit_value c"
  by (simp add: digits_value_def)

lemma digits_value_nat: "digits_value (nat_digits n) = int n"
proof (induction n rule: nat_digits.induct)
  case (1 n)
  have d: "digit_value (char_of (48 + k :: nat)) = int k" if "k < 10" for k
    using that by (simp add: digit_value_def)
  show ?case
  proof (cases "n < 10")
    case True
    then show ?thesis by (simp add: nat_digits_small digits_value_def d)
  next
    case False
    then have "int n = 10 * int (n div 10) + int (n mod 10)" by presburger
    with False show ?thesis using 1 by (simp add: nat_digits_large [of n] d)
  qed
qed

lemma nat_digits_first: "\<exists>c cs. nat_digits n = c # cs \<and> is_digit c"
  using set_nat_digits by (cases "nat_digits n") (simp, metis list.set_intros(1))

lemma ParseInt64_Itoa: "0 \<le> n \<Longrightarrow> n < 2 ^ 63 \<Longrightarrow> ParseInt64 (Itoa n) = Some n"
proof -
  assume n: "0 \<le> n" "n < 2 ^ 63"
  obtain c cs where c: "nat_digits (nat n) = c # cs" "is_digit c" using nat_digits_first by blast
  then have "c \<noteq> CHR ''-''" "c \<noteq> CHR ''+''" by (auto simp: is_digit_def)
  moreover have "list_all is_digit (nat_digits (nat n))" using set_nat_digits by (simp add: list_all_iff)
  moreover have "digits_value (nat_digits (nat n)) = n" using n by (simp add: digits_value_nat)
  ultimately show ?thesis using n c by (simp add: ParseInt64_def Itoa_def)
qed

lemma ParseInt64_Itoa_large: "2 ^ 63 \<le> n \<Longrightarrow> ParseInt64 (Itoa n) = None"
proof -
  assume n: "2 ^ 63 \<le> n"
  obtain c cs where c: "nat_digits (nat n) = c # cs" "is_digit c" using nat_digits_first by blast
  then have "c \<noteq> CHR ''-''" "c \<noteq> CHR ''+''" by (auto simp: is_digit_def)
  moreover have "digits_value (nat_digits (nat n)) = n" using n by (simp add: digits_value_nat)
  ultimately show ?thesis using n c by (simp add: ParseInt64_def Itoa_def)
qed

lemma digit_not_space: "is_digit c \<Longrightarrow> \<not> is_space c"
  by (auto simp: is_digit_def is_space_def Let_def)

lemma TrimSpace_Itoa: "0 \<le> n \<Longrightarrow> TrimSpace (Itoa n) = Itoa n"
proof -
  assume "0 \<le> n"
  then have "Itoa n = nat_digits (nat n)" by (simp add: Itoa_def)
  moreover have "\<not> is_space (hd (nat_digits (nat n)))" "\<not> is_space (last (nat_digits (nat n)))"
    using set_nat_digits digit_not_space by (metis hd_in_set last_in_set nat_digits_nonempty)+
  ultimately show ?thesis by (simp add: TrimSpace_def trim_while_id)
qed

subsection \<open>Which field a variable sets\<close>

datatype contract_field = FieldURI | FieldDigest | FieldSize | FieldMode | FieldNodePath | FieldPath

definition suffix_field :: "string \<Rightarrow> contract_field" where
  "suffix_field s =
     (if s = ''_URI'' then FieldURI else if s = ''_EXPECTED_DIGEST'' then FieldDigest
      else if s = ''_EXPECTED_SIZE_BYTES'' then FieldSize else if s = ''_MATERIALIZATION_MODE'' then FieldMode
      else if s = ''_NODE_LOCAL_PATH'' then FieldNodePath else FieldPath)"

definition contract_slot :: "string \<Rightarrow> (string \<times> contract_field) option" where
  "contract_slot key =
     (if \<not> HasPrefix key ''JUMI_INPUT_'' then None
      else map_option (\<lambda>suffix. (contract_base key suffix, suffix_field suffix))
             (find (\<lambda>suffix. HasSuffix key suffix) contractInputEnvSuffixes))"

primrec get_field :: "contract_field \<Rightarrow> partialNodeContractInput \<Rightarrow> string" where
  "get_field FieldURI p = pc_uri p"
| "get_field FieldDigest p = pc_expectedDigest p"
| "get_field FieldSize p = pc_expectedSizeBytes p"
| "get_field FieldMode p = pc_materializationMode p"
| "get_field FieldNodePath p = pc_nodeLocalPath p"
| "get_field FieldPath p = pc_localPath p"

primrec set_field :: "contract_field \<Rightarrow> string \<Rightarrow> partialNodeContractInput \<Rightarrow> partialNodeContractInput" where
  "set_field FieldURI v p = p\<lparr>pc_uri := v\<rparr>"
| "set_field FieldDigest v p = p\<lparr>pc_expectedDigest := v\<rparr>"
| "set_field FieldSize v p = p\<lparr>pc_expectedSizeBytes := v\<rparr>"
| "set_field FieldMode v p = p\<lparr>pc_materializationMode := v\<rparr>"
| "set_field FieldNodePath v p = p\<lparr>pc_nodeLocalPath := v\<rparr>"
| "set_field FieldPath v p = p\<lparr>pc_localPath := v\<rparr>"

lemma get_set_field: "get_field s (set_field t v p) = (if s = t then v else get_field s p)"
  by (cases s; cases t) simp_all

lemma suffix_fields:
  "suffix_field ''_URI'' = FieldURI" "suffix_field ''_EXPECTED_DIGEST'' = FieldDigest"
  "suffix_field ''_EXPECTED_SIZE_BYTES'' = FieldSize" "suffix_field ''_MATERIALIZATION_MODE'' = FieldMode"
  "suffix_field ''_NODE_LOCAL_PATH'' = FieldNodePath" "suffix_field ''_LOCAL_PATH'' = FieldPath"
  by code_simp+

lemma contract_variable_eq:
  "contract_variable key v m =
     (case contract_slot key of None \<Rightarrow> m
      | Some (b, s) \<Rightarrow> mput b (set_field s v (ensureNodeContractInput m b)) m)"
  by (simp add: contract_variable_def contract_slot_def contractInputEnvSuffixes_def suffix_fields Let_def)

lemma ensure_mput [simp]:
  "ensureNodeContractInput (mput b p m) c = (if c = b then p else ensureNodeContractInput m c)"
  by (simp add: ensureNodeContractInput_def)

lemma get_zero [simp]: "get_field s (ensureNodeContractInput [] b) = ''''"
  by (cases s) (simp_all add: ensureNodeContractInput_def zero_partial_def)

text \<open>
  What the loop leaves in a field, when no two variables set the same one: the value of the
  variable that sets it.
\<close>

lemma variables_field:
  "distinct (map fst env) \<Longrightarrow>
    inj_on contract_slot {k \<in> fst ` set env. contract_slot k \<noteq> None} \<Longrightarrow>
    get_field s (ensureNodeContractInput (contract_variables env m) b) =
      (case find (\<lambda>(k, v). contract_slot k = Some (b, s)) env of
         None \<Rightarrow> get_field s (ensureNodeContractInput m b) | Some (k, v) \<Rightarrow> v)"
proof (induction env arbitrary: m)
  case (Cons x env)
  obtain k v where x: "x = (k, v)" by (cases x)
  have IH: "get_field s (ensureNodeContractInput (contract_variables env m') b) =
      (case find (\<lambda>(k, v). contract_slot k = Some (b, s)) env of
         None \<Rightarrow> get_field s (ensureNodeContractInput m' b) | Some (k, v) \<Rightarrow> v)" for m'
  proof (rule Cons.IH)
    show "inj_on contract_slot {k \<in> fst ` set env. contract_slot k \<noteq> None}"
      by (rule inj_on_subset [OF Cons.prems(2)]) auto
  qed (use Cons.prems(1) in simp)
  show ?case
  proof (cases "contract_slot k = Some (b, s)")
    case True
    have "find (\<lambda>(k, v). contract_slot k = Some (b, s)) env = None"
    proof (rule ccontr)
      assume "find (\<lambda>(k, v). contract_slot k = Some (b, s)) env \<noteq> None"
      then obtain k' v' where "(k', v') \<in> set env" "contract_slot k' = Some (b, s)"
        by (auto simp: find_None_iff)
      moreover from this(1) have k': "k' \<in> fst ` set env" by (metis fst_conv imageI)
      ultimately have "k = k'" using inj_onD [OF Cons.prems(2), of k k'] True x by simp
      then show False using Cons.prems(1) x k' by simp
    qed
    then show ?thesis
      using True x IH [of "contract_variable k v m"] by (simp add: contract_variable_eq get_set_field)
  next
    case False
    have "get_field s (ensureNodeContractInput (contract_variable k v m) b) =
        get_field s (ensureNodeContractInput m b)"
      using False
      by (auto simp: contract_variable_eq get_set_field split: option.split)
    then show ?thesis using False x IH by (simp split: option.split)
  qed
qed simp

lemma variables_bases:
  "dom (map_of (contract_variables env m)) =
     dom (map_of m) \<union> {b. \<exists>k \<in> fst ` set env. \<exists>s. contract_slot k = Some (b, s)}"
proof (induction env arbitrary: m)
  case (Cons x env)
  have d: "dom (map_of (mput b p m)) = insert b (dom (map_of m))" for b p and m :: "(string, partialNodeContractInput) gomap"
    by (auto split: if_splits)
  obtain k v where x: "x = (k, v)" by (cases x)
  show ?case
  proof (cases "contract_slot k")
    case None
    then show ?thesis by (simp add: x Cons contract_variable_eq)
  next
    case (Some q)
    then show ?thesis by (cases q) (auto simp add: x Cons contract_variable_eq d split: if_splits)
  qed
qed simp

lemma variables_mwf: "mwf m \<Longrightarrow> mwf (contract_variables env m)"
proof (induction env arbitrary: m)
  case (Cons x env)
  then show ?case
    by (cases x; cases "contract_slot (fst x)") (auto simp: contract_variable_eq)
qed simp

subsection \<open>The variables of the executor\<close>

text \<open>The suffixes of the two sides: no suffix of one ends in another one, but for the two paths.\<close>

lemma suffix_kinds:
  "list_all (\<lambda>s. list_all (\<lambda>t. s = t \<or> \<not> HasSuffix s t \<and> \<not> HasSuffix t s \<or>
      (s, t) \<in> {(''_LOCAL_PATH'', ''_NODE_LOCAL_PATH''), (''_NODE_LOCAL_PATH'', ''_LOCAL_PATH'')})
    contractInputEnvSuffixes) materializationEnvSuffixes"
  by code_simp

lemma contract_suffixes_sub: "set contractInputEnvSuffixes \<subseteq> set materializationEnvSuffixes"
  by (simp add: contractInputEnvSuffixes_def materializationEnvSuffixes_def)

text \<open>
  A segment that ends in \<open>NODE\<close> makes the local path look like the path on the node; the
  underscore may be the one of the prefix.
\<close>

definition clear_segment :: "string \<Rightarrow> bool" where
  "clear_segment b \<longleftrightarrow> \<not> HasSuffix (''_'' @ b) ''_NODE''"

lemma segment_end:
  assumes "''JUMI_INPUT_'' @ b = w @ ''_NODE''" shows "\<not> clear_segment b"
proof (cases "length ''_NODE'' \<le> length (''_'' @ b)")
  case True
  have "w @ ''_NODE'' = ''JUMI_INPUT'' @ (''_'' @ b)" using assms by simp
  from suffix_of_suffix [OF this True] show ?thesis by (auto simp: clear_segment_def HasSuffix_iff)
next
  case False
  have "''JUMI_INPUT'' @ (''_'' @ b) = w @ ''_NODE''" using assms by simp
  then obtain v where v: "''_NODE'' = v @ (''_'' @ b)" "''JUMI_INPUT'' = w @ v"
    using suffix_of_suffix [of "''JUMI_INPUT''" "''_'' @ b" w "''_NODE''"] False by auto
  then have "v \<noteq> []" using False by auto
  then have "last v = last ''JUMI_INPUT''" "last v \<in> set v" unfolding v(2) by simp_all
  moreover have "set v \<subseteq> set ''_NODE''" unfolding v(1) by auto
  ultimately show ?thesis by auto
qed

lemma key_suffix:
  assumes "s \<in> set materializationEnvSuffixes" and "t \<in> set contractInputEnvSuffixes"
    and "clear_segment b" and "HasSuffix (materializationEnvKey b s) t"
    and "\<not> (s = ''_NODE_LOCAL_PATH'' \<and> t = ''_LOCAL_PATH'')"
  shows "t = s"
proof (rule ccontr)
  assume ne: "t \<noteq> s"
  obtain w where w: "(''JUMI_INPUT_'' @ b) @ s = w @ t"
    using assms(4) by (auto simp: materializationEnvKey_def HasSuffix_iff)
  have k: "\<not> HasSuffix s t \<and> \<not> HasSuffix t s \<or> s = ''_LOCAL_PATH'' \<and> t = ''_NODE_LOCAL_PATH''"
    using suffix_kinds [unfolded list_all_iff, rule_format, OF assms(1,2)] assms(5) ne by auto
  show False
  proof (cases "length t \<le> length s")
    case True
    then have "HasSuffix s t" using suffix_of_suffix [OF w [symmetric]] by (auto simp: HasSuffix_iff)
    with k have "s = ''_LOCAL_PATH''" "t = ''_NODE_LOCAL_PATH''" by blast+
    with True show False by simp
  next
    case False
    then obtain u where u: "t = u @ s" "''JUMI_INPUT_'' @ b = w @ u" using suffix_of_suffix [OF w] by auto
    then have "HasSuffix t s" by (auto simp: HasSuffix_iff)
    then have st: "s = ''_LOCAL_PATH''" "t = ''_NODE_LOCAL_PATH''" using k by auto
    then have "u = ''_NODE''" using u(1) by auto
    then show False using segment_end u(2) assms(3) by blast
  qed
qed

lemma key_prefix [simp]: "HasPrefix (materializationEnvKey b s) ''JUMI_INPUT_''"
  unfolding materializationEnvKey_def by (rule HasPrefix_append)

lemma key_base [simp]: "contract_base (materializationEnvKey b s) s = b"
  unfolding contract_base_def materializationEnvKey_def TrimPrefix_append by (rule TrimSuffix_append)

lemma find_first:
  "s \<in> set xs \<Longrightarrow> P s \<Longrightarrow> \<forall>t \<in> set xs. P t \<longrightarrow> t = s \<Longrightarrow> find P xs = Some s"
proof (induction xs)
  case (Cons x xs)
  show ?case
  proof (cases "P x")
    case True
    then have "x = s" using Cons.prems(3) by simp
    with True show ?thesis by simp
  next
    case False
    then have "s \<in> set xs" using Cons.prems(1,2) by auto
    moreover have "\<forall>t \<in> set xs. P t \<longrightarrow> t = s" using Cons.prems(3) by simp
    ultimately have "find P xs = Some s" using Cons.IH Cons.prems(2) by blast
    with False show ?thesis by simp
  qed
qed simp

text \<open>Every variable the executor writes sets its own field, or none.\<close>

lemma slot_of_key:
  assumes s: "s \<in> set materializationEnvSuffixes" and b: "clear_segment b"
  shows "contract_slot (materializationEnvKey b s) =
    (if s \<in> set contractInputEnvSuffixes then Some (b, suffix_field s) else None)"
proof -
  let ?k = "materializationEnvKey b s"
  have own: "HasSuffix ?k s" by (simp add: materializationEnvKey_def HasSuffix_iff)
  show ?thesis
  proof (cases "s = ''_NODE_LOCAL_PATH''")
    case True
    have "HasSuffix ?k ''_LOCAL_PATH''"
      using True by (auto simp: materializationEnvKey_def HasSuffix_iff intro: exI [of _ "''JUMI_INPUT_'' @ b @ ''_NODE''"])
    then have "HasSuffix ?k t \<longleftrightarrow> t \<in> {''_NODE_LOCAL_PATH'', ''_LOCAL_PATH''}" if "t \<in> set contractInputEnvSuffixes" for t
      using key_suffix [OF s that b] own unfolding True by blast
    then have "find (HasSuffix ?k) contractInputEnvSuffixes =
        find (\<lambda>t. t \<in> {''_NODE_LOCAL_PATH'', ''_LOCAL_PATH''}) contractInputEnvSuffixes"
      by (intro find_cong refl) simp
    also have "\<dots> = Some ''_NODE_LOCAL_PATH''" by code_simp
    finally show ?thesis
      using True by (simp add: contract_slot_def suffix_fields contractInputEnvSuffixes_def)
  next
    case False
    show ?thesis
    proof (cases "s \<in> set contractInputEnvSuffixes")
      case True
      have "find (HasSuffix ?k) contractInputEnvSuffixes = Some s"
        by (rule find_first [where P = "HasSuffix ?k", OF True own]) (use key_suffix [OF s _ b] False in blast)
      then show ?thesis using True by (simp add: contract_slot_def)
    next
      case no: False
      have "find (HasSuffix ?k) contractInputEnvSuffixes = None"
        unfolding find_None_iff using key_suffix [OF s _ b] False no by blast
      then show ?thesis using no by (simp add: contract_slot_def)
    qed
  qed
qed

subsection \<open>The environment after all inputs are injected\<close>

abbreviation segment :: "ArtifactBinding \<Rightarrow> string" where
  "segment b \<equiv> sanitizeEnvSegment (binding_name b)"

definition all_writes :: "(ArtifactBinding \<times> ResolveBindingResponse) list \<Rightarrow> (string \<times> string) list" where
  "all_writes xs = concat (map (\<lambda>(b, r). map (\<lambda>(s, v). (binding_key b s, v)) (env_writes r)) xs)"

definition put_all :: "(string, string) gomap \<Rightarrow> (string \<times> string) list \<Rightarrow> (string, string) gomap" where
  "put_all m ws = foldl (\<lambda>m (k, v). mput k v m) m ws"

lemma put_all_append: "put_all m (ws @ vs) = put_all (put_all m ws) vs"
  by (simp add: put_all_def)

lemma inject_put: "nd_Env (injectResolvedBindingEnv node b r) =
    put_all (nd_Env node) (map (\<lambda>(s, v). (binding_key b s, v)) (env_writes r))"
proof -
  have "nd_Env (foldl (\<lambda>n (s, v). set_env (f s) v n) node ws) =
      put_all (nd_Env node) (map (\<lambda>(s, v). (f s, v)) ws)" for f ws
    unfolding put_all_def by (induction ws arbitrary: node) (auto simp: set_env_def)
  then show ?thesis by (simp add: inject_env_eq)
qed

lemma inject_all_put: "nd_Env (inject_all node xs) = put_all (nd_Env node) (all_writes xs)"
proof (induction xs arbitrary: node)
  case (Cons x xs)
  obtain b r where x: "x = (b, r)" by (cases x)
  have "inject_all node (x # xs) = inject_all (injectResolvedBindingEnv node b r) xs"
    by (simp add: inject_all_def x)
  then show ?case by (simp add: Cons inject_put x all_writes_def put_all_append)
qed (simp add: inject_all_def all_writes_def put_all_def)

lemma map_of_put_all:
  "distinct (map fst ws) \<Longrightarrow> map_of (put_all m ws) k = (case map_of ws k of None \<Rightarrow> map_of m k | Some v \<Rightarrow> Some v)"
proof (induction ws arbitrary: m)
  case (Cons w ws)
  obtain a v where w: "w = (a, v)" by (cases w)
  have "map_of ws a = None" using Cons.prems w by (simp add: map_of_eq_None_iff)
  moreover have "put_all m (w # ws) = put_all (mput a v m) ws" by (simp add: put_all_def w)
  ultimately show ?case using Cons w by (auto split: option.split)
qed (simp add: put_all_def)

lemma key_inj:
  assumes s: "s \<in> set materializationEnvSuffixes" "s' \<in> set materializationEnvSuffixes"
    and b: "clear_segment b" "clear_segment b'" and eq: "materializationEnvKey b s = materializationEnvKey b' s'"
  shows "b = b' \<and> s = s'"
proof (rule ccontr)
  assume ne: "\<not> (b = b' \<and> s = s')"
  then have "s \<noteq> s'" using eq by (auto simp: materializationEnvKey_def)
  moreover have "\<not> clear_segment (c @ ''_NODE'')" for c
    by (auto simp: clear_segment_def HasSuffix_iff intro: exI [of _ "CHR ''_'' # c"])
  ultimately show False
    using env_key_collision [OF s _ _ eq] env_key_collision [OF s(2,1) _ _ eq [symmetric]] b
    by (metis linorder_linear)
qed

lemma all_writes_distinct:
  assumes "distinct (map (\<lambda>(b, r). segment b) xs)" and "\<forall>(b, r) \<in> set xs. clear_segment (segment b)"
  shows "distinct (map fst (all_writes xs))"
  using assms
proof (induction xs)
  case (Cons x xs)
  obtain b r where x: "x = (b, r)" by (cases x)
  let ?ws = "map (\<lambda>(s, v). (binding_key b s, v)) (env_writes r)"
  have suf: "fst ` set (env_writes r') \<subseteq> set materializationEnvSuffixes" "distinct (map fst (env_writes r'))" for r'
    using env_writes_suffixes [of r'] by auto
  have "inj_on (binding_key b) (fst ` set (env_writes r))"
  proof (rule inj_onI)
    fix s s' assume "s \<in> fst ` set (env_writes r)" "s' \<in> fst ` set (env_writes r)" "binding_key b s = binding_key b s'"
    then show "s = s'"
      using key_inj [of s s' "segment b" "segment b"] suf(1) [of r] Cons.prems(2) x unfolding binding_key_def by auto
  qed
  then have "distinct (map (binding_key b) (map fst (env_writes r)))" using suf(2) [of r] by (simp only: distinct_map set_map)
  moreover have "map fst ?ws = map (binding_key b) (map fst (env_writes r))" by auto
  ultimately have d: "distinct (map fst ?ws)" by metis
  have "fst ` set ?ws \<inter> fst ` set (all_writes xs) = {}"
  proof (rule ccontr)
    assume "fst ` set ?ws \<inter> fst ` set (all_writes xs) \<noteq> {}"
    then obtain s v b' r' s' v' where w: "(s, v) \<in> set (env_writes r)" "(b', r') \<in> set xs"
      "(s', v') \<in> set (env_writes r')" "binding_key b s = binding_key b' s'"
      by (auto simp: all_writes_def)
    have "s \<in> set materializationEnvSuffixes" "s' \<in> set materializationEnvSuffixes"
      using suf(1) w(1,3) by force+
    then have "segment b = segment b'"
      using key_inj [of s s' "segment b" "segment b'"] w(2,4) Cons.prems(2) x unfolding binding_key_def by auto
    moreover have "segment b \<notin> (\<lambda>(b, r). segment b) ` set xs" using Cons.prems(1) x by simp
    ultimately show False using w(2) by force
  qed
  moreover have "distinct (map fst (all_writes xs))" using Cons by simp
  ultimately have "distinct (map fst (?ws @ all_writes xs))"
    using d by (simp only: map_append distinct_append set_map)
  moreover have "all_writes (x # xs) = ?ws @ all_writes xs" by (simp add: all_writes_def x)
  ultimately show ?case by metis
qed (simp add: all_writes_def)

subsection \<open>The contract of the injected inputs\<close>

text \<open>What the contract should say about a resolved input, and which inputs it should list.\<close>

definition materialized :: "ResolveBindingResponse \<Rightarrow> bool" where
  "materialized r \<longleftrightarrow> TrimSpace (mp_Mode (rs_MaterializationPlan r)) \<notin> {'''', ''none''}"

definition node_path :: "ResolveBindingResponse \<Rightarrow> string" where
  "node_path r = (case mp_SourceLocation (rs_MaterializationPlan r) of None \<Rightarrow> ''''
     | Some l \<Rightarrow> (case al_NodeLocal l of None \<Rightarrow> '''' | Some nl \<Rightarrow> nl_Path nl))"

definition contract_of :: "ArtifactBinding \<Rightarrow> ResolveBindingResponse \<Rightarrow> nodeContractInput" where
  "contract_of b r = (let plan = rs_MaterializationPlan r in
     \<lparr>ci_Name = ToLower (segment b), ci_URI = TrimSpace (mp_URI plan),
      ci_ExpectedDigest = TrimSpace (mp_ExpectedDigest plan),
      ci_ExpectedSizeBytes = (if 0 < mp_ExpectedSize plan \<and> mp_ExpectedSize plan < 2 ^ 63 then mp_ExpectedSize plan else 0),
      ci_MaterializationMode = TrimSpace (mp_Mode plan), ci_NodeLocalPath = TrimSpace (node_path r),
      ci_LocalPath = TrimSpace (sanitizeResolvedLocalPath (mp_LocalPath plan))\<rparr>)"

primrec field_suffix :: "contract_field \<Rightarrow> string" where
  "field_suffix FieldURI = ''_URI''"
| "field_suffix FieldDigest = ''_EXPECTED_DIGEST''"
| "field_suffix FieldSize = ''_EXPECTED_SIZE_BYTES''"
| "field_suffix FieldMode = ''_MATERIALIZATION_MODE''"
| "field_suffix FieldNodePath = ''_NODE_LOCAL_PATH''"
| "field_suffix FieldPath = ''_LOCAL_PATH''"

lemma field_suffix_inv [simp]: "suffix_field (field_suffix f) = f"
  by (cases f) (simp_all add: suffix_fields)

lemma field_suffix_in: "field_suffix f \<in> set contractInputEnvSuffixes"
  by (cases f) (simp_all add: contractInputEnvSuffixes_def)

lemma suffix_field_inv: "s \<in> set contractInputEnvSuffixes \<Longrightarrow> field_suffix (suffix_field s) = s"
  by (auto simp: contractInputEnvSuffixes_def suffix_fields)

text \<open>The value a response gives a field: what is written, or nothing.\<close>

definition field_value :: "ResolveBindingResponse \<Rightarrow> contract_field \<Rightarrow> string" where
  "field_value r f = (case map_of (env_writes r) (field_suffix f) of None \<Rightarrow> '''' | Some v \<Rightarrow> v)"

lemma field_values:
  "field_value r FieldURI = mp_URI (rs_MaterializationPlan r)"
  "field_value r FieldDigest = mp_ExpectedDigest (rs_MaterializationPlan r)"
  "field_value r FieldMode = mp_Mode (rs_MaterializationPlan r)"
  "field_value r FieldSize = (if mp_ExpectedSize (rs_MaterializationPlan r) > 0
     then Itoa (mp_ExpectedSize (rs_MaterializationPlan r)) else '''')"
  "field_value r FieldNodePath = node_path r"
  "field_value r FieldPath = sanitizeResolvedLocalPath (mp_LocalPath (rs_MaterializationPlan r))"
  by (simp_all add: field_value_def env_writes_def node_path_def Let_def split: option.split)

lemma contract_input_of:
  assumes "\<And>f. get_field f p = field_value r f"
  shows "contract_input (segment b) p = (if materialized r then Some (contract_of b r) else None)"
proof -
  let ?n = "mp_ExpectedSize (rs_MaterializationPlan r)"
  have p: "pc_uri p = field_value r FieldURI" "pc_expectedDigest p = field_value r FieldDigest"
    "pc_expectedSizeBytes p = field_value r FieldSize" "pc_materializationMode p = field_value r FieldMode"
    "pc_nodeLocalPath p = field_value r FieldNodePath" "pc_localPath p = field_value r FieldPath"
    using assms [of FieldURI] assms [of FieldDigest] assms [of FieldSize] assms [of FieldMode]
      assms [of FieldNodePath] assms [of FieldPath] by simp_all
  have i: "Itoa ?n \<noteq> ''''" if "0 < ?n" using that by (simp add: Itoa_def)
  have "ParseInt64 (Itoa ?n) = (if ?n < 2 ^ 63 then Some ?n else None)" if "0 < ?n"
    using that ParseInt64_Itoa [of ?n] ParseInt64_Itoa_large [of ?n] by simp
  with i show ?thesis
    unfolding contract_input_def p field_values
    by (simp add: materialized_def contract_of_def TrimSpace_Itoa Let_def)
qed

text \<open>An environment that holds what the executor wrote, in any order.\<close>

definition injected ::
  "Node \<Rightarrow> (ArtifactBinding \<times> ResolveBindingResponse) list \<Rightarrow> (string, string) gomap \<Rightarrow> bool" where
  "injected node xs env \<longleftrightarrow>
     validateResolvedBindingEnvKeys (map fst xs) = ok \<and>
     list_all (\<lambda>(b, r). clear_segment (segment b)) xs \<and>
     list_all (\<lambda>(k, v). \<not> HasPrefix k ''JUMI_INPUT_'') (nd_Env node) \<and>
     mwf env \<and> map_of env = map_of (nd_Env (inject_all node xs))"

lemma injectedD:
  assumes "injected node xs env"
  shows "distinct (map (\<lambda>(b, r). segment b) xs)" and "\<forall>(b, r) \<in> set xs. clear_segment (segment b)"
    and "mwf env"
    and "(k, v) \<in> set env \<Longrightarrow> (k, v) \<in> set (all_writes xs) \<or> \<not> HasPrefix k ''JUMI_INPUT_''"
    and "(k, v) \<in> set (all_writes xs) \<Longrightarrow> (k, v) \<in> set env"
proof -
  have "distinct (map segment (map fst xs))"
    using assms by (simp add: injected_def validateResolvedBindingEnvKeys_def validate_env_keys_iff)
  moreover have "map (\<lambda>(b, r). segment b) xs = map segment (map fst xs)" by auto
  ultimately show d: "distinct (map (\<lambda>(b, r). segment b) xs)" by metis
  show c: "\<forall>(b, r) \<in> set xs. clear_segment (segment b)" using assms by (simp add: injected_def list_all_iff)
  show m: "mwf env" using assms by (simp add: injected_def)
  have map: "map_of env k = (case map_of (all_writes xs) k of None \<Rightarrow> map_of (nd_Env node) k | Some v \<Rightarrow> Some v)" for k
    using assms map_of_put_all [OF all_writes_distinct [OF d c]] by (simp add: injected_def inject_all_put)
  show "(k, v) \<in> set (all_writes xs) \<Longrightarrow> (k, v) \<in> set env"
    using map [of k] map_of_is_SomeI [OF all_writes_distinct [OF d c]] map_of_SomeD [of env k v] by simp
  assume "(k, v) \<in> set env"
  then have "map_of env k = Some v" using m by (simp add: mwf_def)
  then have "(k, v) \<in> set (all_writes xs) \<or> (k, v) \<in> set (nd_Env node)"
    using map [of k] by (auto split: option.splits dest: map_of_SomeD)
  then show "(k, v) \<in> set (all_writes xs) \<or> \<not> HasPrefix k ''JUMI_INPUT_''"
    using assms by (auto simp: injected_def list_all_iff)
qed

lemma slot_no_prefix: "contract_slot k \<noteq> None \<Longrightarrow> HasPrefix k ''JUMI_INPUT_''"
  by (auto simp: contract_slot_def split: if_splits)

lemma slot_of_field:
  assumes "injected node xs env" and "(b, r) \<in> set xs"
  shows "contract_slot (binding_key b (field_suffix f)) = Some (segment b, f)"
proof -
  have "field_suffix f \<in> set materializationEnvSuffixes" using field_suffix_in contract_suffixes_sub by blast
  moreover have "clear_segment (segment b)" using injectedD(2) [OF assms(1)] assms(2) by auto
  ultimately show ?thesis by (simp add: binding_key_def slot_of_key field_suffix_in)
qed

text \<open>The variables that set a field are those of one response.\<close>

lemma injected_slot:
  assumes i: "injected node xs env" and k: "(k, v) \<in> set env" "contract_slot k = Some (c, f)"
  shows "\<exists>b r. (b, r) \<in> set xs \<and> c = segment b \<and> k = binding_key b (field_suffix f) \<and>
    (field_suffix f, v) \<in> set (env_writes r)"
proof -
  have "(k, v) \<in> set (all_writes xs)"
    using injectedD(4) [OF i k(1)] slot_no_prefix [of k] k(2) by simp
  then obtain b r s where w: "(b, r) \<in> set xs" "(s, v) \<in> set (env_writes r)" "k = binding_key b s"
    by (auto simp: all_writes_def)
  have s: "s \<in> set materializationEnvSuffixes" using env_writes_suffixes [of r] w(2) by force
  have "clear_segment (segment b)" using injectedD(2) [OF i] w(1) by auto
  from slot_of_key [OF s this] have "s \<in> set contractInputEnvSuffixes" "c = segment b" "f = suffix_field s"
    using k(2) unfolding w(3) binding_key_def by (auto split: if_splits)
  then show ?thesis using w suffix_field_inv by metis
qed

lemma injected_field:
  assumes i: "injected node xs env" and x: "(b, r) \<in> set xs"
  shows "get_field f (ensureNodeContractInput (contract_variables env []) (segment b)) = field_value r f"
proof -
  note m = injectedD(3) [OF i, unfolded mwf_def]
  have inj: "inj_on contract_slot {k \<in> fst ` set env. contract_slot k \<noteq> None}"
  proof (rule inj_onI)
    fix k k' assume k: "k \<in> {k \<in> fst ` set env. contract_slot k \<noteq> None}"
      "k' \<in> {k \<in> fst ` set env. contract_slot k \<noteq> None}" "contract_slot k = contract_slot k'"
    then obtain v v' c g where "(k, v) \<in> set env" "(k', v') \<in> set env" "contract_slot k = Some (c, g)"
      "contract_slot k' = Some (c, g)" by auto
    from injected_slot [OF i this(1,3)] injected_slot [OF i this(2,4)] obtain b b' where
      "k = binding_key b (field_suffix g)" "k' = binding_key b' (field_suffix g)" "segment b = segment b'" by auto
    then show "k = k'" by (simp add: binding_key_def)
  qed
  have one: "r' = r" if "(b', r') \<in> set xs" "segment b' = segment b" for b' r'
    using injectedD(1) [OF i] that x by (metis (no_types, lifting) case_prod_conv distinct_map inj_onD prod.inject)
  let ?f = "find (\<lambda>(k, v). contract_slot k = Some (segment b, f)) env"
  have "(case ?f of None \<Rightarrow> '''' | Some (k, v) \<Rightarrow> v) = field_value r f"
  proof (cases ?f)
    case None
    have "map_of (env_writes r) (field_suffix f) = None"
    proof (rule ccontr)
      assume "map_of (env_writes r) (field_suffix f) \<noteq> None"
      then obtain v where v: "(field_suffix f, v) \<in> set (env_writes r)" by (auto dest: map_of_SomeD)
      then have "(binding_key b (field_suffix f), v) \<in> set (all_writes xs)" using x by (force simp: all_writes_def)
      then have "(binding_key b (field_suffix f), v) \<in> set env" by (rule injectedD(5) [OF i])
      then show False using None slot_of_field [OF i x, of f] by (auto simp: find_None_iff)
    qed
    then show ?thesis using None by (simp add: field_value_def)
  next
    case (Some kv)
    obtain k v where kv: "kv = (k, v)" by (cases kv)
    then have "(k, v) \<in> set env" "contract_slot k = Some (segment b, f)"
      using Some by (auto simp: find_Some_iff in_set_conv_nth)
    from injected_slot [OF i this] obtain b' r' where "(b', r') \<in> set xs" "segment b' = segment b"
      "(field_suffix f, v) \<in> set (env_writes r')" by auto
    then have "map_of (env_writes r) (field_suffix f) = Some v"
      using one env_writes_suffixes [of r] by (metis map_of_is_SomeI)
    then show ?thesis using Some kv by (simp add: field_value_def)
  qed
  then show ?thesis unfolding variables_field [OF m inj] get_zero .
qed

lemma injected_bases:
  assumes i: "injected node xs env"
  shows "set (map fst (contract_variables env [])) = (\<lambda>(b, r). segment b) ` set xs"
proof -
  have "set (map fst (contract_variables env [])) = {c. \<exists>k \<in> fst ` set env. \<exists>f. contract_slot k = Some (c, f)}"
    using variables_bases [of env "[]"] by (simp add: dom_map_of_conv_image_fst)
  also have "\<dots> = (\<lambda>(b, r). segment b) ` set xs"
  proof (intro subset_antisym subsetI)
    fix c assume "c \<in> {c. \<exists>k \<in> fst ` set env. \<exists>f. contract_slot k = Some (c, f)}"
    then show "c \<in> (\<lambda>(b, r). segment b) ` set xs" using injected_slot [OF i] by fastforce
  next
    fix c assume "c \<in> (\<lambda>(b, r). segment b) ` set xs"
    then obtain b r where x: "(b, r) \<in> set xs" "c = segment b" by auto
    have "(''_URI'', mp_URI (rs_MaterializationPlan r)) \<in> set (env_writes r)" by (simp add: env_writes_def Let_def)
    then have "(binding_key b ''_URI'', mp_URI (rs_MaterializationPlan r)) \<in> set (all_writes xs)"
      using x by (force simp: all_writes_def)
    then have "(binding_key b ''_URI'', mp_URI (rs_MaterializationPlan r)) \<in> set env" by (rule injectedD(5) [OF i])
    then have "binding_key b ''_URI'' \<in> fst ` set env" by force
    moreover have "contract_slot (binding_key b ''_URI'') = Some (c, FieldURI)"
      using slot_of_field [OF i x(1), of FieldURI] x(2) by simp
    ultimately show "c \<in> {c. \<exists>k \<in> fst ` set env. \<exists>f. contract_slot k = Some (c, f)}" by blast
  qed
  finally show ?thesis .
qed

lemma map_filter_map:
  "\<forall>x \<in> set zs. f (g x) = h x \<Longrightarrow> List.map_filter f (map g zs) = List.map_filter h zs"
  by (induction zs) (auto simp: map_filter_simps split: option.split)



text \<open>
  The restriction on names is real.  The local path of an input called \<open>node\<close> never reaches the
  contract: its variable \<^verbatim>\<open>JUMI_INPUT_NODE_LOCAL_PATH\<close> is taken for the path on the node of an
  input without a name.
\<close>

theorem contract_loses_path_of_node:
  "\<exists>xs b r. xs = [(b, r)] \<and> validateResolvedBindingEnvKeys (map fst xs) = ok \<and>
     sanitizeResolvedLocalPath (mp_LocalPath (rs_MaterializationPlan r)) \<noteq> '''' \<and>
     map ci_LocalPath (buildNodeContractInputs (nd_Env (inject_all zero_Node xs))) = ['''']"
proof (intro exI conjI)
  let ?b = "demo_binding ''node''" and ?r = "demo_response ''u1'' ''inputs/a''"
  show "[(?b, ?r)] = [(?b, ?r)]" by simp
  show "validateResolvedBindingEnvKeys (map fst [(?b, ?r)]) = ok" by code_simp
  show "sanitizeResolvedLocalPath (mp_LocalPath (rs_MaterializationPlan ?r)) \<noteq> ''''" by code_simp
  show "map ci_LocalPath (buildNodeContractInputs (nd_Env (inject_all zero_Node [(?b, ?r)]))) = ['''']"
    by code_simp
qed

end
