(* ===== verification/K8s_Types.thy ===== *)
theory K8s_Types
  imports Backend "HOL-Library.Word"
begin

text \<open>
  The types that \<^verbatim>\<open>pkg/backend\<close> and \<^verbatim>\<open>pkg/spawner\<close> share with the spawner runtime and with
  Kubernetes.  They are declared outside the repository: a record carries the fields that the code
  of the repository sets or reads.

  What the two packages call of the runtime library and of the Kubernetes libraries is collected in
  the record \<open>spawner_lib\<close>, an argument of the definitions that use it.  \<open>spawner_lib_ok\<close> states
  what the code relies on: a backend reference has the name, namespace and UID it is made of, the
  final states are final, and an answer cannot be both \<open>not found\<close> and \<open>already exists\<close>.
\<close>

subsection \<open>The runtime\<close>

record PreferredNode =
  pf_NodeName :: string
  pf_Weight :: int

record Placement =
  rpl_NodeSelector :: "(string, string) gomap"
  rpl_RequiredNodeName :: string
  rpl_PreferredNodes :: "PreferredNode list"

datatype MountKind = MountKindPVC | MountKindHostPath

record RuntimeMount =
  mo_Kind :: MountKind
  mo_Source :: string
  mo_Target :: string
  mo_ReadOnly :: bool

record AttemptRequest =
  aq_AttemptID :: string
  aq_RunID :: string
  aq_CorrelationID :: string
  aq_ImageRef :: string
  aq_Command :: "string list"
  aq_WorkingDir :: string
  aq_Env :: "(string, string) gomap"
  aq_CPU :: string
  aq_Memory :: string
  aq_ServiceAccountName :: string
  aq_Mounts :: "RuntimeMount list"
  aq_Placement :: "Placement option"
  aq_UserLabels :: "(string, string) gomap"
  aq_UserAnnotations :: "(string, string) gomap"
  aq_TTLSecondsAfterFinished :: int
  aq_AttemptTimeout :: "64 word"

record JobCreateRequest =
  jr_Namespace :: string
  jr_JobName :: string
  jr_AttemptMarker :: string
  jr_AttemptRequest :: AttemptRequest

record AttemptIdentity =
  id_Namespace :: string
  id_JobName :: string
  id_AttemptMarker :: string

record BackendRef =
  br_Namespace :: string
  br_Name :: string
  br_UID :: string

record AttemptHandle =
  ah_AttemptID :: string
  ah_BackendRef :: BackendRef

text \<open>The states are strings in the runtime; \<open>AttemptStateNone\<close> is the empty one.\<close>

datatype AttemptState = AttemptStateSubmitted | AttemptStatePending | AttemptStateRunning
  | AttemptStateSucceeded | AttemptStateFailed | AttemptStateCancelled | AttemptStateNone

record AttemptEvent =
  ae_State :: AttemptState
  ae_Reason :: string
  ae_Message :: string

record JobEvent =
  je_State :: AttemptState
  je_Reason :: string
  je_Message :: string
  je_Timestamp :: time

record JobWatchError =
  we_Reason :: string
  we_Message :: string
  we_Temporary :: bool

record JobSnapshot =
  sn_Exists :: bool
  sn_State :: AttemptState
  sn_Reason :: string
  sn_Message :: string
  sn_Timestamp :: time

subsection \<open>Kubernetes\<close>

record Terminated =
  te_ExitCode :: int
  te_FinishedAt :: time
  te_Message :: string

record ContainerStatus =
  cs_Name :: string
  cs_Terminated :: "Terminated option"
  cs_LastTerminated :: "Terminated option"

datatype PodPhase = PodPending | PodRunning | PodSucceeded | PodFailed | PodUnknown

record Pod =
  pd_Name :: string
  pd_NodeName :: string
  pd_Labels :: "(string, string) gomap"
  pd_Phase :: PodPhase
  pd_ContainerStatuses :: "ContainerStatus list"

datatype VolumeSource = HostPathDirectoryOrCreate string | PersistentVolumeClaim string bool

record VolumeMount =
  vm_Name :: string
  vm_MountPath :: string
  vm_ReadOnly :: bool

text \<open>A quantity is represented by its text.\<close>

record ResourceRequirements =
  rrq_Requests :: "(string, string) gomap"
  rrq_Limits :: "(string, string) gomap"

record Container =
  ct_Name :: string
  ct_Image :: string
  ct_Command :: "string list"
  ct_WorkingDir :: string
  ct_Env :: "(string \<times> string) list"
  ct_Resources :: ResourceRequirements
  ct_ImagePullPolicy :: string
  ct_VolumeMounts :: "VolumeMount list"

text \<open>A preferred scheduling term: its weight and the requirement \<^verbatim>\<open>Key In Values\<close>.\<close>

record PreferredSchedulingTerm =
  ps_Weight :: int
  ps_Key :: string
  ps_Values :: "string list"

record PodTemplate =
  pt_Labels :: "(string, string) gomap"
  pt_Annotations :: "(string, string) gomap"
  pt_ServiceAccountName :: string
  pt_RestartPolicy :: string
  pt_TerminationGracePeriodSeconds :: int
  pt_Containers :: "Container list"
  pt_Volumes :: "(string \<times> VolumeSource) list"
  pt_NodeSelector :: "(string, string) gomap"
  pt_Affinity :: "PreferredSchedulingTerm list option"

datatype JobConditionType = JobComplete | JobFailed | JobConditionOther string

record JobCondition =
  jc_Type :: JobConditionType
  jc_True :: bool
  jc_Reason :: string
  jc_Message :: string
  jc_LastTransitionTime :: time

record Job =
  jb_APIVersion :: string
  jb_Kind :: string
  jb_Name :: string
  jb_Namespace :: string
  jb_UID :: string
  jb_ResourceVersion :: string
  jb_Labels :: "(string, string) gomap"
  jb_Annotations :: "(string, string) gomap"
  jb_Suspend :: "bool option"
  jb_BackoffLimit :: int
  jb_TTLSecondsAfterFinished :: "int option"
  jb_Template :: PodTemplate
  jb_Conditions :: "JobCondition list"

subsection \<open>The libraries\<close>

record spawner_lib =
  sl_NewK8sJobBackendRef :: "string \<Rightarrow> string \<Rightarrow> string \<Rightarrow> BackendRef"
  sl_IsTerminal :: "AttemptState \<Rightarrow> bool"
  sl_ErrJobConflict :: go_error
  sl_IsNotFound :: "go_error \<Rightarrow> bool"
  sl_IsAlreadyExists :: "go_error \<Rightarrow> bool"
  sl_IsQualifiedName :: "string \<Rightarrow> string list"
  sl_IsValidLabelValue :: "string \<Rightarrow> string list"
  sl_LabelSetString :: "(string, string) gomap \<Rightarrow> string"
  sl_ParseQuantity :: "string \<Rightarrow> string result"
  ReasonOOMKilled :: string
  ReasonNodeLost :: string
  ReasonBackoffExceeded :: string
  ReasonDeadlineExceeded :: string
  ReasonImagePullFailed :: string
  ReasonWatchDisconnected :: string
  ReasonResourceVersionTooOld :: string
  ReasonSystemCancel :: string
  ReasonKueueWaiting :: string

definition spawner_lib_ok :: "spawner_lib \<Rightarrow> bool" where
  "spawner_lib_ok L \<longleftrightarrow>
     (\<forall>ns name uid. sl_NewK8sJobBackendRef L ns name uid = \<lparr>br_Namespace = ns, br_Name = name, br_UID = uid\<rparr>) \<and>
     (\<forall>s. sl_IsTerminal L s \<longleftrightarrow> s \<in> {AttemptStateSucceeded, AttemptStateFailed, AttemptStateCancelled}) \<and>
     (\<forall>e. sl_IsAlreadyExists L e \<longrightarrow> \<not> sl_IsNotFound L e)"

lemma backend_ref_of:
  assumes "spawner_lib_ok L"
  shows "br_Namespace (sl_NewK8sJobBackendRef L ns name uid) = ns"
    and "br_Name (sl_NewK8sJobBackendRef L ns name uid) = name"
    and "br_UID (sl_NewK8sJobBackendRef L ns name uid) = uid"
  using assms by (simp_all add: spawner_lib_ok_def)

lemma terminal_states:
  "spawner_lib_ok L \<Longrightarrow>
     sl_IsTerminal L s \<longleftrightarrow> s \<in> {AttemptStateSucceeded, AttemptStateFailed, AttemptStateCancelled}"
  by (simp add: spawner_lib_ok_def)

end
