(* ===== verification/K8s_Jobs.thy ===== *)
theory K8s_Jobs
  imports K8s_Types Sha256
begin

text \<open>
  \<^verbatim>\<open>pkg/spawner/k8s_jobclient.go\<close>: the client that creates, watches, deletes and inspects the
  Kubernetes jobs of attempts.

  The Kubernetes API is not code of the repository.  Its calls on jobs are the fields of the
  argument \<open>A\<close>, programs over a state \<open>'s\<close> that stands for the cluster, and the library functions
  are those of \<open>L\<close>.  \<^verbatim>\<open>time.ParseDuration\<close> computes with floating point numbers and is the argument
  \<open>parse\<close>.  Loops over Go maps read the association lists in their order.
\<close>

subsection \<open>Labels and annotations\<close>

definition labelAppName :: string where "labelAppName = ''app.kubernetes.io/name''"
definition labelAppComponent :: string where "labelAppComponent = ''app.kubernetes.io/component''"
definition labelAppManagedBy :: string where "labelAppManagedBy = ''app.kubernetes.io/managed-by''"
definition labelRunKey :: string where "labelRunKey = ''jumi.io/run-key''"
definition labelNodeKey :: string where "labelNodeKey = ''jumi.io/node-key''"
definition labelAttemptID :: string where "labelAttemptID = ''jumi.io/attempt-id''"
definition labelWorkloadRole :: string where "labelWorkloadRole = ''jumi.io/workload-role''"
definition labelKueueQueueName :: string where "labelKueueQueueName = ''kueue.x-k8s.io/queue-name''"
definition labelAttemptMarker :: string where "labelAttemptMarker = ''spawner.io/attempt-marker''"
definition annotationRunID :: string where "annotationRunID = ''jumi.io/run-id''"
definition annotationNodeID :: string where "annotationNodeID = ''jumi.io/node-id''"
definition annotationAttemptID :: string where "annotationAttemptID = ''jumi.io/attempt-id''"
definition annotationMarker :: string where "annotationMarker = ''jumi.io/attempt-marker''"
definition annotationTraceID :: string where "annotationTraceID = ''jumi.io/trace-id''"
definition userLabelPrefix :: string where "userLabelPrefix = ''user.jumi.io/''"
definition hostnameNodeSelector :: string where "hostnameNodeSelector = ''kubernetes.io/hostname''"

lemmas label_defs = labelAppName_def labelAppComponent_def labelAppManagedBy_def labelRunKey_def
  labelNodeKey_def labelAttemptID_def labelWorkloadRole_def labelKueueQueueName_def
  labelAttemptMarker_def userLabelPrefix_def

lemmas annotation_defs = annotationRunID_def annotationNodeID_def annotationAttemptID_def
  annotationMarker_def annotationTraceID_def

definition isASCIILabelChar :: "char \<Rightarrow> bool" where
  "isASCIILabelChar r \<longleftrightarrow> r = CHR ''-'' \<or> r = CHR ''_'' \<or> r = CHR ''.'' \<or>
     is_lower r \<or> is_upper r \<or> is_digit r"

fun sanitize_loop :: "string \<Rightarrow> bool \<Rightarrow> string" where
  "sanitize_loop [] lastDash = []"
| "sanitize_loop (r # raw) lastDash =
     (if isASCIILabelChar r then r # sanitize_loop raw False
      else if \<not> lastDash then CHR ''-'' # sanitize_loop raw True
      else sanitize_loop raw lastDash)"

definition sanitizeLabelValue :: "string \<Rightarrow> string" where
  "sanitizeLabelValue raw = Trim (sanitize_loop raw False) ''-_.''"

definition shortHash :: "string \<Rightarrow> string" where
  "shortHash raw = take 8 (hex_EncodeToString (Sum256 raw))"

definition identityLabelValue :: "string \<Rightarrow> string" where
  "identityLabelValue raw =
     (let raw = TrimSpace raw in
      if raw = '''' then ''unknown''
      else
        let lower = ToLower raw;
            sanitized = (if sanitizeLabelValue lower = '''' then ''x'' else sanitizeLabelValue lower)
        in if sanitized = lower \<and> length sanitized \<le> 63 then sanitized
           else
             let hash = shortHash raw;
                 maxPrefix = 63 - length hash - 1;
                 sanitized = (if length sanitized > maxPrefix then Trim (take maxPrefix sanitized) ''-_.'' else sanitized)
             in if sanitized = '''' then hash else sanitized @ ''-'' @ hash)"

fun firstNonEmpty :: "string list \<Rightarrow> string" where
  "firstNonEmpty [] = ''''"
| "firstNonEmpty (v # vs) = (if TrimSpace v \<noteq> '''' then v else firstNonEmpty vs)"

fun add_user_labels :: "(string, string) gomap \<Rightarrow> (string, string) gomap \<Rightarrow> (string, string) gomap" where
  "add_user_labels [] labels = labels"
| "add_user_labels ((k, v) # user) labels =
     add_user_labels user (if k = labelKueueQueueName \<or> HasPrefix k userLabelPrefix then mput k v labels else labels)"

definition system_labels :: "JobCreateRequest \<Rightarrow> (string, string) gomap" where
  "system_labels req =
     (let r = jr_AttemptRequest req in
      [(labelAppName, ''jumi''), (labelAppComponent, ''node-attempt''), (labelAppManagedBy, ''jumi-spawner''),
       (labelRunKey, identityLabelValue (firstNonEmpty [aq_RunID r, mread (aq_Env r) ''JUMI_RUN_ID''])),
       (labelNodeKey, identityLabelValue (mread (aq_Env r) ''JUMI_NODE_ID'')),
       (labelAttemptID, identityLabelValue (aq_AttemptID r)),
       (labelWorkloadRole, ''main''),
       (labelAttemptMarker, identityLabelValue (jr_AttemptMarker req))])"

definition buildLabels :: "JobCreateRequest \<Rightarrow> (string, string) gomap" where
  "buildLabels req = add_user_labels (aq_UserLabels (jr_AttemptRequest req)) (system_labels req)"

definition buildAnnotations :: "JobCreateRequest \<Rightarrow> (string, string) gomap" where
  "buildAnnotations req =
     (let r = jr_AttemptRequest req;
          m = aq_UserAnnotations r;
          m = mput annotationRunID (firstNonEmpty [aq_RunID r, mread (aq_Env r) ''JUMI_RUN_ID'']) m;
          m = mput annotationNodeID (mread (aq_Env r) ''JUMI_NODE_ID'') m;
          m = mput annotationAttemptID (aq_AttemptID r) m;
          m = mput annotationMarker (jr_AttemptMarker req) m
      in if aq_CorrelationID r \<noteq> '''' then mput annotationTraceID (aq_CorrelationID r) m else m)"

subsection \<open>The parts of a job\<close>

definition defaultNanShutdownGracePeriodEnv :: string where
  "defaultNanShutdownGracePeriodEnv = ''25s''"

definition nanShutdownGracePeriodEnv :: string where
  "nanShutdownGracePeriodEnv = ''JUMI_SHUTDOWN_GRACE_PERIOD''"

text \<open>
  The argument \<open>parse\<close> is \<^verbatim>\<open>time.ParseDuration\<close>.  Both operands of the division and of the remainder are
  positive, where the operators of Go and of HOL agree.
\<close>

definition podTerminationGracePeriodSeconds ::
  "(string \<Rightarrow> duration result) \<Rightarrow> (string, string) gomap \<Rightarrow> int" where
  "podTerminationGracePeriodSeconds parse env =
     (let configured = mread env nanShutdownGracePeriodEnv;
          raw = (if configured \<noteq> '''' then configured else defaultNanShutdownGracePeriodEnv)
      in case parse raw of
           Inl _ \<Rightarrow> 30
         | Inr grace \<Rightarrow>
             (if grace \<le> 0 then 30
              else (grace div 1000000000 + (if grace mod 1000000000 \<noteq> 0 then 1 else 0)) + 5))"

definition buildEnvVars :: "(string, string) gomap \<Rightarrow> (string \<times> string) list" where
  "buildEnvVars env = map (\<lambda>k. (k, mread env k)) (sort (map fst env))"

definition resource_entry ::
  "spawner_lib \<Rightarrow> string \<Rightarrow> string \<Rightarrow> (string, string) gomap" where
  "resource_entry L name text =
     (if text = '''' then [] else case sl_ParseQuantity L text of Inl _ \<Rightarrow> [] | Inr q \<Rightarrow> [(name, q)])"

definition buildK8sResources :: "spawner_lib \<Rightarrow> AttemptRequest \<Rightarrow> ResourceRequirements" where
  "buildK8sResources L r =
     (let entries = resource_entry L ''cpu'' (aq_CPU r) @ resource_entry L ''memory'' (aq_Memory r)
      in \<lparr>rrq_Requests = entries, rrq_Limits = entries\<rparr>)"

definition volume_name :: "nat \<Rightarrow> string" where
  "volume_name i = ''vol-'' @ Itoa (int i)"

definition volume_source :: "RuntimeMount \<Rightarrow> VolumeSource" where
  "volume_source m =
     (case mo_Kind m of
        MountKindHostPath \<Rightarrow> HostPathDirectoryOrCreate (mo_Source m)
      | MountKindPVC \<Rightarrow> PersistentVolumeClaim (mo_Source m) (mo_ReadOnly m))"

definition buildK8sVolumes :: "RuntimeMount list \<Rightarrow> (string \<times> VolumeSource) list \<times> VolumeMount list" where
  "buildK8sVolumes mounts =
     (map (\<lambda>(i, m). (volume_name i, volume_source m)) (enumerate 0 mounts),
      map (\<lambda>(i, m). \<lparr>vm_Name = volume_name i, vm_MountPath = mo_Target m, vm_ReadOnly = mo_ReadOnly m\<rparr>)
        (enumerate 0 mounts))"

definition buildK8sNodeSelector :: "Placement option \<Rightarrow> (string, string) gomap" where
  "buildK8sNodeSelector p =
     (case p of
        None \<Rightarrow> []
      | Some p \<Rightarrow>
          (if rpl_RequiredNodeName p \<noteq> '''' then mput hostnameNodeSelector (rpl_RequiredNodeName p) (rpl_NodeSelector p)
           else rpl_NodeSelector p))"

definition buildK8sAffinity :: "Placement option \<Rightarrow> PreferredSchedulingTerm list option" where
  "buildK8sAffinity p =
     (case p of
        None \<Rightarrow> None
      | Some p \<Rightarrow>
          (if rpl_PreferredNodes p = [] then None
           else Some (map (\<lambda>pref. \<lparr>ps_Weight = pf_Weight pref, ps_Key = ''kubernetes.io/hostname'',
                  ps_Values = [pf_NodeName pref]\<rparr>) (rpl_PreferredNodes p))))"

definition build_container :: "spawner_lib \<Rightarrow> AttemptRequest \<Rightarrow> Container" where
  "build_container L r =
     \<lparr>ct_Name = ''main'', ct_Image = aq_ImageRef r, ct_Command = aq_Command r, ct_WorkingDir = aq_WorkingDir r,
      ct_Env = buildEnvVars (aq_Env r), ct_Resources = buildK8sResources L r,
      ct_ImagePullPolicy = ''IfNotPresent'',
      ct_VolumeMounts = snd (buildK8sVolumes (aq_Mounts r))\<rparr>"

text \<open>A job is suspended when it is queued, whatever the name of the queue.\<close>

definition buildK8sJob :: "spawner_lib \<Rightarrow> (string \<Rightarrow> duration result) \<Rightarrow> JobCreateRequest \<Rightarrow> Job" where
  "buildK8sJob L parse req =
     (let r = jr_AttemptRequest req; labels = buildLabels req; annotations = buildAnnotations req
      in \<lparr>jb_APIVersion = ''batch/v1'', jb_Kind = ''Job'', jb_Name = jr_JobName req, jb_Namespace = jr_Namespace req, jb_UID = '''', jb_ResourceVersion = '''',
          jb_Labels = labels, jb_Annotations = annotations,
          jb_Suspend = Some (map_of labels labelKueueQueueName \<noteq> None),
          jb_BackoffLimit = 0,
          jb_TTLSecondsAfterFinished =
            (if aq_TTLSecondsAfterFinished r > 0 then Some (aq_TTLSecondsAfterFinished r) else None),
          jb_Template = \<lparr>pt_Labels = labels, pt_Annotations = annotations,
            pt_ServiceAccountName = aq_ServiceAccountName r, pt_RestartPolicy = ''Never'',
            pt_TerminationGracePeriodSeconds = podTerminationGracePeriodSeconds parse (aq_Env r),
            pt_Containers = [build_container L r], pt_Volumes = fst (buildK8sVolumes (aq_Mounts r)),
            pt_NodeSelector = buildK8sNodeSelector (aq_Placement r),
            pt_Affinity = buildK8sAffinity (aq_Placement r)\<rparr>,
          jb_Conditions = []\<rparr>)"

subsection \<open>Validation of a request\<close>

definition validatePlacement :: "Placement option \<Rightarrow> unit result" where
  "validatePlacement p =
     (case p of
        None \<Rightarrow> ok
      | Some p \<Rightarrow>
          (if rpl_RequiredNodeName p = '''' then ok
           else let existing = TrimSpace (mread (rpl_NodeSelector p) hostnameNodeSelector)
                in if existing \<noteq> '''' \<and> existing \<noteq> rpl_RequiredNodeName p
                   then Inl (Errorf (''requiredNodeName '' @ Quote (rpl_RequiredNodeName p) @ '' conflicts with nodeSelector[''
                          @ Quote hostnameNodeSelector @ '']='' @ Quote existing))
                   else ok))"

definition validateLabel :: "spawner_lib \<Rightarrow> string \<Rightarrow> string \<Rightarrow> unit result" where
  "validateLabel L k v =
     (if sl_IsQualifiedName L k \<noteq> []
      then Inl (Errorf (''invalid Kubernetes label key '' @ Quote k @ '': '' @ Join (sl_IsQualifiedName L k) ''; ''))
      else if sl_IsValidLabelValue L v \<noteq> []
      then Inl (Errorf (''invalid Kubernetes label value for '' @ Quote k @ '': '' @ Join (sl_IsValidLabelValue L v) ''; ''))
      else ok)"

fun validate_user_labels :: "spawner_lib \<Rightarrow> (string, string) gomap \<Rightarrow> unit result" where
  "validate_user_labels L [] = ok"
| "validate_user_labels L ((k, v) # labels) =
     (if k = labelKueueQueueName then
        (if sl_IsValidLabelValue L v \<noteq> []
         then Inl (Errorf (''invalid kueue queue label value '' @ Quote v @ '': '' @ Join (sl_IsValidLabelValue L v) ''; ''))
         else validate_user_labels L labels)
      else if \<not> HasPrefix k userLabelPrefix
      then Inl (Errorf (''user label '' @ Quote k @ '' must use '' @ userLabelPrefix @ '' prefix''))
      else case validateLabel L k v of Inl e \<Rightarrow> Inl e | Inr _ \<Rightarrow> validate_user_labels L labels)"

fun validate_all_labels :: "spawner_lib \<Rightarrow> (string, string) gomap \<Rightarrow> unit result" where
  "validate_all_labels L [] = ok"
| "validate_all_labels L ((k, v) # labels) =
     (case validateLabel L k v of Inl e \<Rightarrow> Inl e | Inr _ \<Rightarrow> validate_all_labels L labels)"

definition validateK8sJobCreateRequest :: "spawner_lib \<Rightarrow> JobCreateRequest \<Rightarrow> unit result" where
  "validateK8sJobCreateRequest L req =
     (let r = jr_AttemptRequest req in
      if TrimSpace (aq_AttemptID r) = '''' then Inl (Errorf ''attempt-id is required'')
      else if TrimSpace (firstNonEmpty [aq_RunID r, mread (aq_Env r) ''JUMI_RUN_ID'']) = ''''
        then Inl (Errorf ''run id is required'')
      else if TrimSpace (mread (aq_Env r) ''JUMI_NODE_ID'') = '''' then Inl (Errorf ''node id is required'')
      else case validatePlacement (aq_Placement r) of
        Inl e \<Rightarrow> Inl e
      | Inr _ \<Rightarrow>
        (case validate_user_labels L (aq_UserLabels r) of
          Inl e \<Rightarrow> Inl e
        | Inr _ \<Rightarrow> validate_all_labels L (buildLabels req)))"

subsection \<open>Create, delete, snapshot\<close>

record 's job_calls =
  ja_Create :: "string \<Rightarrow> Job \<Rightarrow> ('s, Job result) state"
  ja_Get :: "string \<Rightarrow> string \<Rightarrow> ('s, Job result) state"
  ja_Delete :: "string \<Rightarrow> string \<Rightarrow> string option \<Rightarrow> ('s, unit result) state"

definition existingAttemptMarkerMatches :: "Job \<Rightarrow> string \<Rightarrow> bool" where
  "existingAttemptMarkerMatches job marker =
     (if mread (jb_Annotations job) annotationMarker = marker then True
      else mread (jb_Labels job) labelAttemptMarker = marker)"

definition JobClient_Create ::
  "spawner_lib \<Rightarrow> (string \<Rightarrow> duration result) \<Rightarrow> 's job_calls \<Rightarrow> JobCreateRequest \<Rightarrow> ('s, BackendRef result) state" where
  "JobClient_Create L parse A req =
     (case validateK8sJobCreateRequest L req of
        Inl err \<Rightarrow> State_Monad.return (Inl err)
      | Inr _ \<Rightarrow> do {
          created \<leftarrow> ja_Create A (jr_Namespace req) (buildK8sJob L parse req);
          case created of
            Inr job \<Rightarrow> State_Monad.return (Inr (sl_NewK8sJobBackendRef L (jr_Namespace req) (jr_JobName req) (jb_UID job)))
          | Inl err \<Rightarrow>
              if \<not> sl_IsAlreadyExists L err then State_Monad.return (Inl err)
              else do {
                existing \<leftarrow> ja_Get A (jr_Namespace req) (jr_JobName req);
                State_Monad.return (case existing of
                  Inl getErr \<Rightarrow> Inl (Wrapf ''job AlreadyExists but get failed: '' getErr)
                | Inr job \<Rightarrow>
                    if \<not> existingAttemptMarkerMatches job (jr_AttemptMarker req) then Inl (sl_ErrJobConflict L)
                    else Inr (sl_NewK8sJobBackendRef L (jr_Namespace req) (jr_JobName req) (jb_UID job))) } })"

definition deletePreconditions :: "BackendRef \<Rightarrow> string option" where
  "deletePreconditions ref = (if br_UID ref = '''' then None else Some (br_UID ref))"

definition delete_job :: "spawner_lib \<Rightarrow> 's job_calls \<Rightarrow> BackendRef \<Rightarrow> ('s, unit result) state" where
  "delete_job L A ref = do {
     r \<leftarrow> ja_Delete A (br_Namespace ref) (br_Name ref) (deletePreconditions ref);
     State_Monad.return (case r of Inl err \<Rightarrow> if sl_IsNotFound L err then ok else Inl err | Inr _ \<Rightarrow> ok) }"

definition JobClient_Delete :: "spawner_lib \<Rightarrow> 's job_calls \<Rightarrow> BackendRef \<Rightarrow> ('s, unit result) state" where
  "JobClient_Delete L A ref =
     (if br_UID ref \<noteq> '''' then do {
        got \<leftarrow> ja_Get A (br_Namespace ref) (br_Name ref);
        case got of
          Inl err \<Rightarrow> State_Monad.return (if sl_IsNotFound L err then ok else Inl err)
        | Inr job \<Rightarrow> if jb_UID job \<noteq> br_UID ref then State_Monad.return ok else delete_job L A ref }
      else delete_job L A ref)"

definition mapJobFailureReason :: "spawner_lib \<Rightarrow> string \<Rightarrow> string" where
  "mapJobFailureReason L k8sReason =
     (if k8sReason = ''BackoffLimitExceeded'' then ReasonBackoffExceeded L
      else if k8sReason = ''DeadlineExceeded'' then ReasonDeadlineExceeded L
      else k8sReason)"

definition jobMatchesBackendRef :: "Job \<Rightarrow> BackendRef \<Rightarrow> bool" where
  "jobMatchesBackendRef job ref = (br_UID ref = '''' \<or> jb_UID job = br_UID ref)"

text \<open>The argument \<open>now\<close> is \<^verbatim>\<open>time.Now()\<close> at the call.\<close>

definition jobToState :: "spawner_lib \<Rightarrow> time \<Rightarrow> Job \<Rightarrow> AttemptState \<times> string \<times> string \<times> time" where
  "jobToState L now job =
     (case List.find (\<lambda>c. jc_Type c = JobComplete \<and> jc_True c) (jb_Conditions job) of
        Some c \<Rightarrow> (AttemptStateSucceeded, '''', jc_Message c, jc_LastTransitionTime c)
      | None \<Rightarrow>
        (case List.find (\<lambda>c. jc_Type c = JobFailed \<and> jc_True c) (jb_Conditions job) of
           Some c \<Rightarrow> (AttemptStateFailed, mapJobFailureReason L (jc_Reason c), jc_Message c, jc_LastTransitionTime c)
         | None \<Rightarrow>
             if jb_Suspend job = Some True then (AttemptStateSubmitted, ReasonKueueWaiting L, '''', now)
             else (AttemptStatePending, '''', '''', now)))"

definition no_snapshot :: JobSnapshot where
  "no_snapshot = \<lparr>sn_Exists = False, sn_State = AttemptStateNone, sn_Reason = '''', sn_Message = '''', sn_Timestamp = 0\<rparr>"

definition JobClient_Snapshot ::
  "spawner_lib \<Rightarrow> time \<Rightarrow> 's job_calls \<Rightarrow> BackendRef \<Rightarrow> ('s, JobSnapshot result) state" where
  "JobClient_Snapshot L now A ref = do {
     got \<leftarrow> ja_Get A (br_Namespace ref) (br_Name ref);
     State_Monad.return (case got of
       Inl err \<Rightarrow> if sl_IsNotFound L err then Inr no_snapshot else Inl err
     | Inr job \<Rightarrow>
         if \<not> jobMatchesBackendRef job ref then Inr no_snapshot
         else case jobToState L now job of (st, reason, msg, ts) \<Rightarrow>
           Inr \<lparr>sn_Exists = True, sn_State = st, sn_Reason = reason, sn_Message = msg, sn_Timestamp = ts\<rparr>) }"

subsection \<open>Watch\<close>

definition metadataMatchesIdentityLabels :: "(string, string) gomap \<Rightarrow> (string, string) gomap \<Rightarrow> bool" where
  "metadataMatchesIdentityLabels got expected =
     list_all (\<lambda>key. mread expected key = '''' \<or> mread got key = mread expected key)
       [labelRunKey, labelNodeKey, labelAttemptID]"

definition jobMatchesIdentityLabels :: "Job \<Rightarrow> (string, string) gomap \<Rightarrow> bool" where
  "jobMatchesIdentityLabels job expected = metadataMatchesIdentityLabels (jb_Labels job) expected"

definition podMatchesIdentityLabels :: "Pod \<Rightarrow> (string, string) gomap \<Rightarrow> bool" where
  "podMatchesIdentityLabels pod expected = metadataMatchesIdentityLabels (pd_Labels pod) expected"

definition podWatchLabelSelector :: "spawner_lib \<Rightarrow> Job \<Rightarrow> BackendRef \<Rightarrow> string" where
  "podWatchLabelSelector L job ref =
     sl_LabelSetString L (foldl (\<lambda>selector key. if mread (jb_Labels job) key \<noteq> ''''
         then mput key (mread (jb_Labels job) key) selector else selector)
       [(''job-name'', br_Name ref)] [labelRunKey, labelNodeKey, labelAttemptID])"

definition podPhaseToState :: "Pod \<Rightarrow> AttemptState \<times> bool" where
  "podPhaseToState pod =
     (case pd_Phase pod of
        PodRunning \<Rightarrow> (AttemptStateRunning, True)
      | PodPending \<Rightarrow> (AttemptStatePending, True)
      | _ \<Rightarrow> (AttemptStateNone, False))"

text \<open>
  What the loop receives: each item is one round of its \<^verbatim>\<open>select\<close> (the end of the context, an event of
  the job watch or its closing, an event of the pod watch or its closing) with the time of the
  round and whether a send in that round goes through before the context ends.  Objects of a watch
  that are of another type are \<open>ObjOther\<close>; the code of a status object is kept.
\<close>

datatype watch_type = WatchDeleted | WatchError | WatchOther

datatype watch_object = ObjJob Job | ObjPod Pod | ObjStatus int | ObjOther

datatype watch_item = ItemCtxDone
  | ItemJob watch_type watch_object | ItemJobClosed
  | ItemPod watch_type watch_object | ItemPodClosed

type_synonym watch_round = "watch_item \<times> time \<times> bool"

text \<open>What the goroutine has sent, and whether it has ended and closed its channels.\<close>

record watch_out =
  wa_events :: "JobEvent list"
  wa_errs :: "JobWatchError list"
  wa_closed :: bool

definition watch_start :: watch_out where
  "watch_start = \<lparr>wa_events = [], wa_errs = [], wa_closed = False\<rparr>"

definition close_watch :: "watch_out \<Rightarrow> watch_out" where
  "close_watch w = w\<lparr>wa_closed := True\<rparr>"

definition trySendEvent :: "bool \<Rightarrow> JobEvent \<Rightarrow> watch_out \<Rightarrow> watch_out" where
  "trySendEvent sent ev w = (if sent then w\<lparr>wa_events := wa_events w @ [ev]\<rparr> else w)"

text \<open>The buffer of the error channel holds one error; a send into a full buffer is dropped.\<close>

definition trySendWatchErr :: "string \<Rightarrow> string \<Rightarrow> bool \<Rightarrow> watch_out \<Rightarrow> watch_out" where
  "trySendWatchErr reason msg temporary w =
     (if wa_errs w = []
      then w\<lparr>wa_errs := [\<lparr>we_Reason = reason, we_Message = msg, we_Temporary = temporary\<rparr>]\<rparr> else w)"

definition job_event :: "AttemptState \<times> string \<times> string \<times> time \<Rightarrow> JobEvent" where
  "job_event x = (case x of (s, reason, msg, ts) \<Rightarrow>
     \<lparr>je_State = s, je_Reason = reason, je_Message = msg, je_Timestamp = ts\<rparr>)"

definition watch_job_event ::
  "spawner_lib \<Rightarrow> BackendRef \<Rightarrow> Job \<Rightarrow> watch_type \<Rightarrow> watch_object \<Rightarrow> time \<Rightarrow> bool \<Rightarrow> watch_out \<Rightarrow> watch_out" where
  "watch_job_event L ref job ty obj now sent w =
     (case ty of
        WatchDeleted \<Rightarrow> close_watch (trySendEvent sent
          (job_event (AttemptStateFailed, ReasonSystemCancel L, ''job deleted externally'', now)) w)
      | WatchError \<Rightarrow> close_watch
          (if obj = ObjStatus 410
           then trySendWatchErr (ReasonResourceVersionTooOld L) ''resource version too old (410)'' True w
           else trySendWatchErr (ReasonWatchDisconnected L) ''watch error event'' True w)
      | WatchOther \<Rightarrow>
          (case obj of
             ObjJob j \<Rightarrow>
               (if \<not> jobMatchesBackendRef j ref \<or> \<not> jobMatchesIdentityLabels j (jb_Labels job) then w
                else let st = jobToState L now j; w = trySendEvent sent (job_event st) w
                     in if \<not> sent \<or> sl_IsTerminal L (fst st) then close_watch w else w)
           | _ \<Rightarrow> w))"

definition watch_pod_event ::
  "Job \<Rightarrow> watch_type \<Rightarrow> watch_object \<Rightarrow> time \<Rightarrow> bool \<Rightarrow> watch_out \<Rightarrow> watch_out" where
  "watch_pod_event job ty obj now sent w =
     (if ty = WatchDeleted then w
      else case obj of
        ObjPod pod \<Rightarrow>
          (if \<not> podMatchesIdentityLabels pod (jb_Labels job) then w
           else case podPhaseToState pod of (s, emit) \<Rightarrow>
             if \<not> emit then w
             else let w = trySendEvent sent (job_event (s, '''', '''', now)) w
                  in if \<not> sent then close_watch w else w)
      | _ \<Rightarrow> w)"

text \<open>
  The loop.  After the pod channel is closed, or when the pod watch could not be opened
  (\<open>pods = False\<close>), the loop does not receive from it; a round of that kind is then impossible and is
  skipped.
\<close>

fun watch_loop :: "spawner_lib \<Rightarrow> BackendRef \<Rightarrow> Job \<Rightarrow> bool \<Rightarrow> watch_round list \<Rightarrow> watch_out \<Rightarrow> watch_out" where
  "watch_loop L ref job pods [] w = w"
| "watch_loop L ref job pods ((item, now, sent) # rounds) w =
     (case item of
        ItemCtxDone \<Rightarrow> close_watch w
      | ItemJobClosed \<Rightarrow> close_watch (trySendWatchErr (ReasonWatchDisconnected L) ''watch stream closed'' True w)
      | ItemJob ty obj \<Rightarrow>
          (let w = watch_job_event L ref job ty obj now sent w
           in if wa_closed w then w else watch_loop L ref job pods rounds w)
      | ItemPodClosed \<Rightarrow> watch_loop L ref job False rounds w
      | ItemPod ty obj \<Rightarrow>
          (if \<not> pods then watch_loop L ref job pods rounds w
           else let w = watch_pod_event job ty obj now sent w
                in if wa_closed w then w else watch_loop L ref job pods rounds w))"

text \<open>
  The goroutine: the answer of the first \<^verbatim>\<open>Get\<close>, whether the job watch and the pod watch could be
  opened, and the rounds.
\<close>

definition watchJob ::
  "spawner_lib \<Rightarrow> BackendRef \<Rightarrow> Job result \<Rightarrow> time \<Rightarrow> bool \<Rightarrow> go_error option \<Rightarrow> bool \<Rightarrow> watch_round list \<Rightarrow> watch_out" where
  "watchJob L ref got now sent jwErr pods rounds =
     (case got of
        Inl err \<Rightarrow>
          (if sl_IsNotFound L err then close_watch watch_start
           else close_watch (trySendWatchErr (ReasonWatchDisconnected L) (Error err) True watch_start))
      | Inr job \<Rightarrow>
          (if \<not> jobMatchesBackendRef job ref then close_watch watch_start
           else let st = jobToState L now job in
             if sl_IsTerminal L (fst st) then close_watch (trySendEvent sent (job_event st) watch_start)
             else case jwErr of
               Some err \<Rightarrow> close_watch (trySendWatchErr (ReasonWatchDisconnected L) (Error err) True watch_start)
             | None \<Rightarrow> watch_loop L ref job pods rounds watch_start))"

end
