(* ===== verification/Spawner_Adapter.thy ===== *)
theory Spawner_Adapter
  imports Node_Contract K8s_Types
begin

text \<open>
  The second part of \<^verbatim>\<open>pkg/backend/spawner_k8s.go\<close>: the adapter that runs nodes as Kubernetes jobs
  through the spawner runtime.

  The runtime (\<^verbatim>\<open>SubmitAttempt\<close>, \<^verbatim>\<open>WatchAttempt\<close>, \<^verbatim>\<open>CancelAttempt\<close>), the observer, the
  Kubernetes client and the JSON codec are not code of the repository: they are the fields of the
  argument \<open>K\<close> (the record types are in \<open>K8s_Types\<close>).  A call takes the moment it is made, so that
  two calls may answer differently.  \<open>ke_ExecCat\<close> is the remote command \<^verbatim>\<open>cat\<close> in the main container of
  a pod: it fails with an error and what was written to the error stream.

  A method is a program over the adapter's counters.
\<close>

subsection \<open>Events\<close>

definition zero_AttemptEvent :: AttemptEvent where
  "zero_AttemptEvent = \<lparr>ae_State = AttemptStateNone, ae_Reason = '''', ae_Message = ''''\<rparr>"

text \<open>
  What the wait loop receives, in order: events of the channel and the end of its context; the
  channel is closed after the last one.
\<close>

datatype wait_item = WaitEvent AttemptEvent | WaitCtxDone go_error

subsection \<open>Observations\<close>

record WorkloadObservation =
  wo_WorkloadName :: string
  wo_PendingReason :: string
  wo_Admitted :: bool

record PodObservation =
  po_PodName :: string
  po_Scheduled :: bool
  po_UnschedulableReason :: string

subsection \<open>The adapter\<close>

record runtimeHandle =
  rh_handle :: AttemptHandle
  rh_queueName :: string

record preparedRuntimeNode =
  pr_req :: AttemptRequest
  pr_queueName :: string

text \<open>Values of the Go types \<^verbatim>\<open>Handle\<close> and \<^verbatim>\<open>PreparedNode\<close>, with the name of a foreign type.\<close>

datatype handle_value = RuntimeHandle runtimeHandle | ForeignHandle string
datatype prepared_value = PreparedRuntimeNode preparedRuntimeNode | ForeignPrepared string

record k8s_env =
  ke_ns :: string
  ke_metrics :: bool
  ke_observer :: bool
  ke_clientset :: bool
  ke_restConfig :: bool
  ke_runtime :: bool
  ke_lib :: spawner_lib
  ke_clock :: "nat \<Rightarrow> time"
  ke_SubmitAttempt :: "nat \<Rightarrow> ctx \<Rightarrow> AttemptRequest \<Rightarrow> AttemptHandle result"
  ke_WatchAttempt :: "nat \<Rightarrow> ctx \<Rightarrow> AttemptHandle \<Rightarrow> wait_item list result"
  ke_CancelAttempt :: "nat \<Rightarrow> ctx \<Rightarrow> AttemptHandle \<Rightarrow> unit result"
  ke_ObserveWorkload :: "nat \<Rightarrow> ctx \<Rightarrow> string \<Rightarrow> WorkloadObservation result"
  ke_ObservePod :: "nat \<Rightarrow> ctx \<Rightarrow> string \<Rightarrow> PodObservation result"
  ke_ctxErr :: "nat \<Rightarrow> ctx \<Rightarrow> go_error option"
  ke_GetPod :: "nat \<Rightarrow> ctx \<Rightarrow> string \<Rightarrow> string \<Rightarrow> Pod result"
  ke_ListPods :: "nat \<Rightarrow> ctx \<Rightarrow> string \<Rightarrow> string \<Rightarrow> Pod list result"
  ke_ExecCat :: "nat \<Rightarrow> ctx \<Rightarrow> string \<Rightarrow> string \<Rightarrow> string \<Rightarrow> (go_error \<times> string) + string"
  ke_ResolveIdentity :: "string \<Rightarrow> AttemptIdentity result"
  ke_GetJob :: "nat \<Rightarrow> ctx \<Rightarrow> string \<Rightarrow> string \<Rightarrow> Job result"
  ke_unmarshal_manifest :: "string \<Rightarrow> ArtifactManifest result"
  ke_marshal_contract :: "nodeContractFile \<Rightarrow> string result"
  ke_marshal_handle :: "AttemptHandle \<times> string \<Rightarrow> string result"
  ke_unmarshal_handle :: "string \<Rightarrow> (AttemptHandle \<times> string) result"
  ke_getenv :: "string \<Rightarrow> string"

type_synonym 'a adapter_prog = "((string, nat) gomap, 'a) state"

definition count_metric :: "k8s_env \<Rightarrow> string \<Rightarrow> unit adapter_prog" where
  "count_metric K name =
     (if ke_metrics K
      then State (\<lambda>m. ((), mput name (Suc (case map_of m name of None \<Rightarrow> 0 | Some n \<Rightarrow> n)) m))
      else State_Monad.return ())"

subsection \<open>Requests\<close>

definition kueueQueueName :: "Node \<Rightarrow> string" where
  "kueueQueueName node = (case nd_Kueue node of None \<Rightarrow> '''' | Some k \<Rightarrow> kh_QueueName k)"

definition toRuntimeMount :: "Mount \<Rightarrow> RuntimeMount" where
  "toRuntimeMount m =
     (let host = HasPrefix (mt_Source m) ''hostpath:''
      in \<lparr>mo_Kind = (if host then MountKindHostPath else MountKindPVC),
          mo_Source = (if host then TrimPrefix (mt_Source m) ''hostpath:'' else mt_Source m),
          mo_Target = mt_Target m,
          mo_ReadOnly = (EqualFold (mt_Mode m) ''ro'' \<or> EqualFold (mt_Mode m) ''readonly'')\<rparr>)"

definition user_labels :: "Node \<Rightarrow> (string, string) gomap" where
  "user_labels node =
     (case nd_Kueue node of
        None \<Rightarrow> []
      | Some k \<Rightarrow>
          foldl (\<lambda>m (key, v). if HasPrefix key ''user.jumi.io/'' then mput key v m else m)
            (if kh_QueueName k \<noteq> '''' then [(''kueue.x-k8s.io/queue-name'', kh_QueueName k)] else [])
            (kh_Labels k))"

definition user_annotations :: "RunRecord \<Rightarrow> Node \<Rightarrow> (string, string) gomap" where
  "user_annotations run node =
     (let trace = rm_TraceID (es_Run (rr_Spec run))
      in if trace \<noteq> '''' then mput ''jumi.trace-id'' trace (nd_Metadata node) else nd_Metadata node)"

text \<open>
  \<^verbatim>\<open>time.Duration(seconds) * time.Second\<close> is a product of 64-bit integers, which wraps.
\<close>

definition attempt_timeout :: "int \<Rightarrow> 64 word" where
  "attempt_timeout seconds = (if seconds > 0 then word_of_int seconds * 1000000000 else 0)"

definition toAttemptRequest :: "k8s_env \<Rightarrow> RunRecord \<Rightarrow> Node \<Rightarrow> AttemptRequest" where
  "toAttemptRequest K run node =
     \<lparr>aq_AttemptID = mread (nd_Env node) ''JUMI_ATTEMPT_ID'',
      aq_RunID = rr_RunID run,
      aq_CorrelationID = rm_TraceID (es_Run (rr_Spec run)),
      aq_ImageRef = nd_Image node,
      aq_Command = wrapCommandForManifestExport (ke_getenv K) (nd_Command node @ nd_Args node) node,
      aq_WorkingDir = nd_WorkingDir node,
      aq_Env = injectOutputContractEnv (ke_marshal_contract K) run node (nd_Env node),
      aq_CPU = rp_CPU (nd_ResourceProfile node), aq_Memory = rp_Memory (nd_ResourceProfile node),
      aq_ServiceAccountName = nd_ServiceAccountName node,
      aq_Mounts = map toRuntimeMount (nd_Mounts node),
      aq_Placement = map_option (\<lambda>p. \<lparr>rpl_NodeSelector = pl_NodeSelector p,
         rpl_RequiredNodeName = pl_RequiredNodeName p,
         rpl_PreferredNodes = map (\<lambda>n. \<lparr>pf_NodeName = wp_NodeName n, pf_Weight = wp_Weight n\<rparr>) (pl_PreferredNodes p)\<rparr>)
         (nd_Placement node),
      aq_UserLabels = user_labels node,
      aq_UserAnnotations = user_annotations run node,
      aq_TTLSecondsAfterFinished = cp_TTLSecondsAfterFinished (nd_CleanupPolicy node),
      aq_AttemptTimeout = attempt_timeout (tp_Seconds (nd_TimeoutPolicy node))\<rparr>"

definition runtimeReasonToFailure :: "spawner_lib \<Rightarrow> string \<Rightarrow> string" where
  "runtimeReasonToFailure R reason =
     (if reason = ReasonOOMKilled R then ''oom_killed''
      else if reason = ReasonNodeLost R then ''node_lost''
      else if reason = ReasonBackoffExceeded R then ''backoff_exceeded''
      else if reason = ReasonDeadlineExceeded R then ''deadline_exceeded''
      else if reason = ReasonImagePullFailed R then ''image_pull_failed''
      else ''backend_wait_error'')"

subsection \<open>Prepare, start, wait, cancel\<close>

record AdapterStatus =
  as_Ready :: bool
  as_ReleaseBounded :: bool
  as_ReleaseInflight :: int
  as_ReleaseSlotsAvailable :: int
  as_ReleaseMaxConcurrent :: int

definition K8s_AdapterStatus :: "k8s_env \<Rightarrow> AdapterStatus" where
  "K8s_AdapterStatus K = \<lparr>as_Ready = ke_runtime K, as_ReleaseBounded = False, as_ReleaseInflight = 0,
     as_ReleaseSlotsAvailable = 0, as_ReleaseMaxConcurrent = 0\<rparr>"

definition K8s_PrepareNode :: "k8s_env \<Rightarrow> RunRecord \<Rightarrow> Node \<Rightarrow> prepared_value result adapter_prog" where
  "K8s_PrepareNode K run node = do {
     count_metric K ''K8sNodePrepare'';
     State_Monad.return (Inr (PreparedRuntimeNode \<lparr>pr_req = toAttemptRequest K run node, pr_queueName = kueueQueueName node\<rparr>)) }"

definition K8s_StartNode :: "k8s_env \<Rightarrow> nat \<Rightarrow> ctx \<Rightarrow> prepared_value \<Rightarrow> handle_value result adapter_prog" where
  "K8s_StartNode K t c prepared = do {
     count_metric K ''K8sNodeStart'';
     case prepared of
       ForeignPrepared ty \<Rightarrow> do {
         count_metric K ''K8sNodeStartErrors'';
         State_Monad.return (Inl (Errorf (''unexpected prepared type '' @ ty))) }
     | PreparedRuntimeNode n \<Rightarrow>
         (case ke_SubmitAttempt K t c (pr_req n) of
            Inl err \<Rightarrow> do { count_metric K ''K8sNodeStartErrors''; State_Monad.return (Inl err) }
          | Inr h \<Rightarrow> State_Monad.return (Inr (RuntimeHandle \<lparr>rh_handle = h, rh_queueName = pr_queueName n\<rparr>))) }"

text \<open>The loop labelled \<^verbatim>\<open>waitLoop\<close>: the last event before the channel is closed.\<close>

fun wait_loop :: "wait_item list \<Rightarrow> AttemptEvent \<Rightarrow> AttemptEvent result" where
  "wait_loop [] ev = Inr ev"
| "wait_loop (WaitEvent e # items) ev = wait_loop items e"
| "wait_loop (WaitCtxDone err # items) ev = Inl err"

definition exec_result :: "bool \<Rightarrow> string \<Rightarrow> string \<Rightarrow> ExecutionResult" where
  "exec_result ok' cause reason = \<lparr>er_Succeeded = ok', er_TerminalStopCause = cause,
     er_TerminalFailureReason = reason, er_Kueue = None\<rparr>"

definition waitRuntimeHandle ::
  "k8s_env \<Rightarrow> nat \<Rightarrow> ctx \<Rightarrow> runtimeHandle \<Rightarrow> (ExecutionResult \<times> go_error option) adapter_prog" where
  "waitRuntimeHandle K t c h =
     (case ke_WatchAttempt K t c (rh_handle h) of
        Inl err \<Rightarrow> State_Monad.return (exec_result False ''failed'' ''backend_wait_error'', Some err)
      | Inr ch \<Rightarrow>
          (case wait_loop ch zero_AttemptEvent of
             Inl err \<Rightarrow> State_Monad.return (exec_result False ''canceled'' ''cancellation_requested'', Some err)
           | Inr lastEv \<Rightarrow>
               if ae_State lastEv = AttemptStateSucceeded then do {
                 count_metric K ''K8sNodeSucceeded'';
                 State_Monad.return (exec_result True ''finished'' '''', None) }
               else if ae_State lastEv = AttemptStateCancelled then do {
                 count_metric K ''K8sNodeCanceled'';
                 State_Monad.return (exec_result False ''canceled'' ''cancellation_propagated'', Some (Errorf ''node canceled'')) }
               else do {
                 count_metric K ''K8sNodeFailed'';
                 let msg = (if TrimSpace (ae_Message lastEv) = '''' then ''node failed'' else TrimSpace (ae_Message lastEv));
                 State_Monad.return (exec_result False ''failed'' (runtimeReasonToFailure (ke_lib K) (ae_Reason lastEv)),
                   Some (Errorf (''node failed: '' @ msg))) }))"

definition K8s_WaitNode ::
  "k8s_env \<Rightarrow> nat \<Rightarrow> ctx \<Rightarrow> handle_value \<Rightarrow> (ExecutionResult \<times> go_error option) adapter_prog" where
  "K8s_WaitNode K t c handle =
     (case handle of
        ForeignHandle ty \<Rightarrow> State_Monad.return (exec_result False ''failed'' ''backend_wait_error'',
           Some (Errorf (''unexpected handle type '' @ ty)))
      | RuntimeHandle h \<Rightarrow> waitRuntimeHandle K t c h)"

definition K8s_CancelNode :: "k8s_env \<Rightarrow> nat \<Rightarrow> ctx \<Rightarrow> handle_value \<Rightarrow> unit result adapter_prog" where
  "K8s_CancelNode K t c handle = do {
     count_metric K ''K8sNodeCancel'';
     State_Monad.return (case handle of
       ForeignHandle ty \<Rightarrow> Inl (Errorf (''unexpected handle type '' @ ty))
     | RuntimeHandle h \<Rightarrow> ke_CancelAttempt K t c (rh_handle h)) }"

subsection \<open>Observation\<close>

text \<open>
  \<^verbatim>\<open>fillPodObservation\<close> writes into \<open>info\<close>, which keeps what was written before an error.
\<close>

definition fillPodObservation ::
  "k8s_env \<Rightarrow> nat \<Rightarrow> ctx \<Rightarrow> string \<Rightarrow> OptionalKueueInfo \<Rightarrow> OptionalKueueInfo \<times> go_error option" where
  "fillPodObservation K t c jobName info =
     (case ke_ObservePod K t c jobName of
        Inl err \<Rightarrow> (info, Some err)
      | Inr podObs \<Rightarrow>
          (let info = info\<lparr>kq_PodName := po_PodName podObs, kq_Scheduled := po_Scheduled podObs,
                 kq_UnschedulableReason := po_UnschedulableReason podObs\<rparr>
           in if \<not> ke_clientset K \<or> po_PodName podObs = '''' then (info, None)
              else case ke_GetPod K t c (ke_ns K) (po_PodName podObs) of
                     Inl err \<Rightarrow> (info, Some err)
                   | Inr pod \<Rightarrow> (info\<lparr>kq_PodNodeName := pd_NodeName pod\<rparr>, None)))"

text \<open>
  The polling loop.  One round reads the clock, asks the observer, and waits for a quarter of a
  second or for the end of the context; the next round is at the next moment.  Nothing in the text
  of the loop bounds the number of rounds, so the loop is a partial function.
\<close>

definition workload_info ::
  "k8s_env \<Rightarrow> nat \<Rightarrow> ctx \<Rightarrow> string \<Rightarrow> OptionalKueueInfo \<Rightarrow> WorkloadObservation \<Rightarrow> OptionalKueueInfo" where
  "workload_info K t c jobName info obs =
     (let info = info\<lparr>kq_Observed := True, kq_WorkloadName := wo_WorkloadName obs,
            kq_PendingReason := wo_PendingReason obs, kq_Admitted := wo_Admitted obs\<rparr>
      in if wo_Admitted obs then fst (fillPodObservation K t c jobName info) else info)"

partial_function (option) observe_loop ::
  "k8s_env \<Rightarrow> ctx \<Rightarrow> string \<Rightarrow> time \<Rightarrow> OptionalKueueInfo \<Rightarrow> nat \<Rightarrow> OptionalKueueInfo option result option" where
  "observe_loop K c jobName deadline info t =
     (if ke_clock K t < deadline
      then (case ke_ObserveWorkload K t c jobName of
              Inr obs \<Rightarrow> Some (Inr (Some (workload_info K t c jobName info obs)))
            | Inl _ \<Rightarrow>
                (case ke_ctxErr K t c of
                   Some e \<Rightarrow> Some (Inl e)
                 | None \<Rightarrow> observe_loop K c jobName deadline info (Suc t)))
      else Some (Inr (Some info)))"

definition observe_window :: duration where
  "observe_window = 3000000000"

definition observe_interval :: duration where
  "observe_interval = 250000000"

definition new_kueue_info :: "string \<Rightarrow> OptionalKueueInfo" where
  "new_kueue_info queueName = \<lparr>kq_Observed = False, kq_QueueName = queueName, kq_WorkloadName = '''',
     kq_PendingReason = '''', kq_Admitted = False, kq_PodName = '''', kq_PodNodeName = '''',
     kq_Scheduled = False, kq_UnschedulableReason = ''''\<rparr>"

definition K8s_ObserveNode ::
  "k8s_env \<Rightarrow> nat \<Rightarrow> ctx \<Rightarrow> handle_value \<Rightarrow> OptionalKueueInfo option result option" where
  "K8s_ObserveNode K t c handle =
     (case handle of
        ForeignHandle _ \<Rightarrow> Some (Inr None)
      | RuntimeHandle rh \<Rightarrow>
          (let jobName = br_Name (ah_BackendRef (rh_handle rh));
               queueName = rh_queueName rh;
               info = new_kueue_info queueName
           in if jobName = '''' \<or> \<not> ke_observer K then Some (Inr None)
              else if queueName = '''' then
                (case fillPodObservation K t c jobName info of
                   (info, Some err) \<Rightarrow> Some (Inr None)
                 | (info, None) \<Rightarrow> Some (Inr (Some (info\<lparr>kq_Observed := True\<rparr>))))
              else observe_loop K c jobName (ke_clock K t + observe_window) info (Suc t)))"

subsection \<open>The pod of a job\<close>

text \<open>The three loops over the container statuses stop at the first terminated main container.\<close>

fun main_terminated :: "ContainerStatus list \<Rightarrow> Terminated option" where
  "main_terminated [] = None"
| "main_terminated (s # ss) =
     (if cs_Name s \<noteq> ''main'' \<or> cs_Terminated s = None then main_terminated ss else cs_Terminated s)"

definition mainContainerSucceeded :: "Pod \<Rightarrow> bool" where
  "mainContainerSucceeded pod =
     (case main_terminated (pd_ContainerStatuses pod) of None \<Rightarrow> False | Some te \<Rightarrow> te_ExitCode te = 0)"

fun main_is_terminated :: "ContainerStatus list \<Rightarrow> bool" where
  "main_is_terminated [] = False"
| "main_is_terminated (s # ss) =
     (if cs_Name s = ''main'' \<and> cs_Terminated s \<noteq> None then True else main_is_terminated ss)"

definition mainContainerTerminated :: "Pod \<Rightarrow> bool" where
  "mainContainerTerminated pod = main_is_terminated (pd_ContainerStatuses pod)"

definition terminatedAt :: "Pod \<Rightarrow> time" where
  "terminatedAt pod =
     (case main_terminated (pd_ContainerStatuses pod) of None \<Rightarrow> 0 | Some te \<Rightarrow> te_FinishedAt te)"

definition podSucceededLater :: "Pod \<Rightarrow> Pod \<Rightarrow> bool" where
  "podSucceededLater candidate current = (terminatedAt candidate > terminatedAt current)"

definition podTerminatedLater :: "Pod \<Rightarrow> Pod \<Rightarrow> bool" where
  "podTerminatedLater candidate current = (terminatedAt candidate > terminatedAt current)"

fun best_pod :: "(Pod \<Rightarrow> bool) \<Rightarrow> (Pod \<Rightarrow> Pod \<Rightarrow> bool) \<Rightarrow> Pod list \<Rightarrow> Pod option \<Rightarrow> Pod option" where
  "best_pod eligible later [] best = best"
| "best_pod eligible later (pod # pods) best =
     best_pod eligible later pods
       (if \<not> eligible pod then best
        else case best of None \<Rightarrow> Some pod | Some b \<Rightarrow> if later pod b then Some pod else best)"

definition findJobPod :: "k8s_env \<Rightarrow> nat \<Rightarrow> ctx \<Rightarrow> string \<Rightarrow> string \<Rightarrow> Pod result" where
  "findJobPod K t c ns jobName =
     (case ke_ListPods K t c ns (''job-name='' @ jobName) of
        Inl err \<Rightarrow> Inl err
      | Inr [] \<Rightarrow> Inl (Errorf (''no pods found for job '' @ jobName))
      | Inr (first # pods) \<Rightarrow>
          (case best_pod mainContainerSucceeded podSucceededLater (first # pods) None of
             Some best \<Rightarrow> Inr best
           | None \<Rightarrow>
               (case best_pod mainContainerTerminated podTerminatedLater (first # pods) None of
                  Some best \<Rightarrow> Inr best
                | None \<Rightarrow> Inr first)))"

subsection \<open>Output metadata\<close>

definition terminatedMessage :: "Terminated option \<Rightarrow> string" where
  "terminatedMessage s = (case s of None \<Rightarrow> '''' | Some te \<Rightarrow> te_Message te)"

fun main_message :: "ContainerStatus list \<Rightarrow> string" where
  "main_message [] = ''''"
| "main_message (s # ss) =
     (if cs_Name s \<noteq> ''main'' then main_message ss
      else if TrimSpace (terminatedMessage (cs_Terminated s)) \<noteq> ''''
        then TrimSpace (terminatedMessage (cs_Terminated s))
      else if TrimSpace (terminatedMessage (cs_LastTerminated s)) \<noteq> ''''
        then TrimSpace (terminatedMessage (cs_LastTerminated s))
      else main_message ss)"

definition readArtifactsManifestFromTerminationMessage :: "Pod \<Rightarrow> string" where
  "readArtifactsManifestFromTerminationMessage pod = main_message (pd_ContainerStatuses pod)"

definition manifestPathForNode :: "Node \<Rightarrow> string" where
  "manifestPathForNode node =
     (let path = TrimSpace (mread (nd_Env node) ''JUMI_OUTPUT_MANIFEST_PATH'')
      in if path \<noteq> '''' then path else DefaultArtifactsManifestPath)"

definition readArtifactsManifest ::
  "k8s_env \<Rightarrow> nat \<Rightarrow> ctx \<Rightarrow> string \<Rightarrow> string \<Rightarrow> string \<Rightarrow> string result" where
  "readArtifactsManifest K t c ns podName manifestPath =
     (let ns = (if TrimSpace ns = '''' then ke_ns K else ns);
          manifestPath = (if TrimSpace manifestPath = '''' then DefaultArtifactsManifestPath else manifestPath)
      in case ke_ExecCat K t c ns podName manifestPath of
           Inl (err, stderr) \<Rightarrow> Inl (if stderr \<noteq> '''' then Wrapf_suffix err ('': '' @ TrimSpace stderr) else err)
         | Inr stdout \<Rightarrow> Inr stdout)"

definition outputMetadataJobRef :: "handle_value \<Rightarrow> string \<times> string \<times> bool" where
  "outputMetadataJobRef handle =
     (case handle of
        ForeignHandle _ \<Rightarrow> ('''', '''', False)
      | RuntimeHandle h \<Rightarrow>
          (let ref = ah_BackendRef (rh_handle h) in (br_Namespace ref, br_Name ref, br_Name ref \<noteq> '''')))"

definition outputProducerAttemptID :: "ArtifactRecord \<Rightarrow> ArtifactManifest \<Rightarrow> string" where
  "outputProducerAttemptID record' manifest =
     (if TrimSpace (at_ProducerAttemptID record') \<noteq> '''' then at_ProducerAttemptID record'
      else am_AttemptID manifest)"

definition check_identity :: "string \<Rightarrow> string \<Rightarrow> string \<Rightarrow> unit result" where
  "check_identity field got expected =
     (if expected = '''' then ok
      else if got = '''' then Inl (Errorf (''manifest '' @ field @ '' is required''))
      else if got \<noteq> expected
        then Inl (Errorf (''manifest '' @ field @ '' = '' @ Quote got @ '', want '' @ Quote expected))
      else ok)"

definition validateObservedManifest :: "ArtifactManifest \<Rightarrow> Node \<Rightarrow> unit result" where
  "validateObservedManifest manifest node =
     (if am_SchemaVersion manifest \<noteq> '''' \<and> am_SchemaVersion manifest \<noteq> ArtifactManifestSchemaVersion
         \<and> am_SchemaVersion manifest \<noteq> ''nan.artifactManifest.v1''
      then Inl (Errorf (''unsupported manifest schemaVersion '' @ Quote (am_SchemaVersion manifest)))
      else case check_identity ''runId'' (am_RunID manifest) (TrimSpace (mread (nd_Env node) ''JUMI_RUN_ID'')) of
        Inl e \<Rightarrow> Inl e
      | Inr _ \<Rightarrow>
        (case check_identity ''nodeId'' (am_NodeID manifest) (TrimSpace (mread (nd_Env node) ''JUMI_NODE_ID'')) of
          Inl e \<Rightarrow> Inl e
        | Inr _ \<Rightarrow>
          check_identity ''attemptId'' (am_AttemptID manifest) (TrimSpace (mread (nd_Env node) ''JUMI_ATTEMPT_ID''))))"

definition output_metadata :: "ArtifactManifest \<Rightarrow> Pod \<Rightarrow> string \<Rightarrow> ArtifactRecord \<Rightarrow> OutputMetadata" where
  "output_metadata manifest pod outputName record' =
     \<lparr>om_OutputName = outputName, om_URI = at_URI record', om_LogicalURI = at_LogicalURI record',
      om_Digest = at_Digest record', om_SizeBytes = at_SizeBytes record',
      om_ProducerAttemptID = outputProducerAttemptID record' manifest,
      om_Locations = at_Locations record', om_NodeName = pd_NodeName pod, om_PodName = pd_Name pod\<rparr>"

fun collect_outputs ::
  "ArtifactManifest \<Rightarrow> Pod \<Rightarrow> string list \<Rightarrow> (string, OutputMetadata) gomap \<Rightarrow> (string, OutputMetadata) gomap" where
  "collect_outputs manifest pod [] out = out"
| "collect_outputs manifest pod (outputName # outputs) out =
     collect_outputs manifest pod outputs
       (case ByOutputName manifest outputName of
          None \<Rightarrow> out
        | Some record' \<Rightarrow> mput outputName (output_metadata manifest pod outputName record') out)"

definition CollectOutputMetadata ::
  "k8s_env \<Rightarrow> nat \<Rightarrow> ctx \<Rightarrow> handle_value \<Rightarrow> Node \<Rightarrow> (string, OutputMetadata) gomap result" where
  "CollectOutputMetadata K t c handle node =
     (case outputMetadataJobRef handle of (ns, jobName, found) \<Rightarrow>
      if \<not> found then Inl ErrOutputMetadataUnavailable
      else if jobName = '''' \<or> \<not> ke_clientset K \<or> \<not> ke_restConfig K then Inl ErrOutputMetadataUnavailable
      else case findJobPod K t c ns jobName of
        Inl _ \<Rightarrow> Inl ErrOutputMetadataUnavailable
      | Inr pod \<Rightarrow>
        (case (let raw = readArtifactsManifestFromTerminationMessage pod
               in if raw = '''' then readArtifactsManifest K t c ns (pd_Name pod) (manifestPathForNode node)
                  else Inr raw) of
          Inl _ \<Rightarrow> Inl ErrOutputMetadataUnavailable
        | Inr raw \<Rightarrow>
          (case ParseArtifactManifest (ke_unmarshal_manifest K) raw of
            Inl err \<Rightarrow> Inl (Wrapf (''parse artifacts manifest for pod '' @ pd_Name pod @ '': '') err)
          | Inr manifest \<Rightarrow>
            (case validateObservedManifest manifest node of
              Inl err \<Rightarrow> Inl (Wrapf (''validate artifacts manifest for pod '' @ pd_Name pod @ '': '') err)
            | Inr _ \<Rightarrow>
              (let out = collect_outputs manifest pod (nd_Outputs node) []
               in if out = [] then Inl ErrOutputMetadataUnavailable else Inr out)))))"

subsection \<open>Handles that survive a restart\<close>

definition MarshalHandle :: "k8s_env \<Rightarrow> handle_value \<Rightarrow> string option result" where
  "MarshalHandle K h =
     (case h of
        ForeignHandle _ \<Rightarrow> Inr None
      | RuntimeHandle rh \<Rightarrow>
          (case ke_marshal_handle K (rh_handle rh, rh_queueName rh) of
             Inl e \<Rightarrow> Inl e
           | Inr data \<Rightarrow> Inr (Some data)))"

definition UnmarshalHandle :: "k8s_env \<Rightarrow> string \<Rightarrow> handle_value result" where
  "UnmarshalHandle K data =
     (case ke_unmarshal_handle K data of
        Inl err \<Rightarrow> Inl err
      | Inr (h, queueName) \<Rightarrow> Inr (RuntimeHandle \<lparr>rh_handle = h, rh_queueName = queueName\<rparr>))"

subsection \<open>\<^verbatim>\<open>attempt_resolver.go\<close>\<close>

definition annotationAttemptMarker :: string where
  "annotationAttemptMarker = ''jumi.io/attempt-marker''"

definition labelQueueName :: string where
  "labelQueueName = ''kueue.x-k8s.io/queue-name''"

definition ResolveByIdentity ::
  "k8s_env \<Rightarrow> nat \<Rightarrow> ctx \<Rightarrow> string \<Rightarrow> handle_value option \<times> ResolveOutcome \<times> go_error option" where
  "ResolveByIdentity K t c attemptID =
     (if \<not> ke_runtime K
      then (None, ResolveUnknown, Some (Errorf ''resolve by identity: runtime not configured''))
      else if \<not> ke_clientset K
      then (None, ResolveUnknown, Some (Errorf ''resolve by identity: clientset not configured''))
      else case ke_ResolveIdentity K attemptID of
        Inl err \<Rightarrow> (None, ResolveUnknown, Some (Wrapf (''resolve identity for attempt '' @ attemptID @ '': '') err))
      | Inr i \<Rightarrow>
        (case ke_GetJob K t c (id_Namespace i) (id_JobName i) of
          Inl err \<Rightarrow>
            (if sl_IsNotFound (ke_lib K) err then (None, ResolveAbsentNow, None)
             else (None, ResolveUnknown,
               Some (Wrapf (''read-only get job '' @ id_Namespace i @ ''/'' @ id_JobName i @ '': '') err)))
        | Inr job \<Rightarrow>
            (if id_AttemptMarker i = ''''
             then (None, ResolveUnknown,
               Some (Errorf (''resolve identity for attempt '' @ attemptID @ '': empty attempt marker'')))
             else if mread (jb_Annotations job) annotationAttemptMarker \<noteq> id_AttemptMarker i
             then (None, ResolveConflict, None)
             else (Some (RuntimeHandle \<lparr>rh_handle = \<lparr>ah_AttemptID = attemptID,
                      ah_BackendRef = sl_NewK8sJobBackendRef (ke_lib K) (id_Namespace i) (id_JobName i) (jb_UID job)\<rparr>,
                    rh_queueName = mread (jb_Labels job) labelQueueName\<rparr>), ResolveFound, None))))"

end
