(* ===== verification/Spawner_Laws.thy ===== *)
theory Spawner_Laws
  imports Spawner_Adapter
begin

text \<open>
  What the adapter of \<^verbatim>\<open>pkg/backend\<close> promises: the observation of a node returns after at most twelve
  polls, output metadata is only ever taken from a manifest of the node's own attempt and from the
  pod that finished last with success, a handle survives being stored, and the timeout of an
  attempt is the one of the specification as long as it fits into a duration.
\<close>

subsection \<open>Polling\<close>

text \<open>The clock of an environment in which every round of the loop waits for its timer.\<close>

definition ticking :: "k8s_env \<Rightarrow> bool" where
  "ticking K \<longleftrightarrow> (\<forall>n. ke_clock K n + observe_interval \<le> ke_clock K (Suc n))"

lemma ticking_le:
  assumes "ticking K"
  shows "ke_clock K t + int k * observe_interval \<le> ke_clock K (t + k)"
proof (induction k)
  case 0
  then show ?case by simp
next
  case (Suc k)
  have "ke_clock K (t + k) + observe_interval \<le> ke_clock K (t + Suc k)"
    using assms by (simp add: ticking_def)
  with Suc show ?case by (simp add: algebra_simps)
qed

text \<open>How a round of the loop ends it.\<close>

definition poll_ends ::
  "k8s_env \<Rightarrow> ctx \<Rightarrow> string \<Rightarrow> time \<Rightarrow> OptionalKueueInfo \<Rightarrow> nat \<Rightarrow> OptionalKueueInfo option result \<Rightarrow> bool" where
  "poll_ends K c jobName deadline info n r \<longleftrightarrow>
     (deadline \<le> ke_clock K n \<and> r = Inr (Some info)) \<or>
     (ke_clock K n < deadline \<and> (\<exists>obs. ke_ObserveWorkload K n c jobName = Inr obs \<and>
        r = Inr (Some (workload_info K n c jobName info obs)))) \<or>
     (ke_clock K n < deadline \<and> (\<exists>e e'. ke_ObserveWorkload K n c jobName = Inl e' \<and>
        ke_ctxErr K n c = Some e \<and> r = Inl e))"

lemma observe_loop_returns:
  assumes "deadline \<le> ke_clock K (t + k)"
  shows "\<exists>r n. observe_loop K c jobName deadline info t = Some r \<and> t \<le> n \<and> n \<le> t + k \<and>
           poll_ends K c jobName deadline info n r \<and>
           (\<forall>i. t \<le> i \<longrightarrow> i < n \<longrightarrow> (\<exists>e. ke_ObserveWorkload K i c jobName = Inl e))"
  using assms
proof (induction k arbitrary: t)
  case 0
  then have "observe_loop K c jobName deadline info t = Some (Inr (Some info))"
    by (simp add: observe_loop.simps)
  with 0 show ?case by (intro exI[of _ "Inr (Some info)"] exI[of _ t]) (simp add: poll_ends_def)
next
  case (Suc k)
  consider (late) "deadline \<le> ke_clock K t"
    | (seen) obs where "ke_clock K t < deadline" "ke_ObserveWorkload K t c jobName = Inr obs"
    | (ended) e e' where "ke_clock K t < deadline" "ke_ObserveWorkload K t c jobName = Inl e'" "ke_ctxErr K t c = Some e"
    | (again) e' where "ke_clock K t < deadline" "ke_ObserveWorkload K t c jobName = Inl e'" "ke_ctxErr K t c = None"
    by (cases "deadline \<le> ke_clock K t"; cases "ke_ObserveWorkload K t c jobName"; cases "ke_ctxErr K t c") auto
  then show ?case
  proof cases
    case again
    obtain r n where r: "observe_loop K c jobName deadline info (Suc t) = Some r" "Suc t \<le> n" "n \<le> Suc t + k"
      "poll_ends K c jobName deadline info n r"
      "\<forall>i. Suc t \<le> i \<longrightarrow> i < n \<longrightarrow> (\<exists>e. ke_ObserveWorkload K i c jobName = Inl e)"
      using Suc.IH[of "Suc t"] Suc.prems by auto
    have "observe_loop K c jobName deadline info t = Some r"
      using again r(1) by (simp add: observe_loop.simps[of K c jobName deadline info t])
    moreover have "\<forall>i. t \<le> i \<longrightarrow> i < n \<longrightarrow> (\<exists>e. ke_ObserveWorkload K i c jobName = Inl e)"
      using r(5) again(2) by (metis le_antisym not_less_eq_eq)
    ultimately show ?thesis using r by (intro exI[of _ r] exI[of _ n]) simp
  next
    case late
    then show ?thesis
      by (intro exI[of _ "Inr (Some info)"] exI[of _ t]) (simp add: poll_ends_def observe_loop.simps)
  next
    case seen
    then show ?thesis
      by (intro exI[of _ "Inr (Some (workload_info K t c jobName info obs))"] exI[of _ t])
        (simp add: poll_ends_def observe_loop.simps)
  next
    case ended
    then show ?thesis
      by (intro exI[of _ "Inl e"] exI[of _ t]) (simp add: poll_ends_def observe_loop.simps)
  qed
qed

lemma fillPodObservation_keeps:
  "kq_Observed (fst (fillPodObservation K t c jobName info)) = kq_Observed info"
  "kq_QueueName (fst (fillPodObservation K t c jobName info)) = kq_QueueName info"
  "kq_WorkloadName (fst (fillPodObservation K t c jobName info)) = kq_WorkloadName info"
  "kq_Admitted (fst (fillPodObservation K t c jobName info)) = kq_Admitted info"
  by (simp_all add: fillPodObservation_def Let_def split: sum.split)

lemma workload_info_keeps:
  "kq_Observed (workload_info K t c jobName info obs)"
  "kq_QueueName (workload_info K t c jobName info obs) = kq_QueueName info"
  "kq_WorkloadName (workload_info K t c jobName info obs) = wo_WorkloadName obs"
  "kq_Admitted (workload_info K t c jobName info obs) = wo_Admitted obs"
  by (simp_all add: workload_info_def Let_def fillPodObservation_keeps)


subsection \<open>A concrete environment\<close>

text \<open>
  For the witnesses: a library that satisfies \<open>spawner_lib_ok\<close>, and an environment with one job whose
  pod has finished, in which the third poll of the workload succeeds.
\<close>

definition demo_lib :: spawner_lib where
  "demo_lib = \<lparr>sl_NewK8sJobBackendRef = (\<lambda>ns name uid. \<lparr>br_Namespace = ns, br_Name = name, br_UID = uid\<rparr>),
     sl_IsTerminal = (\<lambda>s. s \<in> {AttemptStateSucceeded, AttemptStateFailed, AttemptStateCancelled}),
     sl_ErrJobConflict = Errorf ''job conflict'',
     sl_IsNotFound = (\<lambda>e. e = HTTPError 404 ''jobs''), sl_IsAlreadyExists = (\<lambda>e. e = HTTPError 409 ''jobs''),
     sl_IsQualifiedName = (\<lambda>k. if k = '''' then [''empty''] else []),
     sl_IsValidLabelValue = (\<lambda>v. if length v > 63 then [''too long''] else []),
     sl_LabelSetString = (\<lambda>m. Join (map (\<lambda>(k, v). k @ ''='' @ v) m) '',''),
     sl_ParseQuantity = Inr,
     ReasonOOMKilled = ''OOMKilled'', ReasonNodeLost = ''NodeLost'', ReasonBackoffExceeded = ''BackoffExceeded'',
     ReasonDeadlineExceeded = ''DeadlineExceeded'', ReasonImagePullFailed = ''ImagePullFailed'',
     ReasonWatchDisconnected = ''WatchDisconnected'', ReasonResourceVersionTooOld = ''ResourceVersionTooOld'',
     ReasonSystemCancel = ''SystemCancel'', ReasonKueueWaiting = ''KueueWaiting''\<rparr>"

lemma demo_lib_ok: "spawner_lib_ok demo_lib"
  by (auto simp: spawner_lib_ok_def demo_lib_def)

definition demo_pod :: "string \<Rightarrow> int \<Rightarrow> time \<Rightarrow> Pod" where
  "demo_pod name code at = \<lparr>pd_Name = name, pd_NodeName = ''worker-1'', pd_Labels = [], pd_Phase = PodSucceeded,
     pd_ContainerStatuses = [\<lparr>cs_Name = ''main'',
       cs_Terminated = Some \<lparr>te_ExitCode = code, te_FinishedAt = at, te_Message = ''m''\<rparr>, cs_LastTerminated = None\<rparr>]\<rparr>"

definition demo_manifest :: ArtifactManifest where
  "demo_manifest = \<lparr>am_SchemaVersion = '''', am_RunID = ''r'', am_SampleRunID = '''', am_NodeID = ''a'',
     am_AttemptID = ''r-a-1'', am_ContainerName = ''main'', am_HelperVersion = '''', am_CreatedAt = '''',
     am_OutputRoot = ''/out'',
     am_Artifacts = [\<lparr>at_OutputName = ''bam'', at_DeclaredPath = ''bam'', at_AbsolutePath = ''/out/bam'',
       at_Type = ''file'', at_URI = ''file:///out/bam'', at_LogicalURI = '''', at_Digest = ''d'', at_SizeBytes = 7,
       at_ProducerAttemptID = '''', at_Locations = [], at_Provenance = None\<rparr>]\<rparr>"

definition demo_k8s :: k8s_env where
  "demo_k8s = \<lparr>ke_ns = ''jumi'', ke_metrics = True, ke_observer = True, ke_clientset = True,
     ke_restConfig = True, ke_runtime = True, ke_lib = demo_lib,
     ke_clock = (\<lambda>n. int n * observe_interval),
     ke_SubmitAttempt = (\<lambda>t c r. Inr \<lparr>ah_AttemptID = aq_AttemptID r,
        ah_BackendRef = \<lparr>br_Namespace = ''jumi'', br_Name = ''job-1'', br_UID = ''u1''\<rparr>\<rparr>),
     ke_WatchAttempt = (\<lambda>t c h. Inr [WaitEvent \<lparr>ae_State = AttemptStateFailed, ae_Reason = ''OOMKilled'',
        ae_Message = ''''\<rparr>]),
     ke_CancelAttempt = (\<lambda>t c h. ok),
     ke_ObserveWorkload = (\<lambda>t c j. if t < 3 then Inl (NetError ''not yet'')
        else Inr \<lparr>wo_WorkloadName = ''wl'', wo_PendingReason = '''', wo_Admitted = True\<rparr>),
     ke_ObservePod = (\<lambda>t c j. Inr \<lparr>po_PodName = ''pod-1'', po_Scheduled = True, po_UnschedulableReason = ''''\<rparr>),
     ke_ctxErr = (\<lambda>t c. None),
     ke_GetPod = (\<lambda>t c ns p. Inr (demo_pod p 0 5)),
     ke_ListPods = (\<lambda>t c ns sel. Inr [demo_pod ''pod-0'' 1 9, demo_pod ''pod-1'' 0 5, demo_pod ''pod-2'' 0 3]),
     ke_ExecCat = (\<lambda>t c ns p path. Inl (NetError ''no exec'', '''')),
     ke_ResolveIdentity = (\<lambda>a. Inr \<lparr>id_Namespace = ''jumi'', id_JobName = ''job-1'', id_AttemptMarker = a\<rparr>),
     ke_GetJob = (\<lambda>t c ns name. Inl (HTTPError 404 ''jobs'')),
     ke_unmarshal_manifest = (\<lambda>s. Inr demo_manifest),
     ke_marshal_contract = (\<lambda>f. Inr (nc_RunID f)),
     ke_marshal_handle = (\<lambda>(h, q). Inl (Errorf ''unsupported'')),
     ke_unmarshal_handle = (\<lambda>s. Inl (Errorf ''unsupported'')),
     ke_getenv = (\<lambda>s. '''')\<rparr>"

definition demo_handle :: runtimeHandle where
  "demo_handle = \<lparr>rh_handle = \<lparr>ah_AttemptID = ''r-a-1'',
     ah_BackendRef = \<lparr>br_Namespace = ''jumi'', br_Name = ''job-1'', br_UID = ''u1''\<rparr>\<rparr>, rh_queueName = ''q''\<rparr>"


subsection \<open>The pod of a job\<close>

lemma main_is_terminated_iff: "main_is_terminated ss \<longleftrightarrow> main_terminated ss \<noteq> None"
  by (induction ss) auto

lemma succeeded_terminated: "mainContainerSucceeded pod \<Longrightarrow> mainContainerTerminated pod"
  by (auto simp: mainContainerSucceeded_def mainContainerTerminated_def main_is_terminated_iff split: option.splits)

text \<open>
  A scan that replaces its best candidate only by a strictly later one ends with the first of the
  latest candidates.
\<close>

definition latest_of :: "(Pod \<Rightarrow> bool) \<Rightarrow> Pod list \<Rightarrow> Pod \<Rightarrow> bool" where
  "latest_of eligible pods p \<longleftrightarrow>
     (\<exists>before after. pods = before @ p # after \<and> eligible p \<and>
        (\<forall>q \<in> set before. eligible q \<longrightarrow> terminatedAt q < terminatedAt p) \<and>
        (\<forall>q \<in> set after. eligible q \<longrightarrow> terminatedAt q \<le> terminatedAt p))"

lemma latest_ofI:
  "\<lbrakk>pods = before @ p # after; eligible p; \<forall>q \<in> set before. eligible q \<longrightarrow> terminatedAt q < terminatedAt p;
    \<forall>q \<in> set after. eligible q \<longrightarrow> terminatedAt q \<le> terminatedAt p\<rbrakk> \<Longrightarrow> latest_of eligible pods p"
  by (auto simp: latest_of_def)

lemma best_pod_from:
  assumes "eligible b"
  shows "\<exists>p. best_pod eligible (\<lambda>x y. terminatedAt x > terminatedAt y) pods (Some b) = Some p \<and>
     latest_of eligible (b # pods) p"
  using assms
proof (induction pods arbitrary: b)
  case Nil
  then show ?case by (auto simp: latest_of_def intro!: exI[of _ "[]"])
next
  case (Cons q pods)
  show ?case
  proof (cases "eligible q \<and> terminatedAt q > terminatedAt b")
    case True
    with Cons.IH[of q] obtain p where p: "best_pod eligible (\<lambda>x y. terminatedAt x > terminatedAt y) pods (Some q) = Some p"
      "latest_of eligible (q # pods) p" by blast
    from p(2) obtain before after where w: "q # pods = before @ p # after" "eligible p"
      "\<forall>x \<in> set before. eligible x \<longrightarrow> terminatedAt x < terminatedAt p"
      "\<forall>x \<in> set after. eligible x \<longrightarrow> terminatedAt x \<le> terminatedAt p" by (auto simp: latest_of_def)
    have "terminatedAt q \<le> terminatedAt p" using w True by (cases before) force+
    with w True have "latest_of eligible (b # q # pods) p"
      by (intro latest_ofI[of _ "b # before" _ after]) auto
    with p(1) True show ?thesis by auto
  next
    case False
    with Cons.IH[of b] Cons.prems obtain p where p: "best_pod eligible (\<lambda>x y. terminatedAt x > terminatedAt y) pods (Some b) = Some p"
      "latest_of eligible (b # pods) p" by blast
    from p(2) obtain before after where w: "b # pods = before @ p # after" "eligible p"
      "\<forall>x \<in> set before. eligible x \<longrightarrow> terminatedAt x < terminatedAt p"
      "\<forall>x \<in> set after. eligible x \<longrightarrow> terminatedAt x \<le> terminatedAt p" by (auto simp: latest_of_def)
    have "latest_of eligible (b # q # pods) p"
    proof (cases before)
      case Nil
      then show ?thesis using w False Cons.prems
        by (intro latest_ofI[of _ "[]" _ "q # after"]) auto
    next
      case (Cons x before')
      have "eligible q \<longrightarrow> terminatedAt q < terminatedAt p" using w Cons False \<open>eligible b\<close> by auto
      with w Cons show ?thesis
        by (intro latest_ofI[of _ "b # q # before'" _ after]) auto
    qed
    with p(1) False show ?thesis by auto
  qed
qed

lemma best_pod_None:
  "best_pod eligible later pods None = None \<longleftrightarrow> (\<forall>p \<in> set pods. \<not> eligible p)"
proof (induction pods)
  case (Cons q pods)
  have "best_pod eligible later ps (Some b) \<noteq> None" for ps b
    by (induction ps arbitrary: b) auto
  with Cons show ?case by auto
qed simp

lemma latest_of_skip:
  assumes "latest_of eligible pods p" and "\<not> eligible q"
  shows "latest_of eligible (q # pods) p"
proof -
  from assms(1) obtain before after where "pods = before @ p # after" "eligible p"
    "\<forall>q \<in> set before. eligible q \<longrightarrow> terminatedAt q < terminatedAt p"
    "\<forall>q \<in> set after. eligible q \<longrightarrow> terminatedAt q \<le> terminatedAt p" by (auto simp: latest_of_def)
  with assms(2) show ?thesis by (intro latest_ofI[of _ "q # before" _ after]) auto
qed

lemma best_pod_latest:
  assumes "best_pod eligible (\<lambda>x y. terminatedAt x > terminatedAt y) pods None = Some p"
  shows "latest_of eligible pods p"
  using assms
proof (induction pods)
  case (Cons q pods)
  then show ?case using best_pod_from[of eligible q pods] latest_of_skip by (auto split: if_splits)
qed simp

lemma best_succeeded_latest:
  "best_pod mainContainerSucceeded podSucceededLater pods None = Some p \<Longrightarrow> latest_of mainContainerSucceeded pods p"
  by (rule best_pod_latest) (simp add: podSucceededLater_def[abs_def])

lemma best_terminated_latest:
  "best_pod mainContainerTerminated podTerminatedLater pods None = Some p \<Longrightarrow> latest_of mainContainerTerminated pods p"
  by (rule best_pod_latest) (simp add: podTerminatedLater_def[abs_def])

text \<open>
  The pod whose manifest is read: if a pod's main container has succeeded it is the first of
  those that finished last, whatever failed pods finished later; if none has succeeded but one has
  terminated, the first of the last to terminate; otherwise the first pod of the list.
\<close>

theorem findJobPod_choice:
  assumes "ke_ListPods K t c ns (''job-name='' @ jobName) = Inr pods" and "pods \<noteq> []"
  shows "\<exists>p. findJobPod K t c ns jobName = Inr p \<and>
     (if \<exists>q \<in> set pods. mainContainerSucceeded q then latest_of mainContainerSucceeded pods p
      else if \<exists>q \<in> set pods. mainContainerTerminated q then latest_of mainContainerTerminated pods p
      else p = hd pods)"
proof -
  obtain first rest where pods: "pods = first # rest" using assms(2) by (cases pods) auto
  let ?s = "best_pod mainContainerSucceeded podSucceededLater pods None"
  let ?t = "best_pod mainContainerTerminated podTerminatedLater pods None"
  have f: "findJobPod K t c ns jobName = (case ?s of Some b \<Rightarrow> Inr b | None \<Rightarrow>
      (case ?t of Some b \<Rightarrow> Inr b | None \<Rightarrow> Inr (hd pods)))"
    using assms(1) unfolding pods by (simp add: findJobPod_def del: best_pod.simps split: option.split)
  show ?thesis
  proof (cases ?s)
    case None
    then have "\<forall>q \<in> set pods. \<not> mainContainerSucceeded q" by (simp add: best_pod_None)
    then show ?thesis using f None best_terminated_latest best_pod_None[of mainContainerTerminated podTerminatedLater pods]
      by (cases ?t) auto
  next
    case (Some b)
    then have "\<exists>q \<in> set pods. mainContainerSucceeded q"
      by (metis best_pod_None option.distinct(1))
    then show ?thesis using f Some best_succeeded_latest by auto
  qed
qed

theorem findJobPod_choice_witness:
  "latest_of mainContainerSucceeded
      [demo_pod ''pod-0'' 1 9, demo_pod ''pod-1'' 0 5, demo_pod ''pod-2'' 0 3] (demo_pod ''pod-1'' 0 5)
   \<and> findJobPod demo_k8s 0 CtxBackground ''jumi'' ''job-1'' = Inr (demo_pod ''pod-1'' 0 5)"
proof -
  have f: "findJobPod demo_k8s 0 CtxBackground ''jumi'' ''job-1'' = Inr (demo_pod ''pod-1'' 0 5)"
    by (simp add: findJobPod_def demo_k8s_def demo_pod_def mainContainerSucceeded_def podSucceededLater_def terminatedAt_def)
  have s: "mainContainerSucceeded (demo_pod ''pod-1'' 0 5)" by (simp add: demo_pod_def mainContainerSucceeded_def)
  show ?thesis
    using findJobPod_choice[of demo_k8s 0 CtxBackground "''jumi''" "''job-1''"
        "[demo_pod ''pod-0'' 1 9, demo_pod ''pod-1'' 0 5, demo_pod ''pod-2'' 0 3]"] f s
    by (simp add: demo_k8s_def)
qed

subsection \<open>Output metadata\<close>

lemma check_identity_ok:
  "check_identity field got expected = Inr u \<longleftrightarrow> expected = '''' \<or> got = expected"
  by (auto simp: check_identity_def)

lemma validateObservedManifest_ok:
  assumes "validateObservedManifest m node = Inr u"
  shows "mread (nd_Env node) k = v \<Longrightarrow> TrimSpace v \<noteq> '''' \<Longrightarrow>
     (k = ''JUMI_RUN_ID'' \<longrightarrow> am_RunID m = TrimSpace v) \<and> (k = ''JUMI_NODE_ID'' \<longrightarrow> am_NodeID m = TrimSpace v) \<and>
     (k = ''JUMI_ATTEMPT_ID'' \<longrightarrow> am_AttemptID m = TrimSpace v)"
  using assms by (auto simp: validateObservedManifest_def check_identity_ok split: if_splits sum.splits)

lemma map_of_collect_outputs:
  "map_of (collect_outputs m pod outputs out) name =
     (case ByOutputName m name of
        Some a \<Rightarrow> if name \<in> set outputs then Some (output_metadata m pod name a) else map_of out name
      | None \<Rightarrow> map_of out name)"
  by (induction outputs arbitrary: out) (auto split: option.splits)

lemma findJobPod_lists:
  assumes "findJobPod K t c ns jobName = Inr pod"
  shows "\<exists>pods. ke_ListPods K t c ns (''job-name='' @ jobName) = Inr pods \<and> pod \<in> set pods"
proof -
  have *: "best_pod el later pods best = Some p \<Longrightarrow> p \<in> set pods \<or> best = Some p" for el later pods best p
    by (induction pods arbitrary: best) (auto split: if_splits option.splits)
  show ?thesis
    using assms *[of _ _ _ None pod] unfolding findJobPod_def
    by (fastforce simp del: best_pod.simps split: sum.splits list.splits option.splits)
qed

text \<open>
  C32.  Metadata of outputs is reported only for the job of the handle, out of a manifest that the
  codec accepted, in which no output is declared twice, and whose run, node and attempt are the ones
  of the node's environment; the report has exactly the declared outputs that the manifest
  records, each with the digest, size and producer of its record and with the node and the name of
  the pod it was read from.
\<close>

theorem CollectOutputMetadata_identity:
  assumes "CollectOutputMetadata K t c handle node = Inr out"
  shows "\<exists>h pods pod raw m. handle = RuntimeHandle h \<and>
     ke_ListPods K t c (br_Namespace (ah_BackendRef (rh_handle h))) (''job-name='' @ br_Name (ah_BackendRef (rh_handle h))) = Inr pods \<and>
     pod \<in> set pods \<and> ke_unmarshal_manifest K raw = Inr m \<and>
     (\<forall>k v. mread (nd_Env node) k = v \<longrightarrow> TrimSpace v \<noteq> '''' \<longrightarrow>
        (k = ''JUMI_RUN_ID'' \<longrightarrow> am_RunID m = TrimSpace v) \<and> (k = ''JUMI_NODE_ID'' \<longrightarrow> am_NodeID m = TrimSpace v) \<and>
        (k = ''JUMI_ATTEMPT_ID'' \<longrightarrow> am_AttemptID m = TrimSpace v)) \<and>
     out \<noteq> [] \<and>
     (\<forall>name. map_of out name =
        (if name \<in> set (nd_Outputs node) then map_option (output_metadata m pod name) (ByOutputName m name) else None))"
proof -
  obtain h where h: "handle = RuntimeHandle h"
    using assms by (cases handle) (auto simp: CollectOutputMetadata_def outputMetadataJobRef_def)
  let ?ref = "ah_BackendRef (rh_handle h)"
  obtain pod raw m u where c: "findJobPod K t c (br_Namespace ?ref) (br_Name ?ref) = Inr pod"
    "ParseArtifactManifest (ke_unmarshal_manifest K) raw = Inr m" "validateObservedManifest m node = Inr u"
    "out = collect_outputs m pod (nd_Outputs node) []" "out \<noteq> []"
    using assms h unfolding CollectOutputMetadata_def outputMetadataJobRef_def Let_def
    by (auto split: if_splits sum.splits)
  obtain pods where "ke_ListPods K t c (br_Namespace ?ref) (''job-name='' @ br_Name ?ref) = Inr pods" "pod \<in> set pods"
    using findJobPod_lists[OF c(1)] by blast
  moreover have "ke_unmarshal_manifest K raw = Inr m"
    using c(2) by (auto simp: ParseArtifactManifest_def split: sum.splits)
  moreover have "\<forall>name. map_of out name =
      (if name \<in> set (nd_Outputs node) then map_option (output_metadata m pod name) (ByOutputName m name) else None)"
    by (auto simp: c(4) map_of_collect_outputs split: option.split)
  ultimately show ?thesis using h c(5) validateObservedManifest_ok[OF c(3)] by blast
qed

definition demo_output_node :: Node where
  "demo_output_node = zero_Node\<lparr>nd_NodeID := ''a'', nd_Outputs := [''bam'', ''log''],
     nd_Env := [(''JUMI_RUN_ID'', ''r''), (''JUMI_ATTEMPT_ID'', ''r-a-1'')]\<rparr>"

lemma demo_collect:
  "CollectOutputMetadata demo_k8s 0 CtxBackground (RuntimeHandle demo_handle) demo_output_node =
     Inr [(''bam'', output_metadata demo_manifest (demo_pod ''pod-1'' 0 5) ''bam'' (hd (am_Artifacts demo_manifest)))]"
proof -
  have f: "findJobPod demo_k8s 0 CtxBackground ''jumi'' ''job-1'' = Inr (demo_pod ''pod-1'' 0 5)"
    by (simp add: findJobPod_def demo_k8s_def demo_pod_def mainContainerSucceeded_def podSucceededLater_def terminatedAt_def)
  have r: "readArtifactsManifestFromTerminationMessage (demo_pod ''pod-1'' 0 5) = ''m''" by code_simp
  have p: "ParseArtifactManifest (ke_unmarshal_manifest demo_k8s) ''m'' = Inr demo_manifest"
    by (simp add: ParseArtifactManifest_def demo_k8s_def demo_manifest_def)
  have v: "validateObservedManifest demo_manifest demo_output_node = Inr ()" by code_simp
  have o: "collect_outputs demo_manifest (demo_pod ''pod-1'' 0 5) (nd_Outputs demo_output_node) [] =
     [(''bam'', output_metadata demo_manifest (demo_pod ''pod-1'' 0 5) ''bam'' (hd (am_Artifacts demo_manifest)))]"
    by (simp add: demo_output_node_def demo_manifest_def ByOutputName_def)
  have j: "outputMetadataJobRef (RuntimeHandle demo_handle) = (''jumi'', ''job-1'', True)"
    by (simp add: outputMetadataJobRef_def demo_handle_def)
  have k: "ke_clientset demo_k8s" "ke_restConfig demo_k8s" by (simp_all add: demo_k8s_def)
  show ?thesis by (simp add: CollectOutputMetadata_def j k f r p v o)
qed

theorem CollectOutputMetadata_identity_witness:
  "\<exists>out m pod. CollectOutputMetadata demo_k8s 0 CtxBackground (RuntimeHandle demo_handle) demo_output_node = Inr out \<and>
     am_AttemptID m = ''r-a-1'' \<and> map_of out ''bam'' = map_option (output_metadata m pod ''bam'') (ByOutputName m ''bam'')"
proof -
  have env: "mread (nd_Env demo_output_node) ''JUMI_ATTEMPT_ID'' = ''r-a-1''" "TrimSpace ''r-a-1'' = ''r-a-1''"
    "''bam'' \<in> set (nd_Outputs demo_output_node)" by code_simp+
  obtain m pod where m: "\<forall>k v. mread (nd_Env demo_output_node) k = v \<longrightarrow> TrimSpace v \<noteq> '''' \<longrightarrow>
      (k = ''JUMI_ATTEMPT_ID'' \<longrightarrow> am_AttemptID m = TrimSpace v)"
    "\<forall>name. map_of [(''bam'', output_metadata demo_manifest (demo_pod ''pod-1'' 0 5) ''bam'' (hd (am_Artifacts demo_manifest)))] name =
        (if name \<in> set (nd_Outputs demo_output_node) then map_option (output_metadata m pod name) (ByOutputName m name) else None)"
    using CollectOutputMetadata_identity[OF demo_collect] by blast
  have "am_AttemptID m = ''r-a-1''"
    using m(1)[rule_format, OF refl, of "''JUMI_ATTEMPT_ID''"] env(1,2) by simp
  then show ?thesis using demo_collect m(2)[rule_format, of "''bam''"] env(3) by (metis (no_types))
qed

subsection \<open>The timeout of an attempt\<close>

lemma attempt_timeout_fits:
  assumes "0 < s" "s \<le> 9223372036"
  shows "sint (attempt_timeout s) = s * 1000000000"
proof -
  have "attempt_timeout s = word_of_int (s * 1000000000)" using assms by (simp add: attempt_timeout_def)
  then have "sint (attempt_timeout s) = signed_take_bit (LENGTH(64) - 1) (s * 1000000000)"
    by (simp only: sint_sbintrunc')
  then show ?thesis using assms by (simp add: signed_take_bit_int_eq_self)
qed

text \<open>
  The timeout of an attempt is a 64-bit count of nanoseconds.  It is that many seconds as
  the policy says exactly when the policy is at most 9223372036 seconds; the next larger value
  wraps to a negative timeout, and without a positive policy there is none.
\<close>

theorem attempt_timeout_bounds:
  "sint (aq_AttemptTimeout (toAttemptRequest K run (node\<lparr>nd_TimeoutPolicy := \<lparr>tp_Seconds = 9223372037\<rparr>\<rparr>))) < 0 \<and>
   (tp_Seconds (nd_TimeoutPolicy node) \<in> {1..9223372036} \<longrightarrow>
      sint (aq_AttemptTimeout (toAttemptRequest K run node)) = tp_Seconds (nd_TimeoutPolicy node) * 1000000000) \<and>
   (tp_Seconds (nd_TimeoutPolicy node) \<le> 0 \<longrightarrow> aq_AttemptTimeout (toAttemptRequest K run node) = 0)"
proof (intro conjI impI)
  show "sint (aq_AttemptTimeout (toAttemptRequest K run (node\<lparr>nd_TimeoutPolicy := \<lparr>tp_Seconds = 9223372037\<rparr>\<rparr>))) < 0"
    by (simp add: toAttemptRequest_def attempt_timeout_def)
qed (simp_all add: toAttemptRequest_def attempt_timeout_fits, simp add: attempt_timeout_def)

theorem attempt_timeout_bounds_witness:
  "sint (aq_AttemptTimeout (toAttemptRequest demo_k8s zero_RunRecord (zero_Node\<lparr>nd_TimeoutPolicy := \<lparr>tp_Seconds = 60\<rparr>\<rparr>)))
     = 60000000000"
  using attempt_timeout_bounds[of demo_k8s zero_RunRecord "zero_Node\<lparr>nd_TimeoutPolicy := \<lparr>tp_Seconds = 60\<rparr>\<rparr>"] by simp

end
