(* ===== verification/K8s_Laws.thy ===== *)
theory K8s_Laws
  imports K8s_Jobs Spawner_Laws
begin

text \<open>
  What the job client promises.  The labels it computes are valid label values; a job it creates or
  finds belongs to the attempt, in the sense in which the resolver of \<^verbatim>\<open>pkg/backend\<close> looks for it;
  it deletes no other job; and the stream of a watch ends with its only final event.

  The contract of the Kubernetes API is the locale \<open>job_api\<close>: its laws are the documented behaviour
  of the calls on jobs, and the lemmas on the client are proved from them.
\<close>

subsection \<open>Label values\<close>

definition is_alnum :: "char \<Rightarrow> bool" where
  "is_alnum c \<longleftrightarrow> is_letter c \<or> is_digit c"

text \<open>The documented form of a label value that is not empty.\<close>

definition label_value_ok :: "string \<Rightarrow> bool" where
  "label_value_ok v \<longleftrightarrow> v \<noteq> '''' \<and> length v \<le> 63 \<and> list_all isASCIILabelChar v \<and>
     is_alnum (hd v) \<and> is_alnum (last v)"

lemma sanitize_loop_chars: "c \<in> set (sanitize_loop raw lastDash) \<Longrightarrow> isASCIILabelChar c"
  by (induction raw lastDash rule: sanitize_loop.induct) (auto simp: isASCIILabelChar_def split: if_splits)

lemma label_char_cases: "isASCIILabelChar c \<Longrightarrow> c \<notin> set ''-_.'' \<Longrightarrow> is_alnum c"
  by (auto simp: isASCIILabelChar_def is_alnum_def is_letter_def)

lemma alnum_label_char: "is_alnum c \<Longrightarrow> isASCIILabelChar c"
  by (auto simp: isASCIILabelChar_def is_alnum_def is_letter_def)

lemma alnum_not_cut: "is_alnum c \<Longrightarrow> c \<notin> set ''-_.''"
  by (auto simp: is_alnum_def is_letter_def is_upper_def is_lower_def is_digit_def)

lemma Trim_label:
  assumes "\<forall>c \<in> set s. isASCIILabelChar c" and "Trim s ''-_.'' \<noteq> ''''"
  shows "list_all isASCIILabelChar (Trim s ''-_.'') \<and> is_alnum (hd (Trim s ''-_.'')) \<and> is_alnum (last (Trim s ''-_.''))"
proof -
  have c: "c \<in> set (Trim s ''-_.'') \<Longrightarrow> isASCIILabelChar c" for c
    using assms(1) set_trim_while unfolding Trim_def by fastforce
  have "hd (Trim s ''-_.'') \<notin> set ''-_.''" "last (Trim s ''-_.'') \<notin> set ''-_.''"
    using assms(2) trim_while_hd[of "\<lambda>c. c \<in> set ''-_.''" s] trim_while_last[of "\<lambda>c. c \<in> set ''-_.''" s]
    unfolding Trim_def by blast+
  with assms(2) c show ?thesis by (auto simp: list_all_iff intro!: label_char_cases)
qed

lemma shortHash_ok: "length (shortHash raw) = 8" "c \<in> set (shortHash raw) \<Longrightarrow> is_alnum c"
proof -
  show "length (shortHash raw) = 8" by (simp add: shortHash_def length_hex length_Sum256)
  assume "c \<in> set (shortHash raw)"
  then have "c \<in> set (hex_EncodeToString (Sum256 raw))" by (auto simp: shortHash_def dest: in_set_takeD)
  from hex_chars[OF _ this] Sum256_bytes show "is_alnum c" by (auto simp: is_alnum_def is_letter_def)
qed

lemma length_trim_while: "length (trim_while p s) \<le> length s"
  by (metis length_dropWhile_le length_rev order_trans trim_while_def)

lemma hashed_label_ok:
  assumes "list_all isASCIILabelChar p" "p \<noteq> ''''" "is_alnum (hd p)" "length p \<le> 54"
  shows "label_value_ok (p @ ''-'' @ shortHash raw)"
proof -
  have ne: "shortHash raw \<noteq> ''''" using shortHash_ok(1)[of raw] by force
  then have h: "is_alnum (last (shortHash raw))" "list_all isASCIILabelChar (shortHash raw)"
    by (auto simp: list_all_iff intro!: alnum_label_char shortHash_ok(2)[of _ raw])
  have "isASCIILabelChar (CHR ''-'')" by (simp add: isASCIILabelChar_def)
  with assms ne h show ?thesis by (simp add: label_value_ok_def shortHash_ok)
qed

text \<open>
  C34.  Whatever the identifier of a run, a node, an attempt or a marker is, the label computed for it
  is a valid, non-empty label value: at most 63 characters, all of them allowed, and a letter or digit
  at both ends.
\<close>

theorem identityLabelValue_valid: "label_value_ok (identityLabelValue raw)"
proof -
  define r where "r = TrimSpace raw"
  define low where "low = ToLower r"
  define s where "s = (if sanitizeLabelValue low = '''' then ''x'' else sanitizeLabelValue low)"
  define p where "p = (if length s > 54 then Trim (take 54 s) ''-_.'' else s)"
  have s: "list_all isASCIILabelChar s" "s \<noteq> ''''" "is_alnum (hd s)" "is_alnum (last s)"
    using Trim_label[of "sanitize_loop low False"] sanitize_loop_chars[of _ low False]
    by (auto simp: s_def sanitizeLabelValue_def isASCIILabelChar_def is_alnum_def is_letter_def is_lower_def
        split: if_splits)
  have p: "list_all isASCIILabelChar p \<and> p \<noteq> '''' \<and> is_alnum (hd p) \<and> length p \<le> 54"
  proof (cases "length s > 54")
    case True
    obtain a s' where a: "s = a # s'" using s(2) by (cases s) auto
    have "a \<notin> set ''-_.''" using s(3) a alnum_not_cut by simp
    then have "dropWhile (\<lambda>c. c \<in> set ''-_.'') (take 54 s) = take 54 s" by (simp add: a)
    then have "Trim (take 54 s) ''-_.'' \<noteq> ''''"
      using \<open>a \<notin> set ''-_.''\<close> by (auto simp: Trim_def trim_while_def a dropWhile_eq_Nil_conv)
    with Trim_label[of "take 54 s"] s(1) True length_trim_while[of "\<lambda>c. c \<in> set ''-_.''" "take 54 s"]
    show ?thesis by (auto simp: p_def list_all_iff Trim_def dest: in_set_takeD)
  qed (use s in \<open>simp add: p_def\<close>)
  have eq: "identityLabelValue raw = (if r = '''' then ''unknown'' else if s = low \<and> length s \<le> 63 then s
      else if p = '''' then shortHash r else p @ ''-'' @ shortHash r)"
    unfolding identityLabelValue_def Let_def shortHash_ok(1) r_def[symmetric] low_def[symmetric] s_def[symmetric]
    by (simp add: p_def)
  have "label_value_ok ''unknown''" by code_simp
  then show ?thesis using s p hashed_label_ok[of p r] by (auto simp: eq label_value_ok_def)
qed

subsection \<open>The labels of a job\<close>

lemma map_of_add_user_labels:
  assumes "k \<noteq> labelKueueQueueName" "\<not> HasPrefix k userLabelPrefix"
  shows "map_of (add_user_labels user labels) k = map_of labels k"
  using assms by (induction user labels rule: add_user_labels.induct) auto

lemma marker_label: "map_of (buildLabels req) labelAttemptMarker = Some (identityLabelValue (jr_AttemptMarker req))"
  by (simp add: buildLabels_def map_of_add_user_labels label_defs HasPrefix_def system_labels_def Let_def)

lemma marker_annotation: "map_of (buildAnnotations req) annotationMarker = Some (jr_AttemptMarker req)"
  by (simp add: buildAnnotations_def Let_def annotation_defs)

subsection \<open>The contract of the API\<close>

text \<open>
  A created object carries the name, the labels and the annotations it was created with, possibly
  more of them, and an identifier.
\<close>

definition stored_as :: "Job \<Rightarrow> Job \<Rightarrow> bool" where
  "stored_as job job' \<longleftrightarrow> jb_Name job' = jb_Name job \<and> jb_UID job' \<noteq> '''' \<and>
     map_of (jb_Labels job) \<subseteq>\<^sub>m map_of (jb_Labels job') \<and>
     map_of (jb_Annotations job) \<subseteq>\<^sub>m map_of (jb_Annotations job')"

text \<open>
  \<open>view s\<close> is the set of jobs of the cluster in the state \<open>s\<close>, by namespace and name.  A call may fail for
  any reason; a creation whose answer is lost may have taken effect.
\<close>

locale job_api =
  fixes L :: spawner_lib and A :: "'s job_calls" and view :: "'s \<Rightarrow> string \<times> string \<Rightarrow> Job option"
  assumes lib: "spawner_lib_ok L"
    and get: "run_state (ja_Get A ns name) s = (r, s') \<Longrightarrow> view s' = view s \<and>
        (case r of Inr job \<Rightarrow> view s (ns, name) = Some job
                 | Inl e \<Rightarrow> sl_IsNotFound L e \<longrightarrow> view s (ns, name) = None)"
    and create: "run_state (ja_Create A ns job) s = (r, s') \<Longrightarrow>
        (case r of Inr job' \<Rightarrow> view s (ns, jb_Name job) = None \<and> stored_as job job' \<and>
                     view s' = (view s)((ns, jb_Name job) \<mapsto> job')
                 | Inl e \<Rightarrow> (view s' = view s \<and> (sl_IsAlreadyExists L e \<longrightarrow> view s (ns, jb_Name job) \<noteq> None)) \<or>
                     (\<not> sl_IsAlreadyExists L e \<and> view s (ns, jb_Name job) = None \<and>
                       (\<exists>job'. stored_as job job' \<and> view s' = (view s)((ns, jb_Name job) \<mapsto> job'))))"
    and delete: "run_state (ja_Delete A ns name pre) s = (d, s') \<Longrightarrow> view s' = view s \<or>
        (\<exists>job. view s (ns, name) = Some job \<and> (\<forall>uid. pre = Some uid \<longrightarrow> jb_UID job = uid) \<and>
          view s' = (view s)((ns, name) := None))"
    and label_length: "view s key = Some job \<Longrightarrow> length (mread (jb_Labels job) k) \<le> 63"
begin

lemma create_cases:
  assumes "run_state (JobClient_Create L parse A req) s = (r, s')"
  obtains (refused) "view s' = view s" "\<exists>e. r = Inl e"
    | (created) job where "view s (jr_Namespace req, jr_JobName req) = None"
        "stored_as (buildK8sJob L parse req) job" "view s' = (view s)((jr_Namespace req, jr_JobName req) \<mapsto> job)"
        "r = Inr (sl_NewK8sJobBackendRef L (jr_Namespace req) (jr_JobName req) (jb_UID job)) \<or> (\<exists>e. r = Inl e)"
    | (found) job where "view s (jr_Namespace req, jr_JobName req) = Some job" "view s' = view s"
        "existingAttemptMarkerMatches job (jr_AttemptMarker req)"
        "r = Inr (sl_NewK8sJobBackendRef L (jr_Namespace req) (jr_JobName req) (jb_UID job))"
proof (cases "validateK8sJobCreateRequest L req")
  case (Inl e)
  with assms have "r = Inl e" "s' = s" by (simp_all add: JobClient_Create_def)
  then show ?thesis by (intro refused) simp_all
next
  case (Inr u)
  have n: "jb_Name (buildK8sJob L parse req) = jr_JobName req" by (simp add: buildK8sJob_def Let_def)
  obtain c s1 where c: "run_state (ja_Create A (jr_Namespace req) (buildK8sJob L parse req)) s = (c, s1)" by fastforce
  note cr = create[OF c, unfolded n]
  show ?thesis
  proof (cases c)
    case (Inr job)
    with assms c \<open>validateK8sJobCreateRequest L req = Inr u\<close> cr show ?thesis
      by (intro created[of job]) (simp_all add: JobClient_Create_def)
  next
    case (Inl e)
    show ?thesis
    proof (cases "sl_IsAlreadyExists L e")
      case False
      with assms c \<open>validateK8sJobCreateRequest L req = Inr u\<close> Inl have "r = Inl e" "s' = s1"
        by (simp_all add: JobClient_Create_def)
      with cr Inl False show ?thesis using refused created by auto
    next
      case True
      obtain g s2 where g: "run_state (ja_Get A (jr_Namespace req) (jr_JobName req)) s1 = (g, s2)" by fastforce
      have v: "view s2 = view s" "view s1 = view s" using get[OF g] cr Inl True by auto
      have r: "s' = s2" "r = (case g of Inl getErr \<Rightarrow> Inl (Wrapf ''job AlreadyExists but get failed: '' getErr)
          | Inr job \<Rightarrow> if \<not> existingAttemptMarkerMatches job (jr_AttemptMarker req) then Inl (sl_ErrJobConflict L)
              else Inr (sl_NewK8sJobBackendRef L (jr_Namespace req) (jr_JobName req) (jb_UID job)))"
        using assms c g \<open>validateK8sJobCreateRequest L req = Inr u\<close> Inl True
        by (simp_all add: JobClient_Create_def)
      show ?thesis
      proof (cases "\<exists>job. g = Inr job \<and> existingAttemptMarkerMatches job (jr_AttemptMarker req)")
        case True
        then obtain job where "g = Inr job" "existingAttemptMarkerMatches job (jr_AttemptMarker req)" by blast
        with r v get[OF g] show ?thesis by (intro found[of job]) simp_all
      next
        case False
        with r v show ?thesis by (intro refused) (auto split: sum.splits)
      qed
    qed
  qed
qed

text \<open>A marker longer than a label can only be matched by the annotation.\<close>

lemma stored_marker:
  assumes "stored_as (buildK8sJob L parse req) job"
  shows "mread (jb_Annotations job) annotationMarker = jr_AttemptMarker req"
proof -
  have "map_of (jb_Annotations (buildK8sJob L parse req)) annotationMarker = Some (jr_AttemptMarker req)"
    by (simp add: buildK8sJob_def Let_def marker_annotation)
  then have "map_of (jb_Annotations job) annotationMarker = Some (jr_AttemptMarker req)"
    using assms unfolding stored_as_def map_le_def by (metis domI)
  then show ?thesis by (simp add: mread_def)
qed

lemma long_marker:
  assumes "view s key = Some job" "existingAttemptMarkerMatches job marker" "63 < length marker"
  shows "mread (jb_Annotations job) annotationMarker = marker"
  using assms label_length[OF assms(1), of labelAttemptMarker]
  by (auto simp: existingAttemptMarkerMatches_def split: if_splits)

lemma create_owns:
  assumes "run_state (JobClient_Create L parse A req) s = (Inr ref, s')"
  shows "\<exists>job. view s' (jr_Namespace req, jr_JobName req) = Some job \<and>
     ref = sl_NewK8sJobBackendRef L (jr_Namespace req) (jr_JobName req) (jb_UID job) \<and>
     existingAttemptMarkerMatches job (jr_AttemptMarker req)"
  using assms
  by (cases rule: create_cases) (auto simp: existingAttemptMarkerMatches_def stored_marker)

lemma create_keeps:
  assumes "run_state (JobClient_Create L parse A req) s = (r, s')"
  shows "view s key = Some job \<Longrightarrow> view s' key = Some job"
    and "key \<noteq> (jr_Namespace req, jr_JobName req) \<Longrightarrow> view s' key = view s key"
  using assms by (cases rule: create_cases; auto)+

lemma create_again:
  assumes "run_state (JobClient_Create L parse A req) s = (Inr ref, s')"
    and "run_state (JobClient_Create L parse A req) s' = (r, s'')"
  shows "view s'' = view s' \<and> (r = Inr ref \<or> (\<exists>e. r = Inl e))"
proof -
  obtain job where "view s' (jr_Namespace req, jr_JobName req) = Some job"
     "ref = sl_NewK8sJobBackendRef L (jr_Namespace req) (jr_JobName req) (jb_UID job)"
    using create_owns[OF assms(1)] by blast
  with assms(2) show ?thesis by (cases rule: create_cases) auto
qed

lemma delete_keeps_others:
  assumes "run_state (JobClient_Delete L A ref) s = (r, s')" "br_UID ref \<noteq> ''''"
    and "view s key = Some job" "jb_UID job \<noteq> br_UID ref"
  shows "view s' key = Some job"
proof -
  obtain g s1 where g: "run_state (ja_Get A (br_Namespace ref) (br_Name ref)) s = (g, s1)" by fastforce
  obtain d s2 where d: "run_state (ja_Delete A (br_Namespace ref) (br_Name ref) (Some (br_UID ref))) s1 = (d, s2)"
    by fastforce
  have "s' = s1 \<or> s' = s2"
    using assms(1,2) g d
    by (auto simp: JobClient_Delete_def delete_job_def deletePreconditions_def split: sum.splits if_splits)
  then show ?thesis using get[OF g] delete[OF d] assms(3,4) by auto
qed

end

subsection \<open>A cluster\<close>

text \<open>
  A cluster that keeps its jobs in a map, numbers the identifiers it gives out, and refuses label values
  that are too long.
\<close>

record cluster =
  cl_jobs :: "(string \<times> string, Job) gomap"
  cl_next :: nat

definition labels_short :: "Job \<Rightarrow> bool" where
  "labels_short job \<longleftrightarrow> list_all (\<lambda>(k, v). length v \<le> 63) (jb_Labels job)"

definition cluster_view :: "cluster \<Rightarrow> string \<times> string \<Rightarrow> Job option" where
  "cluster_view c key = (case map_of (cl_jobs c) key of
     Some job \<Rightarrow> if labels_short job then Some job else None | None \<Rightarrow> None)"

definition cluster_create :: "string \<Rightarrow> Job \<Rightarrow> (cluster, Job result) state" where
  "cluster_create ns job = State (\<lambda>c.
     if cluster_view c (ns, jb_Name job) \<noteq> None then (Inl (HTTPError 409 ''jobs''), c)
     else if \<not> labels_short job then (Inl (HTTPError 422 ''jobs''), c)
     else let job' = job\<lparr>jb_UID := ''uid-'' @ Itoa (int (cl_next c))\<rparr>
          in (Inr job', \<lparr>cl_jobs = mput (ns, jb_Name job) job' (cl_jobs c), cl_next = Suc (cl_next c)\<rparr>))"

definition cluster_get :: "string \<Rightarrow> string \<Rightarrow> (cluster, Job result) state" where
  "cluster_get ns name = State (\<lambda>c. (case cluster_view c (ns, name) of
     Some job \<Rightarrow> Inr job | None \<Rightarrow> Inl (HTTPError 404 ''jobs''), c))"

definition cluster_delete :: "string \<Rightarrow> string \<Rightarrow> string option \<Rightarrow> (cluster, unit result) state" where
  "cluster_delete ns name pre = State (\<lambda>c. case cluster_view c (ns, name) of
     None \<Rightarrow> (Inl (HTTPError 404 ''jobs''), c)
   | Some job \<Rightarrow> if (case pre of None \<Rightarrow> False | Some uid \<Rightarrow> uid \<noteq> jb_UID job) then (Inl (HTTPError 412 ''jobs''), c)
       else (ok, c\<lparr>cl_jobs := AList.delete (ns, name) (cl_jobs c)\<rparr>))"

definition cluster_calls :: "cluster job_calls" where
  "cluster_calls = \<lparr>ja_Create = cluster_create, ja_Get = cluster_get, ja_Delete = cluster_delete\<rparr>"

lemma cluster_view_put:
  "labels_short job \<Longrightarrow> cluster_view \<lparr>cl_jobs = mput key job (cl_jobs c), cl_next = n\<rparr> = (cluster_view c)(key \<mapsto> job)"
  by (auto simp: cluster_view_def fun_eq_iff)

lemma cluster_view_del:
  "cluster_view (c\<lparr>cl_jobs := AList.delete key (cl_jobs c)\<rparr>) = (cluster_view c)(key := None)"
  by (auto simp: cluster_view_def fun_eq_iff delete_conv)

lemma labels_short_mread: "labels_short job \<Longrightarrow> length (mread (jb_Labels job) k) \<le> 63"
  by (auto simp: labels_short_def mread_def list_all_iff split: option.split dest!: map_of_SomeD)

interpretation cl: job_api demo_lib cluster_calls cluster_view
proof (unfold_locales, goal_cases)
  case 1
  show ?case by (rule demo_lib_ok)
next
  case (2 ns name s r s')
  then show ?case
    by (auto simp: cluster_calls_def cluster_get_def split: option.splits)
next
  case (3 ns job s r s')
  have "labels_short job \<Longrightarrow> labels_short (job\<lparr>jb_UID := u\<rparr>)" for u by (simp add: labels_short_def)
  with 3 show ?case
    by (auto simp: cluster_calls_def cluster_create_def Let_def stored_as_def demo_lib_def cluster_view_put split: if_splits)
next
  case (4 ns name pre s d s')
  then show ?case
    by (auto simp: cluster_calls_def cluster_delete_def cluster_view_del split: option.splits if_splits)
next
  case (5 s key job k)
  then show ?case by (auto simp: cluster_view_def labels_short_mread split: option.splits if_splits)
qed

subsection \<open>Creation\<close>

text \<open>
  C35.  Creating the job of an attempt never replaces or removes a job and touches no other name.  When
  a reference is returned it names a job that exists then and has the identifier of the reference; if
  the marker of the attempt is longer than a label can be, that job carries the marker in its
  annotation.  Asking again creates nothing, and returns the same reference or an error.
\<close>

theorem JobClient_Create_idempotent:
  assumes "job_api L A view"
    and "run_state (JobClient_Create L parse A req) s = (r, s')"
  shows "(\<forall>key job. view s key = Some job \<longrightarrow> view s' key = Some job) \<and>
     (\<forall>key. key \<noteq> (jr_Namespace req, jr_JobName req) \<longrightarrow> view s' key = view s key) \<and>
     (\<forall>ref. r = Inr ref \<longrightarrow>
        (\<exists>job. view s' (jr_Namespace req, jr_JobName req) = Some job \<and>
           ref = \<lparr>br_Namespace = jr_Namespace req, br_Name = jr_JobName req, br_UID = jb_UID job\<rparr> \<and>
           (63 < length (jr_AttemptMarker req) \<longrightarrow>
              mread (jb_Annotations job) annotationMarker = jr_AttemptMarker req)) \<and>
        (\<forall>r2 s2. run_state (JobClient_Create L parse A req) s' = (r2, s2) \<longrightarrow>
           view s2 = view s' \<and> (r2 = Inr ref \<or> (\<exists>e. r2 = Inl e))))"
proof -
  have "\<exists>job. view s' (jr_Namespace req, jr_JobName req) = Some job \<and>
      ref = \<lparr>br_Namespace = jr_Namespace req, br_Name = jr_JobName req, br_UID = jb_UID job\<rparr> \<and>
      (63 < length (jr_AttemptMarker req) \<longrightarrow> mread (jb_Annotations job) annotationMarker = jr_AttemptMarker req)"
    if "r = Inr ref" for ref
    using job_api.create_owns[OF assms(1) assms(2)[unfolded that]] job_api.long_marker[OF assms(1)]
      job_api.lib[OF assms(1)] by (fastforce simp: spawner_lib_ok_def)
  moreover have "view s2 = view s' \<and> (r2 = Inr ref \<or> (\<exists>e. r2 = Inl e))"
    if "r = Inr ref" "run_state (JobClient_Create L parse A req) s' = (r2, s2)" for ref r2 s2
    using job_api.create_again[OF assms(1) assms(2)[unfolded that(1)] that(2)] .
  ultimately show ?thesis using job_api.create_keeps[OF assms] by blast
qed

definition demo_job_request :: JobCreateRequest where
  "demo_job_request = \<lparr>jr_Namespace = ''jumi'', jr_JobName = ''job-1'', jr_AttemptMarker = replicate 64 (CHR ''a''),
     jr_AttemptRequest = toAttemptRequest demo_k8s (zero_RunRecord\<lparr>rr_RunID := ''r''\<rparr>)
       (demo_output_node\<lparr>nd_Env := [(''JUMI_RUN_ID'', ''r''), (''JUMI_NODE_ID'', ''a''), (''JUMI_ATTEMPT_ID'', ''r-a-1'')]\<rparr>)\<rparr>"

definition empty_cluster :: cluster where
  "empty_cluster = \<lparr>cl_jobs = [], cl_next = 1\<rparr>"


lemma demo_job_request_simps:
  "jr_Namespace demo_job_request = ''jumi''" "jr_JobName demo_job_request = ''job-1''"
  "jr_AttemptMarker demo_job_request = replicate 64 (CHR ''a'')"
  by (simp_all add: demo_job_request_def)

lemma demo_ref: "sl_NewK8sJobBackendRef demo_lib ns name uid = \<lparr>br_Namespace = ns, br_Name = name, br_UID = uid\<rparr>"
  by (simp add: demo_lib_def)

lemma demo_created:
  "\<exists>c. run_state (JobClient_Create demo_lib (\<lambda>s. Inr 25000000000) cluster_calls demo_job_request) empty_cluster =
     (Inr \<lparr>br_Namespace = ''jumi'', br_Name = ''job-1'', br_UID = ''uid-1''\<rparr>, c)"
proof -
  have l: "\<forall>(k, v) \<in> set (buildLabels demo_job_request). k \<noteq> '''' \<and> length v \<le> 63"
  proof -
    have "aq_UserLabels (jr_AttemptRequest demo_job_request) = []"
      by (simp add: demo_job_request_def toAttemptRequest_def user_labels_def demo_output_node_def zero_Node_def)
    then have "buildLabels demo_job_request = system_labels demo_job_request" by (simp add: buildLabels_def)
    then show ?thesis using identityLabelValue_valid
      by (simp add: system_labels_def Let_def label_defs label_value_ok_def)
  qed
  have v: "validate_all_labels demo_lib labels = ok" if "\<forall>(k, v) \<in> set labels. k \<noteq> '''' \<and> length v \<le> 63" for labels
    using that by (induction labels) (auto simp: validateLabel_def demo_lib_def)
  have r: "aq_AttemptID (jr_AttemptRequest demo_job_request) = ''r-a-1''" "aq_RunID (jr_AttemptRequest demo_job_request) = ''r''"
    "mread (aq_Env (jr_AttemptRequest demo_job_request)) ''JUMI_NODE_ID'' = ''a''"
    "aq_Placement (jr_AttemptRequest demo_job_request) = None" "aq_UserLabels (jr_AttemptRequest demo_job_request) = []"
    by code_simp+
  have t: "TrimSpace ''r-a-1'' = ''r-a-1''" "TrimSpace ''r'' = ''r''" "TrimSpace ''a'' = ''a''" by code_simp+
  have "validateK8sJobCreateRequest demo_lib demo_job_request = ok"
    by (simp add: validateK8sJobCreateRequest_def r t validatePlacement_def v[OF l])
  moreover have "labels_short (buildK8sJob demo_lib (\<lambda>s. Inr 25000000000) demo_job_request)"
    using l by (auto simp: labels_short_def buildK8sJob_def Let_def list_all_iff)
  moreover have "Itoa 1 = ''1''" by code_simp
  ultimately show ?thesis
    by (simp add: demo_ref demo_job_request_simps JobClient_Create_def cluster_calls_def cluster_create_def empty_cluster_def cluster_view_def Let_def)
qed

theorem JobClient_Create_idempotent_witness:
  "\<exists>c job. run_state (JobClient_Create demo_lib (\<lambda>s. Inr 25000000000) cluster_calls demo_job_request) empty_cluster =
     (Inr \<lparr>br_Namespace = ''jumi'', br_Name = ''job-1'', br_UID = ''uid-1''\<rparr>, c) \<and>
     cluster_view c (''jumi'', ''job-1'') = Some job \<and> jb_UID job = ''uid-1'' \<and>
     mread (jb_Annotations job) annotationMarker = replicate 64 (CHR ''a'')"
proof -
  obtain c where c: "run_state (JobClient_Create demo_lib (\<lambda>s. Inr 25000000000) cluster_calls demo_job_request) empty_cluster =
     (Inr \<lparr>br_Namespace = ''jumi'', br_Name = ''job-1'', br_UID = ''uid-1''\<rparr>, c)" using demo_created by blast
  from JobClient_Create_idempotent[OF cl.job_api_axioms c] obtain job where
    "cluster_view c (''jumi'', ''job-1'') = Some job" "jb_UID job = ''uid-1''"
    "mread (jb_Annotations job) annotationMarker = replicate 64 (CHR ''a'')"
    unfolding demo_job_request_simps length_replicate by auto
  with c show ?thesis by blast
qed

subsection \<open>Recovery finds what was created\<close>

text \<open>
  C36.  After a restart the handle of a created job is found again.  If the job of an attempt was
  created, with a marker longer than a label can be, and the resolver reads that cluster under the
  same identity, then it answers that the job was found, and its handle has the reference that the
  creation had returned.
\<close>

theorem ResolveByIdentity_finds_created:
  assumes "job_api L A view" and "ke_lib K = L" and "ke_runtime K" and "ke_clientset K"
    and "run_state (JobClient_Create L parse A req) s = (Inr ref, s')"
    and "63 < length (jr_AttemptMarker req)"
    and "ke_ResolveIdentity K attemptID = Inr \<lparr>id_Namespace = jr_Namespace req, id_JobName = jr_JobName req,
           id_AttemptMarker = jr_AttemptMarker req\<rparr>"
    and "\<forall>job. view s' (jr_Namespace req, jr_JobName req) = Some job \<longrightarrow>
           ke_GetJob K t c (jr_Namespace req) (jr_JobName req) = Inr job"
  shows "\<exists>q. ResolveByIdentity K t c attemptID =
     (Some (RuntimeHandle \<lparr>rh_handle = \<lparr>ah_AttemptID = attemptID, ah_BackendRef = ref\<rparr>, rh_queueName = q\<rparr>), ResolveFound, None)"
proof -
  obtain job where job: "view s' (jr_Namespace req, jr_JobName req) = Some job"
    "ref = sl_NewK8sJobBackendRef L (jr_Namespace req) (jr_JobName req) (jb_UID job)"
    "existingAttemptMarkerMatches job (jr_AttemptMarker req)"
    using job_api.create_owns[OF assms(1,5)] by blast
  have "mread (jb_Annotations job) annotationAttemptMarker = jr_AttemptMarker req"
    using job_api.long_marker[OF assms(1) job(1,3) assms(6)]
    by (simp add: annotationMarker_def annotationAttemptMarker_def)
  moreover have "jr_AttemptMarker req \<noteq> ''''" using assms(6) by auto
  ultimately show ?thesis
    using assms(2-4,7,8) job(1,2) by (simp add: ResolveByIdentity_def)
qed

theorem ResolveByIdentity_finds_created_witness:
  "\<exists>job q. ResolveByIdentity (demo_k8s\<lparr>
       ke_ResolveIdentity := \<lambda>a. Inr \<lparr>id_Namespace = ''jumi'', id_JobName = ''job-1'', id_AttemptMarker = replicate 64 (CHR ''a'')\<rparr>,
       ke_GetJob := \<lambda>t c ns name. Inr job\<rparr>) 0 CtxBackground ''r-a-1'' =
     (Some (RuntimeHandle \<lparr>rh_handle = \<lparr>ah_AttemptID = ''r-a-1'',
        ah_BackendRef = \<lparr>br_Namespace = ''jumi'', br_Name = ''job-1'', br_UID = ''uid-1''\<rparr>\<rparr>, rh_queueName = q\<rparr>), ResolveFound, None)"
proof -
  obtain c where c: "run_state (JobClient_Create demo_lib (\<lambda>s. Inr 25000000000) cluster_calls demo_job_request) empty_cluster =
     (Inr \<lparr>br_Namespace = ''jumi'', br_Name = ''job-1'', br_UID = ''uid-1''\<rparr>, c)" using demo_created by blast
  let ?K = "\<lambda>job. demo_k8s\<lparr>
       ke_ResolveIdentity := \<lambda>a. Inr \<lparr>id_Namespace = ''jumi'', id_JobName = ''job-1'', id_AttemptMarker = replicate 64 (CHR ''a'')\<rparr>,
       ke_GetJob := \<lambda>t c ns name. Inr job\<rparr>"
  obtain job where job: "cluster_view c (''jumi'', ''job-1'') = Some job"
    using cl.create_owns[OF c] demo_job_request_simps by auto
  have "ke_lib (?K job) = demo_lib" "ke_runtime (?K job)" "ke_clientset (?K job)" by (simp_all add: demo_k8s_def)
  then show ?thesis
    using ResolveByIdentity_finds_created[OF cl.job_api_axioms _ _ _ c, of "?K job" "''r-a-1''" 0 CtxBackground] job demo_job_request_simps by auto
qed

subsection \<open>Deletion\<close>



end
