(* ===== verification/K8s_Watch.thy ===== *)
theory K8s_Watch
  imports K8s_Jobs Spawner_Laws
begin

text \<open>
  The goroutine behind \<^verbatim>\<open>Watch\<close>: what its two channels carry, for every sequence of rounds of its loop,
  and that the end of a job is reported.
\<close>

abbreviation terminal_event :: "spawner_lib \<Rightarrow> JobEvent \<Rightarrow> bool" where
  "terminal_event L e \<equiv> sl_IsTerminal L (je_State e)"

text \<open>A watch that goes on has sent no error and no final event.\<close>

definition watch_open :: "spawner_lib \<Rightarrow> watch_out \<Rightarrow> bool" where
  "watch_open L w \<longleftrightarrow> \<not> wa_closed w \<and> wa_errs w = [] \<and> (\<forall>e \<in> set (wa_events w). \<not> terminal_event L e)"

definition watch_ok :: "spawner_lib \<Rightarrow> watch_out \<Rightarrow> bool" where
  "watch_ok L w \<longleftrightarrow> length (wa_errs w) \<le> 1 \<and>
     (\<forall>e \<in> set (butlast (wa_events w)). \<not> terminal_event L e) \<and>
     ((\<exists>e \<in> set (wa_events w). terminal_event L e) \<longrightarrow> wa_closed w \<and> wa_errs w = []) \<and>
     (wa_errs w \<noteq> [] \<longrightarrow> wa_closed w)"

lemma open_ok: "watch_open L w \<Longrightarrow> watch_ok L w"
  by (auto simp: watch_open_def watch_ok_def dest: in_set_butlastD)

lemma open_start: "watch_open L watch_start"
  by (simp add: watch_open_def watch_start_def)

lemma open_closed_ok: "watch_open L w \<Longrightarrow> watch_ok L (close_watch w)"
  by (auto simp: watch_open_def watch_ok_def close_watch_def dest: in_set_butlastD)

lemma open_error_ok: "watch_open L w \<Longrightarrow> watch_ok L (close_watch (trySendWatchErr r m b w))"
  by (auto simp: watch_open_def watch_ok_def close_watch_def trySendWatchErr_def dest: in_set_butlastD)

lemma open_event_ok: "watch_open L w \<Longrightarrow> watch_ok L (close_watch (trySendEvent sent ev w))"
  by (auto simp: watch_open_def watch_ok_def close_watch_def trySendEvent_def dest: in_set_butlastD)

lemma open_event: "watch_open L w \<Longrightarrow> \<not> terminal_event L ev \<Longrightarrow> watch_open L (trySendEvent sent ev w)"
  by (auto simp: watch_open_def trySendEvent_def)

lemma state_job_event [simp]: "je_State (job_event x) = fst x"
  by (cases x) (auto simp: job_event_def)

text \<open>A round either ends the watch, within its contract, or leaves it open.\<close>

lemma job_round:
  assumes "watch_open L w"
  shows "watch_ok L (watch_job_event L ref job ty obj now sent w) \<and>
     (\<not> wa_closed (watch_job_event L ref job ty obj now sent w) \<longrightarrow> watch_open L (watch_job_event L ref job ty obj now sent w))"
proof -
  have c: "wa_closed (close_watch x)" for x by (simp add: close_watch_def)
  show ?thesis
    using assms open_event_ok[OF assms] open_error_ok[OF assms] open_ok[OF assms] open_event[OF assms] open_ok
    by (auto simp: watch_job_event_def Let_def c split: watch_type.split watch_object.split)
qed

lemma pod_event_cases:
  "watch_pod_event job ty obj now sent w = w \<or>
   (\<exists>st \<in> {AttemptStateRunning, AttemptStatePending}. watch_pod_event job ty obj now sent w =
      (if sent then trySendEvent sent (job_event (st, '''', '''', now)) w
       else close_watch (trySendEvent sent (job_event (st, '''', '''', now)) w)))"
proof (cases obj)
  case (ObjPod pod)
  then show ?thesis by (cases "pd_Phase pod") (simp_all add: watch_pod_event_def podPhaseToState_def Let_def)
qed (simp_all add: watch_pod_event_def)

lemma pod_round:
  assumes "watch_open L w" "spawner_lib_ok L"
  shows "watch_ok L (watch_pod_event job ty obj now sent w) \<and>
     (\<not> wa_closed (watch_pod_event job ty obj now sent w) \<longrightarrow> watch_open L (watch_pod_event job ty obj now sent w))"
proof -
  have "watch_open L (trySendEvent sent (job_event (st, '''', '''', now)) w)"
    if "st \<in> {AttemptStateRunning, AttemptStatePending}" for st
    using that assms by (intro open_event) (auto simp: terminal_states)
  moreover have "wa_closed (close_watch x)" for x by (simp add: close_watch_def)
  ultimately show ?thesis
    using pod_event_cases[of job ty obj now sent w] assms(1) open_ok open_event_ok[OF assms(1)] by metis
qed

lemma loop_ok:
  assumes "watch_open L w" "spawner_lib_ok L"
  shows "watch_ok L (watch_loop L ref job pods rounds w)"
  using assms
proof (induction rounds arbitrary: pods w)
  case Nil
  then show ?case by (simp add: open_ok)
next
  case (Cons round rounds)
  obtain item now sent where "round = (item, now, sent)" by (cases round)
  with Cons show ?case
    using job_round[OF Cons.prems(1)] pod_round[OF Cons.prems]
    by (cases item) (auto simp: Let_def open_closed_ok open_error_ok)
qed

subsection \<open>Where a success comes from\<close>

definition job_complete :: "Job \<Rightarrow> bool" where
  "job_complete j \<longleftrightarrow> (\<exists>c \<in> set (jb_Conditions j). jc_Type c = JobComplete \<and> jc_True c)"

lemma succeeded_complete: "fst (jobToState L now j) = AttemptStateSucceeded \<longleftrightarrow> job_complete j"
proof (cases "List.find (\<lambda>c. jc_Type c = JobComplete \<and> jc_True c) (jb_Conditions j)")
  case None
  then have "\<not> job_complete j" by (auto simp: job_complete_def find_None_iff)
  with None show ?thesis by (simp add: jobToState_def split: option.split)
next
  case (Some c)
  then have "job_complete j" by (auto simp: job_complete_def find_Some_iff)
  with Some show ?thesis by (simp add: jobToState_def)
qed

text \<open>The jobs that the goroutine reads: the one of the first \<^verbatim>\<open>Get\<close> and those of the watch.\<close>

definition seen_jobs :: "Job result \<Rightarrow> watch_round list \<Rightarrow> Job set" where
  "seen_jobs got rounds = {j. got = Inr j} \<union> {j. \<exists>now sent. (ItemJob WatchOther (ObjJob j), now, sent) \<in> set rounds}"

definition success_seen :: "BackendRef \<Rightarrow> Job set \<Rightarrow> JobEvent \<Rightarrow> bool" where
  "success_seen ref jobs e \<longleftrightarrow>
     (je_State e = AttemptStateSucceeded \<longrightarrow> (\<exists>j \<in> jobs. jobMatchesBackendRef j ref \<and> job_complete j))"

lemma send_events: "e \<in> set (wa_events (trySendEvent sent ev w)) \<Longrightarrow> e = ev \<or> e \<in> set (wa_events w)"
  by (auto simp: trySendEvent_def split: if_splits)

lemma close_events [simp]: "wa_events (close_watch w) = wa_events w"
  by (simp add: close_watch_def)

lemma err_events [simp]: "wa_events (trySendWatchErr r m b w) = wa_events w"
  by (simp add: trySendWatchErr_def)

lemma job_round_success:
  assumes "e \<in> set (wa_events (watch_job_event L ref job ty obj now sent w))"
  shows "e \<in> set (wa_events w) \<or> success_seen ref {j. ty = WatchOther \<and> obj = ObjJob j} e"
  using assms
  by (auto simp: watch_job_event_def Let_def success_seen_def succeeded_complete
      split: watch_type.splits watch_object.splits if_splits dest!: send_events)

lemma pod_round_success:
  assumes "e \<in> set (wa_events (watch_pod_event job ty obj now sent w))"
  shows "e \<in> set (wa_events w) \<or> je_State e \<noteq> AttemptStateSucceeded"
proof -
  consider "watch_pod_event job ty obj now sent w = w"
    | st where "st \<in> {AttemptStateRunning, AttemptStatePending}"
        "wa_events (watch_pod_event job ty obj now sent w) = wa_events (trySendEvent sent (job_event (st, '''', '''', now)) w)"
    using pod_event_cases[of job ty obj now sent w] by fastforce
  then show ?thesis
  proof cases
    case 2
    with assms send_events[of e sent "job_event (st, '''', '''', now)" w] show ?thesis by auto
  qed (use assms in simp)
qed

lemma success_mono: "success_seen ref J e \<Longrightarrow> J \<subseteq> J' \<Longrightarrow> success_seen ref J' e"
  by (auto simp: success_seen_def)

lemma loop_success:
  assumes "\<forall>e \<in> set (wa_events w). success_seen ref J e"
    and "\<forall>j now sent. (ItemJob WatchOther (ObjJob j), now, sent) \<in> set rounds \<longrightarrow> j \<in> J"
  shows "\<forall>e \<in> set (wa_events (watch_loop L ref job pods rounds w)). success_seen ref J e"
  using assms
proof (induction rounds arbitrary: pods w)
  case (Cons round rounds)
  obtain item now sent where r: "round = (item, now, sent)" by (cases round)
  have ih: "\<forall>e \<in> set (wa_events (watch_loop L ref job p rounds x)). success_seen ref J e"
    if "\<forall>e \<in> set (wa_events x). success_seen ref J e" for x p
    by (rule Cons.IH[OF that]) (use Cons.prems(2) in auto)
  show ?case
  proof (cases item)
    case (ItemJob ty obj)
    let ?w = "watch_job_event L ref job ty obj now sent w"
    have "{j. ty = WatchOther \<and> obj = ObjJob j} \<subseteq> J" using Cons.prems(2) r ItemJob by auto
    then have "\<forall>e \<in> set (wa_events ?w). success_seen ref J e"
      using job_round_success[of _ L ref job ty obj now sent w] Cons.prems(1) success_mono by blast
    with ih[of ?w] show ?thesis by (simp add: r ItemJob Let_def)
  next
    case (ItemPod ty obj)
    let ?w = "watch_pod_event job ty obj now sent w"
    have "\<forall>e \<in> set (wa_events ?w). success_seen ref J e"
      using pod_round_success[of _ job ty obj now sent w] Cons.prems(1) by (auto simp: success_seen_def)
    with ih[of ?w] ih[OF Cons.prems(1)] show ?thesis by (simp add: r ItemPod Let_def)
  qed (use ih[OF Cons.prems(1)] Cons.prems(1) in \<open>simp_all add: r Let_def\<close>)
qed simp

text \<open>
  C38.  For every sequence of rounds: at most one error is sent, and the goroutine has ended then; a
  final event is the last one, it ends the goroutine and excludes an error; and a success is reported
  only for a job with the identifier of the reference whose condition says that it is complete.
\<close>

theorem watchJob_contract:
  assumes "spawner_lib_ok L"
  shows "watch_ok L (watchJob L ref got now sent jwErr pods rounds) \<and>
     (\<forall>e \<in> set (wa_events (watchJob L ref got now sent jwErr pods rounds)). success_seen ref (seen_jobs got rounds) e)"
proof
  show "watch_ok L (watchJob L ref got now sent jwErr pods rounds)"
    using open_start[of L] assms
    by (auto simp: watchJob_def Let_def open_closed_ok open_error_ok open_event_ok loop_ok split: sum.split option.split)
  have s: "wa_events watch_start = []" by (simp add: watch_start_def)
  have l: "\<forall>e \<in> set (wa_events (watch_loop L ref job pods rounds watch_start)). success_seen ref (seen_jobs got rounds) e" for job
    by (rule loop_success) (auto simp: s seen_jobs_def)
  show "\<forall>e \<in> set (wa_events (watchJob L ref got now sent jwErr pods rounds)). success_seen ref (seen_jobs got rounds) e"
    using l by (auto simp: watchJob_def Let_def s success_seen_def seen_jobs_def succeeded_complete
        split: sum.splits option.splits if_splits dest!: send_events)
qed

definition demo_job :: "JobCondition list \<Rightarrow> Job" where
  "demo_job conds = \<lparr>jb_APIVersion = ''batch/v1'', jb_Kind = ''Job'', jb_Name = ''job-1'', jb_Namespace = ''jumi'',
     jb_UID = ''u1'', jb_ResourceVersion = ''7'', jb_Labels = [(labelRunKey, ''r''), (labelNodeKey, ''a'')], jb_Annotations = [],
     jb_Suspend = Some False, jb_BackoffLimit = 0, jb_TTLSecondsAfterFinished = None,
     jb_Template = \<lparr>pt_Labels = [], pt_Annotations = [], pt_ServiceAccountName = '''', pt_RestartPolicy = ''Never'',
       pt_TerminationGracePeriodSeconds = 30, pt_Containers = [], pt_Volumes = [], pt_NodeSelector = [], pt_Affinity = None\<rparr>,
     jb_Conditions = conds\<rparr>"

definition demo_complete :: Job where
  "demo_complete = demo_job [\<lparr>jc_Type = JobComplete, jc_True = True, jc_Reason = '''', jc_Message = ''done'',
     jc_LastTransitionTime = 8\<rparr>]"

definition demo_job_ref :: BackendRef where
  "demo_job_ref = \<lparr>br_Namespace = ''jumi'', br_Name = ''job-1'', br_UID = ''u1''\<rparr>"

definition demo_rounds :: "watch_round list" where
  "demo_rounds = [(ItemPodClosed, 1, True), (ItemJob WatchOther (ObjJob (demo_job [])), 2, True)]"

theorem watchJob_contract_witness:
  "watch_ok demo_lib (watchJob demo_lib demo_job_ref (Inr (demo_job [])) 0 True None True
     (demo_rounds @ [(ItemJob WatchOther (ObjJob demo_complete), 9, True)]))"
  using watchJob_contract[OF demo_lib_ok] by blast

subsection \<open>The end of a job is reported\<close>

text \<open>
  A round that does not end the loop: neither the context nor the job watch ends, an event of the job
  is not a deletion, an error or a final state, and what is sent goes through.
\<close>

definition quiet_round :: "spawner_lib \<Rightarrow> watch_round \<Rightarrow> bool" where
  "quiet_round L r = (case r of (item, now, sent) \<Rightarrow> sent \<and>
     (case item of
        ItemCtxDone \<Rightarrow> False
      | ItemJobClosed \<Rightarrow> False
      | ItemJob ty obj \<Rightarrow> ty = WatchOther \<and>
          (case obj of ObjJob j \<Rightarrow> \<not> sl_IsTerminal L (fst (jobToState L now j)) | _ \<Rightarrow> True)
      | _ \<Rightarrow> True))"

lemma quiet_job:
  assumes "quiet_round L (ItemJob ty obj, now, sent)" "watch_open L w"
  shows "watch_open L (watch_job_event L ref job ty obj now sent w)"
  using assms open_event[OF assms(2), of "job_event (jobToState L now j)" True for j]
  by (cases obj) (auto simp: quiet_round_def watch_job_event_def Let_def)

lemma quiet_pod:
  assumes "watch_open L w" "spawner_lib_ok L"
  shows "watch_open L (watch_pod_event job ty obj now True w)"
proof -
  have "watch_open L (trySendEvent True (job_event (st, '''', '''', now)) w)"
    if "st \<in> {AttemptStateRunning, AttemptStatePending}" for st
    using that assms by (intro open_event) (auto simp: terminal_states)
  then show ?thesis using pod_event_cases[of job ty obj now True w] assms(1) by metis
qed

lemma quiet_rounds:
  assumes "spawner_lib_ok L" "list_all (quiet_round L) pre" "watch_open L w"
  shows "\<exists>pods' w'. watch_open L w' \<and>
     watch_loop L ref job pods (pre @ rounds) w = watch_loop L ref job pods' rounds w'"
  using assms(2,3)
proof (induction pre arbitrary: pods w)
  case Nil
  then show ?case by auto
next
  case (Cons r pre)
  obtain item now sent where r: "r = (item, now, sent)" by (cases r)
  have quiet: "quiet_round L (item, now, sent)" and pre: "list_all (quiet_round L) pre"
    using Cons.prems(1) by (simp_all add: r)
  then have sent: "sent" by (simp add: quiet_round_def)
  show ?case
  proof (cases item)
    case (ItemJob ty obj)
    let ?w = "watch_job_event L ref job ty obj now sent w"
    have w: "watch_open L ?w" using quiet_job[OF _ Cons.prems(2)] quiet by (simp add: ItemJob)
    then show ?thesis using Cons.IH[OF pre w, of pods] by (simp add: r ItemJob Let_def watch_open_def)
  next
    case (ItemPod ty obj)
    let ?w = "watch_pod_event job ty obj now True w"
    have w: "watch_open L ?w" by (rule quiet_pod[OF Cons.prems(2) assms(1)])
    then have "\<not> wa_closed ?w" by (simp add: watch_open_def)
    then show ?thesis using Cons.IH[OF pre w, of pods] Cons.IH[OF pre Cons.prems(2), of pods] sent
      by (cases pods) (simp_all add: r ItemPod Let_def)
  qed (use Cons.IH[OF pre Cons.prems(2), of False] quiet in \<open>simp_all add: r quiet_round_def\<close>)
qed

text \<open>
  C39.  The end of a job is reported.  If the job is running when the watch starts, both watches open,
  and after any number of quiet rounds the watch delivers the job in a final state, then that state is
  the last event, with its reason, message and time, no error is sent, and the channels are closed,
  whatever would have come later.
\<close>

theorem watchJob_reports_end:
  assumes "spawner_lib_ok L" and "jobMatchesBackendRef job ref" and "\<not> sl_IsTerminal L (fst (jobToState L now job))"
    and "list_all (quiet_round L) pre"
    and "jobMatchesBackendRef j ref" and "jobMatchesIdentityLabels j (jb_Labels job)"
    and "sl_IsTerminal L (fst (jobToState L at j))"
  shows "\<exists>events. watchJob L ref (Inr job) now sent None pods (pre @ (ItemJob WatchOther (ObjJob j), at, True) # post) =
     \<lparr>wa_events = events @ [job_event (jobToState L at j)], wa_errs = [], wa_closed = True\<rparr> \<and>
     (\<forall>e \<in> set events. \<not> terminal_event L e)"
proof -
  obtain pods' w where w: "watch_open L w"
    "watch_loop L ref job pods (pre @ (ItemJob WatchOther (ObjJob j), at, True) # post) watch_start =
       watch_loop L ref job pods' ((ItemJob WatchOther (ObjJob j), at, True) # post) w"
    using quiet_rounds[OF assms(1,4) open_start] by blast
  have "watch_loop L ref job pods' ((ItemJob WatchOther (ObjJob j), at, True) # post) w =
      close_watch (trySendEvent True (job_event (jobToState L at j)) w)"
    using assms(5-7) by (simp add: watch_job_event_def Let_def close_watch_def)
  then have "watchJob L ref (Inr job) now sent None pods (pre @ (ItemJob WatchOther (ObjJob j), at, True) # post) =
      close_watch (trySendEvent True (job_event (jobToState L at j)) w)"
    using assms(2,3) w(2) by (simp add: watchJob_def Let_def)
  with w(1) show ?thesis
    by (intro exI[of _ "wa_events w"]) (simp add: watch_open_def close_watch_def trySendEvent_def)
qed

theorem watchJob_reports_end_witness:
  "\<exists>events. watchJob demo_lib demo_job_ref (Inr (demo_job [])) 0 True None True
      (demo_rounds @ (ItemJob WatchOther (ObjJob demo_complete), 9, True) # [(ItemCtxDone, 10, False)]) =
     \<lparr>wa_events = events @ [\<lparr>je_State = AttemptStateSucceeded, je_Reason = '''', je_Message = ''done'', je_Timestamp = 8\<rparr>],
      wa_errs = [], wa_closed = True\<rparr>"
proof -
  have j: "jobMatchesBackendRef (demo_job []) demo_job_ref" "\<not> sl_IsTerminal demo_lib (fst (jobToState demo_lib 0 (demo_job [])))"
    "list_all (quiet_round demo_lib) demo_rounds" "jobMatchesBackendRef demo_complete demo_job_ref"
    "jobMatchesIdentityLabels demo_complete (jb_Labels (demo_job []))"
    "sl_IsTerminal demo_lib (fst (jobToState demo_lib 9 demo_complete))" by code_simp+
  have "job_event (jobToState demo_lib 9 demo_complete) =
     \<lparr>je_State = AttemptStateSucceeded, je_Reason = '''', je_Message = ''done'', je_Timestamp = 8\<rparr>" by code_simp
  then show ?thesis
    using watchJob_reports_end[OF demo_lib_ok j, of True True "[(ItemCtxDone, 10, False)]"] by auto
qed

end
