(* ===== verification/Spawner_Executor.thy ===== *)
theory Spawner_Executor
  imports Exec_Finish Spawner_Laws
begin

text \<open>
  The executor and the Kubernetes adapter together: what becomes of an attempt whose job the runtime
  reports as failed.
\<close>

text \<open>
  A Go call that returns a value and an error, as its caller in the executor reads it: the value
  counts only when the error is nil.
\<close>

definition value_or_error :: "'a \<times> go_error option \<Rightarrow> 'a result" where
  "value_or_error x = (case snd x of None \<Rightarrow> Inr (fst x) | Some e \<Rightarrow> Inl e)"

lemma wait_loop_events: "evs \<noteq> [] \<Longrightarrow> wait_loop (map WaitEvent evs) ev = Inr (last evs)"
  by (induction evs arbitrary: ev) auto

lemma waitRuntimeHandle_states:
  assumes "ke_WatchAttempt K t c (rh_handle rh) = Inr (map WaitEvent evs)" and "evs \<noteq> []"
  shows "snd (fst (run_state (waitRuntimeHandle K t c rh) m)) = None \<longleftrightarrow> ae_State (last evs) = AttemptStateSucceeded"
    and "ae_State (last evs) = AttemptStateSucceeded \<Longrightarrow>
      er_Succeeded (fst (fst (run_state (waitRuntimeHandle K t c rh) m)))"
  using assms
  by (auto simp: waitRuntimeHandle_def wait_loop_events count_metric_def exec_result_def Let_def)

lemma wait_lost:
  assumes "quiet E" and "at r a z x y w" and "ad_WaitNode (en_adapter E) (w_tick w) c h = Inl e"
    and "run_state (waitAndFinalize E r c h a t n) w = (res, w')"
  shows "marked r a z x y res w' \<or> (res = ok \<and> (\<exists>x' y'. at r a z x' y' w' \<and>
     nr_Status x' = NodeStatusCanceled \<and> ar_Status y' = AttemptStatusErrored \<and> ar_TerminalStopCause y' = ''canceled''))"
proof -
  obtain w1 where w1: "run_state (adapter_WaitNode E c h) w = (Inl e, w1)"
    using assms(3) by (simp add: adapter_WaitNode_def runs)
  have "at r a z x y w1" using hoareD [OF h_ev [OF assms(1) ev.external_calls(3)] assms(2) w1] .
  from hoareD [OF h_lost [OF assms(1)] this] assms(4) w1 show ?thesis by (simp add: waitAndFinalize_def)
qed

text \<open>
  C33.  A job that failed is not recorded as failed.  When the runtime of the Kubernetes adapter ends
  its events with any state but success, the adapter returns the failed result together with an
  error, and the executor takes every error of the adapter for a loss of observation: the record of
  the attempt stays as it was and the run is marked unresolved, or, if the context had ended, the
  attempt is recorded as canceled.
\<close>

theorem failed_job_left_unresolved:
  assumes "quiet E" and "at r a z x y w"
    and "ad_WaitNode (en_adapter E) (w_tick w) c h =
           value_or_error (fst (run_state (K8s_WaitNode K (w_tick w) c (RuntimeHandle rh)) m))"
    and "ke_WatchAttempt K (w_tick w) c (rh_handle rh) = Inr (map WaitEvent evs)" and "evs \<noteq> []"
    and "ae_State (last evs) \<noteq> AttemptStateSucceeded"
    and "run_state (waitAndFinalize E r c h a t n) w = (res, w')"
  shows "(res = Inl errReconcileUnresolved \<and> (\<exists>b. at r a z (x\<lparr>nr_CurrentBottleneckLocation := b\<rparr>) y w')) \<or>
     (res = ok \<and> (\<exists>x' y'. at r a z x' y' w' \<and> nr_Status x' = NodeStatusCanceled \<and>
        ar_Status y' = AttemptStatusErrored \<and> ar_TerminalStopCause y' = ''canceled''))"
proof -
  have "snd (fst (run_state (K8s_WaitNode K (w_tick w) c (RuntimeHandle rh)) m)) \<noteq> None"
    using waitRuntimeHandle_states(1)[OF assms(4,5)] assms(6) by (simp add: K8s_WaitNode_def)
  then obtain e where "ad_WaitNode (en_adapter E) (w_tick w) c h = Inl e"
    using assms(3) by (auto simp: value_or_error_def)
  from wait_lost[OF assms(1,2) this assms(7)] show ?thesis .
qed

theorem failed_job_left_unresolved_witness:
  "\<exists>E w res w' x y. ke_WatchAttempt demo_k8s (w_tick w) CtxRun (rh_handle demo_handle) =
       Inr (map WaitEvent [\<lparr>ae_State = AttemptStateFailed, ae_Reason = ''OOMKilled'', ae_Message = ''''\<rparr>]) \<and>
     run_state (waitAndFinalize E demo_runner CtxRun ''h'' ''r-a-attempt-1'' 0 demo_graph_node) w = (res, w') \<and>
     (res = Inl errReconcileUnresolved \<and> (\<exists>b. at demo_runner ''r-a-attempt-1'' demo_run (x\<lparr>nr_CurrentBottleneckLocation := b\<rparr>) y w') \<or>
      res = ok)"
proof -
  let ?x = "zero_NodeRecord\<lparr>nr_RunID := ''r'', nr_NodeID := ''a''\<rparr>"
  let ?y = "zero_AttemptRecord\<lparr>ar_RunID := ''r'', ar_NodeID := ''a'', ar_AttemptID := ''r-a-attempt-1''\<rparr>"
  let ?w = "demo_world\<lparr>w_reg := snd (UpsertAttempt ?y demo_store)\<rparr>"
  let ?E = "demo_env\<lparr>en_adapter := demo_adapter\<lparr>ad_WaitNode := \<lambda>t c h.
     value_or_error (fst (run_state (K8s_WaitNode demo_k8s t c (RuntimeHandle demo_handle)) []))\<rparr>\<rparr>"
  let ?evs = "[\<lparr>ae_State = AttemptStateFailed, ae_Reason = ''OOMKilled'', ae_Message = ''''\<rparr>]"
  have q: "quiet ?E" by (simp add: quiet_def demo_env_def)
  have k: "ke_WatchAttempt demo_k8s (w_tick ?w) CtxRun (rh_handle demo_handle) = Inr (map WaitEvent ?evs)"
    by (simp add: demo_k8s_def)
  obtain res w' where r: "run_state (waitAndFinalize ?E demo_runner CtxRun ''h'' ''r-a-attempt-1'' 0 demo_graph_node) ?w = (res, w')"
    by (cases "run_state (waitAndFinalize ?E demo_runner CtxRun ''h'' ''r-a-attempt-1'' 0 demo_graph_node) ?w")
  have "ad_WaitNode (en_adapter ?E) (w_tick ?w) CtxRun ''h'' =
      value_or_error (fst (run_state (K8s_WaitNode demo_k8s (w_tick ?w) CtxRun (RuntimeHandle demo_handle)) []))" by simp
  from failed_job_left_unresolved[OF q demo_at this k _ _ r] show ?thesis using k r by fastforce
qed

end
