(* ===== verification/Api_Service.thy ===== *)
theory Api_Service
  imports Exec_Logic
begin

text \<open>
  \<^verbatim>\<open>pkg/api\<close>: the run service and its gRPC binding.

  The service is a set of programs over the executor's world; the engine it is built with is a record
  of the two operations of the interface \<^verbatim>\<open>Engine\<close>.  The gRPC library is a parameter: the codec of a
  message type, the decoder a handler is given, the interceptor, and the connection of a client.
\<close>

subsection \<open>Engines\<close>

record engine =
  eng_Admit :: "RunRecord \<Rightarrow> unit result prog"
  eng_Cancel :: "string \<Rightarrow> string \<Rightarrow> unit result prog"

definition noop_engine :: "env \<Rightarrow> engine" where
  "noop_engine E = \<lparr>eng_Admit = Noop_Admit E, eng_Cancel = Noop_Cancel E\<rparr>"

definition dag_engine :: "env \<Rightarrow> (Handle list \<Rightarrow> Handle list) \<Rightarrow> engine" where
  "dag_engine E mo = \<lparr>eng_Admit = Admit E, eng_Cancel = Cancel E mo\<rparr>"

subsection \<open>Messages\<close>

record SubmitRunRequest =
  sq_Spec :: ExecutableRunSpec

record SubmitRunResponse =
  sp_RunID :: string
  sp_Status :: RunStatus
  sp_AcceptedAt :: time

record GetRunRequest =
  gq_RunID :: string

record GetRunResponse =
  gp_Run :: RunRecord

record ListRunNodesRequest =
  nq_RunID :: string

record ListRunNodesResponse =
  np_Nodes :: "NodeRecord list"

record ListNodeAttemptsRequest =
  lq_RunID :: string
  lq_NodeID :: string

record ListNodeAttemptsResponse =
  lp_Attempts :: "AttemptRecord list"

record ListRunEventsRequest =
  eq_RunID :: string
  eq_Limit :: int

record ListRunEventsResponse =
  ep_Events :: "EventRecord list"

record CancelRunRequest =
  cq_RunID :: string
  cq_Reason :: string

record CancelRunResponse =
  cr_RunID :: string
  cr_Accepted :: bool
  cr_Status :: RunStatus
  cr_AcceptedAt :: time

subsection \<open>The service\<close>

definition submitted_run :: "ExecutableRunSpec \<Rightarrow> time \<Rightarrow> RunRecord" where
  "submitted_run spec now = zero_RunRecord
     \<lparr>rr_RunID := rm_RunID (es_Run spec), rr_Status := RunStatusAccepted, rr_AcceptedAt := now,
      rr_Metadata := es_Metadata spec, rr_Spec := spec,
      rr_Counters := zero_RunCounters\<lparr>rc_TotalNodes := int (length (gr_Nodes (es_Graph spec)))\<rparr>\<rparr>"

definition submitted_node :: "ExecutableRunSpec \<Rightarrow> Node \<Rightarrow> NodeRecord" where
  "submitted_node spec node = zero_NodeRecord
     \<lparr>nr_RunID := rm_RunID (es_Run spec), nr_NodeID := nd_NodeID node, nr_Status := NodeStatusPending\<rparr>"

definition submitted_nodes :: "ExecutableRunSpec \<Rightarrow> NodeRecord list" where
  "submitted_nodes spec = map (submitted_node spec) (gr_Nodes (es_Graph spec))"

text \<open>The argument \<open>ord\<close> is the order in which the validation reads its maps.\<close>

definition SubmitRun ::
  "env \<Rightarrow> (string list \<Rightarrow> string list) \<Rightarrow> engine \<Rightarrow> SubmitRunRequest \<Rightarrow> SubmitRunResponse result prog" where
  "SubmitRun E ord eng req =
     (case ValidateExecutableRunSpec ord (sq_Spec req) of
        Inl err \<Rightarrow> ret (Inl err)
      | Inr _ \<Rightarrow> do {
          now \<leftarrow> time_Now E;
          let record' = submitted_run (sq_Spec req) now;
          bindR (reg_op E (CreateRun record' (submitted_nodes (sq_Spec req)))) (\<lambda>_.
          bindR (eng_Admit eng record') (\<lambda>_.
            ret (Inr \<lparr>sp_RunID = rr_RunID record', sp_Status = RunStatusAccepted, sp_AcceptedAt = now\<rparr>))) })"

definition Service_GetRun :: "env \<Rightarrow> GetRunRequest \<Rightarrow> GetRunResponse result prog" where
  "Service_GetRun E req =
     (if gq_RunID req = '''' then ret (Inl (Errorf ''runId is required''))
      else bindR (reg_op E (GetRun (gq_RunID req))) (\<lambda>record'. ret (Inr \<lparr>gp_Run = record'\<rparr>)))"

definition ListRunNodes :: "env \<Rightarrow> ListRunNodesRequest \<Rightarrow> ListRunNodesResponse result prog" where
  "ListRunNodes E req =
     (if nq_RunID req = '''' then ret (Inl (Errorf ''runId is required''))
      else bindR (reg_op E (ListNodes (nq_RunID req))) (\<lambda>nodes. ret (Inr \<lparr>np_Nodes = nodes\<rparr>)))"

definition ListNodeAttempts :: "env \<Rightarrow> ListNodeAttemptsRequest \<Rightarrow> ListNodeAttemptsResponse result prog" where
  "ListNodeAttempts E req =
     (if lq_RunID req = '''' then ret (Inl (Errorf ''runId is required''))
      else if lq_NodeID req = '''' then ret (Inl (Errorf ''nodeId is required''))
      else bindR (reg_op E (ListAttempts (lq_RunID req) (lq_NodeID req)))
        (\<lambda>attempts. ret (Inr \<lparr>lp_Attempts = attempts\<rparr>)))"

definition ListRunEvents :: "env \<Rightarrow> ListRunEventsRequest \<Rightarrow> ListRunEventsResponse result prog" where
  "ListRunEvents E req =
     (if eq_RunID req = '''' then ret (Inl (Errorf ''runId is required''))
      else bindR (reg_op E (ListEvents (eq_RunID req) (eq_Limit req))) (\<lambda>events. ret (Inr \<lparr>ep_Events = events\<rparr>)))"

definition CancelRun :: "env \<Rightarrow> engine \<Rightarrow> CancelRunRequest \<Rightarrow> CancelRunResponse result prog" where
  "CancelRun E eng req =
     (if cq_RunID req = '''' then ret (Inl (Errorf ''runId is required''))
      else bindR (eng_Cancel eng (cq_RunID req) (cq_Reason req)) (\<lambda>_.
           bindR (reg_op E (GetRun (cq_RunID req))) (\<lambda>record'. do {
             now \<leftarrow> time_Now E;
             ret (Inr \<lparr>cr_RunID = cq_RunID req, cr_Accepted = True, cr_Status = rr_Status record',
               cr_AcceptedAt = now\<rparr>) })))"

subsection \<open>The gRPC server\<close>

definition ServiceName :: string where
  "ServiceName = ''jumi.v1.RunService''"

definition full_method :: "string \<Rightarrow> string" where
  "full_method name = ''/'' @ ServiceName @ ''/'' @ name"

text \<open>
  The six handlers have the same body: decode the message, then call the service, through the
  interceptor if there is one.
\<close>

type_synonym ('q, 'a) interceptor = "'q \<Rightarrow> string \<Rightarrow> ('q \<Rightarrow> 'a result prog) \<Rightarrow> 'a result prog"

definition unary_handler ::
  "string \<Rightarrow> ('q \<Rightarrow> 'a result prog) \<Rightarrow> 'q result \<Rightarrow> ('q, 'a) interceptor option \<Rightarrow> 'a result prog" where
  "unary_handler name service decoded intercept =
     (case decoded of
        Inl err \<Rightarrow> ret (Inl err)
      | Inr inn \<Rightarrow>
          (case intercept of
             None \<Rightarrow> service inn
           | Some i \<Rightarrow> i inn (full_method name) service))"

definition submitRunHandler ::
  "env \<Rightarrow> (string list \<Rightarrow> string list) \<Rightarrow> engine \<Rightarrow> SubmitRunRequest result
     \<Rightarrow> (SubmitRunRequest, SubmitRunResponse) interceptor option \<Rightarrow> SubmitRunResponse result prog" where
  "submitRunHandler E ord eng = unary_handler ''SubmitRun'' (SubmitRun E ord eng)"

definition getRunHandler ::
  "env \<Rightarrow> GetRunRequest result \<Rightarrow> (GetRunRequest, GetRunResponse) interceptor option \<Rightarrow> GetRunResponse result prog" where
  "getRunHandler E = unary_handler ''GetRun'' (Service_GetRun E)"

definition listRunNodesHandler ::
  "env \<Rightarrow> ListRunNodesRequest result \<Rightarrow> (ListRunNodesRequest, ListRunNodesResponse) interceptor option
     \<Rightarrow> ListRunNodesResponse result prog" where
  "listRunNodesHandler E = unary_handler ''ListRunNodes'' (ListRunNodes E)"

definition listNodeAttemptsHandler ::
  "env \<Rightarrow> ListNodeAttemptsRequest result \<Rightarrow> (ListNodeAttemptsRequest, ListNodeAttemptsResponse) interceptor option
     \<Rightarrow> ListNodeAttemptsResponse result prog" where
  "listNodeAttemptsHandler E = unary_handler ''ListNodeAttempts'' (ListNodeAttempts E)"

definition listRunEventsHandler ::
  "env \<Rightarrow> ListRunEventsRequest result \<Rightarrow> (ListRunEventsRequest, ListRunEventsResponse) interceptor option
     \<Rightarrow> ListRunEventsResponse result prog" where
  "listRunEventsHandler E = unary_handler ''ListRunEvents'' (ListRunEvents E)"

definition cancelRunHandler ::
  "env \<Rightarrow> engine \<Rightarrow> CancelRunRequest result \<Rightarrow> (CancelRunRequest, CancelRunResponse) interceptor option
     \<Rightarrow> CancelRunResponse result prog" where
  "cancelRunHandler E eng = unary_handler ''CancelRun'' (CancelRun E eng)"

text \<open>A codec for the messages of one method: \<open>'b\<close> are the bytes on the wire.\<close>

record ('q, 'a, 'b) codec =
  co_enc_req :: "'q \<Rightarrow> 'b result"
  co_dec_req :: "'b \<Rightarrow> 'q result"
  co_enc_resp :: "'a \<Rightarrow> 'b result"
  co_dec_resp :: "'b \<Rightarrow> 'a result"

record 'b codecs =
  cc_SubmitRun :: "(SubmitRunRequest, SubmitRunResponse, 'b) codec"
  cc_GetRun :: "(GetRunRequest, GetRunResponse, 'b) codec"
  cc_ListRunNodes :: "(ListRunNodesRequest, ListRunNodesResponse, 'b) codec"
  cc_ListNodeAttempts :: "(ListNodeAttemptsRequest, ListNodeAttemptsResponse, 'b) codec"
  cc_ListRunEvents :: "(ListRunEventsRequest, ListRunEventsResponse, 'b) codec"
  cc_CancelRun :: "(CancelRunRequest, CancelRunResponse, 'b) codec"

text \<open>
  The method table of the registered service, each entry from bytes to bytes as the gRPC server calls
  it (without an interceptor, as the program starts its server).
\<close>

definition method_entry ::
  "('q, 'a, 'b) codec \<Rightarrow> ('q result \<Rightarrow> ('q, 'a) interceptor option \<Rightarrow> 'a result prog) \<Rightarrow> 'b \<Rightarrow> 'b result prog" where
  "method_entry co handler bytes = do {
     r \<leftarrow> handler (co_dec_req co bytes) None;
     ret (case r of Inl e \<Rightarrow> Inl e | Inr a \<Rightarrow> co_enc_resp co a) }"

definition RegisterRunService ::
  "env \<Rightarrow> (string list \<Rightarrow> string list) \<Rightarrow> engine \<Rightarrow> 'b codecs \<Rightarrow> (string, 'b \<Rightarrow> 'b result prog) gomap" where
  "RegisterRunService E ord eng C =
     [(''SubmitRun'', method_entry (cc_SubmitRun C) (submitRunHandler E ord eng)),
      (''GetRun'', method_entry (cc_GetRun C) (getRunHandler E)),
      (''ListRunNodes'', method_entry (cc_ListRunNodes C) (listRunNodesHandler E)),
      (''ListNodeAttempts'', method_entry (cc_ListNodeAttempts C) (listNodeAttemptsHandler E)),
      (''ListRunEvents'', method_entry (cc_ListRunEvents C) (listRunEventsHandler E)),
      (''CancelRun'', method_entry (cc_CancelRun C) (cancelRunHandler E eng))]"

subsection \<open>The gRPC client\<close>

text \<open>
  \<open>conn\<close> is the connection: it takes the full name of a method and the bytes of the request.
\<close>

definition invoke_method ::
  "(string \<Rightarrow> 'b \<Rightarrow> 'b result prog) \<Rightarrow> ('q, 'a, 'b) codec \<Rightarrow> string \<Rightarrow> 'q \<Rightarrow> 'a result prog" where
  "invoke_method conn co name req =
     (case co_enc_req co req of
        Inl e \<Rightarrow> ret (Inl e)
      | Inr bytes \<Rightarrow> do {
          r \<leftarrow> conn (full_method name) bytes;
          ret (case r of Inl e \<Rightarrow> Inl e | Inr out \<Rightarrow> co_dec_resp co out) })"

definition Client_SubmitRun where
  "Client_SubmitRun conn C req = invoke_method conn (cc_SubmitRun C) ''SubmitRun'' req"
definition Client_GetRun where
  "Client_GetRun conn C req = invoke_method conn (cc_GetRun C) ''GetRun'' req"
definition Client_ListRunNodes where
  "Client_ListRunNodes conn C req = invoke_method conn (cc_ListRunNodes C) ''ListRunNodes'' req"
definition Client_ListNodeAttempts where
  "Client_ListNodeAttempts conn C req = invoke_method conn (cc_ListNodeAttempts C) ''ListNodeAttempts'' req"
definition Client_ListRunEvents where
  "Client_ListRunEvents conn C req = invoke_method conn (cc_ListRunEvents C) ''ListRunEvents'' req"
definition Client_CancelRun where
  "Client_CancelRun conn C req = invoke_method conn (cc_CancelRun C) ''CancelRun'' req"

end
