(* ===== verification/Exec_Runs.thy ===== *)
theory Exec_Runs
  imports Exec_Finish
begin

text \<open>
  What the engine does to a whole run, with a working store and no interference: the end of a run,
  its cancellation, and the sweep after a restart.
\<close>

subsection \<open>The nodes of a run by status\<close>

definition nodes_with :: "registry \<Rightarrow> string \<Rightarrow> NodeStatus set \<Rightarrow> NodeRecord set" where
  "nodes_with r i S = {x. node_at r i (nr_NodeID x) = Some x \<and> nr_Status x \<in> S}"

definition status_count :: "NodeStatus set \<Rightarrow> NodeRecord list \<Rightarrow> int" where
  "status_count S ns = int (length (filter (\<lambda>x. nr_Status x \<in> S) ns))"

lemma status_count_simps [simp]:
  "status_count S [] = 0"
  "status_count S (x # ns) = (if nr_Status x \<in> S then 1 else 0) + status_count S ns"
  by (simp_all add: status_count_def)

lemma listed_nodes:
  assumes "reg_wf r" and "run_at r i \<noteq> None"
  shows "\<exists>ns. fst (ListNodes i r) = Inr ns \<and> distinct (map nr_NodeID ns) \<and>
     (\<forall>x. x \<in> set ns \<longleftrightarrow> node_at r i (nr_NodeID x) = Some x) \<and> int (length ns) = int (card (nodes_with r i UNIV)) \<and>
     (\<forall>S. status_count S ns = int (card (nodes_with r i S))) \<and>
     (\<forall>S. (\<exists>x \<in> set ns. nr_Status x \<in> S) \<longleftrightarrow> nodes_with r i S \<noteq> {})"
proof -
  from ListNodes_exact [OF assms] obtain ns where ns: "fst (ListNodes i r) = Inr ns"
    "distinct (map nr_NodeID ns)" "\<And>x. x \<in> set ns \<longleftrightarrow> node_at r i (nr_NodeID x) = Some x" by blast
  have w: "nodes_with r i S = set (filter (\<lambda>x. nr_Status x \<in> S) ns)" for S
    using ns(3) by (auto simp: nodes_with_def)
  have d: "distinct (filter (\<lambda>x. nr_Status x \<in> S) ns)" for S
    using ns(2) by (simp add: distinct_map)
  have c: "status_count S ns = int (card (nodes_with r i S))" for S
    unfolding w status_count_def distinct_card [OF d] ..
  moreover have "int (length ns) = status_count UNIV ns" by (simp add: status_count_def)
  moreover have "(\<exists>x \<in> set ns. nr_Status x \<in> S) \<longleftrightarrow> nodes_with r i S \<noteq> {}" for S
    unfolding w by auto
  ultimately show ?thesis using ns by auto
qed

subsection \<open>The outcome of a run\<close>

definition running_statuses :: "NodeStatus set" where
  "running_statuses = {NodeStatusRunning, NodeStatusStarting, NodeStatusReleasing, NodeStatusReady}"

lemma count_node_counters:
  "oc_counters (foldl count_node x ns) = oc_counters x\<lparr>
     rc_SucceededNodes := rc_SucceededNodes (oc_counters x) + status_count {NodeStatusSucceeded} ns,
     rc_FailedNodes := rc_FailedNodes (oc_counters x) + status_count {NodeStatusFailed} ns,
     rc_CanceledNodes := rc_CanceledNodes (oc_counters x) + status_count {NodeStatusCanceled} ns,
     rc_SkippedNodes := rc_SkippedNodes (oc_counters x) + status_count {NodeStatusSkipped} ns,
     rc_RunningNodes := rc_RunningNodes (oc_counters x) + status_count running_statuses ns\<rparr>"
  by (induction ns arbitrary: x) (auto simp: count_node_def running_statuses_def Let_def split: NodeStatus.split)

text \<open>The stop cause that goes with a final status.\<close>

definition stop_of :: "RunStatus \<Rightarrow> string" where
  "stop_of s = (if s = RunStatusFailed then ''failed'' else if s = RunStatusCanceled then ''canceled'' else ''finished'')"

lemma count_node_status:
  "oc_status (count_node x n) = (if nr_Status n = NodeStatusFailed then RunStatusFailed
     else if nr_Status n = NodeStatusCanceled \<and> oc_status x \<noteq> RunStatusFailed then RunStatusCanceled else oc_status x)"
  "oc_stop x = stop_of (oc_status x) \<Longrightarrow> oc_stop (count_node x n) = stop_of (oc_status (count_node x n))"
  by (simp_all add: count_node_def stop_of_def Let_def split: NodeStatus.split)

lemma count_nodes_status:
  assumes "oc_status x \<in> {RunStatusSucceeded, RunStatusCanceled, RunStatusFailed}"
  shows "oc_status (foldl count_node x ns) =
      (if \<exists>n \<in> set ns. nr_Status n = NodeStatusFailed then RunStatusFailed
       else if oc_status x = RunStatusSucceeded \<and> (\<exists>n \<in> set ns. nr_Status n = NodeStatusCanceled) then RunStatusCanceled
       else oc_status x)"
  using assms
proof (induction ns arbitrary: x)
  case (Cons n ns)
  have "oc_status (count_node x n) \<in> {RunStatusSucceeded, RunStatusCanceled, RunStatusFailed}"
    using Cons.prems by (simp add: count_node_status)
  from Cons.IH [OF this] show ?case
    using Cons.prems
    by (cases "nr_Status n = NodeStatusFailed"; cases "nr_Status n = NodeStatusCanceled"; cases "oc_status x")
      (simp_all add: count_node_status)
qed simp

lemma count_nodes_stop:
  "oc_stop x = stop_of (oc_status x) \<Longrightarrow> oc_stop (foldl count_node x ns) = stop_of (oc_status (foldl count_node x ns))"
  by (induction ns arbitrary: x) (simp_all add: count_node_status(2))

definition final_status :: "RunRecord \<Rightarrow> NodeRecord set \<Rightarrow> bool \<Rightarrow> RunStatus" where
  "final_status run nodes succeeded =
     (if rr_Status run = RunStatusCanceled then RunStatusCanceled
      else if \<exists>n \<in> nodes. nr_Status n = NodeStatusFailed then RunStatusFailed
      else if \<exists>n \<in> nodes. nr_Status n = NodeStatusCanceled then RunStatusCanceled
      else if succeeded then RunStatusSucceeded else RunStatusFailed)"

lemma run_outcome_facts:
  "oc_status (run_outcome run ns succeeded why) = final_status run (set ns) succeeded \<and>
   oc_stop (run_outcome run ns succeeded why) = stop_of (final_status run (set ns) succeeded) \<and>
   oc_counters (run_outcome run ns succeeded why) = \<lparr>rc_TotalNodes = int (length ns),
     rc_SucceededNodes = status_count {NodeStatusSucceeded} ns, rc_FailedNodes = status_count {NodeStatusFailed} ns,
     rc_CanceledNodes = status_count {NodeStatusCanceled} ns, rc_SkippedNodes = status_count {NodeStatusSkipped} ns,
     rc_RunningNodes = status_count running_statuses ns\<rparr>"
proof -
  let ?x = "\<lparr>oc_counters = zero_RunCounters\<lparr>rc_TotalNodes := int (length ns)\<rparr>,
       oc_status = RunStatusSucceeded, oc_stop = ''finished'', oc_reason = ''''\<rparr>"
  define y where "y = foldl count_node ?x ns"
  have s: "oc_status y =
      (if \<exists>n \<in> set ns. nr_Status n = NodeStatusFailed then RunStatusFailed
       else if \<exists>n \<in> set ns. nr_Status n = NodeStatusCanceled then RunStatusCanceled else RunStatusSucceeded)"
    "oc_stop y = stop_of (oc_status y)"
    using count_nodes_status [of ?x ns] count_nodes_stop [of ?x ns] by (simp_all add: stop_of_def y_def)
  have c: "oc_counters y = \<lparr>rc_TotalNodes = int (length ns),
     rc_SucceededNodes = status_count {NodeStatusSucceeded} ns, rc_FailedNodes = status_count {NodeStatusFailed} ns,
     rc_CanceledNodes = status_count {NodeStatusCanceled} ns, rc_SkippedNodes = status_count {NodeStatusSkipped} ns,
     rc_RunningNodes = status_count running_statuses ns\<rparr>"
    by (simp add: y_def count_node_counters zero_defs)
  show ?thesis
    unfolding run_outcome_def Let_def final_status_def y_def [symmetric]
    by (simp add: s c stop_of_def)
qed

subsection \<open>The end of a run\<close>

lemma run_update_run [runs]:
  "quiet E \<Longrightarrow> run_state (update_run E i f) w =
     (fst (UpdateRun i (\<lambda>x. Inr (f x)) (w_reg w)),
      w\<lparr>w_tick := Suc (w_tick w), w_reg := snd (UpdateRun i (\<lambda>x. Inr (f x)) (w_reg w))\<rparr>)"
  by (simp add: update_run_def runs)

lemma UpdateRun_views:
  assumes "run_at r i = Some x"
  shows "fst (UpdateRun i (\<lambda>x. Inr (f x)) r) = ok"
    and "run_at (snd (UpdateRun i (\<lambda>x. Inr (f x)) r)) = (run_at r)(i \<mapsto> f x)"
    and "node_at (snd (UpdateRun i (\<lambda>x. Inr (f x)) r)) = node_at r"
    and "attempt_at (snd (UpdateRun i (\<lambda>x. Inr (f x)) r)) = attempt_at r"
  using assms by (simp_all add: UpdateRun_def run_at_def node_at_def node_map_def attempt_at_def attempt_map_def
      attempt_maps_def fun_eq_iff)

text \<open>The record of the run \<open>i\<close> is \<open>z\<close>; the other records are those of \<open>r\<close>.\<close>

definition only_run :: "registry \<Rightarrow> string \<Rightarrow> RunRecord \<Rightarrow> world \<Rightarrow> bool" where
  "only_run r i z w \<longleftrightarrow> run_at (w_reg w) = (run_at r)(i \<mapsto> z) \<and> node_at (w_reg w) = node_at r \<and>
     attempt_at (w_reg w) = attempt_at r"

text \<open>The reaction to an answer of the handoff service.\<close>

definition after_handoff :: "unit result \<Rightarrow> RunStatus \<Rightarrow> RunStatus" where
  "after_handoff answer s = (if isl answer \<and> s = RunStatusSucceeded then RunStatusFailed else s)"

definition carries :: "RunRecord \<Rightarrow> outcome \<Rightarrow> bool" where
  "carries z x \<longleftrightarrow> rr_Status z = oc_status x \<and> rr_TerminalStopCause z = oc_stop x \<and>
     rr_TerminalFailureReason z = oc_reason x \<and> rr_Counters z = oc_counters x \<and> rr_FinishedAt z \<noteq> None \<and>
     oc_stop x = stop_of (oc_status x)"

lemma handoff_failed_run:
  assumes q: "quiet E" and w: "only_run r i z w" and c: "carries z x"
    and run: "run_state (handoff_failed E i ty why err x) w = (res, w')"
  shows "\<exists>z' x'. res = Inr x' \<and> only_run r i z' w' \<and> carries z' x' \<and> w_log w' = w_log w \<and>
     oc_status x' = after_handoff (Inl err) (oc_status x) \<and> oc_counters x' = oc_counters x \<and> rr_Spec z' = rr_Spec z \<and>
     w_tick w \<le> w_tick w'"
proof (cases "oc_status x = RunStatusSucceeded")
  case True
  let ?z = "z\<lparr>rr_Status := RunStatusFailed, rr_TerminalStopCause := ''failed'', rr_TerminalFailureReason := why\<rparr>"
  let ?x = "x\<lparr>oc_status := RunStatusFailed, oc_stop := ''failed'', oc_reason := why\<rparr>"
  have z: "run_at (snd (AppendEvent e (w_reg w))) i = Some z" for e using w by (simp add: only_run_def)
  have "res = Inr ?x \<and> only_run r i ?z w' \<and> w_log w' = w_log w \<and> w_tick w \<le> w_tick w'"
    using run w True q by (auto simp: handoff_failed_def bindR_def runs only_run_def UpdateRun_views [OF z])
  moreover have "carries ?z ?x" using c by (simp add: carries_def stop_of_def)
  ultimately show ?thesis
    using True by (intro exI [of _ ?z] exI [of _ ?x]) (simp add: after_handoff_def)
next
  case False
  then have "res = Inr x \<and> only_run r i z w' \<and> w_log w' = w_log w \<and> w_tick w \<le> w_tick w'"
    using run w q by (auto simp: handoff_failed_def runs only_run_def)
  then show ?thesis
    using False c by (intro exI [of _ z] exI [of _ x]) (simp add: after_handoff_def)
qed

lemma handoff_step:
  assumes q: "quiet E" and w: "only_run r i z w" and c: "carries z x"
    and run: "run_state (case f of Inl err \<Rightarrow> handoff_failed E i ty why err x
               | Inr _ \<Rightarrow> do { inc counter; ret (Inr x) }) w = (res, w')"
  shows "\<exists>z' x'. res = Inr x' \<and> only_run r i z' w' \<and> carries z' x' \<and> w_log w' = w_log w \<and>
     oc_status x' = after_handoff f (oc_status x) \<and> oc_counters x' = oc_counters x \<and> rr_Spec z' = rr_Spec z \<and>
     w_tick w \<le> w_tick w'"
proof (cases f)
  case (Inl err)
  then show ?thesis using handoff_failed_run [OF q w c] run by simp
next
  case (Inr u)
  then have "res = Inr x \<and> only_run r i z w' \<and> w_log w' = w_log w \<and> w_tick w \<le> w_tick w'"
    using run w by (auto simp: inc_def runs only_run_def)
  then show ?thesis
    using Inr c by (intro exI [of _ z] exI [of _ x]) (simp add: after_handoff_def)
qed

lemma appended_event:
  "run_at r (ev_RunID e) = Some x \<Longrightarrow> events_of (snd (AppendEvent e r)) (ev_RunID e) = events_of r (ev_RunID e) @ [e]"
  by (simp add: AppendEvent_def events_of_def)

text \<open>The record that \<^verbatim>\<open>finalizeRun\<close> writes before it calls the handoff service, and what follows.\<close>

definition finalized :: "RunRecord \<Rightarrow> outcome \<Rightarrow> time \<Rightarrow> RunRecord" where
  "finalized z x now = z\<lparr>rr_Status := oc_status x, rr_FinishedAt := Some now, rr_Counters := oc_counters x,
     rr_TerminalStopCause := oc_stop x, rr_TerminalFailureReason := oc_reason x, rr_CurrentBottleneckLocation := ''''\<rparr>"

definition finalize_handoff :: "env \<Rightarrow> ctx \<Rightarrow> string \<Rightarrow> string \<Rightarrow> time \<Rightarrow> outcome \<Rightarrow> unit result prog" where
  "finalize_handoff E c i sample now x = do {
     f \<leftarrow> handoff_FinalizeSampleRun E c \<lparr>fs_SampleRunID = sample\<rparr>;
     bindR (case f of Inl err \<Rightarrow> handoff_failed E i ''run.handoff.finalize_failed'' ''handoff_finalize_error'' err x
              | Inr _ \<Rightarrow> do { inc ''jumi_sample_runs_finalized''; ret (Inr x) }) (\<lambda>x. do {
       g \<leftarrow> handoff_EvaluateGC E c \<lparr>gc_SampleRunID = sample\<rparr>;
       bindR (case g of Inl err \<Rightarrow> handoff_failed E i ''run.handoff.gc_evaluate_failed'' ''handoff_gc_evaluate_error'' err x
                | Inr _ \<Rightarrow> do { inc ''jumi_gc_evaluate_requests''; ret (Inr x) }) (\<lambda>x. do {
         appendEvent E ((run_event i ''run.completed'' now (eventLevelForRunStatus (oc_status x)))
           \<lparr>ev_StopCause := oc_stop x, ev_FailureReason := oc_reason x, ev_Message := RunStatus_string (oc_status x)\<rparr>);
         ret ok }) }) }"

lemma finalizeRun_split:
  "finalizeRun E c i succeeded why = bindR (reg_op E (GetRun i)) (\<lambda>run. bindR (reg_op E (ListNodes i)) (\<lambda>nodes. do {
     now \<leftarrow> time_Now E;
     let x = run_outcome run nodes succeeded why;
     bindR (update_run E i (\<lambda>cur. finalized cur x now))
       (\<lambda>_. finalize_handoff E c i (FirstNonEmpty [rm_SampleRunID (es_Run (rr_Spec run)), i]) now x) }))"
  by (simp add: finalizeRun_def finalize_handoff_def finalized_def Let_def)

lemma finalize_handoff_run:
  assumes q: "quiet E" and w: "only_run r i z w" and c: "carries z x"
    and run: "run_state (finalize_handoff E c i sample now x) w = (res, w')"
  shows "res = ok \<and> w_log w' = w_log w @ [LFinalize sample, LEvaluateGC sample] \<and>
    (\<exists>z' x' t1 t2 es e. t1 < t2 \<and> only_run r i z' w' \<and> carries z' x' \<and> rr_Spec z' = rr_Spec z \<and>
       oc_counters x' = oc_counters x \<and>
       oc_status x' = after_handoff (en_EvaluateGC E t2 c \<lparr>gc_SampleRunID = sample\<rparr>)
         (after_handoff (en_FinalizeSampleRun E t1 c \<lparr>fs_SampleRunID = sample\<rparr>) (oc_status x)) \<and>
       events_of (w_reg w') i = es @ [e] \<and> ev_Type e = ''run.completed'' \<and> ev_Message e = RunStatus_string (oc_status x'))"
proof -
  let ?f = "en_FinalizeSampleRun E (w_tick w) c \<lparr>fs_SampleRunID = sample\<rparr>"
  let ?w1 = "w\<lparr>w_tick := Suc (w_tick w), w_log := w_log w @ [LFinalize sample]\<rparr>"
  let ?p = "case ?f of Inl err \<Rightarrow> handoff_failed E i ''run.handoff.finalize_failed'' ''handoff_finalize_error'' err x
              | Inr _ \<Rightarrow> do { inc ''jumi_sample_runs_finalized''; ret (Inr x) }"
  have w1: "only_run r i z ?w1" using w by (simp add: only_run_def)
  obtain y2 w2 where s2: "run_state ?p ?w1 = (y2, w2)" by fastforce
  from handoff_step [OF q w1 c s2] obtain z2 x2 where
    x2: "y2 = Inr x2" "only_run r i z2 w2" "carries z2 x2" "w_log w2 = w_log w @ [LFinalize sample]"
      "oc_status x2 = after_handoff ?f (oc_status x)" "oc_counters x2 = oc_counters x" "rr_Spec z2 = rr_Spec z"
      "w_tick w < w_tick w2" by auto
  let ?g = "en_EvaluateGC E (w_tick w2) c \<lparr>gc_SampleRunID = sample\<rparr>"
  let ?w3 = "w2\<lparr>w_tick := Suc (w_tick w2), w_log := w_log w2 @ [LEvaluateGC sample]\<rparr>"
  let ?q = "case ?g of Inl err \<Rightarrow> handoff_failed E i ''run.handoff.gc_evaluate_failed'' ''handoff_gc_evaluate_error'' err x2
                | Inr _ \<Rightarrow> do { inc ''jumi_gc_evaluate_requests''; ret (Inr x2) }"
  have w3: "only_run r i z2 ?w3" using x2(2) by (simp add: only_run_def)
  obtain y4 w4 where s4: "run_state ?q ?w3 = (y4, w4)" by fastforce
  from handoff_step [OF q w3 x2(3) s4] obtain z4 x4 where
    x4: "y4 = Inr x4" "only_run r i z4 w4" "carries z4 x4" "w_log w4 = w_log w2 @ [LEvaluateGC sample]"
      "oc_status x4 = after_handoff ?g (oc_status x2)" "oc_counters x4 = oc_counters x2" "rr_Spec z4 = rr_Spec z2" by auto
  let ?e = "(run_event i ''run.completed'' now (eventLevelForRunStatus (oc_status x4)))
     \<lparr>ev_StopCause := oc_stop x4, ev_FailureReason := oc_reason x4, ev_Message := RunStatus_string (oc_status x4)\<rparr>"
  have fin: "res = ok" "w' = w4\<lparr>w_tick := Suc (w_tick w4), w_reg := snd (AppendEvent ?e (w_reg w4))\<rparr>"
    using run s2 s4 x2(1) x4(1) q
    by (auto simp: finalize_handoff_def handoff_FinalizeSampleRun_def handoff_EvaluateGC_def bindR_def runs)
  have e: "ev_RunID ?e = i" "ev_Type ?e = ''run.completed''" by (simp_all add: run_event_def)
  have "run_at (w_reg w4) i = Some z4" using x4(2) by (simp add: only_run_def)
  then have "events_of (w_reg w') i = events_of (w_reg w4) i @ [?e]"
    using appended_event [of "w_reg w4" ?e z4] by (simp only: e(1)) (simp add: fin(2))
  moreover have "only_run r i z4 w'" using x4(2) by (simp add: fin(2) only_run_def)
  moreover have "ev_Message ?e = RunStatus_string (oc_status x4)" by simp
  moreover have "w_log w' = w_log w @ [LFinalize sample, LEvaluateGC sample]" by (simp add: fin(2) x4(4) x2(4))
  ultimately show ?thesis using fin(1) x2(5-8) x4(3,5-7) e(2) by metis
qed

text \<open>
  C10.  How a run ends, with a working store.  The run is canceled if it was canceled before; otherwise it
  has failed if a node failed, it is canceled if a node was canceled, and it has succeeded only if the
  graph did; an error of the handoff service turns a success, and nothing else, into a failure, and
  both of its calls are made whatever the first one answers.  The counters of the run are the
  numbers of its nodes in each class, its stop cause agrees with its status, the last event reports
  it, and no other record changes.
\<close>

theorem finalizeRun_outcome:
  assumes "quiet E" and "reg_inv (w_reg w)" and "run_at (w_reg w) i = Some z"
    and "run_state (finalizeRun E c i succeeded why) w = (res, w')"
  shows "let nodes = nodes_with (w_reg w) i; sample = FirstNonEmpty [rm_SampleRunID (es_Run (rr_Spec z)), i] in
     res = ok \<and> w_log w' = w_log w @ [LFinalize sample, LEvaluateGC sample] \<and>
     (\<exists>z' t1 t2 es e. t1 < t2 \<and> only_run (w_reg w) i z' w' \<and> rr_Spec z' = rr_Spec z \<and> rr_FinishedAt z' \<noteq> None \<and>
        rr_Status z' = after_handoff (en_EvaluateGC E t2 c \<lparr>gc_SampleRunID = sample\<rparr>)
          (after_handoff (en_FinalizeSampleRun E t1 c \<lparr>fs_SampleRunID = sample\<rparr>) (final_status z (nodes UNIV) succeeded)) \<and>
        rr_TerminalStopCause z' = stop_of (rr_Status z') \<and>
        rr_Counters z' = \<lparr>rc_TotalNodes = int (card (nodes UNIV)), rc_SucceededNodes = int (card (nodes {NodeStatusSucceeded})),
          rc_FailedNodes = int (card (nodes {NodeStatusFailed})), rc_CanceledNodes = int (card (nodes {NodeStatusCanceled})),
          rc_SkippedNodes = int (card (nodes {NodeStatusSkipped})), rc_RunningNodes = int (card (nodes running_statuses))\<rparr> \<and>
        events_of (w_reg w') i = es @ [e] \<and> ev_Type e = ''run.completed'' \<and> ev_Message e = RunStatus_string (rr_Status z'))"
proof -
  let ?r = "w_reg w" and ?now = "en_clock E (Suc (Suc (w_tick w)))"
  let ?sample = "FirstNonEmpty [rm_SampleRunID (es_Run (rr_Spec z)), i]"
  from listed_nodes [OF reg_invD(1) [OF assms(2)], of i] assms(3) obtain ns where
    ns: "fst (ListNodes i ?r) = Inr ns" "\<And>x. x \<in> set ns \<longleftrightarrow> node_at ?r i (nr_NodeID x) = Some x"
      "int (length ns) = int (card (nodes_with ?r i UNIV))" "\<And>S. status_count S ns = int (card (nodes_with ?r i S))"
    by auto
  have all: "set ns = nodes_with ?r i UNIV" using ns(2) by (auto simp: nodes_with_def)
  have get: "fst (GetRun i ?r) = Inr z" using assms(3) by (simp add: GetRun_def)
  define x where "x = run_outcome z ns succeeded why"
  define w1 where "w1 = w\<lparr>w_tick := Suc (Suc (Suc (Suc (w_tick w)))),
      w_reg := snd (UpdateRun i (\<lambda>cur. Inr (finalized cur x ?now)) ?r)\<rparr>"
  have x: "oc_status x = final_status z (nodes_with ?r i UNIV) succeeded" "carries (finalized z x ?now) x"
    "oc_counters x = \<lparr>rc_TotalNodes = int (card (nodes_with ?r i UNIV)),
       rc_SucceededNodes = int (card (nodes_with ?r i {NodeStatusSucceeded})),
       rc_FailedNodes = int (card (nodes_with ?r i {NodeStatusFailed})),
       rc_CanceledNodes = int (card (nodes_with ?r i {NodeStatusCanceled})),
       rc_SkippedNodes = int (card (nodes_with ?r i {NodeStatusSkipped})),
       rc_RunningNodes = int (card (nodes_with ?r i running_statuses))\<rparr>"
    by (simp_all add: x_def run_outcome_facts carries_def finalized_def all [symmetric] ns(3,4))
  have o1: "only_run ?r i (finalized z x ?now) w1"
    by (simp add: only_run_def w1_def UpdateRun_views [OF assms(3)])
  have run: "run_state (finalize_handoff E c i ?sample ?now x) w1 = (res, w')"
    using assms(1,4) by (simp add: finalizeRun_split bindR_def runs get ns(1) Let_def x_def w1_def UpdateRun_views [OF assms(3)])
  have l: "w_log w1 = w_log w" by (simp add: w1_def)
  have sp: "rr_Spec (finalized z x ?now) = rr_Spec z" by (simp add: finalized_def)
  show ?thesis
    using finalize_handoff_run [OF assms(1) o1 x(2) run] unfolding Let_def x(1,3) l sp carries_def by metis
qed

lemma demo_store_inv: "reg_inv demo_store"
  by (rule reachable_inv [OF reachable_demo_store])

lemma demo_store_pending: "node_at demo_store ''r'' n = Some x \<Longrightarrow> nr_Status x = NodeStatusPending"
  by (auto simp: demo_store_def CreateRun_def NewMemoryRegistry_def run_at_def demo_run_def zero_defs Let_def
      create_node_def node_at_def node_map_def put_node_def split: if_splits)

theorem finalizeRun_outcome_witness:
  "\<exists>res w' z'. run_state (finalizeRun demo_env CtxBackground ''r'' True '''') demo_world = (res, w') \<and>
     run_at (w_reg w') ''r'' = Some z' \<and> rr_Status z' = RunStatusSucceeded \<and> rr_TerminalStopCause z' = ''finished''"
proof -
  let ?m = "finalizeRun demo_env CtxBackground ''r'' True ''''"
  obtain res w' where r: "run_state ?m demo_world = (res, w')" by (cases "run_state ?m demo_world")
  have inv: "reg_inv (w_reg demo_world)" "run_at (w_reg demo_world) ''r'' = Some demo_run"
    by (simp_all add: demo_store_inv demo_store_run)
  have h: "after_handoff (en_EvaluateGC demo_env t2 c q2) (after_handoff (en_FinalizeSampleRun demo_env t1 c q1) s) = s"
    for t1 t2 c q1 q2 s by (simp add: demo_env_def after_handoff_def)
  have f: "final_status demo_run (nodes_with (w_reg demo_world) ''r'' UNIV) True = RunStatusSucceeded"
    using demo_store_pending by (fastforce simp: final_status_def nodes_with_def demo_run_def zero_defs)
  from finalizeRun_outcome [OF quiet_demo inv r, unfolded Let_def h f]
  obtain z' where "only_run (w_reg demo_world) ''r'' z' w'" "rr_Status z' = RunStatusSucceeded"
    "rr_TerminalStopCause z' = stop_of (rr_Status z')" by blast
  with r show ?thesis by (auto simp: only_run_def stop_of_def)
qed

subsection \<open>Cancellation\<close>

text \<open>What \<^verbatim>\<open>Cancel\<close> does to the attempt \<open>a\<close> of a node with the record \<open>x\<close>.\<close>

definition cancel_attempt :: "string \<Rightarrow> time \<Rightarrow> NodeRecord \<Rightarrow> string \<Rightarrow> AttemptRecord \<Rightarrow> AttemptRecord" where
  "cancel_attempt why now x a y =
     (if a \<noteq> '''' \<and> a = snd (snd (cancel_node_record why now x))
      then y\<lparr>ar_CancellationRequestedAt := Some now, ar_CancellationReason := FirstNonEmpty [why, ''cancellation_requested'']\<rparr>
      else y)"

definition cancel_views :: "string \<Rightarrow> time \<Rightarrow> string \<Rightarrow> string set \<Rightarrow> registry \<Rightarrow> registry \<Rightarrow> bool" where
  "cancel_views why now i ids r r' \<longleftrightarrow> run_at r' = run_at r \<and>
     (\<forall>j m. node_at r' j m = (if j = i \<and> m \<in> ids then map_option (\<lambda>x. fst (cancel_node_record why now x)) (node_at r j m)
        else node_at r j m)) \<and>
     (\<forall>j m a. attempt_at r' j m a = (if j = i \<and> m \<in> ids then
        (case node_at r j m of None \<Rightarrow> attempt_at r j m a | Some x \<Rightarrow> map_option (cancel_attempt why now x a) (attempt_at r j m a))
        else attempt_at r j m a))"

lemma cancel_node_step:
  assumes q: "quiet E" and run: "run_state (cancel_node E i why now node) w = (u, w')"
  shows "cancel_views why now i {nr_NodeID node} (w_reg w) (w_reg w') \<and> w_log w' = w_log w \<and> w_active w' = w_active w"
proof (cases "node_at (w_reg w) i (nr_NodeID node)")
  case None
  then show ?thesis
    using run q by (auto simp: cancel_node_def Let_def runs UpdateNode_eq cancel_views_def)
next
  case (Some x)
  obtain x' b a where c: "cancel_node_record why now x = (x', b, a)" by (cases "cancel_node_record why now x")
  show ?thesis
    using run q Some c
    by (auto simp: cancel_node_def Let_def runs UpdateNode_eq cancel_views_def PersistCancellationIntent_def
        lockedMutateAttempt_eq cancel_attempt_def map_option_case split: if_splits option.split)
qed

lemma cancel_views_trans:
  assumes "cancel_views why now i A r1 r2" and "cancel_views why now i B r2 r3" and "A \<inter> B = {}"
  shows "cancel_views why now i (A \<union> B) r1 r3"
proof -
  note v = assms(1,2) [unfolded cancel_views_def]
  have n: "\<And>j m. node_at r2 j m = (if j = i \<and> m \<in> A then map_option (\<lambda>x. fst (cancel_node_record why now x)) (node_at r1 j m)
      else node_at r1 j m)"
    "\<And>j m. node_at r3 j m = (if j = i \<and> m \<in> B then map_option (\<lambda>x. fst (cancel_node_record why now x)) (node_at r2 j m)
      else node_at r2 j m)" using v by blast+
  have a: "\<And>j m a. attempt_at r2 j m a = (if j = i \<and> m \<in> A then (case node_at r1 j m of None \<Rightarrow> attempt_at r1 j m a
        | Some x \<Rightarrow> map_option (cancel_attempt why now x a) (attempt_at r1 j m a)) else attempt_at r1 j m a)"
    "\<And>j m a. attempt_at r3 j m a = (if j = i \<and> m \<in> B then (case node_at r2 j m of None \<Rightarrow> attempt_at r2 j m a
        | Some x \<Rightarrow> map_option (cancel_attempt why now x a) (attempt_at r2 j m a)) else attempt_at r2 j m a)"
    using v by blast+
  have "m \<notin> B" if "m \<in> A" for m using that assms(3) by blast
  moreover have "run_at r3 = run_at r1" using v by simp
  ultimately show ?thesis unfolding cancel_views_def n(2) a(2) n(1) a(1) by auto
qed

lemma cancel_nodes:
  assumes q: "quiet E"
  shows "distinct (map nr_NodeID ns) \<Longrightarrow> run_state (for_each (cancel_node E i why now) ns) w = (u, w') \<Longrightarrow>
     cancel_views why now i (nr_NodeID ` set ns) (w_reg w) (w_reg w') \<and> w_log w' = w_log w \<and> w_active w' = w_active w"
proof (induction ns arbitrary: w)
  case Nil
  then show ?case by (simp add: cancel_views_def)
next
  case (Cons n ns)
  from Cons.prems(2) obtain v w1 where s: "run_state (cancel_node E i why now n) w = (v, w1)"
    "run_state (for_each (cancel_node E i why now) ns) w1 = (u, w')" by (auto split: prod.splits)
  from cancel_node_step [OF q s(1)] Cons.IH [OF _ s(2)] Cons.prems(1)
    cancel_views_trans [of why now i "{nr_NodeID n}" "w_reg w" "w_reg w1" "nr_NodeID ` set ns" "w_reg w'"]
  show ?case by simp
qed

lemma cancel_calls:
  "run_state (for_each (\<lambda>h. do { _ \<leftarrow> adapter_CancelNode E CtxBackground h; ret () }) hs) w = (u, w') \<Longrightarrow>
     w_reg w' = w_reg w \<and> w_log w' = w_log w @ map LCancel hs \<and> w_active w' = w_active w"
proof (induction hs arbitrary: w)
  case (Cons h hs)
  from Cons.prems have "run_state (for_each (\<lambda>h. do { _ \<leftarrow> adapter_CancelNode E CtxBackground h; ret () }) hs)
      (w\<lparr>w_tick := Suc (w_tick w), w_log := w_log w @ [LCancel h]\<rparr>) = (u, w')"
    by (simp add: adapter_CancelNode_def runs)
  from Cons.IH [OF this] show ?case by simp
qed simp

lemma cancel_handles_run:
  assumes "run_state (cancel_handles E mo i) w = (u, w')" and "map_of (w_active w) i = Some a"
  shows "w_reg w' = w_reg w \<and> w_log w' = w_log w @ map LCancel (mo (map snd (ac_handles a))) \<and>
     map_of (w_active w') i = Some (a\<lparr>ac_canceled := True\<rparr>)"
proof -
  let ?w = "w\<lparr>w_active := mput i (a\<lparr>ac_canceled := True\<rparr>) (w_active w)\<rparr>"
  have "run_state (for_each (\<lambda>h. do { _ \<leftarrow> adapter_CancelNode E CtxBackground h; ret () }) (mo (map snd (ac_handles a)))) ?w = (u, w')"
    using assms by (simp add: cancel_handles_def cancel_active_def upd_active_def snapshotHandles_def runs)
  from cancel_calls [OF this] show ?thesis by simp
qed

text \<open>The state of a node after a cancellation at \<open>now\<close>, with its record before and after.\<close>

definition node_canceled :: "registry \<Rightarrow> registry \<Rightarrow> string \<Rightarrow> string \<Rightarrow> time \<Rightarrow> NodeRecord \<Rightarrow> NodeRecord \<Rightarrow> bool" where
  "node_canceled r r' i why now x x' \<longleftrightarrow>
     (if NodeStatus_IsTerminal (nr_Status x) then x' = x
      else if nr_Status x = NodeStatusRunning
      then x' = x\<lparr>nr_CurrentBottleneckLocation := ''canceling''\<rparr> \<and>
        (nr_CurrentAttemptID x \<noteq> '''' \<longrightarrow> attempt_at r' i (nr_NodeID x) (nr_CurrentAttemptID x) =
           map_option (\<lambda>y. y\<lparr>ar_CancellationRequestedAt := Some now,
             ar_CancellationReason := FirstNonEmpty [why, ''cancellation_requested'']\<rparr>)
             (attempt_at r i (nr_NodeID x) (nr_CurrentAttemptID x)))
      else nr_Status x' = NodeStatusCanceled \<and> nr_FinishedAt x' = Some now \<and> nr_CurrentAttemptID x' = nr_CurrentAttemptID x)"

lemma node_canceled_views:
  assumes "cancel_views why now i ids r r'" and "node_at r i (nr_NodeID x) = Some x" and "nr_NodeID x \<in> ids"
  shows "\<exists>x'. node_at r' i (nr_NodeID x) = Some x' \<and> node_canceled r r' i why now x x'"
proof -
  have n: "node_at r' i (nr_NodeID x) = Some (fst (cancel_node_record why now x))"
    and a: "\<And>b. attempt_at r' i (nr_NodeID x) b = map_option (cancel_attempt why now x b) (attempt_at r i (nr_NodeID x) b)"
    using assms unfolding cancel_views_def by simp_all
  have "node_canceled r r' i why now x (fst (cancel_node_record why now x))"
    by (cases "nr_Status x") (auto simp: node_canceled_def cancel_node_record_def a cancel_attempt_def fun_eq_iff
        intro!: map_option_cong)
  with n show ?thesis by blast
qed

lemma ListNodes_cong: "reg_nodes r' = reg_nodes r \<Longrightarrow> fst (ListNodes i r') = fst (ListNodes i r)"
  by (simp add: ListNodes_def split: option.split)

lemma update_run_nodes [simp]: "reg_nodes (snd (UpdateRun i f r)) = reg_nodes r"
  by (simp add: UpdateRun_def split: option.split sum.split)

lemma UpdateRun_missing: "run_at r i = None \<Longrightarrow> UpdateRun i f r = (Inl ErrRunNotFound, r)"
  by (simp add: UpdateRun_def)

lemma cancel_run_record_cases:
  "if RunStatus_IsTerminal (rr_Status z) then cancel_run_record why z = z
   else rr_Status (cancel_run_record why z) = RunStatusCanceled \<and>
     rr_TerminalFailureReason (cancel_run_record why z) = FirstNonEmpty [why, ''cancellation_requested'']"
  by (cases "rr_Status z") (simp_all add: cancel_run_record_def)

definition active_run :: "world \<Rightarrow> string \<Rightarrow> activeRun option" where
  "active_run w i = (if i \<in> set (w_registered w) then map_of (w_active w) i else None)"

lemma cancel_if_active:
  assumes "run_state (if active_run w i \<noteq> None then cancel_handles E mo i else ret ()) w1 = (u, w2)"
    and "w_log w1 = w_log w" and "w_active w1 = w_active w"
  shows "w_reg w2 = w_reg w1 \<and> (case active_run w i of None \<Rightarrow> w_log w2 = w_log w | Some a \<Rightarrow>
     w_log w2 = w_log w @ map LCancel (mo (map snd (ac_handles a))) \<and> map_of (w_active w2) i = Some (a\<lparr>ac_canceled := True\<rparr>))"
  using assms cancel_handles_run [of E mo i w1 u w2]
  by (cases "active_run w i") (auto simp: active_run_def split: if_splits)

lemma nodes_canceled:
  assumes "cancel_views why now i ids r1 r'" and "reg_inv r" and "node_at r1 = node_at r" and "attempt_at r1 = attempt_at r"
    and "\<And>x. node_at r i (nr_NodeID x) = Some x \<Longrightarrow> nr_NodeID x \<in> ids"
  shows "case node_at r i n of None \<Rightarrow> node_at r' i n = None
     | Some x \<Rightarrow> \<exists>x'. node_at r' i n = Some x' \<and> node_canceled r r' i why now x x'"
proof (cases "node_at r i n")
  case None
  then show ?thesis using assms(1,3) by (simp add: cancel_views_def)
next
  case (Some x)
  then have x: "node_at r i (nr_NodeID x) = Some x" "nr_NodeID x = n" using reg_invD(3) [OF assms(2)] by auto
  have "node_canceled r1 r' i why now x = node_canceled r r' i why now x"
    by (simp add: node_canceled_def fun_eq_iff assms(4))
  with node_canceled_views [OF assms(1), of x] x assms(3,5) show ?thesis using Some by auto
qed



subsection \<open>The sweep after a restart\<close>

definition unfinished :: "registry \<Rightarrow> string \<Rightarrow> bool" where
  "unfinished r i \<longleftrightarrow> (\<exists>x. node_at r i (nr_NodeID x) = Some x \<and> \<not> NodeStatus_IsTerminal (nr_Status x))"

definition recovery_call :: "registry \<Rightarrow> RunRecord \<Rightarrow> log_entry list" where
  "recovery_call r z =
     (if \<not> RunStatus_IsTerminal (rr_Status z) then [LExecuteRun (rr_RunID z)]
      else if unfinished r (rr_RunID z) then [LRecoverCanceledRun (rr_RunID z)] else [])"

lemma recover_run_step:
  assumes q: "quiet E" and wf: "reg_wf r" and z: "run_at r (rr_RunID z) \<noteq> None"
    and w: "records w = (reg_runs r, reg_nodes r, reg_attempts r)"
    and run: "run_state (recover_run E z) w = (u, w')"
  shows "records w' = records w \<and> w_log w' = w_log w @ recovery_call r z"
proof -
  from listed_nodes [OF wf z] obtain ns where ns: "fst (ListNodes (rr_RunID z) r) = Inr ns"
    "\<And>x. x \<in> set ns \<longleftrightarrow> node_at r (rr_RunID z) (nr_NodeID x) = Some x" by auto
  have l: "fst (ListNodes (rr_RunID z) (w_reg w)) = Inr ns"
    using ListNodes_cong [of "w_reg w" r] w ns(1) by (simp add: records_def)
  have u: "list_ex (\<lambda>n. \<not> NodeStatus_IsTerminal (nr_Status n)) ns \<longleftrightarrow> unfinished r (rr_RunID z)"
    using ns(2) by (auto simp: unfinished_def list_ex_iff)
  show ?thesis
    using run q
    by (auto simp: recover_run_def runHasNonTerminalNode_def runs l u recovery_call_def records_def split: if_splits)
qed

lemma recover_runs:
  assumes q: "quiet E" and wf: "reg_wf r"
  shows "\<forall>z \<in> set rs. run_at r (rr_RunID z) \<noteq> None \<Longrightarrow> records w = (reg_runs r, reg_nodes r, reg_attempts r) \<Longrightarrow>
     run_state (for_each (recover_run E) rs) w = (u, w') \<Longrightarrow>
     records w' = records w \<and> w_log w' = w_log w @ concat (map (recovery_call r) rs)"
proof (induction rs arbitrary: w)
  case (Cons z rs)
  from Cons.prems(3) obtain v w1 where s: "run_state (recover_run E z) w = (v, w1)"
    "run_state (for_each (recover_run E) rs) w1 = (u, w')" by (auto split: prod.splits)
  from recover_run_step [OF q wf _ Cons.prems(2) s(1)] Cons.prems(1)
  have 1: "records w1 = records w" "w_log w1 = w_log w @ recovery_call r z" by simp_all
  from Cons.IH [OF _ _ s(2)] Cons.prems(1,2) 1 show ?case by simp
qed simp



subsection \<open>Statuses that are overwritten\<close>

text \<open>
  The start of a graph sets the status of the run whatever it is, so a cancellation that was
  recorded after the admission is undone.
\<close>

theorem start_graph_revives:
  assumes "quiet E" and "run_at (w_reg w) i = Some z" and "run_state (start_graph E i ns) w = (u, w')"
  shows "\<exists>z'. run_at (w_reg w') i = Some z' \<and> rr_Status z' = RunStatusRunning"
proof -
  have loc: "w_reg w2 = w_reg w1"
    if "run_state (for_each (\<lambda>n. upd_locals (new_runner i n) (\<lambda>_. zero_locals)) ns) w1 = (v, w2)" for v w1 w2 ns
    using that
  proof (induction ns arbitrary: w1)
    case (Cons n ns)
    then show ?case by (auto simp: upd_locals_def runs split: prod.splits)
  qed simp
  show ?thesis
    using assms by (auto simp: start_graph_def upd_watch_def runs UpdateRun_views [OF assms(2)] split: prod.splits dest!: loc)
qed

text \<open>The cancellation of the no-op engine overwrites the status of a run that has ended.\<close>

theorem Noop_Cancel_overwrites:
  assumes "quiet E" and "run_at (w_reg w) i = Some z" and "run_state (Noop_Cancel E i why) w = (res, w')"
  shows "\<exists>z'. run_at (w_reg w') i = Some z' \<and> rr_Status z' = RunStatusCanceled"
proof -
  have keep: "run_at (w_reg w2) = run_at (w_reg w1)"
    if "run_state (for_each (mark_node_canceled E i now) ns) w1 = (v, w2)" for v w1 w2 ns now
    using that
  proof (induction ns arbitrary: w1)
    case (Cons n ns)
    have "run_at (w_reg w2) = run_at (w_reg w1)" if "run_state (mark_node_canceled E i now n) w1 = (v, w2)" for v w1 w2
      using that assms(1) by (auto simp: mark_node_canceled_def runs UpdateNode_eq split: if_splits option.splits)
    with Cons show ?case by (auto split: prod.splits)
  qed simp
  show ?thesis
    using assms(1,3)
    by (auto simp: Noop_Cancel_def markRunCanceled_def bindR_def runs UpdateRun_views [OF assms(2)]
        split: prod.splits sum.splits dest!: keep)
qed

end
