(* ===== verification/Api_Laws.thy ===== *)
theory Api_Laws
  imports Api_Service Exec_Runs
begin

text \<open>
  What the run service promises: what a submission leaves in the registry, on every branch, and that
  a client on the other side of a connection sees what a local caller would see.
\<close>

subsection \<open>Submission\<close>

lemma create_nodes_at:
  "distinct (map nr_NodeID ns) \<Longrightarrow> node_at (create_nodes i ns r) i m =
     (case List.find (\<lambda>x. nr_NodeID x = m) ns of Some x \<Rightarrow> Some x | None \<Rightarrow> node_at r i m)"
proof (induction ns arbitrary: r)
  case (Cons n ns)
  have "List.find (\<lambda>x. nr_NodeID x = m) ns = None" if "nr_NodeID n = m"
    using that Cons.prems by (auto simp: find_None_iff image_iff)
  with Cons show ?case by (auto split: option.split)
qed simp

lemma create_nodes_other_run: "j \<noteq> i \<Longrightarrow> node_at (create_nodes i ns r) j m = node_at r j m"
  by (induction ns arbitrary: r) simp_all

lemma create_nodes_run_at [simp]: "run_at (create_nodes i ns r) = run_at r"
  by (simp add: run_at_def fun_eq_iff)

lemma submitted_simps [simp]:
  "rr_RunID (submitted_run spec now) = rm_RunID (es_Run spec)"
  "nr_NodeID (submitted_node spec node) = nd_NodeID node"
  "nr_RunID (submitted_node spec node) = rm_RunID (es_Run spec)"
  "map nr_NodeID (submitted_nodes spec) = map nd_NodeID (gr_Nodes (es_Graph spec))"
  by (simp_all add: submitted_run_def submitted_node_def submitted_nodes_def)

lemma find_submitted:
  "List.find (\<lambda>x. nr_NodeID x = m) (submitted_nodes spec) =
     map_option (submitted_node spec) (List.find (\<lambda>n. nd_NodeID n = m) (gr_Nodes (es_Graph spec)))"
proof -
  have "List.find (\<lambda>x. nr_NodeID x = m) (map (submitted_node spec) ns) =
      map_option (submitted_node spec) (List.find (\<lambda>n. nd_NodeID n = m) ns)" for ns
    by (induction ns) auto
  then show ?thesis by (simp add: submitted_nodes_def)
qed

lemma submitted_fresh: "list_all (\<lambda>n. nr_RunID n = rr_RunID (submitted_run spec now) \<and> fresh_node n) (submitted_nodes spec)"
  by (simp add: list_all_iff submitted_nodes_def submitted_node_def fresh_node_def zero_defs)

text \<open>The registry after a run was created and admitted.\<close>

definition admitted :: "ExecutableRunSpec \<Rightarrow> time \<Rightarrow> time \<Rightarrow> registry \<Rightarrow> registry \<Rightarrow> bool" where
  "admitted spec now start r r' \<longleftrightarrow>
     (let i = rm_RunID (es_Run spec) in
      run_at r' = (run_at r)(i \<mapsto> (submitted_run spec now)\<lparr>rr_Status := RunStatusAdmitted,
         rr_CurrentBottleneckLocation := ''dispatch_wait'', rr_StartedAt := Some start\<rparr>) \<and>
      (\<forall>m. node_at r' i m = map_option (submitted_node spec) (List.find (\<lambda>n. nd_NodeID n = m) (gr_Nodes (es_Graph spec)))) \<and>
      (\<forall>j m. j \<noteq> i \<longrightarrow> node_at r' j m = node_at r j m))"

lemma created_admitted:
  assumes "run_at r (rm_RunID (es_Run spec)) = None" and "distinct (map nd_NodeID (gr_Nodes (es_Graph spec)))"
  shows "admitted spec now start r (snd (AppendEvent e (snd (UpdateRun (rm_RunID (es_Run spec))
     (\<lambda>run. Inr (run\<lparr>rr_Status := RunStatusAdmitted, rr_CurrentBottleneckLocation := ''dispatch_wait'',
        rr_StartedAt := Some start\<rparr>)) (snd (CreateRun (submitted_run spec now) (submitted_nodes spec) r))))))"
proof -
  let ?r = "create_nodes (rm_RunID (es_Run spec)) (submitted_nodes spec) (enter_run (submitted_run spec now) r)"
  have c: "snd (CreateRun (submitted_run spec now) (submitted_nodes spec) r) = ?r"
    using assms(1) by (simp add: CreateRun_eq)
  have x: "run_at ?r (rm_RunID (es_Run spec)) = Some (submitted_run spec now)" by (simp add: enter_run_views)
  show ?thesis
    unfolding admitted_def Let_def c append_event_frame UpdateRun_views(2,3)[OF x]
    using assms(2)
    by (auto simp: enter_run_views create_nodes_at create_nodes_other_run find_submitted fun_eq_iff split: option.split)
qed

text \<open>
  C40.  What a submission does, with a working store.  A specification that is not valid changes nothing
  and its error is returned; a run that exists already is refused and nothing is written; otherwise
  the response is an acceptance, the run is admitted with its specification and its number of nodes,
  it has exactly the nodes of the graph, all of them pending, no other run is touched, its execution
  is started once, and the invariant of the registry is kept.
\<close>

theorem SubmitRun_outcomes:
  assumes "quiet E" and "map_order ord"
    and "run_state (SubmitRun E ord (dag_engine E mo) \<lparr>sq_Spec = spec\<rparr>) w = (res, w')"
  shows "if \<not> spec_ok spec then (\<exists>e. res = Inl e) \<and> w' = w
     else if run_at (w_reg w) (rm_RunID (es_Run spec)) \<noteq> None
     then res = Inl ErrRunAlreadyExists \<and> w_reg w' = w_reg w \<and> w_log w' = w_log w
     else (\<exists>now start. res = Inr \<lparr>sp_RunID = rm_RunID (es_Run spec), sp_Status = RunStatusAccepted, sp_AcceptedAt = now\<rparr> \<and>
       admitted spec now start (w_reg w) (w_reg w')) \<and>
       w_log w' = w_log w @ [LExecuteRun (rm_RunID (es_Run spec))] \<and>
       (reg_inv (w_reg w) \<longrightarrow> reg_inv (w_reg w'))"
proof (cases "spec_ok spec")
  case False
  then obtain e where "ValidateExecutableRunSpec ord spec = Inl e"
    using validate_spec_iff[OF assms(2), of spec] by (cases "ValidateExecutableRunSpec ord spec") auto
  then show ?thesis using assms(3) False by (auto simp: SubmitRun_def)
next
  case True
  then have v: "ValidateExecutableRunSpec ord spec = ok" using validate_spec_iff[OF assms(2)] by blast
  have d: "distinct (map nd_NodeID (gr_Nodes (es_Graph spec)))" using True by (simp add: spec_ok_def Let_def)
  show ?thesis
  proof (cases "run_at (w_reg w) (rm_RunID (es_Run spec))")
    case (Some x)
    then show ?thesis using assms(1,3) True v
      by (auto simp: SubmitRun_def bindR_def runs Let_def CreateRun_eq)
  next
    case None
    let ?now = "en_clock E (w_tick w)" and ?start = "en_clock E (Suc (Suc (w_tick w)))"
    have x: "run_at (snd (CreateRun (submitted_run spec ?now) (submitted_nodes spec) (w_reg w))) (rm_RunID (es_Run spec)) =
        Some (submitted_run spec ?now)" using None by (simp add: CreateRun_eq enter_run_views)
    have c: "fst (CreateRun (submitted_run spec ?now) (submitted_nodes spec) (w_reg w)) = ok" using None by (simp add: CreateRun_eq)
    define r' where "r' = snd (UpdateRun (rm_RunID (es_Run spec)) (\<lambda>run. Inr (run\<lparr>rr_Status := RunStatusAdmitted,
        rr_CurrentBottleneckLocation := ''dispatch_wait'', rr_StartedAt := Some ?start\<rparr>))
        (snd (CreateRun (submitted_run spec ?now) (submitted_nodes spec) (w_reg w))))"
    define ev where "ev = (run_event (rm_RunID (es_Run spec)) ''run.admitted'' ?start ''info'')\<lparr>ev_Message := ''run admitted to dag executor''\<rparr>"
    have run: "res = Inr \<lparr>sp_RunID = rm_RunID (es_Run spec), sp_Status = RunStatusAccepted, sp_AcceptedAt = ?now\<rparr>"
      "w_reg w' = snd (AppendEvent ev r')" "w_log w' = w_log w @ [LExecuteRun (rm_RunID (es_Run spec))]"
      using assms(1,3) v UpdateRun_views(1)[OF x] c
      by (auto simp: SubmitRun_def dag_engine_def Admit_def update_run_def bindR_def runs Let_def r'_def ev_def)
    have inv: "reg_inv (w_reg w) \<Longrightarrow> reg_inv (snd (AppendEvent ev r'))"
      unfolding r'_def
      by (intro reg_inv_step[OF reg_step.append_event] reg_inv_step[OF reg_step.update_run]
          reg_inv_create submitted_fresh) (simp_all add: keeps_run_id_def)
    have "admitted spec ?now ?start (w_reg w) (snd (AppendEvent ev r'))"
      unfolding r'_def by (rule created_admitted[OF None d])
    then show ?thesis using True None run inv by auto
  qed
qed

theorem SubmitRun_outcomes_witness:
  "\<exists>res w'. run_state (SubmitRun demo_env (\<lambda>xs. xs) (dag_engine demo_env (\<lambda>hs. hs))
       \<lparr>sq_Spec = demo_spec [[''a'', ''b'']]\<rparr>) demo_world = (res, w') \<and>
     (\<exists>now start. admitted (demo_spec [[''a'', ''b'']]) now start (w_reg demo_world) (w_reg w'))"
proof -
  have o: "map_order (\<lambda>xs. xs)" by (simp add: map_order_def)
  have "ValidateExecutableRunSpec (\<lambda>xs. xs) (demo_spec [[''a'', ''b'']]) = ok" by code_simp
  then have s: "spec_ok (demo_spec [[''a'', ''b'']])" using validate_spec_iff[OF o] by blast
  have n: "run_at (w_reg demo_world) (rm_RunID (es_Run (demo_spec [[''a'', ''b'']]))) = None"
    by (simp add: demo_world_reg demo_store_def CreateRun_eq enter_run_views demo_spec_def demo_run_def NewMemoryRegistry_def run_at_def zero_defs)
  obtain res w' where r: "run_state (SubmitRun demo_env (\<lambda>xs. xs) (dag_engine demo_env (\<lambda>hs. hs))
       \<lparr>sq_Spec = demo_spec [[''a'', ''b'']]\<rparr>) demo_world = (res, w')"
    by (cases "run_state (SubmitRun demo_env (\<lambda>xs. xs) (dag_engine demo_env (\<lambda>hs. hs)) \<lparr>sq_Spec = demo_spec [[''a'', ''b'']]\<rparr>) demo_world")
  from SubmitRun_outcomes[OF quiet_demo o r] s n r show ?thesis by auto
qed

subsection \<open>Remote calls\<close>

text \<open>A codec that loses nothing.\<close>

definition codec_ok :: "('q, 'a, 'b) codec \<Rightarrow> bool" where
  "codec_ok co \<longleftrightarrow> (\<forall>q. \<exists>b. co_enc_req co q = Inr b \<and> co_dec_req co b = Inr q) \<and>
     (\<forall>a. \<exists>b. co_enc_resp co a = Inr b \<and> co_dec_resp co b = Inr a)"

definition codecs_ok :: "'b codecs \<Rightarrow> bool" where
  "codecs_ok C \<longleftrightarrow> codec_ok (cc_SubmitRun C) \<and> codec_ok (cc_GetRun C) \<and> codec_ok (cc_ListRunNodes C) \<and>
     codec_ok (cc_ListNodeAttempts C) \<and> codec_ok (cc_ListRunEvents C) \<and> codec_ok (cc_CancelRun C)"

text \<open>
  A connection to a server: a call of a method of the table runs its entry, and an error of the handler
  reaches the client as the status error \<open>to_status e\<close>.
\<close>

definition connected ::
  "(go_error \<Rightarrow> go_error) \<Rightarrow> (string, 'b \<Rightarrow> 'b result prog) gomap \<Rightarrow> (string \<Rightarrow> 'b \<Rightarrow> 'b result prog) \<Rightarrow> bool" where
  "connected to_status table conn \<longleftrightarrow>
     (\<forall>name entry bytes. map_of table name = Some entry \<longrightarrow> conn (full_method name) bytes =
        do { r \<leftarrow> entry bytes; ret (map_sum to_status id r) })"

definition remote :: "(go_error \<Rightarrow> go_error) \<Rightarrow> 'a result prog \<Rightarrow> 'a result prog" where
  "remote to_status m = do { r \<leftarrow> m; ret (map_sum to_status id r) }"

lemma invoke_remote:
  assumes "codec_ok co" and "connected to_status table conn"
    and "map_of table name = Some (method_entry co (unary_handler name service))"
  shows "invoke_method conn co name q = remote to_status (service q)"
proof -
  obtain b where b: "co_enc_req co q = Inr b" "co_dec_req co b = Inr q" using assms(1) by (auto simp: codec_ok_def)
  have dec: "(case map_sum to_status id (case r of Inl e \<Rightarrow> Inl e | Inr a \<Rightarrow> co_enc_resp co a) of Inl e \<Rightarrow> Inl e | Inr out \<Rightarrow> co_dec_resp co out)
      = map_sum to_status id r" for r
  proof (cases r)
    case (Inr a)
    with assms(1) show ?thesis by (auto simp: codec_ok_def dest: spec[of _ a])
  qed simp
  have "conn (full_method name) b = do { r \<leftarrow> method_entry co (unary_handler name service) b; ret (map_sum to_status id r) }"
    using assms(2,3) by (simp add: connected_def)
  with b show ?thesis
    by (simp add: invoke_method_def method_entry_def unary_handler_def remote_def dec)
qed

lemmas client_defs = Client_SubmitRun_def Client_GetRun_def Client_ListRunNodes_def Client_ListNodeAttempts_def
  Client_ListRunEvents_def Client_CancelRun_def

lemmas handler_defs = submitRunHandler_def getRunHandler_def listRunNodesHandler_def listNodeAttemptsHandler_def
  listRunEventsHandler_def cancelRunHandler_def


text \<open>For the witness: messages travel as themselves, tagged with the method.\<close>

datatype message = MSubmitRun SubmitRunRequest | MSubmitted SubmitRunResponse | MGetRun GetRunRequest | MRun GetRunResponse
  | MListRunNodes ListRunNodesRequest | MNodes ListRunNodesResponse
  | MListNodeAttempts ListNodeAttemptsRequest | MAttempts ListNodeAttemptsResponse
  | MListRunEvents ListRunEventsRequest | MEvents ListRunEventsResponse
  | MCancelRun CancelRunRequest | MCanceled CancelRunResponse

definition tagged :: "('q \<Rightarrow> message) \<Rightarrow> ('a \<Rightarrow> message) \<Rightarrow> (message \<Rightarrow> 'q option) \<Rightarrow> (message \<Rightarrow> 'a option) \<Rightarrow> ('q, 'a, message) codec" where
  "tagged f g f' g' = \<lparr>co_enc_req = (\<lambda>q. Inr (f q)),
     co_dec_req = (\<lambda>b. case f' b of Some q \<Rightarrow> Inr q | None \<Rightarrow> Inl (Errorf ''bad message'')),
     co_enc_resp = (\<lambda>a. Inr (g a)), co_dec_resp = (\<lambda>b. case g' b of Some a \<Rightarrow> Inr a | None \<Rightarrow> Inl (Errorf ''bad message''))\<rparr>"

definition demo_codecs :: "message codecs" where
  "demo_codecs = \<lparr>
     cc_SubmitRun = tagged MSubmitRun MSubmitted (\<lambda>m. case m of MSubmitRun q \<Rightarrow> Some q | _ \<Rightarrow> None) (\<lambda>m. case m of MSubmitted a \<Rightarrow> Some a | _ \<Rightarrow> None),
     cc_GetRun = tagged MGetRun MRun (\<lambda>m. case m of MGetRun q \<Rightarrow> Some q | _ \<Rightarrow> None) (\<lambda>m. case m of MRun a \<Rightarrow> Some a | _ \<Rightarrow> None),
     cc_ListRunNodes = tagged MListRunNodes MNodes (\<lambda>m. case m of MListRunNodes q \<Rightarrow> Some q | _ \<Rightarrow> None) (\<lambda>m. case m of MNodes a \<Rightarrow> Some a | _ \<Rightarrow> None),
     cc_ListNodeAttempts = tagged MListNodeAttempts MAttempts (\<lambda>m. case m of MListNodeAttempts q \<Rightarrow> Some q | _ \<Rightarrow> None) (\<lambda>m. case m of MAttempts a \<Rightarrow> Some a | _ \<Rightarrow> None),
     cc_ListRunEvents = tagged MListRunEvents MEvents (\<lambda>m. case m of MListRunEvents q \<Rightarrow> Some q | _ \<Rightarrow> None) (\<lambda>m. case m of MEvents a \<Rightarrow> Some a | _ \<Rightarrow> None),
     cc_CancelRun = tagged MCancelRun MCanceled (\<lambda>m. case m of MCancelRun q \<Rightarrow> Some q | _ \<Rightarrow> None) (\<lambda>m. case m of MCanceled a \<Rightarrow> Some a | _ \<Rightarrow> None)\<rparr>"

definition demo_conn :: "(string, 'b \<Rightarrow> 'b result prog) gomap \<Rightarrow> string \<Rightarrow> 'b \<Rightarrow> 'b result prog" where
  "demo_conn table name bytes =
     (case map_of (map (\<lambda>(n, entry). (full_method n, entry)) table) name of
        None \<Rightarrow> ret (Inl (GrpcStatus codes_Unimplemented name))
      | Some entry \<Rightarrow> do { r \<leftarrow> entry bytes; ret (map_sum (\<lambda>e. GrpcStatus codes_Unknown (Error e)) id r) })"

lemma demo_connected: "connected (\<lambda>e. GrpcStatus codes_Unknown (Error e)) table (demo_conn table)"
proof -
  have "map_of (map (\<lambda>(n, entry). (full_method n, entry)) table) (full_method name) = map_of table name" for name
    by (induction table) (auto simp: full_method_def)
  then show ?thesis by (simp add: connected_def demo_conn_def)
qed


end
