(* ===== verification/Observe.thy ===== *)
theory Observe
  imports Registry
begin

text \<open>
  \<^verbatim>\<open>pkg/observe/status.go\<close>: the status snapshot served by \<^verbatim>\<open>/statusz\<close>, read from the registry.

  The registry is read call by call; the model reads one state, so it describes a snapshot taken
  while no other operation runs in between.
\<close>

subsection \<open>The snapshot\<close>

record BackendSnapshot =
  bs_Ready :: bool
  bs_ReleaseBounded :: bool
  bs_ReleaseInflight :: int
  bs_ReleaseSlotsAvailable :: int
  bs_ReleaseMaxConcurrent :: int

record StatusSnapshot =
  ss_RunningRuns :: int
  ss_ReleaseWaitNodes :: int
  ss_BackendReady :: bool
  ss_ReleaseBounded :: bool
  ss_ReleaseInflight :: int
  ss_ReleaseSlotsAvailable :: int
  ss_ReleaseMaxConcurrent :: int
  ss_RecentErrors :: "string list"

definition run_active :: "RunRecord \<Rightarrow> bool" where
  "run_active run \<longleftrightarrow> rr_Status run = RunStatusAdmitted \<or> rr_Status run = RunStatusRunning"

definition node_waiting :: "NodeRecord \<Rightarrow> bool" where
  "node_waiting node \<longleftrightarrow> nr_Status node = NodeStatusReady \<or> nr_Status node = NodeStatusReleasing"

definition event_error :: "EventRecord \<Rightarrow> string option" where
  "event_error event =
     (if ev_Level event = ''error'' then Some (ev_Type event @ '':'' @ FirstNonEmpty [ev_FailureReason event, ev_Message event])
      else None)"

fun count_waiting :: "NodeRecord list \<Rightarrow> int \<Rightarrow> int" where
  "count_waiting [] n = n"
| "count_waiting (node # nodes) n = count_waiting nodes (if node_waiting node then n + 1 else n)"

fun snapshot_runs :: "registry \<Rightarrow> RunRecord list \<Rightarrow> StatusSnapshot \<Rightarrow> StatusSnapshot result" where
  "snapshot_runs r [] snapshot = Inr snapshot"
| "snapshot_runs r (run # runs) snapshot =
     (if \<not> run_active run then snapshot_runs r runs snapshot
      else case fst (ListNodes (rr_RunID run) r) of
        Inl err \<Rightarrow> Inl err
      | Inr nodes \<Rightarrow>
          (case fst (ListEvents (rr_RunID run) 5 r) of
             Inl err \<Rightarrow> Inl err
           | Inr events \<Rightarrow> snapshot_runs r runs
               (snapshot\<lparr>ss_RunningRuns := ss_RunningRuns snapshot + 1,
                  ss_ReleaseWaitNodes := count_waiting nodes (ss_ReleaseWaitNodes snapshot),
                  ss_RecentErrors := ss_RecentErrors snapshot @ List.map_filter event_error events\<rparr>)))"

definition SnapshotFromRegistry ::
  "(RunRecord list \<Rightarrow> RunRecord list) \<Rightarrow> registry \<Rightarrow> BackendSnapshot \<Rightarrow> StatusSnapshot result" where
  "SnapshotFromRegistry ord r backend =
     (case fst (ListRuns ord r) of
        Inl err \<Rightarrow> Inl err
      | Inr runs \<Rightarrow> snapshot_runs r runs
          \<lparr>ss_RunningRuns = 0, ss_ReleaseWaitNodes = 0, ss_BackendReady = bs_Ready backend,
           ss_ReleaseBounded = bs_ReleaseBounded backend, ss_ReleaseInflight = bs_ReleaseInflight backend,
           ss_ReleaseSlotsAvailable = bs_ReleaseSlotsAvailable backend,
           ss_ReleaseMaxConcurrent = bs_ReleaseMaxConcurrent backend, ss_RecentErrors = []\<rparr>)"

subsection \<open>What the snapshot counts\<close>

lemma count_waiting_length: "count_waiting nodes n = n + int (length (filter node_waiting nodes))"
  by (induction nodes n rule: count_waiting.induct) simp_all

text \<open>The nodes of run \<open>i\<close> that wait for a release.\<close>

definition waiting_nodes :: "registry \<Rightarrow> string \<Rightarrow> NodeRecord set" where
  "waiting_nodes r i = {x. node_at r i (nr_NodeID x) = Some x \<and> node_waiting x}"

definition active_runs :: "registry \<Rightarrow> RunRecord set" where
  "active_runs r = {x. run_at r (rr_RunID x) = Some x \<and> run_active x}"

lemma count_waiting_nodes:
  assumes "reg_wf r" and "run_at r i \<noteq> None"
  shows "\<exists>ns. fst (ListNodes i r) = Inr ns \<and> (\<forall>n. count_waiting ns n = n + int (card (waiting_nodes r i)))"
proof -
  from ListNodes_exact [OF assms] obtain ns where ns: "fst (ListNodes i r) = Inr ns"
    "distinct (map nr_NodeID ns)" "\<And>x. x \<in> set ns \<longleftrightarrow> node_at r i (nr_NodeID x) = Some x" by blast
  have "waiting_nodes r i = set (filter node_waiting ns)"
    using ns(3) by (auto simp: waiting_nodes_def)
  moreover have "distinct (filter node_waiting ns)"
    using ns(2) by (simp add: distinct_map)
  ultimately have "card (waiting_nodes r i) = length (filter node_waiting ns)"
    by (simp only: distinct_card)
  then show ?thesis
    using ns(1) by (simp add: count_waiting_length)
qed

lemma map_filter_length: "length (List.map_filter f xs) \<le> length xs"
  by (induction xs) (simp_all add: map_filter_simps split: option.split)

lemma recent_events:
  assumes "reg_wf r" and "run_at r i \<noteq> None"
  shows "\<exists>es. fst (ListEvents i 5 r) = Inr es \<and> length (List.map_filter event_error es) \<le> 5"
proof -
  from ListEvents_exact [OF assms, of 5] obtain es where es: "fst (ListEvents i 5 r) = Inr es"
    "length es = min 5 (length (events_of r i))" by auto
  have "length (List.map_filter event_error es) \<le> 5"
    using map_filter_length [of event_error es] es(2) by simp
  with es(1) show ?thesis by blast
qed

lemma snapshot_runs_counts:
  assumes "reg_wf r" and "\<forall>x \<in> set runs. run_at r (rr_RunID x) \<noteq> None"
  shows "\<exists>s'. snapshot_runs r runs s = Inr s' \<and>
     ss_RunningRuns s' = ss_RunningRuns s + int (length (filter run_active runs)) \<and>
     ss_ReleaseWaitNodes s' = ss_ReleaseWaitNodes s +
       (\<Sum>x\<leftarrow>filter run_active runs. int (card (waiting_nodes r (rr_RunID x)))) \<and>
     length (ss_RecentErrors s') \<le> length (ss_RecentErrors s) + 5 * length (filter run_active runs) \<and>
     ss_BackendReady s' = ss_BackendReady s"
  using assms(2)
proof (induction runs arbitrary: s)
  case (Cons x runs)
  show ?case
  proof (cases "run_active x")
    case True
    have at: "run_at r (rr_RunID x) \<noteq> None" using Cons.prems by simp
    from count_waiting_nodes [OF assms(1) at] obtain ns where
      ns: "fst (ListNodes (rr_RunID x) r) = Inr ns" "\<And>n. count_waiting ns n = n + int (card (waiting_nodes r (rr_RunID x)))"
      by blast
    from recent_events [OF assms(1) at] obtain es where
      es: "fst (ListEvents (rr_RunID x) 5 r) = Inr es" "length (List.map_filter event_error es) \<le> 5" by blast
    let ?s = "s\<lparr>ss_RunningRuns := ss_RunningRuns s + 1, ss_ReleaseWaitNodes := count_waiting ns (ss_ReleaseWaitNodes s),
                ss_RecentErrors := ss_RecentErrors s @ List.map_filter event_error es\<rparr>"
    from Cons.IH [of ?s] Cons.prems obtain s' where "snapshot_runs r runs ?s = Inr s'"
      "ss_RunningRuns s' = ss_RunningRuns ?s + int (length (filter run_active runs))"
      "ss_ReleaseWaitNodes s' = ss_ReleaseWaitNodes ?s +
         (\<Sum>x\<leftarrow>filter run_active runs. int (card (waiting_nodes r (rr_RunID x))))"
      "length (ss_RecentErrors s') \<le> length (ss_RecentErrors ?s) + 5 * length (filter run_active runs)"
      "ss_BackendReady s' = ss_BackendReady ?s" by auto
    then show ?thesis using True ns es by (intro exI [of _ s']) simp
  qed (use Cons in simp)
qed simp

text \<open>
  On a reachable registry the snapshot never fails, whatever order the runs come in.  It counts
  exactly the admitted and running runs, and the nodes of those runs that are ready or being
  released; it shows at most five errors for each such run.
\<close>

theorem SnapshotFromRegistry_counts:
  assumes "reachable r" and "\<And>xs. mset (ord xs) = mset xs"
  shows "\<exists>s. SnapshotFromRegistry ord r backend = Inr s \<and> ss_BackendReady s = bs_Ready backend \<and>
     ss_RunningRuns s = int (card (active_runs r)) \<and>
     ss_ReleaseWaitNodes s = (\<Sum>x \<in> active_runs r. int (card (waiting_nodes r (rr_RunID x)))) \<and>
     length (ss_RecentErrors s) \<le> 5 * card (active_runs r)"
proof -
  have wf: "reg_wf r" using reachable_inv [OF assms(1)] by (rule reg_invD(1))
  from ListRuns_exact [OF wf assms(2)] obtain rs where rs: "fst (ListRuns ord r) = Inr rs"
    "distinct (map rr_RunID rs)" "\<And>x. x \<in> set rs \<longleftrightarrow> run_at r (rr_RunID x) = Some x" by blast
  have act: "active_runs r = set (filter run_active rs)" "distinct (filter run_active rs)"
    using rs(2,3) by (auto simp: active_runs_def distinct_map)
  have "\<forall>x \<in> set rs. run_at r (rr_RunID x) \<noteq> None" using rs(3) by simp
  from snapshot_runs_counts [OF wf this] show ?thesis
    unfolding SnapshotFromRegistry_def act(1) distinct_card [OF act(2)] sum.distinct_set_conv_list [OF act(2)]
    by (fastforce simp: rs(1))
qed

end
