(* ===== verification/Handoff_Grpc.thy ===== *)
theory Handoff_Grpc
  imports Handoff
begin

text \<open>
  \<^verbatim>\<open>pkg/handoff/grpc_client.go\<close>: the gRPC client of the artifact-handoff service.

  The stub of the generated package is the argument \<open>R\<close>: a call takes the deadline of its context and
  a message, and is \<open>None\<close> when it never returns.  The messages are those of the generated code, with a
  nested message as an option (a nil pointer, whose getters return zero values).  A context is
  represented by its deadline, if it has one.
\<close>

subsection \<open>Deadlines\<close>

type_synonym deadline = "time option"

definition defaultResolveBindingTimeout :: duration where
  "defaultResolveBindingTimeout = 15 * 1000000000"

definition defaultCallTimeout :: duration where
  "defaultCallTimeout = 30 * 1000000000"

text \<open>The argument \<open>now\<close> is the time of the call.\<close>

definition withDefaultTimeout :: "time \<Rightarrow> deadline \<Rightarrow> duration \<Rightarrow> deadline" where
  "withDefaultTimeout now c d = (case c of Some t \<Rightarrow> Some t | None \<Rightarrow> Some (now + d))"

subsection \<open>Messages\<close>

datatype pb_backend = PbNodeLocal "NodeLocalLocation option" | PbHttp "string option" | PbNoBackend

record pb_ArtifactLocation =
  pbl_Backend :: pb_backend

record pb_PlacementIntent =
  pbp_Mode :: string
  pbp_NodeName :: string

record pb_MaterializationPlan =
  pbm_Mode :: string
  pbm_Uri :: string
  pbm_ExpectedDigest :: string
  pbm_ExpectedSizeBytes :: int
  pbm_SourceLocation :: "pb_ArtifactLocation option"
  pbm_LocalPath :: string

record pb_MaterializationCandidate =
  pbc_Priority :: int
  pbc_Mode :: string
  pbc_SourceRef :: string
  pbc_ExpectedDigest :: string
  pbc_ExpectedSizeBytes :: int
  pbc_LocalPath :: string
  pbc_SourceLocation :: "pb_ArtifactLocation option"
  pbc_Uri :: string
  pbc_Conditions :: "MaterializationCondition option list"

record pb_ResolveHandoffResponse =
  pbr_ResolutionStatus :: string
  pbr_Decision :: string
  pbr_PlacementIntent :: "pb_PlacementIntent option"
  pbr_MaterializationPlan :: "pb_MaterializationPlan option"
  pbr_MaterializationCandidates :: "pb_MaterializationCandidate option list"
  pbr_Reason :: string
  pbr_Retryable :: bool

record pb_ArtifactRef =
  pba_SampleRunId :: string
  pba_ProducerNodeId :: string
  pba_ProducerAttemptId :: string
  pba_OutputName :: string
  pba_ArtifactId :: string
  pba_Digest :: string
  pba_NodeName :: string
  pba_Uri :: string
  pba_SizeBytes :: int
  pba_LogicalUri :: string
  pba_Locations :: "pb_ArtifactLocation list"

record resolver_client =
  rc_ResolveHandoff :: "deadline \<Rightarrow> WireBinding \<times> string \<Rightarrow> pb_ResolveHandoffResponse result option"
  rc_RegisterArtifact :: "deadline \<Rightarrow> pb_ArtifactRef \<Rightarrow> unit result option"
  rc_NotifyNodeTerminal :: "deadline \<Rightarrow> NotifyNodeTerminalRequest \<Rightarrow> unit result option"
  rc_FinalizeSampleRun :: "deadline \<Rightarrow> string \<Rightarrow> unit result option"
  rc_EvaluateGC :: "deadline \<Rightarrow> string \<Rightarrow> unit result option"
  rc_GetSampleRunLifecycle :: "deadline \<Rightarrow> string \<Rightarrow> SampleRunLifecycle result option"

subsection \<open>Conversions\<close>

definition grpcArtifactLocationFromClient :: "ArtifactLocation \<Rightarrow> pb_ArtifactLocation option" where
  "grpcArtifactLocationFromClient location =
     (case al_NodeLocal location of
        Some nl \<Rightarrow> Some \<lparr>pbl_Backend = PbNodeLocal (Some nl)\<rparr>
      | None \<Rightarrow>
          (case al_HTTP location of
             Some h \<Rightarrow> Some \<lparr>pbl_Backend = PbHttp (Some (hs_URI h))\<rparr>
           | None \<Rightarrow> None))"

definition grpcArtifactLocations :: "ArtifactLocation list \<Rightarrow> pb_ArtifactLocation list" where
  "grpcArtifactLocations locations = List.map_filter grpcArtifactLocationFromClient locations"

definition grpcArtifactLocation :: "pb_ArtifactLocation option \<Rightarrow> ArtifactLocation option" where
  "grpcArtifactLocation location =
     (case location of
        None \<Rightarrow> None
      | Some l \<Rightarrow>
          (case pbl_Backend l of
             PbNodeLocal nl \<Rightarrow> Some \<lparr>al_NodeLocal = Some (case nl of Some x \<Rightarrow> x | None \<Rightarrow> \<lparr>nl_NodeName = '''', nl_Path = ''''\<rparr>), al_HTTP = None\<rparr>
           | PbHttp uri \<Rightarrow> Some \<lparr>al_NodeLocal = None, al_HTTP = Some \<lparr>hs_URI = (case uri of Some u \<Rightarrow> u | None \<Rightarrow> ''''), hs_Headers = []\<rparr>\<rparr>
           | PbNoBackend \<Rightarrow> None))"

definition grpc_condition :: "MaterializationCondition option \<Rightarrow> MaterializationCondition" where
  "grpc_condition c = (case c of Some x \<Rightarrow> x
     | None \<Rightarrow> \<lparr>mc_Kind = '''', mc_NodeName = '''', mc_BackendID = '''', mc_SourceRef = '''', mc_State = ''''\<rparr>)"

definition grpc_candidate :: "pb_MaterializationCandidate \<Rightarrow> MaterializationCandidate" where
  "grpc_candidate c = \<lparr>cd_Priority = pbc_Priority c, cd_Mode = pbc_Mode c, cd_SourceRef = pbc_SourceRef c,
     cd_ExpectedDigest = pbc_ExpectedDigest c, cd_ExpectedSize = pbc_ExpectedSizeBytes c, cd_LocalPath = pbc_LocalPath c,
     cd_SourceLocation = grpcArtifactLocation (pbc_SourceLocation c), cd_URI = pbc_Uri c,
     cd_Conditions = map grpc_condition (pbc_Conditions c)\<rparr>"

definition grpcMaterializationCandidates :: "pb_MaterializationCandidate option list \<Rightarrow> MaterializationCandidate list" where
  "grpcMaterializationCandidates candidates = List.map_filter (map_option grpc_candidate) candidates"

definition grpc_plan :: "pb_MaterializationPlan option \<Rightarrow> MaterializationPlan" where
  "grpc_plan p = (case p of
     None \<Rightarrow> zero_MaterializationPlan
   | Some m \<Rightarrow> \<lparr>mp_Mode = pbm_Mode m, mp_URI = pbm_Uri m, mp_ExpectedDigest = pbm_ExpectedDigest m,
       mp_ExpectedSize = pbm_ExpectedSizeBytes m, mp_SourceLocation = grpcArtifactLocation (pbm_SourceLocation m),
       mp_LocalPath = pbm_LocalPath m\<rparr>)"

definition grpc_response :: "pb_ResolveHandoffResponse \<Rightarrow> ResolveBindingResponse" where
  "grpc_response resp = zero_ResolveBindingResponse
     \<lparr>rs_ResolutionStatus := pbr_ResolutionStatus resp, rs_Decision := pbr_Decision resp,
      rs_PlacementIntent := (case pbr_PlacementIntent resp of
         None \<Rightarrow> \<lparr>pi_Mode = '''', pi_NodeName = ''''\<rparr>
       | Some p \<Rightarrow> \<lparr>pi_Mode = pbp_Mode p, pi_NodeName = pbp_NodeName p\<rparr>),
      rs_MaterializationPlan := grpc_plan (pbr_MaterializationPlan resp),
      rs_MaterializationCandidates := grpcMaterializationCandidates (pbr_MaterializationCandidates resp),
      rs_Reason := pbr_Reason resp, rs_Retryable := pbr_Retryable resp\<rparr>"

definition grpc_artifact :: "RegisterArtifactRequest \<Rightarrow> pb_ArtifactRef" where
  "grpc_artifact req = \<lparr>pba_SampleRunId = ra_SampleRunID req, pba_ProducerNodeId = ra_ProducerNodeID req,
     pba_ProducerAttemptId = ra_ProducerAttemptID req, pba_OutputName = ra_OutputName req,
     pba_ArtifactId = ra_ArtifactID req, pba_Digest = ra_Digest req, pba_NodeName = ra_NodeName req,
     pba_Uri = ra_URI req, pba_SizeBytes = ra_SizeBytes req, pba_LogicalUri = ra_LogicalURI req,
     pba_Locations = grpcArtifactLocations (ra_Locations req)\<rparr>"

subsection \<open>The client\<close>

text \<open>
  The methods return the answer together with the names of the counters they increment (none when
  the client has no metrics).
\<close>

type_synonym 'a counted = "(string list \<times> 'a) option"

definition counts :: "bool \<Rightarrow> string list \<Rightarrow> string list" where
  "counts metrics names = (if metrics then names else [])"

definition GRPC_ResolveBinding ::
  "bool \<Rightarrow> resolver_client \<Rightarrow> time \<Rightarrow> deadline \<Rightarrow> ResolveBindingRequest \<Rightarrow> ResolveBindingResponse result counted" where
  "GRPC_ResolveBinding m R now c req =
     (case rc_ResolveHandoff R (withDefaultTimeout now c defaultResolveBindingTimeout)
             (wire_binding req, rq_TargetNodeName req) of
        None \<Rightarrow> None
      | Some (Inl err) \<Rightarrow> Some (counts m [''HandoffResolve'', ''HandoffResolveErrors''], Inl err)
      | Some (Inr resp) \<Rightarrow> Some (counts m [''HandoffResolve''], Inr (normalizeResolveBindingResponse (grpc_response resp))))"

definition GRPC_RegisterArtifact ::
  "bool \<Rightarrow> resolver_client \<Rightarrow> time \<Rightarrow> deadline \<Rightarrow> RegisterArtifactRequest \<Rightarrow> unit result counted" where
  "GRPC_RegisterArtifact m R now c req =
     (case rc_RegisterArtifact R (withDefaultTimeout now c defaultCallTimeout) (grpc_artifact req) of
        None \<Rightarrow> None
      | Some (Inl err) \<Rightarrow> Some (counts m [''HandoffRegisterArtifact'', ''HandoffRegisterArtifactErrors''],
          Inl (Wrapf ''handoff register artifact failed: '' err))
      | Some (Inr _) \<Rightarrow> Some (counts m [''HandoffRegisterArtifact''], ok))"

definition GRPC_NotifyNodeTerminal ::
  "bool \<Rightarrow> resolver_client \<Rightarrow> time \<Rightarrow> deadline \<Rightarrow> NotifyNodeTerminalRequest \<Rightarrow> unit result counted" where
  "GRPC_NotifyNodeTerminal m R now c req =
     (case rc_NotifyNodeTerminal R (withDefaultTimeout now c defaultCallTimeout) req of
        None \<Rightarrow> None
      | Some (Inl err) \<Rightarrow> Some (counts m [''HandoffNotifyTerminal''], Inl (Wrapf ''handoff notify node terminal failed: '' err))
      | Some (Inr _) \<Rightarrow> Some (counts m [''HandoffNotifyTerminal''], ok))"

definition GRPC_FinalizeSampleRun ::
  "bool \<Rightarrow> resolver_client \<Rightarrow> time \<Rightarrow> deadline \<Rightarrow> FinalizeSampleRunRequest \<Rightarrow> unit result counted" where
  "GRPC_FinalizeSampleRun m R now c req =
     (case rc_FinalizeSampleRun R (withDefaultTimeout now c defaultCallTimeout) (fs_SampleRunID req) of
        None \<Rightarrow> None
      | Some (Inl err) \<Rightarrow> Some (counts m [''HandoffFinalize''], Inl (Wrapf ''handoff finalize sample run failed: '' err))
      | Some (Inr _) \<Rightarrow> Some (counts m [''HandoffFinalize''], ok))"

definition GRPC_EvaluateGC ::
  "bool \<Rightarrow> resolver_client \<Rightarrow> time \<Rightarrow> deadline \<Rightarrow> EvaluateGCRequest \<Rightarrow> unit result counted" where
  "GRPC_EvaluateGC m R now c req =
     (case rc_EvaluateGC R (withDefaultTimeout now c defaultCallTimeout) (gc_SampleRunID req) of
        None \<Rightarrow> None
      | Some (Inl err) \<Rightarrow> Some (counts m [''HandoffGCEvaluate''], Inl (Wrapf ''handoff evaluate gc failed: '' err))
      | Some (Inr _) \<Rightarrow> Some (counts m [''HandoffGCEvaluate''], ok))"

definition GRPC_GetSampleRunLifecycle ::
  "resolver_client \<Rightarrow> time \<Rightarrow> deadline \<Rightarrow> GetSampleRunLifecycleRequest \<Rightarrow> (SampleRunLifecycle \<times> bool) result option" where
  "GRPC_GetSampleRunLifecycle R now c req =
     (case rc_GetSampleRunLifecycle R (withDefaultTimeout now c defaultCallTimeout) (lc_SampleRunID req) of
        None \<Rightarrow> None
      | Some (Inl err) \<Rightarrow> Some (Inl err)
      | Some (Inr resp) \<Rightarrow> Some (Inr (resp, True)))"

subsection \<open>Laws\<close>

text \<open>A location with one backend survives the wire, without the headers of an HTTP source.\<close>

lemma location_roundtrip:
  assumes "al_NodeLocal l = None \<or> al_HTTP l = None"
  shows "grpcArtifactLocation (grpcArtifactLocationFromClient l) =
     (if al_NodeLocal l = None \<and> al_HTTP l = None then None else redactArtifactLocation (Some l))"
  using assms
  by (cases l) (auto simp: grpcArtifactLocation_def grpcArtifactLocationFromClient_def redactArtifactLocation_def
      split: option.split)

text \<open>The generated stub returns when its context has a deadline.\<close>

definition returns_in_time :: "resolver_client \<Rightarrow> bool" where
  "returns_in_time R \<longleftrightarrow> (\<forall>t q. rc_ResolveHandoff R (Some t) q \<noteq> None) \<and> (\<forall>t q. rc_RegisterArtifact R (Some t) q \<noteq> None) \<and>
     (\<forall>t q. rc_NotifyNodeTerminal R (Some t) q \<noteq> None) \<and> (\<forall>t q. rc_FinalizeSampleRun R (Some t) q \<noteq> None) \<and>
     (\<forall>t q. rc_EvaluateGC R (Some t) q \<noteq> None) \<and> (\<forall>t q. rc_GetSampleRunLifecycle R (Some t) q \<noteq> None)"

lemma deadline_set: "\<exists>t. withDefaultTimeout now c d = Some t \<and> (c = None \<longrightarrow> t = now + d) \<and> (\<forall>t'. c = Some t' \<longrightarrow> t = t')"
  by (cases c) (simp_all add: withDefaultTimeout_def)

lemma GRPC_agrees_with_HTTP:
  assumes "rc_ResolveHandoff R (withDefaultTimeout now c defaultResolveBindingTimeout) (wire_binding q, rq_TargetNodeName q) = Some (Inr resp)"
    and "http_post http ''/v1/handoffs:resolve'' ''resolve'' (ResolveBody (wire_binding q) (rq_TargetNodeName q)) = Inr body"
    and "decode (hp_Body body) = Inr (grpc_response resp)"
  shows "GRPC_ResolveBinding m R now c q = Some (counts m [''HandoffResolve''], HTTP_ResolveBinding decode http q)"
  using assms by (simp add: GRPC_ResolveBinding_def HTTP_ResolveBinding_def)


text \<open>A service that answers under a deadline and hangs without one.\<close>

definition demo_resolver :: resolver_client where
  "demo_resolver = \<lparr>
     rc_ResolveHandoff = (\<lambda>d _. case d of None \<Rightarrow> None | Some _ \<Rightarrow> Some (Inr
       \<lparr>pbr_ResolutionStatus = ''RESOLVED'', pbr_Decision = ''local_reuse'', pbr_PlacementIntent = None,
        pbr_MaterializationPlan = None, pbr_MaterializationCandidates = [], pbr_Reason = '''', pbr_Retryable = False\<rparr>)),
     rc_RegisterArtifact = (\<lambda>d _. map_option (\<lambda>_. ok) d),
     rc_NotifyNodeTerminal = (\<lambda>d _. map_option (\<lambda>_. ok) d),
     rc_FinalizeSampleRun = (\<lambda>d _. map_option (\<lambda>_. ok) d),
     rc_EvaluateGC = (\<lambda>d _. map_option (\<lambda>_. ok) d),
     rc_GetSampleRunLifecycle = (\<lambda>d _. map_option (\<lambda>_. Inl (Errorf ''unavailable'')) d)\<rparr>"


end
