(* ===== verification/Server.thy ===== *)
theory Server
  imports Observe Spawner_Adapter Handoff_Grpc
begin

text \<open>
  \<^verbatim>\<open>cmd/jumi\<close>: the command.  Its subcommands, the configuration it reads from the environment, the
  order in which the server starts and stops, the HTTP endpoints and the command
  \<^verbatim>\<open>lifecycle-check\<close>.

  The environment is a function from names to values (\<open>[]\<close> for an unset variable).  Opening a
  database, a cluster, a socket or a gRPC channel is an argument of the model; so are the JSON
  encodings and the text of the usage message.
\<close>

subsection \<open>Subcommands\<close>

datatype main_action = RunServe | RunLifecycleCheck "string list" | ExitWith int string

definition main_dispatch :: "string list \<Rightarrow> main_action" where
  "main_dispatch args =
     (case args of
        _ # sub # rest \<Rightarrow>
          if sub = ''serve'' then RunServe
          else if sub = ''lifecycle-check'' then RunLifecycleCheck rest
          else ExitWith 2 (''unknown subcommand: '' @ sub @ [CHR 10] @ ''usage: jumi [serve|lifecycle-check]'' @ [CHR 10])
      | _ \<Rightarrow> RunServe)"

subsection \<open>The environment\<close>

type_synonym getenv = "string \<Rightarrow> string"

definition envOrDefault :: "getenv \<Rightarrow> string \<Rightarrow> string \<Rightarrow> string" where
  "envOrDefault g key fallback = (if g key \<noteq> '''' then g key else fallback)"

definition envIntOrDefault :: "getenv \<Rightarrow> string \<Rightarrow> int \<Rightarrow> int" where
  "envIntOrDefault g key fallback =
     (if g key = '''' then fallback else case ParseInt64 (g key) of None \<Rightarrow> fallback | Some parsed \<Rightarrow> parsed)"

text \<open>\<^verbatim>\<open>strconv.ParseBool\<close>.\<close>

definition ParseBool :: "string \<Rightarrow> bool option" where
  "ParseBool s =
     (if s \<in> set [''1'', ''t'', ''T'', ''TRUE'', ''true'', ''True''] then Some True
      else if s \<in> set [''0'', ''f'', ''F'', ''FALSE'', ''false'', ''False''] then Some False else None)"

definition envBoolOrDefault :: "getenv \<Rightarrow> string \<Rightarrow> bool \<Rightarrow> bool" where
  "envBoolOrDefault g key fallback =
     (if g key = '''' then fallback else case ParseBool (g key) of None \<Rightarrow> fallback | Some parsed \<Rightarrow> parsed)"

subsection \<open>Registry and handoff client\<close>

datatype registry_choice = UseMemoryRegistry | UseSQLiteRegistry string

definition registry_choice_of :: "getenv \<Rightarrow> registry_choice" where
  "registry_choice_of g =
     (let path = envOrDefault g ''JUMI_REGISTRY_PATH'' ''jumi-registry.db'' in
      if path = ''memory'' \<or> path = '':memory:in-process'' then UseMemoryRegistry else UseSQLiteRegistry path)"

text \<open>
  The libraries the command calls: opening a gRPC channel (\<^verbatim>\<open>NewGRPCClient\<close>, with the stub of the
  channel), building a request, sending it with a client of the given timeout, and the decoding and
  encoding of a lifecycle record.
\<close>

record cmd_lib =
  cl_NewGRPCClient :: "string \<Rightarrow> resolver_client result"
  cl_NewRequest :: "string \<Rightarrow> string \<Rightarrow> go_error option"
  cl_Do :: "duration \<Rightarrow> http_request \<Rightarrow> http_response result"
  cl_decode :: "string \<Rightarrow> SampleRunLifecycle result"
  cl_encode :: "SampleRunLifecycle \<Rightarrow> string result"

definition NewHTTPClient :: "cmd_lib \<Rightarrow> string \<Rightarrow> duration \<Rightarrow> HTTPClient" where
  "NewHTTPClient L baseURL timeout =
     NewHTTPClientWithClient baseURL (cl_NewRequest L) (cl_Do L (if timeout \<le> 0 then 5 * 1000000000 else timeout))"

datatype handoff_client = ClientGRPC resolver_client | ClientHTTP HTTPClient | ClientNoop

definition newHandoffClientFromEnv :: "cmd_lib \<Rightarrow> getenv \<Rightarrow> handoff_client result" where
  "newHandoffClientFromEnv L g =
     (let grpcTarget = g ''JUMI_AH_GRPC_TARGET'' in
      if grpcTarget \<noteq> '''' then
        (case cl_NewGRPCClient L grpcTarget of
           Inl err \<Rightarrow> Inl (Wrapf (''initialize handoff grpc client for '' @ grpcTarget @ '': '') err)
         | Inr client \<Rightarrow> Inr (ClientGRPC client))
      else
        (let baseURL = g ''JUMI_AH_URL'' in
         if baseURL = '''' then
           (if envBoolOrDefault g ''JUMI_ALLOW_NOOP_HANDOFF'' False then Inr ClientNoop
            else Inl (Errorf ''missing handoff configuration: set JUMI_AH_GRPC_TARGET or JUMI_AH_URL, or set JUMI_ALLOW_NOOP_HANDOFF=true for development-only noop mode''))
         else Inr (ClientHTTP (NewHTTPClient L baseURL (5 * 1000000000)))))"

text \<open>Only the gRPC client has a method \<^verbatim>\<open>Close\<close>.\<close>

fun closeIfPossible :: "handoff_client \<Rightarrow> bool" where
  "closeIfPossible (ClientGRPC _) = True"
| "closeIfPossible _ = False"

subsection \<open>Starting and stopping the server\<close>

text \<open>
  What the server does that others can see, in order.  \<open>Fatal\<close> is \<^verbatim>\<open>log.Fatal\<close>, which ends the
  process without running the deferred calls.
\<close>

datatype server_event =
    RegistryOpened registry_choice | RegistryClosed
  | RuntimeCreated string string int
  | ObserverUnavailable
  | HandoffConfigured bool | HandoffClosed
  | RecoverSwept "go_error option"
  | RunServiceRegistered
  | Listening string
  | ServingHTTP string
  | ServingGRPC string
  | ShutdownServers
  | Fatal string

record serve_lib =
  sv_open :: "string \<Rightarrow> unit result"
  sv_restConfig :: "string \<Rightarrow> unit result"
  sv_clientset :: "unit result"
  sv_runtime :: "string \<Rightarrow> string \<Rightarrow> int \<Rightarrow> unit result"
  sv_observer :: "unit result"
  sv_recover :: "go_error option"
  sv_listen :: "string \<Rightarrow> unit result"
  sv_stop :: "go_error option"

definition fatal_or :: "'a result \<Rightarrow> string \<Rightarrow> ('a \<Rightarrow> server_event list) \<Rightarrow> server_event list" where
  "fatal_or res msg k = (case res of Inl err \<Rightarrow> [Fatal (msg @ Error err)] | Inr x \<Rightarrow> k x)"

definition buildRegistry :: "serve_lib \<Rightarrow> getenv \<Rightarrow> (registry_choice \<Rightarrow> server_event list) \<Rightarrow> server_event list" where
  "buildRegistry S g k =
     (case registry_choice_of g of
        UseMemoryRegistry \<Rightarrow> RegistryOpened UseMemoryRegistry # k UseMemoryRegistry
      | UseSQLiteRegistry path \<Rightarrow>
          fatal_or (sv_open S path) (''jumi: open durable registry at '' @ path @ '': '')
            (\<lambda>_. RegistryOpened (UseSQLiteRegistry path) # k (UseSQLiteRegistry path)))"

text \<open>The end of \<^verbatim>\<open>runServe\<close>: the select on the signal and the errors of the servers, and the deferred calls.\<close>

definition serve_end :: "serve_lib \<Rightarrow> registry_choice \<Rightarrow> handoff_client \<Rightarrow> server_event list" where
  "serve_end S choice client =
     (case sv_stop S of
        Some err \<Rightarrow> [Fatal (Error err)]
      | None \<Rightarrow> ShutdownServers # (if closeIfPossible client then [HandoffClosed] else []) @
          (case choice of UseMemoryRegistry \<Rightarrow> [] | UseSQLiteRegistry _ \<Rightarrow> [RegistryClosed]))"

text \<open>From the handoff client on, once the runtime and the adapter exist.\<close>

definition serve_start :: "cmd_lib \<Rightarrow> serve_lib \<Rightarrow> getenv \<Rightarrow> registry_choice \<Rightarrow> server_event list" where
  "serve_start L S g choice =
     fatal_or (newHandoffClientFromEnv L g) '''' (\<lambda>client.
       HandoffConfigured (closeIfPossible client) # RecoverSwept (sv_recover S) # RunServiceRegistered #
       (let httpAddr = envOrDefault g ''JUMI_HTTP_ADDR'' '':8080''; grpcAddr = envOrDefault g ''JUMI_GRPC_ADDR'' '':9090'' in
        fatal_or (sv_listen S grpcAddr) '''' (\<lambda>_.
          [Listening grpcAddr, ServingHTTP httpAddr, ServingGRPC grpcAddr] @ serve_end S choice client)))"

definition runServe :: "cmd_lib \<Rightarrow> serve_lib \<Rightarrow> getenv \<Rightarrow> server_event list" where
  "runServe L S g = buildRegistry S g (\<lambda>choice.
     (let namespace = envOrDefault g ''JUMI_NAMESPACE'' ''default''; kubeconfigPath = g ''JUMI_KUBECONFIG'';
          namingSalt = g ''JUMI_NAMING_SALT'' in
      if namingSalt = '''' then [Fatal ''JUMI_NAMING_SALT is required: set a stable secret for deterministic job naming'']
      else
        (let maxConcurrent = envIntOrDefault g ''JUMI_MAX_CONCURRENT_RELEASE'' 10 in
         fatal_or (sv_restConfig S kubeconfigPath) ''k8s config: '' (\<lambda>_.
         fatal_or (sv_clientset S) ''k8s clientset: '' (\<lambda>_.
         fatal_or (sv_runtime S namingSalt namespace maxConcurrent) ''spawner runtime: '' (\<lambda>_.
           RuntimeCreated namingSalt namespace maxConcurrent #
           (case sv_observer S of Inl _ \<Rightarrow> [ObserverUnavailable] | Inr _ \<Rightarrow> []) @ serve_start L S g choice))))))"

subsection \<open>The HTTP endpoints\<close>

definition healthz :: http_response where
  "healthz = \<lparr>hp_StatusCode = 200, hp_Body = ''ok''\<rparr>"

text \<open>\<open>adapter\<close> is the status of the adapter when it provides one.\<close>

definition readyz :: "AdapterStatus option \<Rightarrow> http_response" where
  "readyz adapter =
     (case adapter of
        Some status \<Rightarrow> if \<not> as_Ready status then \<lparr>hp_StatusCode = 503, hp_Body = ''backend not ready'' @ [CHR 10]\<rparr>
          else \<lparr>hp_StatusCode = 200, hp_Body = ''ready''\<rparr>
      | None \<Rightarrow> \<lparr>hp_StatusCode = 200, hp_Body = ''ready''\<rparr>)"

definition backend_snapshot :: "AdapterStatus option \<Rightarrow> BackendSnapshot" where
  "backend_snapshot adapter =
     (case adapter of
        Some status \<Rightarrow> \<lparr>bs_Ready = as_Ready status, bs_ReleaseBounded = as_ReleaseBounded status,
          bs_ReleaseInflight = as_ReleaseInflight status, bs_ReleaseSlotsAvailable = as_ReleaseSlotsAvailable status,
          bs_ReleaseMaxConcurrent = as_ReleaseMaxConcurrent status\<rparr>
      | None \<Rightarrow> \<lparr>bs_Ready = True, bs_ReleaseBounded = False, bs_ReleaseInflight = 0, bs_ReleaseSlotsAvailable = 0,
          bs_ReleaseMaxConcurrent = 0\<rparr>)"

definition statusz ::
  "(StatusSnapshot \<Rightarrow> string) \<Rightarrow> (string \<Rightarrow> string) \<Rightarrow> (RunRecord list \<Rightarrow> RunRecord list) \<Rightarrow> registry
     \<Rightarrow> AdapterStatus option \<Rightarrow> http_response" where
  "statusz js js_error ord r adapter =
     (case SnapshotFromRegistry ord r (backend_snapshot adapter) of
        Inl err \<Rightarrow> \<lparr>hp_StatusCode = 500, hp_Body = js_error (Error err)\<rparr>
      | Inr snapshot \<Rightarrow> \<lparr>hp_StatusCode = 200, hp_Body = js snapshot\<rparr>)"

subsection \<open>\<^verbatim>\<open>lifecycle-check\<close>\<close>

record lifecycle_flags =
  lf_ahGRPC :: string
  lf_ahHTTP :: string
  lf_sampleRunID :: string
  lf_timeout :: duration

record process_exit =
  px_Code :: int
  px_Stdout :: string
  px_Stderr :: string

definition buildLifecycleClient :: "cmd_lib \<Rightarrow> string \<Rightarrow> string \<Rightarrow> duration \<Rightarrow> (handoff_client \<times> bool) result" where
  "buildLifecycleClient L grpcTarget httpURL timeout =
     (if grpcTarget \<noteq> '''' then
        (case cl_NewGRPCClient L grpcTarget of
           Inl err \<Rightarrow> Inl (Wrapf ''grpc client: '' err)
         | Inr c \<Rightarrow> Inr (ClientGRPC c, True))
      else Inr (ClientHTTP (NewHTTPClient L httpURL timeout), False))"

fun client_lifecycle ::
  "cmd_lib \<Rightarrow> time \<Rightarrow> deadline \<Rightarrow> handoff_client \<Rightarrow> GetSampleRunLifecycleRequest \<Rightarrow> (SampleRunLifecycle \<times> bool) result option" where
  "client_lifecycle L now c (ClientGRPC R) req = GRPC_GetSampleRunLifecycle R now c req"
| "client_lifecycle L now c (ClientHTTP h) req = Some (HTTP_GetSampleRunLifecycle (cl_decode L) h req)"
| "client_lifecycle L now c ClientNoop req = Some (Noop_GetSampleRunLifecycle req)"

definition die :: "int \<Rightarrow> string \<Rightarrow> process_exit" where
  "die code msg = \<lparr>px_Code = code, px_Stdout = '''', px_Stderr = msg\<rparr>"

text \<open>The result of the query, as an exit code and what is printed.\<close>

definition lifecycle_report :: "cmd_lib \<Rightarrow> string \<Rightarrow> (SampleRunLifecycle \<times> bool) result \<Rightarrow> process_exit" where
  "lifecycle_report L sampleRunID answer =
     (case answer of
        Inl err \<Rightarrow> die 1 (''error: '' @ Error err @ [CHR 10])
      | Inr (lifecycle, found) \<Rightarrow>
          if \<not> found then die 1 (''not found: sample run '' @ sampleRunID @ '' has no lifecycle record'' @ [CHR 10])
          else (case cl_encode L lifecycle of
                  Inl err \<Rightarrow> die 1 (''error: encode: '' @ Error err @ [CHR 10])
                | Inr out \<Rightarrow> \<lparr>px_Code = 0, px_Stdout = out, px_Stderr = ''''\<rparr>))"

definition runLifecycleCheck :: "cmd_lib \<Rightarrow> string \<Rightarrow> time \<Rightarrow> lifecycle_flags \<Rightarrow> process_exit option" where
  "runLifecycleCheck L usage now f =
     (if lf_sampleRunID f = '''' then Some (die 2 (''error: --sample-run-id is required'' @ [CHR 10] @ usage))
      else if lf_ahGRPC f = '''' \<and> lf_ahHTTP f = '''' then
        Some (die 2 (''error: one of --ah-grpc or --ah-http is required'' @ [CHR 10] @ usage))
      else if lf_ahGRPC f \<noteq> '''' \<and> lf_ahHTTP f \<noteq> '''' then
        Some (die 2 (''error: --ah-grpc and --ah-http are mutually exclusive'' @ [CHR 10] @ usage))
      else case buildLifecycleClient L (lf_ahGRPC f) (lf_ahHTTP f) (lf_timeout f) of
        Inl err \<Rightarrow> Some (die 2 (''error: '' @ Error err @ [CHR 10]))
      | Inr (client, _) \<Rightarrow>
          map_option (lifecycle_report L (lf_sampleRunID f))
            (client_lifecycle L now (Some (now + lf_timeout f)) client \<lparr>lc_SampleRunID = lf_sampleRunID f\<rparr>))"

subsection \<open>Laws\<close>

text \<open>The client that drops every artifact is used only when the operator asked for it.\<close>

theorem noop_handoff_is_explicit:
  "newHandoffClientFromEnv L g = Inr ClientNoop \<longleftrightarrow>
     g ''JUMI_AH_GRPC_TARGET'' = '''' \<and> g ''JUMI_AH_URL'' = '''' \<and> ParseBool (g ''JUMI_ALLOW_NOOP_HANDOFF'') = Some True"
  by (auto simp: newHandoffClientFromEnv_def envBoolOrDefault_def Let_def ParseBool_def split: sum.split)

text \<open>
  Whatever goes wrong while the server starts, a trace of it has this shape: the run service is
  registered and requests are served only after the sweep over the runs of the registry, with a
  naming salt, and after a fatal error nothing follows.
\<close>

fun precedes :: "('a \<Rightarrow> bool) \<Rightarrow> ('a \<Rightarrow> bool) \<Rightarrow> 'a list \<Rightarrow> bool" where
  "precedes P Q [] = True"
| "precedes P Q (x # xs) = (\<not> Q x \<and> (P x \<or> precedes P Q xs))"

lemma precedes_split:
  assumes "precedes P Q xs" and "xs = ys @ x # zs" and "Q x"
  shows "\<exists>y \<in> set ys. P y"
  using assms by (induction ys arbitrary: xs) auto

lemma precedes_fatal_or:
  "(\<And>m. \<not> Q (Fatal m)) \<Longrightarrow> (\<And>x. precedes P Q (k x)) \<Longrightarrow> precedes P Q (fatal_or res msg k)"
  by (cases res) (simp_all add: fatal_or_def)

fun is_sweep :: "server_event \<Rightarrow> bool" where
  "is_sweep (RecoverSwept _) = True"
| "is_sweep _ = False"

fun is_service :: "server_event \<Rightarrow> bool" where
  "is_service RunServiceRegistered = True"
| "is_service (ServingHTTP _) = True"
| "is_service (ServingGRPC _) = True"
| "is_service _ = False"

fun is_salted :: "server_event \<Rightarrow> bool" where
  "is_salted (RuntimeCreated salt _ _) = (salt \<noteq> '''')"
| "is_salted _ = False"

lemma precedes_buildRegistry:
  "(\<And>m. \<not> Q (Fatal m)) \<Longrightarrow> (\<And>c. \<not> Q (RegistryOpened c)) \<Longrightarrow> (\<And>c. precedes P Q (k c)) \<Longrightarrow>
     precedes P Q (buildRegistry S g k)"
  by (auto simp: buildRegistry_def split: registry_choice.split intro!: precedes_fatal_or)

lemma serve_start_sweeps: "precedes is_sweep is_service (serve_start L S g choice)"
  by (simp add: serve_start_def precedes_fatal_or)

theorem runServe_recovers_first:
  "precedes is_sweep is_service (runServe L S g)" "precedes is_salted is_sweep (runServe L S g)"
  by (auto simp: runServe_def Let_def serve_start_sweeps split: sum.split
      intro!: precedes_buildRegistry precedes_fatal_or)

text \<open>The durable registry is opened unless the operator asked for the one in memory.\<close>

theorem registry_durable_by_default:
  "registry_choice_of g = UseMemoryRegistry \<longleftrightarrow> g ''JUMI_REGISTRY_PATH'' \<in> {''memory'', '':memory:in-process''}"
  by (auto simp: registry_choice_of_def envOrDefault_def Let_def)

text \<open>The status page is served on every reachable registry, and it agrees with the readiness probe.\<close>

theorem statusz_agrees_with_readyz:
  assumes "reachable r" and "\<And>xs. mset (ord xs) = mset xs"
  shows "\<exists>s. statusz js js_error ord r adapter = \<lparr>hp_StatusCode = 200, hp_Body = js s\<rparr> \<and>
     (ss_BackendReady s \<longleftrightarrow> hp_StatusCode (readyz adapter) = 200) \<and> ss_RunningRuns s = int (card (active_runs r))"
proof -
  from SnapshotFromRegistry_counts [OF assms] obtain s where "SnapshotFromRegistry ord r (backend_snapshot adapter) = Inr s"
    "ss_BackendReady s = bs_Ready (backend_snapshot adapter)" "ss_RunningRuns s = int (card (active_runs r))" by blast
  then show ?thesis
    by (auto simp: statusz_def readyz_def backend_snapshot_def split: option.split)
qed

text \<open>The check of a lifecycle succeeds only for a record the service returned, and returns under a deadline.\<close>

theorem runLifecycleCheck_success:
  assumes "runLifecycleCheck L usage now f = Some p" and "px_Code p = 0"
  shows "\<exists>client lifecycle. (lf_ahGRPC f = '''' \<longleftrightarrow> lf_ahHTTP f \<noteq> '''') \<and> lf_sampleRunID f \<noteq> '''' \<and>
     client_lifecycle L now (Some (now + lf_timeout f)) client \<lparr>lc_SampleRunID = lf_sampleRunID f\<rparr> = Some (Inr (lifecycle, True)) \<and>
     cl_encode L lifecycle = Inr (px_Stdout p)"
  using assms
  by (fastforce simp: runLifecycleCheck_def lifecycle_report_def die_def split: if_splits sum.splits option.splits)

theorem runLifecycleCheck_returns:
  assumes "\<And>target R. cl_NewGRPCClient L target = Inr R \<Longrightarrow> returns_in_time R"
  shows "runLifecycleCheck L usage now f \<noteq> None"
proof -
  have "client_lifecycle L now (Some t) client q \<noteq> None"
    if "buildLifecycleClient L (lf_ahGRPC f) (lf_ahHTTP f) (lf_timeout f) = Inr (client, b)" for t client b q
    using that assms
    by (auto simp: buildLifecycleClient_def GRPC_GetSampleRunLifecycle_def withDefaultTimeout_def returns_in_time_def
        split: if_splits sum.splits option.split)
  then show ?thesis
    by (auto simp: runLifecycleCheck_def split: sum.split)
qed

end
