(* ===== verification/Sqlite_Open.thy ===== *)
theory Sqlite_Open
  imports Sqlite_Contract
begin

text \<open>
  Opening the durable registry: \<^verbatim>\<open>NewSQLiteRegistry\<close>, \<^verbatim>\<open>sqliteApplyPragmas\<close> and \<^verbatim>\<open>sqliteMigrate\<close>.

  A database file holds the tables that were created in it, so a file may have none, some or all of
  them.  The driver is a parameter: each of its calls may return an error, and a statement that it
  refuses changes nothing.
\<close>

subsection \<open>Files and statements\<close>

record 'j db_file =
  fl_runs :: "'j runs_row list option"
  fl_nodes :: "'j nodes_row list option"
  fl_attempts :: "'j attempts_row list option"
  fl_events :: "'j events_row list option"
  fl_events_index :: bool

datatype ddl = CreateRuns | CreateNodes | CreateAttempts | CreateEvents | CreateEventsIndex

definition ddl_statements :: "ddl list" where
  "ddl_statements = [CreateRuns, CreateNodes, CreateAttempts, CreateEvents, CreateEventsIndex]"

definition if_not_exists :: "'a list option \<Rightarrow> 'a list option" where
  "if_not_exists table = (case table of None \<Rightarrow> Some [] | Some rows \<Rightarrow> Some rows)"

fun exec_ddl :: "ddl \<Rightarrow> 'j db_file \<Rightarrow> 'j db_file" where
  "exec_ddl CreateRuns f = f\<lparr>fl_runs := if_not_exists (fl_runs f)\<rparr>"
| "exec_ddl CreateNodes f = f\<lparr>fl_nodes := if_not_exists (fl_nodes f)\<rparr>"
| "exec_ddl CreateAttempts f = f\<lparr>fl_attempts := if_not_exists (fl_attempts f)\<rparr>"
| "exec_ddl CreateEvents f = f\<lparr>fl_events := if_not_exists (fl_events f)\<rparr>"
| "exec_ddl CreateEventsIndex f = f\<lparr>fl_events_index := True\<rparr>"

record sql_driver =
  dr_open :: "string \<Rightarrow> go_error option"
  dr_pragma :: "string \<Rightarrow> go_error option"
  dr_ddl :: "ddl \<Rightarrow> go_error option"

fun run_ddl :: "sql_driver \<Rightarrow> ddl list \<Rightarrow> 'j db_file \<Rightarrow> unit result \<times> 'j db_file" where
  "run_ddl D [] f = (ok, f)"
| "run_ddl D (stmt # stmts) f =
     (case dr_ddl D stmt of
        Some err \<Rightarrow> (Inl (Wrapf ''ddl: '' err), f)
      | None \<Rightarrow> run_ddl D stmts (exec_ddl stmt f))"

definition pragmas :: "string list" where
  "pragmas = [''PRAGMA journal_mode=WAL'', ''PRAGMA busy_timeout=5000'', ''PRAGMA synchronous=NORMAL'',
     ''PRAGMA foreign_keys=OFF'']"

fun apply_pragmas :: "sql_driver \<Rightarrow> string list \<Rightarrow> unit result" where
  "apply_pragmas D [] = ok"
| "apply_pragmas D (pragma # rest) =
     (case dr_pragma D pragma of
        Some err \<Rightarrow> Inl (Wrapf (pragma @ '': '') err)
      | None \<Rightarrow> apply_pragmas D rest)"

definition sqliteApplyPragmas :: "sql_driver \<Rightarrow> unit result" where
  "sqliteApplyPragmas D = apply_pragmas D pragmas"

subsection \<open>Opening a registry\<close>

text \<open>The result, the file afterwards, and whether the handle was closed again.\<close>

definition NewSQLiteRegistry :: "sql_driver \<Rightarrow> string \<Rightarrow> 'j db_file \<Rightarrow> unit result \<times> 'j db_file \<times> bool" where
  "NewSQLiteRegistry D path f =
     (case dr_open D path of
        Some err \<Rightarrow> (Inl (Wrapf ''open sqlite: '' err), f, False)
      | None \<Rightarrow>
          (case sqliteApplyPragmas D of
             Inl err \<Rightarrow> (Inl (Wrapf ''apply pragmas: '' err), f, True)
           | Inr _ \<Rightarrow>
               (case run_ddl D ddl_statements f of
                  (Inl err, f') \<Rightarrow> (Inl (Wrapf ''migrate: '' err), f', True)
                | (Inr _, f') \<Rightarrow> (ok, f', False))))"

subsection \<open>A restart keeps the registry\<close>

definition file_of :: "'j database \<Rightarrow> 'j db_file" where
  "file_of d = \<lparr>fl_runs = Some (db_runs d), fl_nodes = Some (db_nodes d), fl_attempts = Some (db_attempts d),
     fl_events = Some (db_events d), fl_events_index = True\<rparr>"

definition new_file :: "'j db_file" where
  "new_file = \<lparr>fl_runs = None, fl_nodes = None, fl_attempts = None, fl_events = None, fl_events_index = False\<rparr>"

lemma exec_ddl_kept: "exec_ddl stmt (file_of d) = file_of d"
  by (cases stmt) (simp_all add: file_of_def if_not_exists_def)

lemma run_ddl_kept: "snd (run_ddl D stmts (file_of d)) = file_of d"
  by (induction stmts) (simp_all add: exec_ddl_kept split: option.split)

text \<open>Statements add tables and remove no rows, on any file.\<close>

definition keeps_rows :: "'j db_file \<Rightarrow> 'j db_file \<Rightarrow> bool" where
  "keeps_rows f f' \<longleftrightarrow> (\<forall>t. fl_runs f = Some t \<longrightarrow> fl_runs f' = Some t) \<and> (\<forall>t. fl_nodes f = Some t \<longrightarrow> fl_nodes f' = Some t) \<and>
     (\<forall>t. fl_attempts f = Some t \<longrightarrow> fl_attempts f' = Some t) \<and> (\<forall>t. fl_events f = Some t \<longrightarrow> fl_events f' = Some t)"

lemma keeps_rows_trans: "keeps_rows f g \<Longrightarrow> keeps_rows g h \<Longrightarrow> keeps_rows f h"
  by (simp add: keeps_rows_def)

lemma keeps_rows_refl: "keeps_rows f f"
  by (simp add: keeps_rows_def)

lemma exec_ddl_keeps_rows: "keeps_rows f (exec_ddl stmt f)"
  by (cases stmt) (simp_all add: keeps_rows_def if_not_exists_def)

lemma run_ddl_keeps_rows: "keeps_rows f (snd (run_ddl D stmts f))"
proof (induction stmts arbitrary: f)
  case (Cons s stmts)
  show ?case
    using keeps_rows_trans [OF exec_ddl_keeps_rows Cons.IH] by (auto simp: keeps_rows_refl split: option.split)
qed (simp add: keeps_rows_refl)

text \<open>
  Whatever the driver refuses, opening a registry removes no row of the file, and a handle that is
  not returned is closed.  A file with all tables is left as it is.
\<close>

theorem NewSQLiteRegistry_keeps:
  assumes "NewSQLiteRegistry D path f = (res, f', closed)"
  shows "keeps_rows f f' \<and> (closed \<longrightarrow> res \<noteq> ok) \<and> (res \<noteq> ok \<and> dr_open D path = None \<longrightarrow> closed) \<and>
     (f = file_of d \<longrightarrow> f' = file_of d)"
proof -
  have "f' = f \<or> f' = snd (run_ddl D ddl_statements f)"
    using assms by (auto simp: NewSQLiteRegistry_def split: option.splits sum.splits prod.splits)
  then have kept: "keeps_rows f f'" "f = file_of d \<longrightarrow> f' = file_of d"
    using run_ddl_keeps_rows [of f D ddl_statements] run_ddl_kept [of D ddl_statements d] keeps_rows_refl by metis+
  have "(closed \<longrightarrow> res \<noteq> ok) \<and> (res \<noteq> ok \<and> dr_open D path = None \<longrightarrow> closed)"
    using assms by (auto simp: NewSQLiteRegistry_def split: option.splits sum.splits prod.splits)
  with kept show ?thesis by blast
qed

text \<open>A new file gets the empty tables, and after a restart the registry is the one that was left.\<close>

theorem NewSQLiteRegistry_new:
  assumes "NewSQLiteRegistry D path new_file = (ok, f', closed)"
  shows "f' = file_of sqliteMigrate"
  using assms
  by (auto simp: NewSQLiteRegistry_def ddl_statements_def new_file_def file_of_def sqliteMigrate_def if_not_exists_def
      split: option.splits sum.splits)

theorem restart_refines:
  assumes "refines S d r" and "NewSQLiteRegistry D path (file_of d) = (ok, f', closed)"
  shows "\<exists>d'. f' = file_of d' \<and> refines S d' r"
  using NewSQLiteRegistry_keeps [OF assms(2), of d] assms(1) by blast

end
