(* ===== verification/Smoke_Client.thy ===== *)
theory Smoke_Client
  imports Api_Service
begin

text \<open>
  \<^verbatim>\<open>tools/jumi-smoke/main.go\<close>: the command that submits a run and waits for its end.

  The remote service is a parameter: the answers of round \<open>k\<close> of the waiting loop, the time at which
  the round reads the clock, and whether the context has ended then.  Only the exit code of the
  command is modelled, not the lines it prints.
\<close>

subsection \<open>Waiting for the end of a run\<close>

record remote =
  rt_SubmitRun :: "ExecutableRunSpec \<Rightarrow> SubmitRunResponse result"
  rt_GetRun :: "nat \<Rightarrow> string \<Rightarrow> RunRecord result"
  rt_ListRunNodes :: "nat \<Rightarrow> string \<Rightarrow> NodeRecord list result"
  rt_ListRunEvents :: "string \<Rightarrow> int \<Rightarrow> EventRecord list result"
  rt_now :: "nat \<Rightarrow> time"
  rt_done :: "nat \<Rightarrow> go_error option"

partial_function (option) wait_loop ::
  "remote \<Rightarrow> string \<Rightarrow> time \<Rightarrow> nat \<Rightarrow> (RunRecord \<times> NodeRecord list) result option" where
  "wait_loop R runID limit k =
     (case rt_GetRun R k runID of
        Inl err \<Rightarrow> Some (Inl err)
      | Inr run \<Rightarrow>
          (case rt_ListRunNodes R k runID of
             Inl err \<Rightarrow> Some (Inl err)
           | Inr nodes \<Rightarrow>
               if rr_Status run \<in> {RunStatusSucceeded, RunStatusFailed, RunStatusCanceled} then Some (Inr (run, nodes))
               else if limit < rt_now R k
               then Some (Inl (Errorf (''timeout waiting for terminal status, last status='' @ RunStatus_string (rr_Status run))))
               else (case rt_done R k of
                       Some err \<Rightarrow> Some (Inl err)
                     | None \<Rightarrow> wait_loop R runID limit (Suc k))))"

definition waitForTerminalRun ::
  "remote \<Rightarrow> time \<Rightarrow> string \<Rightarrow> duration \<Rightarrow> (RunRecord \<times> NodeRecord list) result option" where
  "waitForTerminalRun R start runID timeout = wait_loop R runID (start + timeout) 0"

subsection \<open>The command\<close>

record smoke_flags =
  sf_spec :: string
  sf_runID :: string
  sf_sampleRunID :: string
  sf_submittedNow :: bool
  sf_timeout :: duration
  sf_wait :: bool
  sf_events :: bool

definition smoke_spec :: "smoke_flags \<Rightarrow> time \<Rightarrow> ExecutableRunSpec \<Rightarrow> ExecutableRunSpec" where
  "smoke_spec f now specInput =
     (let run = es_Run specInput;
          run = (if sf_runID f \<noteq> '''' then run\<lparr>rm_RunID := sf_runID f\<rparr> else run);
          run = (if sf_sampleRunID f \<noteq> '''' then run\<lparr>rm_SampleRunID := sf_sampleRunID f\<rparr> else run);
          run = (if sf_submittedNow f then run\<lparr>rm_SubmittedAt := now\<rparr> else run)
      in specInput\<lparr>es_Run := run\<rparr>)"

text \<open>The exit code; \<open>load\<close> reads and decodes the file, \<open>connect\<close> opens the channel.\<close>

definition smoke_main ::
  "(string \<Rightarrow> ExecutableRunSpec result) \<Rightarrow> remote result \<Rightarrow> time \<Rightarrow> time \<Rightarrow> smoke_flags \<Rightarrow> int option" where
  "smoke_main load connect now start f =
     (if sf_spec f = '''' then Some 2
      else case load (sf_spec f) of
        Inl _ \<Rightarrow> Some 1
      | Inr specInput \<Rightarrow>
          (case connect of
             Inl _ \<Rightarrow> Some 1
           | Inr R \<Rightarrow>
               (case rt_SubmitRun R (smoke_spec f now specInput) of
                  Inl _ \<Rightarrow> Some 1
                | Inr resp \<Rightarrow>
                    if \<not> sf_wait f then Some 0
                    else (case waitForTerminalRun R start (sp_RunID resp) (sf_timeout f) of
                            None \<Rightarrow> None
                          | Some (Inl _) \<Rightarrow> Some 1
                          | Some (Inr (run, nodes)) \<Rightarrow>
                              if sf_events f \<and> isl (rt_ListRunEvents R (sp_RunID resp) 200) then Some 1
                              else if rr_Status run \<noteq> RunStatusSucceeded then Some 1 else Some 0))))"

subsection \<open>Laws\<close>

text \<open>Every round waits for the poll interval, so the clock advances by at least that much.\<close>

definition polls :: "duration \<Rightarrow> remote \<Rightarrow> bool" where
  "polls poll R \<longleftrightarrow> 0 < poll \<and> (\<forall>k. rt_now R k + poll \<le> rt_now R (Suc k))"

text \<open>A returned record is one the service reported in some round, and it is final.\<close>

definition reported :: "remote \<Rightarrow> string \<Rightarrow> nat \<Rightarrow> (RunRecord \<times> NodeRecord list) result \<Rightarrow> bool" where
  "reported R runID k res \<longleftrightarrow> (\<forall>run nodes. res = Inr (run, nodes) \<longrightarrow> RunStatus_IsTerminal (rr_Status run) \<and>
     (\<exists>j \<ge> k. rt_GetRun R j runID = Inr run \<and> rt_ListRunNodes R j runID = Inr nodes))"

lemma reported_Suc: "reported R runID (Suc k) res \<Longrightarrow> reported R runID k res"
  using Suc_leD unfolding reported_def by fastforce

lemma reported_err [simp]: "reported R runID k (Inl e)"
  by (simp add: reported_def)

lemma wait_loop_ends:
  assumes "polls poll R" and "limit < rt_now R k + int n * poll"
  shows "\<exists>res. wait_loop R runID limit k = Some res \<and> reported R runID k res"
  using assms(2)
proof (induction n arbitrary: k)
  case 0
  then show ?case
    by (subst wait_loop.simps) (auto simp: reported_def split: sum.split)
next
  case (Suc n)
  have "rt_now R k + poll \<le> rt_now R (Suc k)" using assms(1) by (simp add: polls_def)
  then have "limit < rt_now R (Suc k) + int n * poll" using Suc.prems by (simp add: algebra_simps)
  from Suc.IH [OF this] obtain res where "wait_loop R runID limit (Suc k) = Some res" "reported R runID k res"
    using reported_Suc by blast
  then show ?case
    by (subst wait_loop.simps) (auto simp: reported_def split: sum.split option.split)
qed

theorem waitForTerminalRun_returns:
  assumes "polls poll R"
  shows "\<exists>res. waitForTerminalRun R start runID timeout = Some res \<and> reported R runID 0 res"
proof -
  let ?limit = "start + timeout"
  have p: "1 \<le> poll" using assms by (simp add: polls_def)
  let ?n = "nat (?limit - rt_now R 0 + 1)"
  have "?limit - rt_now R 0 < int ?n" by simp
  also have "int ?n \<le> int ?n * poll" using p by (simp add: mult_le_cancel_left1)
  finally have "?limit < rt_now R 0 + int ?n * poll" by simp
  from wait_loop_ends [OF assms this] show ?thesis by (auto simp: waitForTerminalRun_def)
qed

text \<open>
  The command ends, and it ends with success after waiting only if the service reported that the run
  has succeeded.
\<close>

theorem smoke_main_exit:
  assumes "\<And>R. connect = Inr R \<Longrightarrow> polls poll R"
  shows "\<exists>code. smoke_main load connect now start f = Some code \<and>
     (code = 0 \<and> sf_wait f \<longrightarrow> (\<exists>R specInput resp j run. load (sf_spec f) = Inr specInput \<and> connect = Inr R \<and>
        rt_SubmitRun R (smoke_spec f now specInput) = Inr resp \<and> rt_GetRun R j (sp_RunID resp) = Inr run \<and>
        rr_Status run = RunStatusSucceeded))"
proof (cases "sf_spec f = '''' \<or> isl (load (sf_spec f)) \<or> isl connect")
  case True
  then show ?thesis by (auto simp: smoke_main_def split: sum.split)
next
  case False
  then obtain specInput R where l: "load (sf_spec f) = Inr specInput" and c: "connect = Inr R" and s: "sf_spec f \<noteq> ''''"
    by (cases "load (sf_spec f)"; cases connect) auto
  show ?thesis
  proof (cases "rt_SubmitRun R (smoke_spec f now specInput)")
    case (Inl e)
    then show ?thesis using l c s by (simp add: smoke_main_def)
  next
    case (Inr resp)
    obtain res where res: "waitForTerminalRun R start (sp_RunID resp) (sf_timeout f) = Some res"
      and rep: "reported R (sp_RunID resp) 0 res"
      using waitForTerminalRun_returns [OF assms [OF c]] by blast
    show ?thesis
    proof (cases res)
      case (Inl e)
      then show ?thesis using l c s Inr res by (simp add: smoke_main_def)
    next
      case (Inr p)
      then obtain run nodes where p: "res = Inr (run, nodes)" by (cases p) auto
      with rep obtain j where "rt_GetRun R j (sp_RunID resp) = Inr run" by (auto simp: reported_def)
      then show ?thesis
        using l c s \<open>rt_SubmitRun R (smoke_spec f now specInput) = Inr resp\<close> res p by (auto simp: smoke_main_def)
    qed
  qed
qed

end
