(* ===== verification/Metrics_Counters.thy ===== *)
theory Metrics_Counters
  imports Exec_World Complex_Main
begin

text \<open>
  \<^verbatim>\<open>pkg/metrics/metrics.go\<close>: the counters that the components share.

  An instrument of the meter is known by its name, and the meter keeps one value for each name.  The
  meter and the exporter are parameters where they may return an error.  The text that the exporter
  serves is a parameter of \<open>Render\<close>.
\<close>

subsection \<open>Instruments\<close>

datatype counter =
    jobsCreated
  | fastFailTrigger
  | artifactsRegistered
  | inputResolveRequests
  | inputRemoteFetch
  | inputMaterializations
  | localityPreferred
  | localityMatched
  | localityMiss
  | localityFallbackStart
  | localityFallbackOK
  | localityFallbackFail
  | sampleRunsFinalized
  | gcEvaluateRequests
  | handoffResolve
  | handoffResolveErrors
  | handoffRegisterArtifact
  | handoffRegisterArtifactErrors
  | handoffNotifyTerminal
  | handoffFinalize
  | handoffGCEvaluate
  | k8sNodePrepare
  | k8sNodePrepareErrors
  | k8sNodeStart
  | k8sNodeStartErrors
  | k8sNodeSucceeded
  | k8sNodeFailed
  | k8sNodeCanceled
  | k8sNodeCancel

text \<open>The gauge has its own field; the counters are assigned by the loop of \<^verbatim>\<open>New\<close>.\<close>

record Metrics =
  mt_counters :: "(counter, string) gomap"
  mt_cleanupBacklogObjects :: string

definition counter_table :: "(counter \<times> string) list" where
  "counter_table = [
     (jobsCreated, ''jumi_jobs_created''),
     (fastFailTrigger, ''jumi_fast_fail_trigger''),
     (artifactsRegistered, ''jumi_artifacts_registered''),
     (inputResolveRequests, ''jumi_input_resolve_requests''),
     (inputRemoteFetch, ''jumi_input_remote_fetch''),
     (inputMaterializations, ''jumi_input_materializations''),
     (localityPreferred, ''jumi_locality_preferred''),
     (localityMatched, ''jumi_locality_matched''),
     (localityMiss, ''jumi_locality_miss''),
     (localityFallbackStart, ''jumi_locality_fallback_started''),
     (localityFallbackOK, ''jumi_locality_fallback_succeeded''),
     (localityFallbackFail, ''jumi_locality_fallback_failed''),
     (sampleRunsFinalized, ''jumi_sample_runs_finalized''),
     (gcEvaluateRequests, ''jumi_gc_evaluate_requests''),
     (handoffResolve, ''jumi_handoff_resolve''),
     (handoffResolveErrors, ''jumi_handoff_resolve_errors''),
     (handoffRegisterArtifact, ''jumi_handoff_register_artifact''),
     (handoffRegisterArtifactErrors, ''jumi_handoff_register_artifact_errors''),
     (handoffNotifyTerminal, ''jumi_handoff_notify_terminal''),
     (handoffFinalize, ''jumi_handoff_finalize''),
     (handoffGCEvaluate, ''jumi_handoff_gc_evaluate''),
     (k8sNodePrepare, ''jumi_k8s_node_prepare''),
     (k8sNodePrepareErrors, ''jumi_k8s_node_prepare_errors''),
     (k8sNodeStart, ''jumi_k8s_node_start''),
     (k8sNodeStartErrors, ''jumi_k8s_node_start_errors''),
     (k8sNodeSucceeded, ''jumi_k8s_node_succeeded''),
     (k8sNodeFailed, ''jumi_k8s_node_failed''),
     (k8sNodeCanceled, ''jumi_k8s_node_canceled''),
     (k8sNodeCancel, ''jumi_k8s_node_cancel'')]"

fun new_counters ::
  "(string \<Rightarrow> go_error option) \<Rightarrow> (counter \<times> string) list \<Rightarrow> (counter, string) gomap \<Rightarrow> (counter, string) gomap result" where
  "new_counters meter [] m = Inr m"
| "new_counters meter ((dest, name) # cs) m =
     (case meter name of Some err \<Rightarrow> Inl err | None \<Rightarrow> new_counters meter cs (mput dest name m))"

definition New :: "go_error option \<Rightarrow> (string \<Rightarrow> go_error option) \<Rightarrow> (string \<Rightarrow> go_error option) \<Rightarrow> Metrics result" where
  "New exporter meter gauge =
     (case exporter of
        Some err \<Rightarrow> Inl err
      | None \<Rightarrow>
          (case new_counters meter counter_table [] of
             Inl err \<Rightarrow> Inl err
           | Inr m \<Rightarrow>
               (case gauge ''jumi_cleanup_backlog_objects'' of
                  Some err \<Rightarrow> Inl err
                | None \<Rightarrow> Inr \<lparr>mt_counters = m, mt_cleanupBacklogObjects = ''jumi_cleanup_backlog_objects''\<rparr>)))"

text \<open>Adding one to the counter of a field; a field that was never assigned is a nil interface.\<close>

definition Inc :: "counter \<Rightarrow> Metrics \<Rightarrow> (string, nat) gomap \<Rightarrow> (string, nat) gomap result" where
  "Inc c m values =
     (case map_of (mt_counters m) c of
        None \<Rightarrow> Inl (GoPanic ''invalid memory address or nil pointer dereference'')
      | Some name \<Rightarrow> Inr (mput name (case map_of values name of None \<Rightarrow> 1 | Some n \<Rightarrow> n + 1) values))"

text \<open>The methods \<^verbatim>\<open>IncX\<close> by their \<open>X\<close>, with the field each adds to.\<close>

definition inc_methods :: "(string \<times> counter) list" where
  "inc_methods = [
     (''JobsCreated'', jobsCreated),
     (''FastFailTrigger'', fastFailTrigger),
     (''ArtifactsRegistered'', artifactsRegistered),
     (''InputResolveRequests'', inputResolveRequests),
     (''InputRemoteFetch'', inputRemoteFetch),
     (''InputMaterializations'', inputMaterializations),
     (''LocalityPreferred'', localityPreferred),
     (''LocalityMatched'', localityMatched),
     (''LocalityMiss'', localityMiss),
     (''LocalityFallbackStart'', localityFallbackStart),
     (''LocalityFallbackOK'', localityFallbackOK),
     (''LocalityFallbackFail'', localityFallbackFail),
     (''SampleRunsFinalized'', sampleRunsFinalized),
     (''GCEvaluateRequests'', gcEvaluateRequests),
     (''HandoffResolve'', handoffResolve),
     (''HandoffResolveErrors'', handoffResolveErrors),
     (''HandoffRegisterArtifact'', handoffRegisterArtifact),
     (''HandoffRegisterArtifactErrors'', handoffRegisterArtifactErrors),
     (''HandoffNotifyTerminal'', handoffNotifyTerminal),
     (''HandoffFinalize'', handoffFinalize),
     (''HandoffGCEvaluate'', handoffGCEvaluate),
     (''K8sNodePrepare'', k8sNodePrepare),
     (''K8sNodePrepareErrors'', k8sNodePrepareErrors),
     (''K8sNodeStart'', k8sNodeStart),
     (''K8sNodeStartErrors'', k8sNodeStartErrors),
     (''K8sNodeSucceeded'', k8sNodeSucceeded),
     (''K8sNodeFailed'', k8sNodeFailed),
     (''K8sNodeCanceled'', k8sNodeCanceled),
     (''K8sNodeCancel'', k8sNodeCancel)]"

definition SetCleanupBacklogObjects :: "real \<Rightarrow> Metrics \<Rightarrow> (string, real) gomap \<Rightarrow> (string, real) gomap" where
  "SetCleanupBacklogObjects v m gauges = mput (mt_cleanupBacklogObjects m) v gauges"

subsection \<open>Rendering\<close>

fun Split_lines :: "string \<Rightarrow> string list" where
  "Split_lines [] = [[]]"
| "Split_lines (c # cs) =
     (if c = CHR 10 then [] # Split_lines cs else case Split_lines cs of l # ls \<Rightarrow> (c # l) # ls | [] \<Rightarrow> [[c]])"

definition IndexByte :: "string \<Rightarrow> char \<Rightarrow> nat option" where
  "IndexByte s c = (let k = length (takeWhile (\<lambda>x. x \<noteq> c) s) in if k < length s then Some k else None)"

definition strip_labels :: "string \<Rightarrow> string" where
  "strip_labels line =
     (if HasPrefix line ''#'' then line
      else case (IndexByte line (CHR ''{''), IndexByte line (CHR ''}'')) of
        (Some start, Some stop) \<Rightarrow> if start < stop then take start line @ drop (stop + 1) line else line
      | _ \<Rightarrow> line)"

definition Render :: "string \<Rightarrow> string" where
  "Render page = Join (map strip_labels (Split_lines page)) [CHR 10]"

subsection \<open>Laws\<close>

lemma counter_table_distinct: "distinct (map fst counter_table)" "distinct (map snd counter_table)"
  by code_simp+

lemma new_counters_ok:
  assumes "distinct (map fst cs)" and "new_counters meter cs m = Inr m'"
  shows "map_of m' c = (case map_of cs c of None \<Rightarrow> map_of m c | Some n \<Rightarrow> Some n)"
  using assms
proof (induction cs arbitrary: m)
  case (Cons p cs)
  obtain d n where p: "p = (d, n)" by (cases p)
  from Cons.prems p have cs: "new_counters meter cs (mput d n m) = Inr m'" "distinct (map fst cs)" "map_of cs d = None"
    by (auto simp: map_of_eq_None_iff split: option.splits)
  show ?case using Cons.IH [OF cs(2,1)] cs(3) by (auto simp: p split: option.split)
qed simp

lemma counter_table_total: "\<exists>name. (c, name) \<in> set counter_table"
  by (cases c) (simp_all add: counter_table_def)

lemma New_counters:
  assumes "New exporter meter gauge = Inr m"
  shows "map_of (mt_counters m) = map_of counter_table"
proof -
  from assms obtain cs where cs: "new_counters meter counter_table [] = Inr cs" "mt_counters m = cs"
    by (auto simp: New_def split: option.splits sum.splits)
  show ?thesis
    using new_counters_ok [OF counter_table_distinct(1) cs(1)] cs(2) by (auto simp: fun_eq_iff split: option.split)
qed

text \<open>
  After a successful \<^verbatim>\<open>New\<close> no method panics, and each adds one to a counter that no other field shares:
  the counter with the name of its field, and leaves all others.
\<close>

theorem Inc_own_counter:
  assumes "New exporter meter gauge = Inr m"
  shows "\<exists>name values'. (c, name) \<in> set counter_table \<and> Inc c m values = Inr values' \<and>
     (\<forall>d. (d, name) \<in> set counter_table \<longrightarrow> d = c) \<and>
     map_of values' = (map_of values)(name \<mapsto> (case map_of values name of None \<Rightarrow> 1 | Some n \<Rightarrow> n + 1))"
proof -
  obtain name where name: "(c, name) \<in> set counter_table" using counter_table_total by blast
  have "map_of (mt_counters m) c = Some name"
    unfolding New_counters [OF assms] using counter_table_distinct(1) name by (rule map_of_is_SomeI)
  moreover have "d = c" if "(d, name) \<in> set counter_table" for d
    using inj_onD [OF counter_table_distinct(2) [unfolded distinct_map, THEN conjunct2], of "(d, name)" "(c, name)"] name that by simp
  moreover from calculation(1) have "Inc c m values = Inr (mput name (case map_of values name of None \<Rightarrow> 1 | Some n \<Rightarrow> n + 1) values)"
    by (simp add: Inc_def)
  moreover have "map_of (mput name v values) = (map_of values)(name \<mapsto> v)" for v by (simp add: fun_eq_iff)
  ultimately show ?thesis using name by blast
qed

text \<open>Every counter is incremented by exactly one method.\<close>

theorem inc_methods_cover: "distinct (map fst inc_methods)" "distinct (map snd inc_methods)" "\<exists>x. (x, c) \<in> set inc_methods"
proof -
  show "distinct (map fst inc_methods)" "distinct (map snd inc_methods)" by code_simp+
  show "\<exists>x. (x, c) \<in> set inc_methods" by (cases c) (simp_all add: inc_methods_def)
qed

text \<open>The executor counts by the names of the instruments: its primitive \<open>inc\<close> is the method of that name.\<close>

theorem inc_is_Inc:
  assumes "New exporter meter gauge = Inr m" and "(c, name) \<in> set counter_table"
  shows "Inc c m (w_metrics w) = Inr (w_metrics (snd (run_state (inc name) w)))"
proof -
  have "map_of (mt_counters m) c = Some name"
    unfolding New_counters [OF assms(1)] using counter_table_distinct(1) assms(2) by (rule map_of_is_SomeI)
  then show ?thesis by (simp add: Inc_def inc_def State_Monad.update_def)
qed

text \<open>A sample is rendered without its labels, the first pair of braces of its line.\<close>

lemma IndexByte_append: "c \<notin> set xs \<Longrightarrow> IndexByte (xs @ c # ys) c = Some (length xs)"
  proof -
  assume "c \<notin> set xs"
  then have "takeWhile (\<lambda>x. x \<noteq> c) (xs @ c # ys) = xs" by (induction xs) auto
  then show ?thesis by (simp add: IndexByte_def)
qed

lemma strip_labels_sample:
  assumes "CHR ''{'' \<notin> set name" "CHR ''}'' \<notin> set name" "\<not> HasPrefix name ''#''" "name \<noteq> ''''" "CHR ''}'' \<notin> set labels"
  shows "strip_labels (name @ ''{'' @ labels @ ''}'' @ rest) = name @ rest"
proof -
  let ?line = "name @ ''{'' @ labels @ ''}'' @ rest"
  have i: "IndexByte ?line (CHR ''{'') = Some (length name)" using assms(1) IndexByte_append by simp
  have j: "IndexByte ?line (CHR ''}'') = Some (length (name @ ''{'' @ labels))"
    using IndexByte_append [of "CHR ''}''" "name @ ''{'' @ labels" rest] assms(2,5) by simp
  have "\<not> HasPrefix ?line ''#''" using assms(3,4) by (cases name) (auto simp: HasPrefix_def)
  then show ?thesis unfolding strip_labels_def i j by simp
qed

lemma Split_lines_Cons: "\<exists>l ls. Split_lines s = l # ls"
  by (induction s) (auto split: list.split)

lemma Join_Split_lines: "Join (Split_lines s) [CHR 10] = s"
proof (induction s)
  case (Cons c s)
  obtain l ls where l: "Split_lines s = l # ls" using Split_lines_Cons by blast
  show ?case using Cons by (cases ls) (auto simp: l)
qed simp

theorem Render_unlabelled:
  assumes "CHR ''{'' \<notin> set page"
  shows "Render page = page"
proof -
  have "\<forall>l \<in> set (Split_lines s). set l \<subseteq> set s" for s
    by (induction s) (auto split: list.splits)
  then have braces: "CHR ''{'' \<notin> set l" if "l \<in> set (Split_lines page)" for l using that assms by blast
  have "strip_labels l = l" if "l \<in> set (Split_lines page)" for l
  proof -
    have "CHR ''{'' \<notin> set l" using that by (rule braces)
    then have "takeWhile (\<lambda>x. x \<noteq> CHR ''{'') l = l" by (induction l) auto
    then have "IndexByte l (CHR ''{'') = None" unfolding IndexByte_def Let_def by (simp only:) simp
    then show ?thesis by (simp add: strip_labels_def)
  qed
  then have "map strip_labels (Split_lines page) = Split_lines page" by (simp add: map_idI)
  then show ?thesis by (simp add: Render_def Join_Split_lines)
qed

end
