(* ===== verification/Smoke_Summary.thy ===== *)
theory Smoke_Summary
  imports Metrics_Counters "HOL-Library.Log_Nat"
begin

text \<open>
  \<^verbatim>\<open>tools/kubeslint-smoke-summary\<close>: the command that turns the metrics of a smoke run into a summary of
  service levels, with the results it derives itself from the lifecycle record and from the jobs and
  pods of the namespace.

  The summary engine, the reading of the fixture and the writing of the file are parameters.  Of the
  types of the engine the records hold the fields that the command uses.  A Go \<^verbatim>\<open>int\<close> is an integer
  that the arithmetic wraps at 64 bits, and a \<^verbatim>\<open>float64\<close> that is converted from an integer is the
  integer of 53 significant bits next to it.
\<close>

subsection \<open>Numbers\<close>

definition int64 :: "int \<Rightarrow> int" where
  "int64 n = (n + 2 ^ 63) mod 2 ^ 64 - 2 ^ 63"

text \<open>The conversion rounds to the nearest multiple of the last place, a tie to an even one.\<close>

definition round_53 :: "nat \<Rightarrow> nat" where
  "round_53 m =
     (let e = floorlog 2 m - 53; q = m div 2 ^ e; r = m mod 2 ^ e
      in if e = 0 then m
         else if 2 * r > 2 ^ e \<or> (2 * r = 2 ^ e \<and> odd q) then (q + 1) * 2 ^ e else q * 2 ^ e)"

definition float64 :: "int \<Rightarrow> int" where
  "float64 n = sgn n * int (round_53 (nat \<bar>n\<bar>))"

subsection \<open>The profiles\<close>

datatype slo_op = OpLT | OpGT
datatype slo_level = LevelFail
datatype slo_mode = ComputeDelta | ComputeEnd

record slo_rule =
  ru_Metric :: string
  ru_Op :: slo_op
  ru_Target :: int
  ru_Level :: slo_level

record sliSpec =
  sl_ID :: string
  sl_Title :: string
  sl_Unit :: string
  sl_Kind :: string
  sl_Description :: string
  sl_Inputs :: "string list"
  sl_Compute :: slo_mode
  sl_Judge :: "slo_rule list option"

definition jumiAHMinimumSpecs :: "sliSpec list" where
  "jumiAHMinimumSpecs = [
     \<lparr>sl_ID = ''jumi_jobs_created_delta'', sl_Title = ''JUMI Jobs Created Delta'', sl_Unit = ''count'', sl_Kind = ''delta_counter'',
      sl_Description = ''Tracks how many Kubernetes Jobs JUMI created during the measurement window.'',
      sl_Inputs = [''jumi_jobs_created_total''], sl_Compute = ComputeDelta, sl_Judge = None\<rparr>,
     \<lparr>sl_ID = ''jumi_fast_fail_trigger_delta'', sl_Title = ''JUMI Fast Fail Trigger Delta'', sl_Unit = ''count'', sl_Kind = ''delta_counter'',
      sl_Description = ''Tracks fast-fail trigger activity while changing JUMI executor behavior.'',
      sl_Inputs = [''jumi_fast_fail_trigger_total''], sl_Compute = ComputeDelta, sl_Judge = None\<rparr>,
     \<lparr>sl_ID = ''jumi_artifacts_registered_delta'', sl_Title = ''JUMI Artifacts Registered Delta'', sl_Unit = ''count'', sl_Kind = ''delta_counter'',
      sl_Description = ''Tracks how many node outputs JUMI published to AH during the measurement window.'',
      sl_Inputs = [''jumi_artifacts_registered_total''], sl_Compute = ComputeDelta, sl_Judge = None\<rparr>,
     \<lparr>sl_ID = ''jumi_input_resolve_requests_delta'', sl_Title = ''JUMI Input Resolve Requests Delta'', sl_Unit = ''count'', sl_Kind = ''delta_counter'',
      sl_Description = ''Tracks how many artifact input resolution requests JUMI issued during the measurement window.'',
      sl_Inputs = [''jumi_input_resolve_requests_total''], sl_Compute = ComputeDelta, sl_Judge = None\<rparr>,
     \<lparr>sl_ID = ''jumi_input_remote_fetch_delta'', sl_Title = ''JUMI Input Remote Fetch Delta'', sl_Unit = ''count'', sl_Kind = ''delta_counter'',
      sl_Description = ''Tracks how often JUMI accepted remote-fetch resolution decisions during the measurement window.'',
      sl_Inputs = [''jumi_input_remote_fetch_total''], sl_Compute = ComputeDelta, sl_Judge = None\<rparr>,
     \<lparr>sl_ID = ''jumi_input_materializations_delta'', sl_Title = ''JUMI Input Materializations Delta'', sl_Unit = ''count'', sl_Kind = ''delta_counter'',
      sl_Description = ''Tracks how many resolved inputs required materialization during the measurement window.'',
      sl_Inputs = [''jumi_input_materializations_total''], sl_Compute = ComputeDelta, sl_Judge = None\<rparr>,
     \<lparr>sl_ID = ''jumi_sample_runs_finalized_delta'', sl_Title = ''JUMI Sample Runs Finalized Delta'', sl_Unit = ''count'', sl_Kind = ''delta_counter'',
      sl_Description = ''Tracks how many sample runs JUMI finalized through AH during the measurement window.'',
      sl_Inputs = [''jumi_sample_runs_finalized_total''], sl_Compute = ComputeDelta, sl_Judge = None\<rparr>,
     \<lparr>sl_ID = ''jumi_gc_evaluate_requests_delta'', sl_Title = ''JUMI GC Evaluate Requests Delta'', sl_Unit = ''count'', sl_Kind = ''delta_counter'',
      sl_Description = ''Tracks how many GC evaluation requests JUMI issued to AH during the measurement window.'',
      sl_Inputs = [''jumi_gc_evaluate_requests_total''], sl_Compute = ComputeDelta, sl_Judge = None\<rparr>,
     \<lparr>sl_ID = ''ah_artifacts_registered_delta'', sl_Title = ''AH Artifacts Registered Delta'', sl_Unit = ''count'', sl_Kind = ''delta_counter'',
      sl_Description = ''Tracks how many artifacts AH accepted into inventory during the measurement window.'',
      sl_Inputs = [''ah_artifacts_registered_total''], sl_Compute = ComputeDelta, sl_Judge = None\<rparr>,
     \<lparr>sl_ID = ''ah_resolve_requests_delta'', sl_Title = ''AH Resolve Requests Delta'', sl_Unit = ''count'', sl_Kind = ''delta_counter'',
      sl_Description = ''Tracks how often JUMI asks AH to resolve a handoff during the measurement window.'',
      sl_Inputs = [''ah_resolve_requests_total''], sl_Compute = ComputeDelta, sl_Judge = None\<rparr>,
     \<lparr>sl_ID = ''ah_fallback_delta'', sl_Title = ''AH Fallback Delta'', sl_Unit = ''count'', sl_Kind = ''delta_counter'',
      sl_Description = ''Tracks executed fallback transitions inside AH. Planning-mode resolve requests may legitimately leave this at zero even when JUMI accepts a remote_fetch decision.'',
      sl_Inputs = [''ah_fallback_total''], sl_Compute = ComputeDelta, sl_Judge = None\<rparr>,
     \<lparr>sl_ID = ''ah_gc_backlog_bytes_end'', sl_Title = ''AH GC Backlog Bytes'', sl_Unit = ''bytes'', sl_Kind = ''gauge'',
      sl_Description = ''Tracks retained backlog visible at the end of the measurement window.'',
      sl_Inputs = [''ah_gc_backlog_bytes''], sl_Compute = ComputeEnd, sl_Judge = None\<rparr>]"

definition jumiAHSmokeGuardrailSpecs :: "sliSpec list" where
  "jumiAHSmokeGuardrailSpecs = [
     \<lparr>sl_ID = ''jumi_jobs_created_smoke'', sl_Title = ''JUMI Jobs Created Smoke'', sl_Unit = ''count'', sl_Kind = ''delta_counter'',
      sl_Description = ''Smoke run should create at least two Jobs for producer and consumer nodes.'',
      sl_Inputs = [''jumi_jobs_created_total''], sl_Compute = ComputeDelta, sl_Judge = Some [\<lparr>ru_Metric = ''value'', ru_Op = OpLT, ru_Target = 2, ru_Level = LevelFail\<rparr>]\<rparr>,
     \<lparr>sl_ID = ''jumi_artifacts_registered_smoke'', sl_Title = ''JUMI Artifacts Registered Smoke'', sl_Unit = ''count'', sl_Kind = ''delta_counter'',
      sl_Description = ''Smoke run should register at least one producer output through AH.'',
      sl_Inputs = [''jumi_artifacts_registered_total''], sl_Compute = ComputeDelta, sl_Judge = Some [\<lparr>ru_Metric = ''value'', ru_Op = OpLT, ru_Target = 1, ru_Level = LevelFail\<rparr>]\<rparr>,
     \<lparr>sl_ID = ''jumi_input_resolve_requests_smoke'', sl_Title = ''JUMI Input Resolve Requests Smoke'', sl_Unit = ''count'', sl_Kind = ''delta_counter'',
      sl_Description = ''Smoke run should resolve at least one artifact binding before starting the consumer node.'',
      sl_Inputs = [''jumi_input_resolve_requests_total''], sl_Compute = ComputeDelta, sl_Judge = Some [\<lparr>ru_Metric = ''value'', ru_Op = OpLT, ru_Target = 1, ru_Level = LevelFail\<rparr>]\<rparr>,
     \<lparr>sl_ID = ''jumi_input_remote_fetch_smoke'', sl_Title = ''JUMI Input Remote Fetch Smoke'', sl_Unit = ''count'', sl_Kind = ''delta_counter'',
      sl_Description = ''Smoke run should observe at least one remote-fetch resolution decision.'',
      sl_Inputs = [''jumi_input_remote_fetch_total''], sl_Compute = ComputeDelta, sl_Judge = Some [\<lparr>ru_Metric = ''value'', ru_Op = OpLT, ru_Target = 1, ru_Level = LevelFail\<rparr>]\<rparr>,
     \<lparr>sl_ID = ''jumi_input_materializations_smoke'', sl_Title = ''JUMI Input Materializations Smoke'', sl_Unit = ''count'', sl_Kind = ''delta_counter'',
      sl_Description = ''Smoke run should mark at least one resolved input as requiring materialization.'',
      sl_Inputs = [''jumi_input_materializations_total''], sl_Compute = ComputeDelta, sl_Judge = Some [\<lparr>ru_Metric = ''value'', ru_Op = OpLT, ru_Target = 1, ru_Level = LevelFail\<rparr>]\<rparr>,
     \<lparr>sl_ID = ''jumi_sample_runs_finalized_smoke'', sl_Title = ''JUMI Sample Runs Finalized Smoke'', sl_Unit = ''count'', sl_Kind = ''delta_counter'',
      sl_Description = ''Smoke run should finalize at least one sample run through AH.'',
      sl_Inputs = [''jumi_sample_runs_finalized_total''], sl_Compute = ComputeDelta, sl_Judge = Some [\<lparr>ru_Metric = ''value'', ru_Op = OpLT, ru_Target = 1, ru_Level = LevelFail\<rparr>]\<rparr>,
     \<lparr>sl_ID = ''jumi_gc_evaluate_requests_smoke'', sl_Title = ''JUMI GC Evaluate Requests Smoke'', sl_Unit = ''count'', sl_Kind = ''delta_counter'',
      sl_Description = ''Smoke run should trigger at least one GC evaluation request.'',
      sl_Inputs = [''jumi_gc_evaluate_requests_total''], sl_Compute = ComputeDelta, sl_Judge = Some [\<lparr>ru_Metric = ''value'', ru_Op = OpLT, ru_Target = 1, ru_Level = LevelFail\<rparr>]\<rparr>,
     \<lparr>sl_ID = ''ah_artifacts_registered_smoke'', sl_Title = ''AH Artifacts Registered Smoke'', sl_Unit = ''count'', sl_Kind = ''delta_counter'',
      sl_Description = ''Smoke run should register at least one artifact inside AH inventory.'',
      sl_Inputs = [''ah_artifacts_registered_total''], sl_Compute = ComputeDelta, sl_Judge = Some [\<lparr>ru_Metric = ''value'', ru_Op = OpLT, ru_Target = 1, ru_Level = LevelFail\<rparr>]\<rparr>,
     \<lparr>sl_ID = ''ah_resolve_requests_smoke'', sl_Title = ''AH Resolve Requests Smoke'', sl_Unit = ''count'', sl_Kind = ''delta_counter'',
      sl_Description = ''Smoke run should receive at least one resolve request from JUMI.'',
      sl_Inputs = [''ah_resolve_requests_total''], sl_Compute = ComputeDelta, sl_Judge = Some [\<lparr>ru_Metric = ''value'', ru_Op = OpLT, ru_Target = 1, ru_Level = LevelFail\<rparr>]\<rparr>,
     \<lparr>sl_ID = ''ah_fallback_smoke'', sl_Title = ''AH Fallback Smoke'', sl_Unit = ''count'', sl_Kind = ''delta_counter'',
      sl_Description = ''Smoke run records AH executed fallback transitions when resolve happens with a concrete target node. Planning-mode smoke may leave this at zero.'',
      sl_Inputs = [''ah_fallback_total''], sl_Compute = ComputeDelta, sl_Judge = Some [\<lparr>ru_Metric = ''value'', ru_Op = OpLT, ru_Target = 0, ru_Level = LevelFail\<rparr>]\<rparr>,
     \<lparr>sl_ID = ''ah_gc_backlog_bytes_smoke'', sl_Title = ''AH GC Backlog Bytes Smoke'', sl_Unit = ''bytes'', sl_Kind = ''gauge'',
      sl_Description = ''Smoke run should not leave non-zero AH GC backlog at the end of the window.'',
      sl_Inputs = [''ah_gc_backlog_bytes''], sl_Compute = ComputeEnd, sl_Judge = Some [\<lparr>ru_Metric = ''value'', ru_Op = OpGT, ru_Target = 0, ru_Level = LevelFail\<rparr>]\<rparr>]"

text \<open>The argument \<open>quote\<close> is the verb \<^verbatim>\<open>%q\<close>.\<close>

definition pickSpecs :: "(string \<Rightarrow> string) \<Rightarrow> string \<Rightarrow> sliSpec list result" where
  "pickSpecs quote profile =
     (if profile = ''smoke'' then Inr jumiAHSmokeGuardrailSpecs
      else if profile = ''minimum'' then Inr jumiAHMinimumSpecs
      else Inl (Errorf (''unknown profile '' @ quote profile)))"

subsection \<open>The fixture\<close>

record k8sChurnSample =
  kc_ObservedAt :: string
  kc_Namespace :: string
  kc_RunID :: string
  kc_JobsTotal :: int
  kc_JobsForRun :: int
  kc_JobsActive :: int
  kc_JobsSucceeded :: int
  kc_JobsFailed :: int
  kc_PodsTotal :: int
  kc_PodsForRun :: int
  kc_PodsPending :: int
  kc_PodsRunning :: int
  kc_PodsSucceeded :: int
  kc_PodsFailed :: int
  kc_PodsUnknown :: int
  kc_PodExecFallback :: int

record k8sChurn =
  ch_Namespace :: string
  ch_Start :: k8sChurnSample
  ch_End :: k8sChurnSample

record ahLifecycle =
  lc_SampleRun :: string
  lc_Finalized :: bool
  lc_GCEligible :: bool
  lc_GCBlockedReason :: string
  lc_TerminalNodeCount :: int
  lc_SucceededNodeCount :: int
  lc_RetainedArtifactCount :: int
  lc_RetainedArtifactBytes :: int

record ahArtifact =
  aa_SampleRunID :: string
  aa_ProducerNodeID :: string
  aa_OutputName :: string
  aa_ArtifactID :: string
  aa_Digest :: string
  aa_URI :: string
  aa_SizeBytes :: int
  aa_CreatedAt :: time

record fixture =
  fx_RunID :: string
  fx_StartedAt :: time
  fx_FinishedAt :: time
  fx_Method :: string
  fx_Tags :: "(string, string) gomap"
  fx_Evidence :: "(string, string) gomap"
  fx_StartMetrics :: "(string, real) gomap"
  fx_EndMetrics :: "(string, real) gomap"
  fx_AHLifecycle :: "ahLifecycle option"
  fx_AHArtifacts :: "ahArtifact list"
  fx_K8sChurn :: "k8sChurn option"

definition static_fetch :: "fixture \<Rightarrow> time \<Rightarrow> time \<times> (string, real) gomap" where
  "static_fetch fix t = (if t = fx_StartedAt fix then (fx_StartedAt fix, fx_StartMetrics fix)
     else (fx_FinishedAt fix, fx_EndMetrics fix))"

subsection \<open>Derived results\<close>

datatype slo_status = StatusPass | StatusFail

record SLIResult =
  sr_ID :: string
  sr_Title :: string
  sr_Unit :: string
  sr_Kind :: string
  sr_Description :: string
  sr_Value :: int
  sr_Status :: slo_status
  sr_InputsUsed :: "string list"

record Reliability =
  rl_ConfigSourceType :: string
  rl_ConfigSourcePath :: string
  rl_StartSkewMs :: "int option"
  rl_EndSkewMs :: "int option"
  rl_CollectionStatus :: string
  rl_EvaluationStatus :: string
  rl_ConfidenceScore :: "real option"

record Summary =
  su_Results :: "SLIResult list"
  su_Reliability :: "Reliability option"

definition boolValue :: "bool \<Rightarrow> int" where
  "boolValue v = (if v then 1 else 0)"

definition boolStatus :: "bool \<Rightarrow> slo_status" where
  "boolStatus v = (if v then StatusPass else StatusFail)"

definition statusForPositiveOrZero :: "int \<Rightarrow> bool \<Rightarrow> slo_status" where
  "statusForPositiveOrZero v expectPositive =
     (if expectPositive then (if v > 0 then StatusPass else StatusFail) else if v = 0 then StatusPass else StatusFail)"

definition statusAtLeast :: "int \<Rightarrow> int \<Rightarrow> slo_status" where
  "statusAtLeast v least = (if v \<ge> least then StatusPass else StatusFail)"

definition statusZero :: "int \<Rightarrow> slo_status" where
  "statusZero v = (if v = 0 then StatusPass else StatusFail)"

definition completenessStatus :: "int \<Rightarrow> bool \<Rightarrow> slo_status" where
  "completenessStatus n allComplete = (if n = 0 \<or> \<not> allComplete then StatusFail else StatusPass)"

definition artifact_complete :: "ahArtifact \<Rightarrow> bool" where
  "artifact_complete a \<longleftrightarrow> aa_Digest a \<noteq> '''' \<and> aa_URI a \<noteq> '''' \<and> aa_SizeBytes a \<ge> 0"

fun completeness_loop :: "ahArtifact list \<Rightarrow> int \<times> int \<times> bool \<Rightarrow> int \<times> int \<times> bool" where
  "completeness_loop [] x = x"
| "completeness_loop (a # as) (completeCount, totalBytes, allComplete) =
     completeness_loop as
       (if artifact_complete a then (int64 (completeCount + 1), int64 (totalBytes + aa_SizeBytes a), allComplete)
        else (completeCount, totalBytes, False))"

definition artifactMetadataCompleteness :: "ahArtifact list \<Rightarrow> int \<times> int \<times> bool" where
  "artifactMetadataCompleteness artifacts =
     (case completeness_loop artifacts (0, 0, length artifacts > 0) of
        (completeCount, totalBytes, allComplete) \<Rightarrow>
          (completeCount, totalBytes, if length artifacts = 0 then False else allComplete))"

definition addResults :: "'a Summary_scheme \<Rightarrow> SLIResult list \<Rightarrow> 'a Summary_scheme" where
  "addResults sm rs = sm\<lparr>su_Results := su_Results sm @ rs\<rparr>"

definition lifecycle_results :: "ahLifecycle \<Rightarrow> ahArtifact list \<Rightarrow> SLIResult list" where
  "lifecycle_results lc artifacts =
     (let retentionWindowActive = (lc_Finalized lc \<and> \<not> lc_GCEligible lc \<and> lc_GCBlockedReason lc = ''retention_window_active'');
          retainedBytes = float64 (lc_RetainedArtifactBytes lc)
      in case artifactMetadataCompleteness artifacts of
        (completeCount, totalBytes, allComplete) \<Rightarrow>
          (let lifecycleBytesMatch = (length artifacts > 0 \<and> totalBytes = lc_RetainedArtifactBytes lc) in [
         \<lparr>sr_ID = ''ah_lifecycle_finalized_smoke'', sr_Title = ''AH Lifecycle Finalized Smoke'', sr_Unit = ''bool'', sr_Kind = ''derived_state'',
          sr_Description = ''Smoke run should finalize the AH sample-run lifecycle.'',
          sr_Value = boolValue (lc_Finalized lc), sr_Status = boolStatus (lc_Finalized lc),
          sr_InputsUsed = [''ahLifecycle.finalized'']\<rparr>,
         \<lparr>sr_ID = ''ah_retention_window_active_smoke'', sr_Title = ''AH Retention Window Active Smoke'', sr_Unit = ''bool'', sr_Kind = ''derived_state'',
          sr_Description = ''Immediately after finalize+GC evaluate, AH should retain the sample-run under the active retention window.'',
          sr_Value = boolValue retentionWindowActive, sr_Status = boolStatus retentionWindowActive,
          sr_InputsUsed = [''ahLifecycle.finalized'', ''ahLifecycle.gcEligible'', ''ahLifecycle.gcBlockedReason'']\<rparr>,
         \<lparr>sr_ID = ''ah_retained_artifact_bytes_smoke'', sr_Title = ''AH Retained Artifact Bytes Smoke'', sr_Unit = ''bytes'', sr_Kind = ''derived_gauge'',
          sr_Description = ''AH lifecycle retainedArtifactBytes should reflect the retained producer outputs for the sample run.'',
          sr_Value = retainedBytes, sr_Status = statusForPositiveOrZero retainedBytes (lc_RetainedArtifactCount lc > 0),
          sr_InputsUsed = [''ahLifecycle.retainedArtifactCount'', ''ahLifecycle.retainedArtifactBytes'']\<rparr>,
         \<lparr>sr_ID = ''ah_artifact_metadata_complete_smoke'', sr_Title = ''AH Artifact Metadata Complete Smoke'', sr_Unit = ''count'', sr_Kind = ''derived_state'',
          sr_Description = ''AH inventory should retain digest, uri, and sizeBytes for all smoke-run producer artifacts.'',
          sr_Value = float64 completeCount, sr_Status = completenessStatus (int (length artifacts)) allComplete,
          sr_InputsUsed = [''ahArtifacts.digest'', ''ahArtifacts.uri'', ''ahArtifacts.sizeBytes'']\<rparr>,
         \<lparr>sr_ID = ''ah_inventory_lifecycle_bytes_match_smoke'', sr_Title = ''AH Inventory Lifecycle Bytes Match Smoke'', sr_Unit = ''bool'', sr_Kind = ''derived_state'',
          sr_Description = ''AH lifecycle retainedArtifactBytes should match the sum of retained artifact sizeBytes in inventory.'',
          sr_Value = boolValue lifecycleBytesMatch, sr_Status = boolStatus lifecycleBytesMatch,
          sr_InputsUsed = [''ahLifecycle.retainedArtifactBytes'', ''ahArtifacts.sizeBytes'']\<rparr>]))"

definition appendLifecycleDerivedResults :: "'a Summary_scheme option \<Rightarrow> fixture \<Rightarrow> 'a Summary_scheme option" where
  "appendLifecycleDerivedResults sm fix =
     (case (sm, fx_AHLifecycle fix) of
        (Some s, Some lc) \<Rightarrow> Some (addResults s (lifecycle_results lc (fx_AHArtifacts fix)))
      | _ \<Rightarrow> sm)"

definition churn_results :: "k8sChurn \<Rightarrow> SLIResult list" where
  "churn_results churn = [
     \<lparr>sr_ID = ''k8s_namespace_jobs_total_delta_churn'', sr_Title = ''K8s Namespace Jobs Total Delta Churn'', sr_Unit = ''count'', sr_Kind = ''derived_delta'',
      sr_Description = ''Tracks namespace Job object count delta across the smoke measurement window. This is observation only, not production-scale GC assurance.'',
      sr_Value = float64 (int64 (kc_JobsTotal (ch_End churn) - kc_JobsTotal (ch_Start churn))), sr_Status = StatusPass,
      sr_InputsUsed = [''k8sChurn.start.jobsTotal'', ''k8sChurn.end.jobsTotal'']\<rparr>,
     \<lparr>sr_ID = ''k8s_namespace_pods_total_delta_churn'', sr_Title = ''K8s Namespace Pods Total Delta Churn'', sr_Unit = ''count'', sr_Kind = ''derived_delta'',
      sr_Description = ''Tracks namespace Pod object count delta across the smoke measurement window.'',
      sr_Value = float64 (int64 (kc_PodsTotal (ch_End churn) - kc_PodsTotal (ch_Start churn))), sr_Status = StatusPass,
      sr_InputsUsed = [''k8sChurn.start.podsTotal'', ''k8sChurn.end.podsTotal'']\<rparr>,
     \<lparr>sr_ID = ''k8s_jobs_for_run_churn'', sr_Title = ''K8s Jobs For Run Churn'', sr_Unit = ''count'', sr_Kind = ''derived_gauge'',
      sr_Description = ''Tracks Jobs labeled for the smoke run at the end of the window.'',
      sr_Value = float64 (kc_JobsForRun (ch_End churn)), sr_Status = statusAtLeast (float64 (kc_JobsForRun (ch_End churn))) 1,
      sr_InputsUsed = [''k8sChurn.end.jobsForRun'']\<rparr>,
     \<lparr>sr_ID = ''k8s_pods_for_run_churn'', sr_Title = ''K8s Pods For Run Churn'', sr_Unit = ''count'', sr_Kind = ''derived_gauge'',
      sr_Description = ''Tracks Pods labeled for the smoke run at the end of the window.'',
      sr_Value = float64 (kc_PodsForRun (ch_End churn)), sr_Status = statusAtLeast (float64 (kc_PodsForRun (ch_End churn))) 1,
      sr_InputsUsed = [''k8sChurn.end.podsForRun'']\<rparr>,
     \<lparr>sr_ID = ''k8s_failed_jobs_end_churn'', sr_Title = ''K8s Failed Jobs End Churn'', sr_Unit = ''count'', sr_Kind = ''derived_gauge'',
      sr_Description = ''Tracks failed Jobs still visible in the namespace at the end of the window. Non-zero is a churn signal to inspect.'',
      sr_Value = float64 (kc_JobsFailed (ch_End churn)), sr_Status = statusZero (float64 (kc_JobsFailed (ch_End churn))),
      sr_InputsUsed = [''k8sChurn.end.jobsFailed'']\<rparr>,
     \<lparr>sr_ID = ''k8s_active_jobs_end_churn'', sr_Title = ''K8s Active Jobs End Churn'', sr_Unit = ''count'', sr_Kind = ''derived_gauge'',
      sr_Description = ''Tracks active Jobs still visible in the namespace at the end of the smoke window.'',
      sr_Value = float64 (kc_JobsActive (ch_End churn)), sr_Status = statusZero (float64 (kc_JobsActive (ch_End churn))),
      sr_InputsUsed = [''k8sChurn.end.jobsActive'']\<rparr>]"

definition appendK8sChurnDerivedResults :: "'a Summary_scheme option \<Rightarrow> fixture \<Rightarrow> 'a Summary_scheme option" where
  "appendK8sChurnDerivedResults sm fix =
     (case (sm, fx_K8sChurn fix) of
        (Some s, Some churn) \<Rightarrow> Some (addResults s (churn_results churn))
      | _ \<Rightarrow> sm)"

definition normalizeReplayReliability :: "'a Summary_scheme option \<Rightarrow> 'a Summary_scheme option" where
  "normalizeReplayReliability sm =
     map_option (\<lambda>s. s\<lparr>su_Reliability := map_option (\<lambda>r.
       (let r = r\<lparr>rl_ConfigSourceType := ''injected'', rl_ConfigSourcePath := ''fixture_replay'',
                  rl_StartSkewMs := None, rl_EndSkewMs := None\<rparr>
        in if rl_CollectionStatus r = ''Complete'' \<and> rl_EvaluationStatus r = ''Complete''
           then r\<lparr>rl_ConfidenceScore := Some 1\<rparr> else r)) (su_Reliability s)\<rparr>) sm"

subsection \<open>The command\<close>

record summary_flags =
  sg_in :: string
  sg_out :: string
  sg_profile :: string
  sg_normalize :: bool

text \<open>
  The exit code and what is written: \<open>load\<close> reads the fixture, \<open>execute\<close> is the summary engine on a
  fixture, a method and the specifications, and \<open>write\<close> the writer.
\<close>

definition summary_main ::
  "(string \<Rightarrow> fixture result) \<Rightarrow> (string \<Rightarrow> string) \<Rightarrow> string \<Rightarrow> (fixture \<Rightarrow> string \<Rightarrow> sliSpec list \<Rightarrow> Summary result)
     \<Rightarrow> (string \<Rightarrow> Summary \<Rightarrow> unit result) \<Rightarrow> summary_flags \<Rightarrow> int \<times> Summary option" where
  "summary_main load quote outside execute write f =
     (if sg_in f = '''' \<or> sg_out f = '''' then (2, None)
      else case load (sg_in f) of
        Inl _ \<Rightarrow> (1, None)
      | Inr fix \<Rightarrow>
          (case pickSpecs quote (sg_profile f) of
             Inl _ \<Rightarrow> (1, None)
           | Inr specs \<Rightarrow>
               (case execute fix (if fx_Method fix \<noteq> '''' then fx_Method fix else outside) specs of
                  Inl _ \<Rightarrow> (1, None)
                | Inr sm \<Rightarrow>
                    (let s = (if sg_normalize f then normalizeReplayReliability (Some sm) else Some sm);
                         s = appendLifecycleDerivedResults s fix;
                         s = appendK8sChurnDerivedResults s fix
                     in case s of
                          None \<Rightarrow> (1, None)
                        | Some out \<Rightarrow> (case write (sg_out f) out of Inl _ \<Rightarrow> (1, None) | Inr _ \<Rightarrow> (0, Some out))))))"

subsection \<open>Laws\<close>

lemma int64_range: "- (2 ^ 63) \<le> int64 n" "int64 n < 2 ^ 63"
  by (simp_all add: int64_def)

lemma int64_id: "- (2 ^ 63) \<le> n \<Longrightarrow> n < 2 ^ 63 \<Longrightarrow> int64 n = n"
  by (simp add: int64_def)

lemma int64_add: "int64 (int64 a + b) = int64 (a + b)"
  by (simp add: int64_def algebra_simps mod_simps)

text \<open>The conversion keeps the sign and zero, and it is exact up to 53 bits.\<close>

lemma round_53_pos: "0 < m \<Longrightarrow> 0 < round_53 m"
proof -
  assume m: "0 < m"
  let ?e = "floorlog 2 m - 53"
  show ?thesis
  proof (cases "?e = 0")
    case False
    have "2 ^ ?e \<le> (2::nat) ^ (floorlog 2 m - 1)" by (rule power_increasing) (use False in simp_all)
    also have "\<dots> \<le> m" using floorlog_bounds [of m 2] m by simp
    finally have "0 < m div 2 ^ ?e" by (simp add: div_greater_zero_iff)
    with m show ?thesis by (simp add: round_53_def Let_def)
  qed (simp add: round_53_def m)
qed

lemma float64_sign: "float64 n = 0 \<longleftrightarrow> n = 0" "0 < float64 n \<longleftrightarrow> 0 < n" "1 \<le> float64 n \<longleftrightarrow> 1 \<le> n"
proof -
  have p: "0 < int (round_53 (nat \<bar>n\<bar>))" if "n \<noteq> 0" using round_53_pos [of "nat \<bar>n\<bar>"] that by simp
  show "float64 n = 0 \<longleftrightarrow> n = 0" using p by (auto simp: float64_def sgn_if)
  show "0 < float64 n \<longleftrightarrow> 0 < n" using p by (auto simp: float64_def sgn_if)
  then show "1 \<le> float64 n \<longleftrightarrow> 1 \<le> n" by linarith
qed

lemma float64_exact: "\<bar>n\<bar> < 2 ^ 53 \<Longrightarrow> float64 n = n"
proof -
  assume n: "\<bar>n\<bar> < 2 ^ 53"
  have "nat \<bar>n\<bar> < 2 ^ 53" using n by (simp add: nat_less_iff)
  then have "floorlog 2 (nat \<bar>n\<bar>) \<le> 53" by (simp add: floorlog_le_iff)
  then show ?thesis by (simp add: float64_def round_53_def mult_sgn_abs)
qed

lemma completeness_loop_eq:
  "completeness_loop as (n, t, b) =
     (if filter artifact_complete as = [] then n else int64 (n + int (length (filter artifact_complete as))),
      if filter artifact_complete as = [] then t else int64 (t + (\<Sum>a\<leftarrow>filter artifact_complete as. aa_SizeBytes a)),
      b \<and> list_all artifact_complete as)"
  by (induction as arbitrary: n t b) (auto simp: int64_add add.assoc)

text \<open>
  The completeness of the inventory: the number of complete artifacts, the sm of their sizes (as a
  64-bit integer), and whether there are artifacts and all are complete.
\<close>

theorem artifactMetadataCompleteness_spec:
  "artifactMetadataCompleteness as = (int64 (int (length (filter artifact_complete as))),
     int64 (\<Sum>a\<leftarrow>filter artifact_complete as. aa_SizeBytes a), as \<noteq> [] \<and> list_all artifact_complete as)"
  by (cases as) (auto simp: artifactMetadataCompleteness_def completeness_loop_eq int64_def)

text \<open>
  The derived results of a lifecycle all pass exactly when the run is finalized and retained, there are
  artifacts, all of them complete, their sizes add up to the bytes of the lifecycle record, and
  bytes are retained if and only if artifacts are.
\<close>

theorem lifecycle_results_pass:
  "list_all (\<lambda>r. sr_Status r = StatusPass) (lifecycle_results lc as) \<longleftrightarrow>
     lc_Finalized lc \<and> \<not> lc_GCEligible lc \<and> lc_GCBlockedReason lc = ''retention_window_active'' \<and>
     (if lc_RetainedArtifactCount lc > 0 then lc_RetainedArtifactBytes lc > 0 else lc_RetainedArtifactBytes lc = 0) \<and>
     as \<noteq> [] \<and> list_all artifact_complete as \<and> int64 (\<Sum>a\<leftarrow>as. aa_SizeBytes a) = lc_RetainedArtifactBytes lc"
proof -
  have "filter artifact_complete as = as" if "list_all artifact_complete as" using that by (simp add: list_all_iff)
  then show ?thesis
    unfolding lifecycle_results_def artifactMetadataCompleteness_spec Let_def
    by (auto simp: boolStatus_def statusForPositiveOrZero_def completenessStatus_def float64_sign)
qed

theorem churn_results_pass:
  "list_all (\<lambda>r. sr_Status r = StatusPass) (churn_results churn) \<longleftrightarrow>
     1 \<le> kc_JobsForRun (ch_End churn) \<and> 1 \<le> kc_PodsForRun (ch_End churn) \<and>
     kc_JobsFailed (ch_End churn) = 0 \<and> kc_JobsActive (ch_End churn) = 0"
  by (auto simp: churn_results_def statusAtLeast_def statusZero_def float64_sign)

text \<open>
  The profiles read only counters that the program exports: every input with the prefix of the
  program is the name of a registered counter with the suffix the exporter adds to counters.
\<close>

theorem profiles_read_registered_counters:
  assumes "pickSpecs quote profile = Inr specs" and "s \<in> set specs" and "key \<in> set (sl_Inputs s)" and "HasPrefix key ''jumi_''"
  shows "\<exists>c name. (c, name) \<in> set counter_table \<and> key = name @ ''_total''"
proof -
  have "\<forall>s \<in> set (jumiAHMinimumSpecs @ jumiAHSmokeGuardrailSpecs). \<forall>key \<in> set (sl_Inputs s).
      HasPrefix key ''jumi_'' \<longrightarrow> key \<in> (\<lambda>name. name @ ''_total'') ` set (map snd counter_table)"
    by code_simp
  moreover have "s \<in> set (jumiAHMinimumSpecs @ jumiAHSmokeGuardrailSpecs)"
    using assms(1,2) by (auto simp: pickSpecs_def split: if_splits)
  ultimately show ?thesis using assms(3,4) by force
qed

text \<open>The command writes a summary only when it succeeds, and derived results come after those of the engine.\<close>

theorem summary_main_writes:
  assumes "summary_main load quote outside execute write f = (code, out)"
  shows "(code = 0 \<longleftrightarrow> out \<noteq> None) \<and> (\<forall>s. out = Some s \<longrightarrow> (\<exists>fix specs sm rs. load (sg_in f) = Inr fix \<and>
     pickSpecs quote (sg_profile f) = Inr specs \<and>
     execute fix (if fx_Method fix \<noteq> '''' then fx_Method fix else outside) specs = Inr sm \<and>
     su_Results s = su_Results sm @ rs \<and> write (sg_out f) s = ok))"
  using assms
  by (auto simp: summary_main_def Let_def appendLifecycleDerivedResults_def appendK8sChurnDerivedResults_def
      normalizeReplayReliability_def addResults_def split: if_splits sum.splits option.splits)

end
