(* ===== verification/Spec2Isabelle.thy ===== *)
theory Spec2Isabelle
  imports Spec_Validate Registry Provenance Handoff Reconcile Exec_Bindings Exec_History Exec_Finish Sqlite_Contract
    Contract_Roundtrip K8s_Laws K8s_Watch Spawner_Executor Api_Laws Server Sqlite_Open Smoke_Client Smoke_Summary
begin

text \<open>
  \<^bold>\<open>JUMI: verification of the run controller.\<close>

  JUMI executes a submitted run: a graph of nodes, each of which becomes a Kubernetes job.  The run
  service (\<^verbatim>\<open>pkg/api\<close>) validates a specification (\<^verbatim>\<open>pkg/spec\<close>), stores the run in the registry
  (\<^verbatim>\<open>pkg/registry\<close>, in memory or in SQLite) and admits it to the engine (\<^verbatim>\<open>pkg/executor\<close>).  The
  engine runs one node runner per node: it resolves the node's inputs with the artifact-handoff
  service (\<^verbatim>\<open>pkg/handoff\<close>), allocates an attempt, crosses a durable submission fence, starts the node
  on the backend (\<^verbatim>\<open>pkg/backend\<close>, which runs jobs with \<^verbatim>\<open>pkg/spawner\<close>), waits for it and registers
  the artifacts of its manifest (\<^verbatim>\<open>pkg/provenance\<close>).  After a restart the engine classifies what the
  registry says of every attempt (\<^verbatim>\<open>reconcile.go\<close>) and finishes or reattaches it; it must never start
  a second job for an attempt that may have one.  The command (\<^verbatim>\<open>cmd/jumi\<close>) puts these together and
  serves the status of the registry (\<^verbatim>\<open>pkg/observe\<close>).

  \<^bold>\<open>Theories and sources.\<close>

  \<^item> \<open>Go_Prelude\<close>: errors as a datatype with \<^verbatim>\<open>errors.Is\<close> and \<^verbatim>\<open>Error()\<close>, Go maps as association
    lists, the functions of \<^verbatim>\<open>strings\<close> and \<^verbatim>\<open>strconv\<close> that are used, sorting, and the locale
    \<open>step_preorder\<close>.  \<open>Go_Filepath\<close>: \<^verbatim>\<open>path/filepath\<close>.  \<open>Sha256\<close>: the hash of labels, on 32-bit words.
  \<^item> \<open>Spec_Types\<close>, \<open>Spec_Validate\<close>: \<^verbatim>\<open>pkg/spec\<close>.  The validation accepts exactly the well-formed
    acyclic graphs, whatever the order in which Go reads its maps (C1), and defaulting is idempotent
    and keeps a specification valid (C2).
  \<^item> \<open>Registry\<close>: \<^verbatim>\<open>memory.go\<close>, one function on the record \<open>registry\<close> for each method.  The
    invariant of all reachable registries (C3), allocation (C4), lists (C5) and the submission fence
    (C6).  The locale \<open>attempt_store\<close> is the contract that the executor relies on; it is interpreted on
    this registry and on the durable one.
  \<^item> \<open>Sqlite\<close>, \<open>Sqlite_Refinement\<close>, \<open>Sqlite_Contract\<close>: \<^verbatim>\<open>sqlite.go\<close>, a database as its four tables, a
    method as the sequence of its SQL statements, each of which may be refused.  The durable registry
    refines the one in memory for every sequence of calls (C24), a call that fails changes nothing
    (C25), and the fence protocol holds of it (C27).  \<open>Sqlite_Open\<close>: opening the database file, which keeps
    every row, so that a restart finds the registry that was left.
  \<^item> \<open>Provenance\<close>: \<^verbatim>\<open>manifest.go\<close> (C7).  \<open>Handoff\<close>: \<^verbatim>\<open>client.go\<close>, the data, the normalisation of
    responses and the HTTP client (C9).  \<open>Handoff_Grpc\<close>: \<^verbatim>\<open>grpc_client.go\<close> (C29).
  \<^item> \<open>Reconcile\<close>: the classification in \<^verbatim>\<open>reconcile.go\<close>, which never proposes a new submission where
    a job may exist (C11, C12).
  \<^item> \<open>Backend\<close>: the interface \<^verbatim>\<open>backend.go\<close> as a record of functions.
  \<^item> \<open>Exec_Bindings\<close>: the functions of \<^verbatim>\<open>executor.go\<close> on inputs, environment, paths and placement
    (C13 to C19).  \<open>Exec_World\<close>, \<open>Exec_Outcome\<close>, \<open>Exec_Node\<close>, \<open>Exec_Engine\<close>: the rest of
    \<^verbatim>\<open>executor.go\<close> and the startup sweep, as programs of the state monad over the record \<open>world\<close>; an
    environment \<open>env\<close> holds the adapter, the handoff service, the clock, the faults of the store and
    the interference of other goroutines between any two steps.  \<open>Exec_Logic\<close>: locales that show once
    that every program respects a preorder on worlds; they are interpreted in \<open>Exec_History\<close> (the
    history is only extended, C20), \<open>Exec_Safety\<close> (at most one start, behind the fence, C21) and
    \<open>Exec_Finish\<close> (what the end of a job leaves behind, C23).  \<open>Exec_Runs\<close>: what cancellation (C8), the
    end of a run (C10) and the sweep after a restart (C31) do to a whole run.  \<open>Exec_Retry\<close>: the loop of a node runner
    returns (C22).
  \<^item> \<open>Node_Contract\<close>, \<open>Spawner_Adapter\<close>: \<^verbatim>\<open>spawner_k8s.go\<close> and \<^verbatim>\<open>attempt_resolver.go\<close>.
    \<open>Contract_Roundtrip\<close>: the inputs the executor writes are the inputs the container reads (C28).
    \<open>Spawner_Laws\<close>: observation ends (C30), the choice of the pod, the identity of collected
    metadata (C32).  \<open>Spawner_Executor\<close>: the executor and the adapter together on a failed job (C33).
  \<^item> \<open>K8s_Types\<close>: the types of the spawner runtime and of Kubernetes.  \<open>K8s_Jobs\<close>:
    \<^verbatim>\<open>k8s_jobclient.go\<close>.  \<open>K8s_Laws\<close>: labels (C34), creation (C35), resolution after a restart (C36) and
    deletion (C37); the locale \<open>job_api\<close> states what is used of the Kubernetes API.  \<open>K8s_Watch\<close>: the
    goroutine of a watch as a function of the rounds of its \<^verbatim>\<open>select\<close> (C38, C39).
  \<^item> \<open>Api_Service\<close>, \<open>Api_Laws\<close>: \<^verbatim>\<open>service.go\<close> and \<^verbatim>\<open>grpc.go\<close>; a remote client sees what a local
    caller sees (C26), and the outcomes of a submission (C40).
  \<^item> \<open>Observe\<close>: \<^verbatim>\<open>status.go\<close>.  \<open>Server\<close>: \<^verbatim>\<open>main.go\<close> and \<^verbatim>\<open>lifecycle.go\<close>: configuration, the order of
    startup and shutdown, the HTTP endpoints and \<^verbatim>\<open>lifecycle-check\<close>.
  \<^item> \<open>Metrics_Counters\<close>: \<^verbatim>\<open>metrics.go\<close>; each method adds to a counter of its own, and the executor's
    counting is the method of the same name.  \<open>Smoke_Client\<close> and \<open>Smoke_Summary\<close>: the commands under
    \<^verbatim>\<open>tools\<close> that drive and judge a smoke run; the waiting loop ends, and the profiles read only
    counters that the program registers.

  \<^bold>\<open>Loops and bounds.\<close>  The depth-first search of the validation is a total function.  \<^verbatim>\<open>RunE\<close> has no
  bound of its own and is modelled with fuel; more fuel than the attempt ceiling is enough when the
  store works (C22), and the safety properties hold for every amount of fuel.  The polling loop of
  \<^verbatim>\<open>ObserveNode\<close> is a partial function that returns after at most twelve polls (C30).  The calls of
  the gRPC stub may fail to return when they have no deadline, which is the value \<open>None\<close>.  Seconds to
  durations wrap around at 64 bits as in Go.

  \<^bold>\<open>Parameters.\<close>  Code outside the repository is an argument: the JSON encodings, the SQL driver,
  the DAG library, the spawner runtime, the Kubernetes API, the gRPC library and its generated stubs,
  the clock and the process environment.  What is assumed of them is a named hypothesis, with an
  instance that satisfies it.

  \<^bold>\<open>Not modelled.\<close>  The exporter and the HTTP handler of \<^verbatim>\<open>pkg/metrics\<close>; the loading of a
  kubeconfig and the transport of the exec call in \<^verbatim>\<open>spawner_k8s.go\<close>; the parsing of flags, the reading
  of files and the printing of lines in the commands; generated protocol code.  They are calls of
  libraries with no decision of the program.
\<close>

subsection \<open>Identities of attempts\<close>

text \<open>
  The identity of an attempt determines its run and node only up to the separator: a hyphen in a
  name may belong to either side.
\<close>

theorem DeterministicAttemptID_ambiguous:
  "DeterministicAttemptID (a @ ''-'' @ b) c n = DeterministicAttemptID a (b @ ''-'' @ c) n"
  by (simp add: DeterministicAttemptID_def)

end
